theory Spec2Isabelle
  imports Complex_Main
begin

section \<open>Numbers and series\<close>

text \<open>
  The backtesters work on pandas columns of 64-bit floats. A float is idealised here as a
  real number, and the not-a-number value as \<open>None\<close>: rounding, overflow and the two
  infinities are outside this model. An infinity can only come from a division of a nonzero
  number by zero or from the logarithm of zero; the price series the classes are written for
  (positive prices, every candle with Low \<le> Close \<le> High) never produce one.
\<close>

type_synonym float = "real option"

datatype error =
    IndexError            \<comment> \<open>positional lookup out of bounds (\<open>iloc[-1]\<close> on an empty column)\<close>
  | ValueError            \<comment> \<open>a rejected window, span or grid\<close>
  | ZeroDivisionError     \<comment> \<open>a grid axis with step 0\<close>
  | InsufficientDataError \<comment> \<open>named by the specification; no statement of the source raises it\<close>

definition fmul :: "float \<Rightarrow> float \<Rightarrow> float" where
  "fmul a b = (case a of None \<Rightarrow> None | Some x \<Rightarrow> (case b of None \<Rightarrow> None | Some y \<Rightarrow> Some (x * y)))"

definition fadd :: "float \<Rightarrow> float \<Rightarrow> float" where
  "fadd a b = (case a of None \<Rightarrow> None | Some x \<Rightarrow> (case b of None \<Rightarrow> None | Some y \<Rightarrow> Some (x + y)))"

definition fsub :: "float \<Rightarrow> float \<Rightarrow> float" where
  "fsub a b = (case a of None \<Rightarrow> None | Some x \<Rightarrow> (case b of None \<Rightarrow> None | Some y \<Rightarrow> Some (x - y)))"

definition fdiv :: "float \<Rightarrow> float \<Rightarrow> float" where
  \<comment> \<open>numpy division never raises: 0/0 is NaN (a nonzero numerator over 0 is not modelled)\<close>
  "fdiv a b = (case a of None \<Rightarrow> None | Some x \<Rightarrow>
     (case b of None \<Rightarrow> None | Some y \<Rightarrow> if y = 0 then None else Some (x / y)))"

definition fneg :: "float \<Rightarrow> float" where
  "fneg a = map_option uminus a"

definition fabs :: "float \<Rightarrow> float" where
  "fabs a = map_option abs a"

definition fexp :: "float \<Rightarrow> float" where
  "fexp a = map_option exp a"

definition np_log :: "float \<Rightarrow> float" where
  \<comment> \<open>\<open>np.log\<close>: NaN for a NaN or negative argument (the logarithm of 0 is not modelled)\<close>
  "np_log a = (case a of None \<Rightarrow> None | Some x \<Rightarrow> if 0 < x then Some (ln x) else None)"

definition fgt :: "float \<Rightarrow> float \<Rightarrow> bool" where
  \<comment> \<open>\<open>a > b\<close>: every comparison with NaN is False\<close>
  "fgt a b = (case a of None \<Rightarrow> False | Some x \<Rightarrow> (case b of None \<Rightarrow> False | Some y \<Rightarrow> y < x))"

definition flt :: "float \<Rightarrow> float \<Rightarrow> bool" where
  "flt a b = fgt b a"

definition np_where :: "bool \<Rightarrow> 'a \<Rightarrow> 'a \<Rightarrow> 'a" where
  "np_where c a b = (if c then a else b)"

definition py_int :: "real \<Rightarrow> int" where
  \<comment> \<open>\<open>int(x)\<close> of a float truncates toward zero\<close>
  "py_int x = (if 0 \<le> x then \<lfloor>x\<rfloor> else \<lceil>x\<rceil>)"

definition shift1 :: "float list \<Rightarrow> float list" where
  \<comment> \<open>\<open>Series.shift(1)\<close>\<close>
  "shift1 xs = (if xs = [] then [] else None # butlast xs)"

definition diff :: "float list \<Rightarrow> float list" where
  \<comment> \<open>\<open>Series.diff()\<close>\<close>
  "diff xs = map2 fsub xs (shift1 xs)"

definition fillna :: "real \<Rightarrow> float list \<Rightarrow> float list" where
  "fillna v xs = map (\<lambda>x. case x of None \<Rightarrow> Some v | Some y \<Rightarrow> Some y) xs"

fun cumsum_from :: "real \<Rightarrow> float list \<Rightarrow> float list" where
  "cumsum_from acc [] = []"
| "cumsum_from acc (None # xs) = None # cumsum_from acc xs"
| "cumsum_from acc (Some x # xs) = Some (acc + x) # cumsum_from (acc + x) xs"

definition cumsum :: "float list \<Rightarrow> float list" where
  \<comment> \<open>\<open>Series.cumsum()\<close>: a NaN entry stays NaN and is skipped by the running sum\<close>
  "cumsum xs = cumsum_from 0 xs"

definition iloc_last :: "'a list \<Rightarrow> error + 'a" where
  \<comment> \<open>\<open>Series.iloc[-1]\<close>\<close>
  "iloc_last xs = (if xs = [] then Inl IndexError else Inr (last xs))"

subsection \<open>Rolling windows\<close>

definition observations :: "float list \<Rightarrow> real list" where
  "observations xs = List.map_filter (\<lambda>x. x) xs"

definition window :: "nat \<Rightarrow> float list \<Rightarrow> float list" where
  \<comment> \<open>the trailing window over the entries seen so far\<close>
  "window w seen = drop (length seen - w) seen"

definition roll_apply :: "(real list \<Rightarrow> real) \<Rightarrow> nat \<Rightarrow> float list \<Rightarrow> float" where
  \<comment> \<open>\<open>min_periods\<close> defaults to the window: a value needs that many observations, at least one\<close>
  "roll_apply agg w seen =
     (let obs = observations (window w seen)
      in if w \<le> length obs \<and> 0 < length obs then Some (agg obs) else None)"

fun rolling_from :: "(real list \<Rightarrow> real) \<Rightarrow> nat \<Rightarrow> float list \<Rightarrow> float list \<Rightarrow> float list" where
  "rolling_from agg w seen [] = []"
| "rolling_from agg w seen (x # xs) =
     roll_apply agg w (seen @ [x]) # rolling_from agg w (seen @ [x]) xs"

definition rolling :: "(real list \<Rightarrow> real) \<Rightarrow> int \<Rightarrow> float list \<Rightarrow> error + float list" where
  \<comment> \<open>\<open>Series.rolling(w).agg()\<close>: pandas rejects a negative window\<close>
  "rolling agg w xs = (if w < 0 then Inl ValueError else Inr (rolling_from agg (nat w) [] xs))"

definition mean :: "real list \<Rightarrow> real" where
  "mean obs = sum_list obs / real (length obs)"

fun list_min :: "real list \<Rightarrow> real" where
  "list_min [] = 0"
| "list_min (x # xs) = fold min xs x"

fun list_max :: "real list \<Rightarrow> real" where
  "list_max [] = 0"
| "list_max (x # xs) = fold max xs x"

subsection \<open>Exponentially weighted mean\<close>

text \<open>
  \<open>Series.ewm(span = s, min_periods = s).mean()\<close> with the defaults \<open>adjust = True\<close> and
  \<open>ignore_na = False\<close>: the loop of pandas keeps the weighted average so far, the weight of
  the past and the number of observations.
\<close>

fun ewm_loop :: "real \<Rightarrow> nat \<Rightarrow> float \<Rightarrow> real \<Rightarrow> nat \<Rightarrow> float list \<Rightarrow> float list" where
  "ewm_loop alpha minp weighted old_wt nobs [] = []"
| "ewm_loop alpha minp weighted old_wt nobs (cur # xs) =
     (let nobs' = nobs + (if cur = None then 0 else 1);
          old_wt' = (if weighted = None then old_wt else old_wt * (1 - alpha));
          weighted' = (case weighted of
             None \<Rightarrow> cur
           | Some w \<Rightarrow> (case cur of None \<Rightarrow> Some w
               | Some c \<Rightarrow> Some ((old_wt' * w + c) / (old_wt' + 1))));
          old_wt'' = (if weighted \<noteq> None \<and> cur \<noteq> None then old_wt' + 1 else old_wt')
      in (if minp \<le> nobs' then weighted' else None)
           # ewm_loop alpha minp weighted' old_wt'' nobs' xs)"

definition ewm_mean :: "int \<Rightarrow> float list \<Rightarrow> error + float list" where
  \<comment> \<open>pandas rejects a span below 1\<close>
  "ewm_mean sp xs =
     (if sp < 1 then Inl ValueError
      else Inr (case xs of [] \<Rightarrow> []
        | x # rest \<Rightarrow>
            (let minp = max (nat sp) 1; nobs = (if x = None then 0 else 1)
             in (if minp \<le> nobs then x else None)
                  # ewm_loop (2 / (real_of_int sp + 1)) minp x 1 nobs rest)))"

section \<open>The data frame\<close>

record candle =
  Date :: nat
  Open :: real
  High :: real
  Low :: real
  Close :: real
  Volume :: int

text \<open>
  Every class keeps a frame whose rows hold the candle, the log-return and the indicator
  columns of the class. A row of a result frame adds the columns of the backtest.
\<close>

record row_base =
  candle :: candle
  returns :: float

record 'row res_base =
  row :: 'row
  position :: float
  strategy :: float
  creturns :: float
  cstrategy :: float

record 'row res_tc = "'row res_base" +
  trades :: float

record ('row, 'res) backtester =
  symbol :: string
  start :: string
  end_date :: string
  granularity :: string
  tc :: real
  results :: "'res list option"
  data :: "'row list"

definition close_col :: "'z row_base_scheme list \<Rightarrow> float list" where
  "close_col rows = map (\<lambda>r. Some (Close (candle r))) rows"

definition log_returns :: "candle list \<Rightarrow> float list" where
  \<comment> \<open>\<open>np.log(data['Close'] / data['Close'].shift(1))\<close>\<close>
  "log_returns cs =
     (let close = map (\<lambda>c. Some (Close c)) cs
      in map np_log (map2 fdiv close (shift1 close)))"

subsection \<open>Statements that may raise\<close>

definition andthen :: "'s \<times> (error + unit) \<Rightarrow> ('s \<Rightarrow> 's \<times> (error + 'a)) \<Rightarrow> 's \<times> (error + 'a)" where
  \<comment> \<open>the next statement runs only when the one before did not raise; the object keeps what
      was assigned before the exception\<close>
  "andthen m f = (case m of (s, Inl e) \<Rightarrow> (s, Inl e) | (s, Inr u) \<Rightarrow> f s)"

definition assign ::
  "error + float list \<Rightarrow> (float list \<Rightarrow> 'row list \<Rightarrow> 'row list) \<Rightarrow>
   ('row, 'res, 'y) backtester_scheme \<Rightarrow> ('row, 'res, 'y) backtester_scheme \<times> (error + unit)" where
  \<comment> \<open>\<open>self.data[column] = series\<close>, where computing the series may raise\<close>
  "assign ser setc self =
     (case ser of Inl e \<Rightarrow> (self, Inl e)
      | Inr col \<Rightarrow> (self\<lparr>data := setc col (data self)\<rparr>, Inr ()))"

section \<open>SMABacktester\<close>

record sma_row = row_base +
  col_SMA_S :: float
  col_SMA_L :: float

record SMABacktester = "(sma_row, sma_row res_base) backtester" +
  SMA_S :: int
  SMA_L :: int

definition sma_notna :: "sma_row \<Rightarrow> bool" where
  "sma_notna r = (returns r \<noteq> None \<and> col_SMA_S r \<noteq> None \<and> col_SMA_L r \<noteq> None)"

definition set_SMA_S :: "float list \<Rightarrow> sma_row list \<Rightarrow> sma_row list" where
  "set_SMA_S col rows = map2 (\<lambda>r v. r\<lparr>col_SMA_S := v\<rparr>) rows col"

definition set_SMA_L :: "float list \<Rightarrow> sma_row list \<Rightarrow> sma_row list" where
  "set_SMA_L col rows = map2 (\<lambda>r v. r\<lparr>col_SMA_L := v\<rparr>) rows col"

definition SMA_get_data :: "int \<Rightarrow> int \<Rightarrow> candle list \<Rightarrow> error + sma_row list" where
  \<comment> \<open>the candles are what the data provider answered\<close>
  "SMA_get_data s l cs =
     (let close = map (\<lambda>c. Some (Close c)) cs; rets = log_returns cs
      in case rolling mean s close of Inl e \<Rightarrow> Inl e
         | Inr sma_s \<Rightarrow> (case rolling mean l close of Inl e \<Rightarrow> Inl e
         | Inr sma_l \<Rightarrow>
             Inr (map (\<lambda>(c, r, a, b). \<lparr>candle = c, returns = r, col_SMA_S = a, col_SMA_L = b\<rparr>)
                    (zip cs (zip rets (zip sma_s sma_l))))))"

definition SMA_init ::
  "string \<Rightarrow> int \<Rightarrow> int \<Rightarrow> string \<Rightarrow> string \<Rightarrow> string \<Rightarrow> real \<Rightarrow> candle list \<Rightarrow> error + SMABacktester" where
  "SMA_init name s l st en g c cs =
     (case SMA_get_data s l cs of Inl e \<Rightarrow> Inl e
      | Inr d \<Rightarrow> Inr \<lparr>symbol = name, start = st, end_date = en, granularity = g, tc = c,
                      results = None, data = d, SMA_S = s, SMA_L = l\<rparr>)"

definition SMA_set_parameters ::
  "int option \<Rightarrow> int option \<Rightarrow> SMABacktester \<Rightarrow> SMABacktester \<times> (error + unit)" where
  "SMA_set_parameters s l self =
     andthen
       (case s of None \<Rightarrow> (self, Inr ())
        | Some sv \<Rightarrow>
            (let self = self\<lparr>SMA_S := sv\<rparr>
             in assign (rolling mean (SMA_S self) (close_col (data self))) set_SMA_S self))
       (\<lambda>self. case l of None \<Rightarrow> (self, Inr ())
        | Some lv \<Rightarrow>
            (let self = self\<lparr>SMA_L := lv\<rparr>
             in assign (rolling mean (SMA_L self) (close_col (data self))) set_SMA_L self))"

definition SMA_test_strategy ::
  "SMABacktester \<Rightarrow> SMABacktester \<times> (error + float \<times> float \<times> sma_row res_base list)" where
  "SMA_test_strategy self =
     (let data0 = filter sma_notna (data self);
          pos = map (\<lambda>r. np_where (fgt (col_SMA_S r) (col_SMA_L r)) (Some 1) (Some (- 1))) data0;
          strat = map2 fmul (shift1 pos) (map returns data0);
          frame = filter (\<lambda>(r, p, s). sma_notna r \<and> p \<noteq> None \<and> s \<noteq> None)
                    (zip data0 (zip pos strat));
          cret = map fexp (cumsum (map (\<lambda>(r, p, s). returns r) frame));
          cstr = map fexp (cumsum (map (\<lambda>(r, p, s). s) frame));
          res = map (\<lambda>((r, p, s), cr, cs).
                   \<lparr>row = r, position = p, strategy = s, creturns = cr, cstrategy = cs\<rparr>)
                  (zip frame (zip cret cstr));
          self = self\<lparr>results := Some res\<rparr>
      in case iloc_last (map cstrategy res) of
           Inl e \<Rightarrow> (self, Inl e)
         | Inr perf \<Rightarrow>
             (case iloc_last (map creturns res) of
                Inl e \<Rightarrow> (self, Inl e)
              | Inr c \<Rightarrow> (self, Inr (perf, fsub perf c, res))))"

section \<open>The backtest with transaction costs\<close>

text \<open>
  \<open>test_strategy\<close> of EMABacktester, MACDBacktester, RSIBacktester and SOBacktester is the
  same text but for the lines that set the position column. It is written once, over the
  row test of \<open>dropna\<close> and the position rule of the class.
\<close>

definition test_strategy_tc ::
  "('z row_base_scheme \<Rightarrow> bool) \<Rightarrow> ('z row_base_scheme \<Rightarrow> float) \<Rightarrow>
   ('z row_base_scheme, 'z row_base_scheme res_tc, 'y) backtester_scheme \<Rightarrow>
   ('z row_base_scheme, 'z row_base_scheme res_tc, 'y) backtester_scheme \<times>
     (error + float \<times> float \<times> 'z row_base_scheme res_tc list)" where
  "test_strategy_tc notna rule self =
     (let data0 = filter notna (data self);
          pos = map rule data0;
          strat = map2 fmul (shift1 pos) (map returns data0);
          frame = filter (\<lambda>(r, p, s). notna r \<and> p \<noteq> None \<and> s \<noteq> None)
                    (zip data0 (zip pos strat));
          trd = map fabs (fillna 0 (diff (map (\<lambda>(r, p, s). p) frame)));
          strat1 = map2 fsub (map (\<lambda>(r, p, s). s) frame) (map (\<lambda>t. fmul t (Some (tc self))) trd);
          cret = map fexp (cumsum (map (\<lambda>(r, p, s). returns r) frame));
          cstr = map fexp (cumsum strat1);
          res = map (\<lambda>((r, p, s), s1, t, cr, cs).
                   \<lparr>row = r, position = p, strategy = s1, creturns = cr, cstrategy = cs,
                    trades = t\<rparr>)
                  (zip frame (zip strat1 (zip trd (zip cret cstr))));
          self = self\<lparr>results := Some res\<rparr>
      in case iloc_last (map cstrategy res) of
           Inl e \<Rightarrow> (self, Inl e)
         | Inr perf \<Rightarrow>
             (case iloc_last (map creturns res) of
                Inl e \<Rightarrow> (self, Inl e)
              | Inr c \<Rightarrow> (self, Inr (perf, fsub perf c, res))))"

section \<open>EMABacktester\<close>

record ema_row = row_base +
  col_EMA_S :: float
  col_EMA_L :: float

record EMABacktester = "(ema_row, ema_row res_tc) backtester" +
  EMA_S :: int
  EMA_L :: int

definition ema_notna :: "ema_row \<Rightarrow> bool" where
  "ema_notna r = (returns r \<noteq> None \<and> col_EMA_S r \<noteq> None \<and> col_EMA_L r \<noteq> None)"

definition set_EMA_S :: "float list \<Rightarrow> ema_row list \<Rightarrow> ema_row list" where
  "set_EMA_S col rows = map2 (\<lambda>r v. r\<lparr>col_EMA_S := v\<rparr>) rows col"

definition set_EMA_L :: "float list \<Rightarrow> ema_row list \<Rightarrow> ema_row list" where
  "set_EMA_L col rows = map2 (\<lambda>r v. r\<lparr>col_EMA_L := v\<rparr>) rows col"

definition EMA_get_data :: "int \<Rightarrow> int \<Rightarrow> candle list \<Rightarrow> error + ema_row list" where
  "EMA_get_data s l cs =
     (let close = map (\<lambda>c. Some (Close c)) cs; rets = log_returns cs
      in case ewm_mean s close of Inl e \<Rightarrow> Inl e
         | Inr ema_s \<Rightarrow> (case ewm_mean l close of Inl e \<Rightarrow> Inl e
         | Inr ema_l \<Rightarrow>
             Inr (map (\<lambda>(c, r, a, b). \<lparr>candle = c, returns = r, col_EMA_S = a, col_EMA_L = b\<rparr>)
                    (zip cs (zip rets (zip ema_s ema_l))))))"

definition EMA_init ::
  "string \<Rightarrow> int \<Rightarrow> int \<Rightarrow> string \<Rightarrow> string \<Rightarrow> string \<Rightarrow> real \<Rightarrow> candle list \<Rightarrow> error + EMABacktester" where
  "EMA_init name s l st en g c cs =
     (case EMA_get_data s l cs of Inl e \<Rightarrow> Inl e
      | Inr d \<Rightarrow> Inr \<lparr>symbol = name, start = st, end_date = en, granularity = g, tc = c,
                      results = None, data = d, EMA_S = s, EMA_L = l\<rparr>)"

definition EMA_set_parameters ::
  "int option \<Rightarrow> int option \<Rightarrow> EMABacktester \<Rightarrow> EMABacktester \<times> (error + unit)" where
  "EMA_set_parameters s l self =
     andthen
       (case s of None \<Rightarrow> (self, Inr ())
        | Some sv \<Rightarrow>
            (let self = self\<lparr>EMA_S := sv\<rparr>
             in assign (ewm_mean (EMA_S self) (close_col (data self))) set_EMA_S self))
       (\<lambda>self. case l of None \<Rightarrow> (self, Inr ())
        | Some lv \<Rightarrow>
            (let self = self\<lparr>EMA_L := lv\<rparr>
             in assign (ewm_mean (EMA_L self) (close_col (data self))) set_EMA_L self))"

definition EMA_test_strategy ::
  "EMABacktester \<Rightarrow> EMABacktester \<times> (error + float \<times> float \<times> ema_row res_tc list)" where
  "EMA_test_strategy self =
     test_strategy_tc ema_notna
       (\<lambda>r. np_where (fgt (col_EMA_S r) (col_EMA_L r)) (Some 1) (Some (- 1))) self"

section \<open>MACDBacktester\<close>

record macd_row = row_base +
  mcol_EMA_S :: float
  mcol_EMA_L :: float
  col_MACD :: float
  col_MACD_Signal :: float

record MACDBacktester = "(macd_row, macd_row res_tc) backtester" +
  MACD_EMA_S :: int
  MACD_EMA_L :: int
  signal_mw :: int

definition macd_notna :: "macd_row \<Rightarrow> bool" where
  "macd_notna r = (returns r \<noteq> None \<and> mcol_EMA_S r \<noteq> None \<and> mcol_EMA_L r \<noteq> None \<and>
     col_MACD r \<noteq> None \<and> col_MACD_Signal r \<noteq> None)"

definition set_mEMA_S :: "float list \<Rightarrow> macd_row list \<Rightarrow> macd_row list" where
  "set_mEMA_S col rows = map2 (\<lambda>r v. r\<lparr>mcol_EMA_S := v\<rparr>) rows col"

definition set_mEMA_L :: "float list \<Rightarrow> macd_row list \<Rightarrow> macd_row list" where
  "set_mEMA_L col rows = map2 (\<lambda>r v. r\<lparr>mcol_EMA_L := v\<rparr>) rows col"

definition set_MACD :: "float list \<Rightarrow> macd_row list \<Rightarrow> macd_row list" where
  "set_MACD col rows = map2 (\<lambda>r v. r\<lparr>col_MACD := v\<rparr>) rows col"

definition set_MACD_Signal :: "float list \<Rightarrow> macd_row list \<Rightarrow> macd_row list" where
  "set_MACD_Signal col rows = map2 (\<lambda>r v. r\<lparr>col_MACD_Signal := v\<rparr>) rows col"

definition macd_line :: "macd_row list \<Rightarrow> float list" where
  \<comment> \<open>\<open>data.EMA_S - data.EMA_L\<close>\<close>
  "macd_line rows = map (\<lambda>r. fsub (mcol_EMA_S r) (mcol_EMA_L r)) rows"

definition MACD_get_data :: "int \<Rightarrow> int \<Rightarrow> int \<Rightarrow> candle list \<Rightarrow> error + macd_row list" where
  "MACD_get_data s l sg cs =
     (let close = map (\<lambda>c. Some (Close c)) cs; rets = log_returns cs
      in case ewm_mean s close of Inl e \<Rightarrow> Inl e
         | Inr ema_s \<Rightarrow> (case ewm_mean l close of Inl e \<Rightarrow> Inl e
         | Inr ema_l \<Rightarrow>
             (let macd = map2 fsub ema_s ema_l
              in case ewm_mean sg macd of Inl e \<Rightarrow> Inl e
                 | Inr sig \<Rightarrow>
                     Inr (map (\<lambda>(c, r, a, b, m, g).
                            \<lparr>candle = c, returns = r, mcol_EMA_S = a, mcol_EMA_L = b,
                             col_MACD = m, col_MACD_Signal = g\<rparr>)
                           (zip cs (zip rets (zip ema_s (zip ema_l (zip macd sig)))))))))"

definition MACD_init ::
  "string \<Rightarrow> int \<Rightarrow> int \<Rightarrow> int \<Rightarrow> string \<Rightarrow> string \<Rightarrow> string \<Rightarrow> real \<Rightarrow> candle list \<Rightarrow>
   error + MACDBacktester" where
  "MACD_init name s l sg st en g c cs =
     (case MACD_get_data s l sg cs of Inl e \<Rightarrow> Inl e
      | Inr d \<Rightarrow> Inr \<lparr>symbol = name, start = st, end_date = en, granularity = g, tc = c,
                      results = None, data = d, MACD_EMA_S = s, MACD_EMA_L = l, signal_mw = sg\<rparr>)"

definition MACD_set_parameters ::
  "int option \<Rightarrow> int option \<Rightarrow> int option \<Rightarrow> MACDBacktester \<Rightarrow> MACDBacktester \<times> (error + unit)" where
  "MACD_set_parameters s l sg self =
     andthen
       (case s of None \<Rightarrow> (self, Inr ())
        | Some sv \<Rightarrow>
            (let self = self\<lparr>MACD_EMA_S := sv\<rparr>
             in andthen (assign (ewm_mean (MACD_EMA_S self) (close_col (data self))) set_mEMA_S self)
                  (\<lambda>self. andthen (assign (Inr (macd_line (data self))) set_MACD self)
                  (\<lambda>self. assign (ewm_mean (signal_mw self) (map col_MACD (data self)))
                             set_MACD_Signal self))))
       (\<lambda>self. andthen
          (case l of None \<Rightarrow> (self, Inr ())
           | Some lv \<Rightarrow>
               (let self = self\<lparr>MACD_EMA_L := lv\<rparr>
                in andthen (assign (ewm_mean (MACD_EMA_L self) (close_col (data self))) set_mEMA_L self)
                     (\<lambda>self. andthen (assign (Inr (macd_line (data self))) set_MACD self)
                     (\<lambda>self. assign (ewm_mean (signal_mw self) (map col_MACD (data self)))
                                set_MACD_Signal self))))
          (\<lambda>self. case sg of None \<Rightarrow> (self, Inr ())
           | Some gv \<Rightarrow>
               (let self = self\<lparr>signal_mw := gv\<rparr>
                in assign (ewm_mean (signal_mw self) (map col_MACD (data self)))
                     set_MACD_Signal self)))"

definition MACD_test_strategy ::
  "MACDBacktester \<Rightarrow> MACDBacktester \<times> (error + float \<times> float \<times> macd_row res_tc list)" where
  "MACD_test_strategy self =
     test_strategy_tc macd_notna
       (\<lambda>r. np_where (fgt (col_MACD r) (col_MACD_Signal r)) (Some 1) (Some (- 1))) self"

section \<open>RSIBacktester\<close>

record rsi_row = row_base +
  col_U :: float
  col_D :: float
  col_MA_U :: float
  col_MA_D :: float
  col_RSI :: float

record RSIBacktester = "(rsi_row, rsi_row res_tc) backtester" +
  RSI_periods :: int
  rsi_upper :: real
  rsi_lower :: real

definition rsi_notna :: "rsi_row \<Rightarrow> bool" where
  "rsi_notna r = (returns r \<noteq> None \<and> col_U r \<noteq> None \<and> col_D r \<noteq> None \<and>
     col_MA_U r \<noteq> None \<and> col_MA_D r \<noteq> None \<and> col_RSI r \<noteq> None)"

definition set_MA_U :: "float list \<Rightarrow> rsi_row list \<Rightarrow> rsi_row list" where
  "set_MA_U col rows = map2 (\<lambda>r v. r\<lparr>col_MA_U := v\<rparr>) rows col"

definition set_MA_D :: "float list \<Rightarrow> rsi_row list \<Rightarrow> rsi_row list" where
  "set_MA_D col rows = map2 (\<lambda>r v. r\<lparr>col_MA_D := v\<rparr>) rows col"

definition set_RSI :: "float list \<Rightarrow> rsi_row list \<Rightarrow> rsi_row list" where
  "set_RSI col rows = map2 (\<lambda>r v. r\<lparr>col_RSI := v\<rparr>) rows col"

definition rsi_value :: "float \<Rightarrow> float \<Rightarrow> float" where
  \<comment> \<open>\<open>MA_U / (MA_U + MA_D) * 100\<close>\<close>
  "rsi_value u d = fmul (fdiv u (fadd u d)) (Some 100)"

definition up_moves :: "float list \<Rightarrow> float list" where
  \<comment> \<open>\<open>np.where(Close.diff() > 0, Close.diff(), 0)\<close>\<close>
  "up_moves close = map (\<lambda>d. np_where (fgt d (Some 0)) d (Some 0)) (diff close)"

definition down_moves :: "float list \<Rightarrow> float list" where
  \<comment> \<open>\<open>np.where(Close.diff() < 0, -Close.diff(), 0)\<close>\<close>
  "down_moves close = map (\<lambda>d. np_where (flt d (Some 0)) (fneg d) (Some 0)) (diff close)"

definition RSI_get_data :: "int \<Rightarrow> candle list \<Rightarrow> error + rsi_row list" where
  "RSI_get_data p cs =
     (let close = map (\<lambda>c. Some (Close c)) cs; rets = log_returns cs;
          u = up_moves close; d = down_moves close
      in case rolling mean p u of Inl e \<Rightarrow> Inl e
         | Inr ma_u \<Rightarrow> (case rolling mean p d of Inl e \<Rightarrow> Inl e
         | Inr ma_d \<Rightarrow>
             Inr (map (\<lambda>(c, r, u, d, mu, md).
                    \<lparr>candle = c, returns = r, col_U = u, col_D = d, col_MA_U = mu,
                     col_MA_D = md, col_RSI = rsi_value mu md\<rparr>)
                   (zip cs (zip rets (zip u (zip d (zip ma_u ma_d))))))))"

definition RSI_init ::
  "string \<Rightarrow> int \<Rightarrow> real \<Rightarrow> real \<Rightarrow> string \<Rightarrow> string \<Rightarrow> string \<Rightarrow> real \<Rightarrow> candle list \<Rightarrow>
   error + RSIBacktester" where
  "RSI_init name p up lo st en g c cs =
     (case RSI_get_data p cs of Inl e \<Rightarrow> Inl e
      | Inr d \<Rightarrow> Inr \<lparr>symbol = name, start = st, end_date = en, granularity = g, tc = c,
                      results = None, data = d, RSI_periods = p, rsi_upper = up, rsi_lower = lo\<rparr>)"

definition RSI_set_parameters ::
  "int option \<Rightarrow> real option \<Rightarrow> real option \<Rightarrow> RSIBacktester \<Rightarrow> RSIBacktester \<times> (error + unit)" where
  "RSI_set_parameters p up lo self =
     andthen
       (case p of None \<Rightarrow> (self, Inr ())
        | Some pv \<Rightarrow>
            (let self = self\<lparr>RSI_periods := pv\<rparr>
             in andthen (assign (rolling mean (RSI_periods self) (map col_U (data self))) set_MA_U self)
                  (\<lambda>self. andthen
                     (assign (rolling mean (RSI_periods self) (map col_D (data self))) set_MA_D self)
                  (\<lambda>self. assign (Inr (map (\<lambda>r. rsi_value (col_MA_U r) (col_MA_D r)) (data self)))
                             set_RSI self))))
       (\<lambda>self. andthen
          (case up of None \<Rightarrow> (self, Inr ()) | Some uv \<Rightarrow> (self\<lparr>rsi_upper := uv\<rparr>, Inr ()))
          (\<lambda>self. case lo of None \<Rightarrow> (self, Inr ()) | Some lv \<Rightarrow> (self\<lparr>rsi_lower := lv\<rparr>, Inr ())))"

definition rsi_position :: "real \<Rightarrow> real \<Rightarrow> float \<Rightarrow> float" where
  \<comment> \<open>the three lines that set the position column, for one row\<close>
  "rsi_position upper lower rsi =
     (let p = np_where (fgt rsi (Some upper)) (Some (- 1)) None;
          p = np_where (flt rsi (Some lower)) (Some 1) p
      in case p of None \<Rightarrow> Some 0 | Some v \<Rightarrow> Some v)"

definition RSI_test_strategy ::
  "RSIBacktester \<Rightarrow> RSIBacktester \<times> (error + float \<times> float \<times> rsi_row res_tc list)" where
  "RSI_test_strategy self =
     test_strategy_tc rsi_notna
       (\<lambda>r. rsi_position (rsi_upper self) (rsi_lower self) (col_RSI r)) self"

section \<open>SOBacktester\<close>

record so_row = row_base +
  col_roll_low :: float
  col_roll_high :: float
  col_K :: float
  col_SO_D :: float

record SOBacktester = "(so_row, so_row res_tc) backtester" +
  SO_periods :: int
  D_mw :: int

definition so_notna :: "so_row \<Rightarrow> bool" where
  "so_notna r = (returns r \<noteq> None \<and> col_roll_low r \<noteq> None \<and> col_roll_high r \<noteq> None \<and>
     col_K r \<noteq> None \<and> col_SO_D r \<noteq> None)"

definition set_roll_low :: "float list \<Rightarrow> so_row list \<Rightarrow> so_row list" where
  "set_roll_low col rows = map2 (\<lambda>r v. r\<lparr>col_roll_low := v\<rparr>) rows col"

definition set_roll_high :: "float list \<Rightarrow> so_row list \<Rightarrow> so_row list" where
  "set_roll_high col rows = map2 (\<lambda>r v. r\<lparr>col_roll_high := v\<rparr>) rows col"

definition set_K :: "float list \<Rightarrow> so_row list \<Rightarrow> so_row list" where
  "set_K col rows = map2 (\<lambda>r v. r\<lparr>col_K := v\<rparr>) rows col"

definition set_SO_D :: "float list \<Rightarrow> so_row list \<Rightarrow> so_row list" where
  "set_SO_D col rows = map2 (\<lambda>r v. r\<lparr>col_SO_D := v\<rparr>) rows col"

definition k_value :: "real \<Rightarrow> float \<Rightarrow> float \<Rightarrow> float" where
  \<comment> \<open>\<open>(Close - roll_low) / (roll_high - roll_low) * 100\<close>\<close>
  "k_value c lo hi = fmul (fdiv (fsub (Some c) lo) (fsub hi lo)) (Some 100)"

definition SO_get_data :: "int \<Rightarrow> int \<Rightarrow> candle list \<Rightarrow> error + so_row list" where
  "SO_get_data p dw cs =
     (let rets = log_returns cs
      in case rolling list_min p (map (\<lambda>c. Some (Low c)) cs) of Inl e \<Rightarrow> Inl e
         | Inr lows \<Rightarrow> (case rolling list_max p (map (\<lambda>c. Some (High c)) cs) of Inl e \<Rightarrow> Inl e
         | Inr highs \<Rightarrow>
             (let k = map (\<lambda>(c, lo, hi). k_value (Close c) lo hi) (zip cs (zip lows highs))
              in case rolling mean dw k of Inl e \<Rightarrow> Inl e
                 | Inr d \<Rightarrow>
                     Inr (map (\<lambda>(c, r, lo, hi, k, d).
                            \<lparr>candle = c, returns = r, col_roll_low = lo, col_roll_high = hi,
                             col_K = k, col_SO_D = d\<rparr>)
                           (zip cs (zip rets (zip lows (zip highs (zip k d)))))))))"

definition SO_init ::
  "string \<Rightarrow> int \<Rightarrow> int \<Rightarrow> string \<Rightarrow> string \<Rightarrow> string \<Rightarrow> real \<Rightarrow> candle list \<Rightarrow> error + SOBacktester" where
  "SO_init name p dw st en g c cs =
     (case SO_get_data p dw cs of Inl e \<Rightarrow> Inl e
      | Inr d \<Rightarrow> Inr \<lparr>symbol = name, start = st, end_date = en, granularity = g, tc = c,
                      results = None, data = d, SO_periods = p, D_mw = dw\<rparr>)"

definition SO_set_parameters ::
  "int option \<Rightarrow> int option \<Rightarrow> SOBacktester \<Rightarrow> SOBacktester \<times> (error + unit)" where
  "SO_set_parameters p dw self =
     andthen
       (case p of None \<Rightarrow> (self, Inr ())
        | Some pv \<Rightarrow>
            (let self = self\<lparr>SO_periods := pv\<rparr>
             in andthen
                  (assign (rolling list_min (SO_periods self) (map (\<lambda>r. Some (Low (candle r))) (data self)))
                     set_roll_low self)
                  (\<lambda>self. andthen
                     (assign (rolling list_max (SO_periods self)
                                (map (\<lambda>r. Some (High (candle r))) (data self)))
                        set_roll_high self)
                  (\<lambda>self. andthen
                     (assign (Inr (map (\<lambda>r. k_value (Close (candle r)) (col_roll_low r) (col_roll_high r))
                                     (data self)))
                        set_K self)
                  (\<lambda>self. assign (rolling mean (D_mw self) (map col_K (data self))) set_SO_D self)))))
       (\<lambda>self. case dw of None \<Rightarrow> (self, Inr ())
        | Some dv \<Rightarrow>
            (let self = self\<lparr>D_mw := dv\<rparr>
             in assign (rolling mean (D_mw self) (map col_K (data self))) set_SO_D self))"

definition SO_test_strategy ::
  "SOBacktester \<Rightarrow> SOBacktester \<times> (error + float \<times> float \<times> so_row res_tc list)" where
  "SO_test_strategy self =
     test_strategy_tc so_notna
       (\<lambda>r. np_where (fgt (col_K r) (col_SO_D r)) (Some 1) (Some (- 1))) self"

section \<open>Grid search\<close>

text \<open>
  \<open>scipy.optimize.brute(func, ranges, finish=None)\<close> is library code. Each range
  \<open>(start, stop, step)\<close> becomes a slice of \<open>np.mgrid\<close>, which takes
  \<open>ceil((stop - start) / (step * 1.0))\<close> points \<open>k * step + start\<close>. The function is called on
  every point of the grid, the last axis varying fastest, and the point at the first least
  value is returned (\<open>np.argmin\<close>; a NaN counts as least).

  The number of points of an axis and the integer that \<open>int()\<close> makes of a point depend on
  how the arithmetic of \<open>np.mgrid\<close> is rounded: in double precision \<open>(2.0 - 1.7) / 0.1\<close> is
  above 3 and the axis has 4 points, and \<open>3 * 0.3 + 0.1\<close> is below 1. The grid is therefore
  written over the rounding \<open>rd\<close> of a real number to a double, applied to the result of
  each operation: the difference and the quotient of the size (the product with \<open>1.0\<close> is
  exact), the product and the sum of a point. Nothing is assumed of \<open>rd\<close>: what is proved of
  the search holds for every rounding, the exact arithmetic (\<open>rd\<close> the identity) included.
\<close>

type_synonym prange = "real \<times> real \<times> real"

type_synonym rounding = "real \<Rightarrow> real"

definition axis_size :: "rounding \<Rightarrow> prange \<Rightarrow> error + int" where
  "axis_size rd r = (case r of (first, stop, step) \<Rightarrow>
     if step = 0 then Inl ZeroDivisionError else Inr \<lceil>rd (rd (stop - first) / step)\<rceil>)"

fun axis_sizes :: "rounding \<Rightarrow> prange list \<Rightarrow> error + int list" where
  "axis_sizes rd [] = Inr []"
| "axis_sizes rd (r # rs) =
     (case axis_size rd r of Inl e \<Rightarrow> Inl e
      | Inr n \<Rightarrow> (case axis_sizes rd rs of Inl e \<Rightarrow> Inl e | Inr ns \<Rightarrow> Inr (n # ns)))"

definition axis_points :: "rounding \<Rightarrow> prange \<Rightarrow> int \<Rightarrow> real list" where
  "axis_points rd r n =
     (case r of (first, stop, step) \<Rightarrow> map (\<lambda>k. rd (rd (real k * step) + first)) [0..<nat n])"

definition mgrid :: "rounding \<Rightarrow> prange list \<Rightarrow> error + real list list" where
  "mgrid rd rs =
     (case axis_sizes rd rs of Inl e \<Rightarrow> Inl e
      | Inr ns \<Rightarrow>
          if list_ex (\<lambda>n. n < 0) ns then Inl ValueError
          else Inr (product_lists (map2 (axis_points rd) rs ns)))"

fun eval_grid ::
  "(real list \<Rightarrow> 's \<Rightarrow> 's \<times> (error + float)) \<Rightarrow> real list list \<Rightarrow> 's \<Rightarrow> 's \<times> (error + float list)" where
  "eval_grid f [] s = (s, Inr [])"
| "eval_grid f (x # xs) s =
     (case f x s of
        (s1, Inl e) \<Rightarrow> (s1, Inl e)
      | (s1, Inr v) \<Rightarrow>
          (case eval_grid f xs s1 of
             (s2, Inl e) \<Rightarrow> (s2, Inl e)
           | (s2, Inr vs) \<Rightarrow> (s2, Inr (v # vs))))"

definition less_val :: "float \<Rightarrow> float \<Rightarrow> bool" where
  \<comment> \<open>does \<open>u\<close> replace the least value \<open>b\<close> found so far\<close>
  "less_val u b = (case b of None \<Rightarrow> False | Some y \<Rightarrow> (case u of None \<Rightarrow> True | Some x \<Rightarrow> x < y))"

fun argmin_scan :: "nat \<Rightarrow> float \<Rightarrow> nat \<Rightarrow> float list \<Rightarrow> nat" where
  "argmin_scan bi bv j [] = bi"
| "argmin_scan bi bv j (u # us) =
     (if less_val u bv then argmin_scan j u (Suc j) us else argmin_scan bi bv (Suc j) us)"

definition np_argmin :: "float list \<Rightarrow> error + nat" where
  "np_argmin vs = (case vs of [] \<Rightarrow> Inl ValueError | v # rest \<Rightarrow> Inr (argmin_scan 0 v 1 rest))"

definition brute ::
  "rounding \<Rightarrow> (real list \<Rightarrow> 's \<Rightarrow> 's \<times> (error + float)) \<Rightarrow> prange list \<Rightarrow> 's \<Rightarrow>
   's \<times> (error + real list)" where
  "brute rd func ranges s =
     (case mgrid rd ranges of
        Inl e \<Rightarrow> (s, Inl e)
      | Inr grid \<Rightarrow>
          (case eval_grid func grid s of
             (s1, Inl e) \<Rightarrow> (s1, Inl e)
           | (s1, Inr jout) \<Rightarrow>
               (case np_argmin jout of
                  Inl e \<Rightarrow> (s1, Inl e)
                | Inr i \<Rightarrow> (s1, Inr (grid ! i)))))"

definition neg_perf ::
  "'s \<times> (error + float \<times> float \<times> 'r) \<Rightarrow> 's \<times> (error + float)" where
  \<comment> \<open>\<open>-self.test_strategy()[0]\<close>\<close>
  "neg_perf m = (case m of (s, Inl e) \<Rightarrow> (s, Inl e) | (s, Inr (perf, outperf, res)) \<Rightarrow> (s, Inr (fneg perf)))"

definition optimize ::
  "rounding \<Rightarrow> (real list \<Rightarrow> 's \<Rightarrow> 's \<times> (error + float)) \<Rightarrow> prange list \<Rightarrow> 's \<Rightarrow>
   's \<times> (error + real list \<times> float)" where
  \<comment> \<open>\<open>opt = brute(self.update_and_run, ranges, finish=None); return opt, -self.update_and_run(opt)\<close>\<close>
  "optimize rd update_and_run ranges self =
     (case brute rd update_and_run ranges self of
        (self, Inl e) \<Rightarrow> (self, Inl e)
      | (self, Inr opt) \<Rightarrow>
          (case update_and_run opt self of
             (self, Inl e) \<Rightarrow> (self, Inl e)
           | (self, Inr v) \<Rightarrow> (self, Inr (opt, fneg v))))"

definition SMA_update_and_run :: "real list \<Rightarrow> SMABacktester \<Rightarrow> SMABacktester \<times> (error + float)" where
  "SMA_update_and_run x self =
     (case x of
        a # b # rest \<Rightarrow>
          andthen (SMA_set_parameters (Some (py_int a)) (Some (py_int b)) self)
            (\<lambda>self. neg_perf (SMA_test_strategy self))
      | _ \<Rightarrow> (self, Inl IndexError))"

definition SMA_optimize_parameters ::
  "rounding \<Rightarrow> prange \<Rightarrow> prange \<Rightarrow> SMABacktester \<Rightarrow> SMABacktester \<times> (error + real list \<times> float)" where
  "SMA_optimize_parameters rd SMA1_range SMA2_range self =
     optimize rd SMA_update_and_run [SMA1_range, SMA2_range] self"

definition EMA_update_and_run :: "real list \<Rightarrow> EMABacktester \<Rightarrow> EMABacktester \<times> (error + float)" where
  "EMA_update_and_run x self =
     (case x of
        a # b # rest \<Rightarrow>
          andthen (EMA_set_parameters (Some (py_int a)) (Some (py_int b)) self)
            (\<lambda>self. neg_perf (EMA_test_strategy self))
      | _ \<Rightarrow> (self, Inl IndexError))"

definition EMA_optimize_parameters ::
  "rounding \<Rightarrow> prange \<Rightarrow> prange \<Rightarrow> EMABacktester \<Rightarrow> EMABacktester \<times> (error + real list \<times> float)" where
  "EMA_optimize_parameters rd EMA1_range EMA2_range self =
     optimize rd EMA_update_and_run [EMA1_range, EMA2_range] self"

definition MACD_update_and_run :: "real list \<Rightarrow> MACDBacktester \<Rightarrow> MACDBacktester \<times> (error + float)" where
  "MACD_update_and_run x self =
     (case x of
        a # b # c # rest \<Rightarrow>
          andthen (MACD_set_parameters (Some (py_int a)) (Some (py_int b)) (Some (py_int c)) self)
            (\<lambda>self. neg_perf (MACD_test_strategy self))
      | _ \<Rightarrow> (self, Inl IndexError))"

definition MACD_optimize_parameters ::
  "rounding \<Rightarrow> prange \<Rightarrow> prange \<Rightarrow> prange \<Rightarrow> MACDBacktester \<Rightarrow> MACDBacktester \<times> (error + real list \<times> float)" where
  "MACD_optimize_parameters rd EMA_S_range EMA_L_range signal_mw_range self =
     optimize rd MACD_update_and_run [EMA_S_range, EMA_L_range, signal_mw_range] self"

definition RSI_update_and_run :: "real list \<Rightarrow> RSIBacktester \<Rightarrow> RSIBacktester \<times> (error + float)" where
  "RSI_update_and_run x self =
     (case x of
        a # b # c # rest \<Rightarrow>
          andthen (RSI_set_parameters (Some (py_int a)) (Some (real_of_int (py_int b)))
                     (Some (real_of_int (py_int c))) self)
            (\<lambda>self. neg_perf (RSI_test_strategy self))
      | _ \<Rightarrow> (self, Inl IndexError))"

definition RSI_optimize_parameters ::
  "rounding \<Rightarrow> prange \<Rightarrow> prange \<Rightarrow> prange \<Rightarrow> RSIBacktester \<Rightarrow> RSIBacktester \<times> (error + real list \<times> float)" where
  "RSI_optimize_parameters rd periods_range rsi_upper_range rsi_lower_range self =
     optimize rd RSI_update_and_run [periods_range, rsi_upper_range, rsi_lower_range] self"

definition SO_update_and_run :: "real list \<Rightarrow> SOBacktester \<Rightarrow> SOBacktester \<times> (error + float)" where
  "SO_update_and_run x self =
     (case x of
        a # b # rest \<Rightarrow>
          andthen (SO_set_parameters (Some (py_int a)) (Some (py_int b)) self)
            (\<lambda>self. neg_perf (SO_test_strategy self))
      | _ \<Rightarrow> (self, Inl IndexError))"

definition SO_optimize_parameters ::
  "rounding \<Rightarrow> prange \<Rightarrow> prange \<Rightarrow> SOBacktester \<Rightarrow> SOBacktester \<times> (error + real list \<times> float)" where
  "SO_optimize_parameters rd periods_range D_mw_range self =
     optimize rd SO_update_and_run [periods_range, D_mw_range] self"

section \<open>The result frame as a function of the data frame\<close>

text \<open>
  The frame that \<open>test_strategy\<close> stores and the value it returns depend on the object only
  through its data frame (and its cost); the definitions below name the two parts.
\<close>

definition sma_frame :: "sma_row list \<Rightarrow> sma_row res_base list" where
  "sma_frame rows =
     (let data0 = filter sma_notna rows;
          pos = map (\<lambda>r. np_where (fgt (col_SMA_S r) (col_SMA_L r)) (Some 1) (Some (- 1))) data0;
          strat = map2 fmul (shift1 pos) (map returns data0);
          frame = filter (\<lambda>(r, p, s). sma_notna r \<and> p \<noteq> None \<and> s \<noteq> None)
                    (zip data0 (zip pos strat));
          cret = map fexp (cumsum (map (\<lambda>(r, p, s). returns r) frame));
          cstr = map fexp (cumsum (map (\<lambda>(r, p, s). s) frame))
      in map (\<lambda>((r, p, s), cr, cs).
                   \<lparr>row = r, position = p, strategy = s, creturns = cr, cstrategy = cs\<rparr>)
                  (zip frame (zip cret cstr)))"

definition tc_frame ::
  "('z row_base_scheme \<Rightarrow> bool) \<Rightarrow> ('z row_base_scheme \<Rightarrow> float) \<Rightarrow> real \<Rightarrow>
   'z row_base_scheme list \<Rightarrow> 'z row_base_scheme res_tc list" where
  "tc_frame notna rule c rows =
     (let data0 = filter notna rows;
          pos = map rule data0;
          strat = map2 fmul (shift1 pos) (map returns data0);
          frame = filter (\<lambda>(r, p, s). notna r \<and> p \<noteq> None \<and> s \<noteq> None)
                    (zip data0 (zip pos strat));
          trd = map fabs (fillna 0 (diff (map (\<lambda>(r, p, s). p) frame)));
          strat1 = map2 fsub (map (\<lambda>(r, p, s). s) frame) (map (\<lambda>t. fmul t (Some c)) trd);
          cret = map fexp (cumsum (map (\<lambda>(r, p, s). returns r) frame));
          cstr = map fexp (cumsum strat1)
      in map (\<lambda>((r, p, s), s1, t, cr, cs).
                   \<lparr>row = r, position = p, strategy = s1, creturns = cr, cstrategy = cs,
                    trades = t\<rparr>)
                  (zip frame (zip strat1 (zip trd (zip cret cstr)))))"

definition outcome ::
  "('r, 'y) res_base_scheme list \<Rightarrow> error + float \<times> float \<times> ('r, 'y) res_base_scheme list" where
  "outcome res =
     (case iloc_last (map cstrategy res) of
        Inl e \<Rightarrow> Inl e
      | Inr perf \<Rightarrow>
          (case iloc_last (map creturns res) of
             Inl e \<Rightarrow> Inl e
           | Inr c \<Rightarrow> Inr (perf, fsub perf c, res)))"

text \<open>
  The rows that survive the second \<open>dropna\<close>, with their position and their gross
  strategy return; the trade and net-return columns of the backtest with costs.
\<close>

definition bt_rows ::
  "('z row_base_scheme \<Rightarrow> bool) \<Rightarrow> ('z row_base_scheme \<Rightarrow> float) \<Rightarrow> 'z row_base_scheme list \<Rightarrow>
   ('z row_base_scheme \<times> float \<times> float) list" where
  "bt_rows notna rule rows =
     (let data0 = filter notna rows;
          pos = map rule data0;
          strat = map2 fmul (shift1 pos) (map returns data0)
      in filter (\<lambda>(r, p, s). notna r \<and> p \<noteq> None \<and> s \<noteq> None) (zip data0 (zip pos strat)))"

definition running_sums :: "real list \<Rightarrow> real list" where
  "running_sums xs = map (\<lambda>i. sum_list (take (Suc i) xs)) [0..<length xs]"

definition compounded :: "('z row_base_scheme, 'y) res_base_scheme list \<Rightarrow> bool" where
  "compounded res =
     (list_all (\<lambda>x. returns (row x) \<noteq> None \<and> strategy x \<noteq> None) res \<and>
      map creturns res =
        map (\<lambda>v. Some (exp v)) (running_sums (map (\<lambda>x. the (returns (row x))) res)) \<and>
      map cstrategy res = map (\<lambda>v. Some (exp v)) (running_sums (map (\<lambda>x. the (strategy x)) res)))"

definition sma_rule :: "sma_row \<Rightarrow> float" where
  "sma_rule r = np_where (fgt (col_SMA_S r) (col_SMA_L r)) (Some 1) (Some (- 1))"

definition tc_trades :: "('r \<times> float \<times> float) list \<Rightarrow> float list" where
  "tc_trades frame = map fabs (fillna 0 (diff (map (\<lambda>(r, p, s). p) frame)))"

definition tc_strategy :: "real \<Rightarrow> ('r \<times> float \<times> float) list \<Rightarrow> float list" where
  "tc_strategy c frame =
     map2 fsub (map (\<lambda>(r, p, s). s) frame) (map (\<lambda>t. fmul t (Some c)) (tc_trades frame))"

text \<open>
  What \<open>test_strategy\<close> returns, in terms of the result frame: the cumulative columns are
  the exponentials of the running sums, the current period included, so that their first
  entries are the exponentials of the first log-return and of the first strategy return;
  the performance is the last cumulative strategy value and the out-performance its
  difference to the last cumulative buy-and-hold value.
\<close>

definition strategy_result ::
  "float \<Rightarrow> float \<Rightarrow> ('z row_base_scheme, 'y) res_base_scheme list \<Rightarrow> bool" where
  "strategy_result perf outperf res =
     (res \<noteq> [] \<and> compounded res \<and>
      creturns (hd res) = fexp (returns (row (hd res))) \<and>
      cstrategy (hd res) = fexp (strategy (hd res)) \<and>
      perf = cstrategy (last res) \<and> outperf = fsub perf (creturns (last res)))"

section \<open>The grid search as a function of the prices\<close>

text \<open>
  Re-parameterising overwrites the indicator columns and leaves the candles and the
  returns; \<open>same_prices\<close> relates two data frames that agree on these. The absolute
  performance of a backtest at a pair of windows, from a given object, is what
  \<open>set_parameters\<close> followed by \<open>test_strategy\<close> returns first.
\<close>

definition same_prices :: "'z row_base_scheme list \<Rightarrow> 'z row_base_scheme list \<Rightarrow> bool" where
  "same_prices rows rows' = (map candle rows = map candle rows' \<and> map returns rows = map returns rows')"

definition SMA_performance :: "SMABacktester \<Rightarrow> int \<Rightarrow> int \<Rightarrow> error + float" where
  "SMA_performance self s l =
     (case SMA_set_parameters (Some s) (Some l) self of
        (self, Inl e) \<Rightarrow> Inl e
      | (self, Inr u) \<Rightarrow>
          (case snd (SMA_test_strategy self) of
             Inl e \<Rightarrow> Inl e
           | Inr (perf, outperf, res) \<Rightarrow> Inr perf))"

definition EMA_performance :: "EMABacktester \<Rightarrow> int \<Rightarrow> int \<Rightarrow> error + float" where
  "EMA_performance self s l =
     (case EMA_set_parameters (Some s) (Some l) self of
        (self, Inl e) \<Rightarrow> Inl e
      | (self, Inr u) \<Rightarrow>
          (case snd (EMA_test_strategy self) of
             Inl e \<Rightarrow> Inl e
           | Inr (perf, outperf, res) \<Rightarrow> Inr perf))"

definition MACD_performance :: "MACDBacktester \<Rightarrow> int \<Rightarrow> int \<Rightarrow> int \<Rightarrow> error + float" where
  "MACD_performance self s l sg =
     (case MACD_set_parameters (Some s) (Some l) (Some sg) self of
        (self, Inl e) \<Rightarrow> Inl e
      | (self, Inr u) \<Rightarrow>
          (case snd (MACD_test_strategy self) of
             Inl e \<Rightarrow> Inl e
           | Inr (perf, outperf, res) \<Rightarrow> Inr perf))"

definition RSI_performance :: "RSIBacktester \<Rightarrow> int \<Rightarrow> int \<Rightarrow> int \<Rightarrow> error + float" where
  "RSI_performance self p up lo =
     (case RSI_set_parameters (Some p) (Some (real_of_int up)) (Some (real_of_int lo)) self of
        (self, Inl e) \<Rightarrow> Inl e
      | (self, Inr u) \<Rightarrow>
          (case snd (RSI_test_strategy self) of
             Inl e \<Rightarrow> Inl e
           | Inr (perf, outperf, res) \<Rightarrow> Inr perf))"

definition SO_performance :: "SOBacktester \<Rightarrow> int \<Rightarrow> int \<Rightarrow> error + float" where
  "SO_performance self p dw =
     (case SO_set_parameters (Some p) (Some dw) self of
        (self, Inl e) \<Rightarrow> Inl e
      | (self, Inr u) \<Rightarrow>
          (case snd (SO_test_strategy self) of
             Inl e \<Rightarrow> Inl e
           | Inr (perf, outperf, res) \<Rightarrow> Inr perf))"

text \<open>The values of \<open>ewm_mean\<close> where the span is accepted, and the position rule of EMABacktester.\<close>

definition ewm_values :: "int \<Rightarrow> float list \<Rightarrow> float list" where
  "ewm_values sp xs =
     (case xs of [] \<Rightarrow> []
      | x # rest \<Rightarrow>
          (let minp = max (nat sp) 1; nobs = (if x = None then 0 else 1)
           in (if minp \<le> nobs then x else None)
                # ewm_loop (2 / (real_of_int sp + 1)) minp x 1 nobs rest))"

definition ema_rule :: "ema_row \<Rightarrow> float" where
  "ema_rule r = np_where (fgt (col_EMA_S r) (col_EMA_L r)) (Some 1) (Some (- 1))"

definition macd_rule :: "macd_row \<Rightarrow> float" where
  "macd_rule r = np_where (fgt (col_MACD r) (col_MACD_Signal r)) (Some 1) (Some (- 1))"

definition rsi_rule :: "real \<Rightarrow> real \<Rightarrow> rsi_row \<Rightarrow> float" where
  "rsi_rule upper lower r = rsi_position upper lower (col_RSI r)"

definition so_rule :: "so_row \<Rightarrow> float" where
  "so_rule r = np_where (fgt (col_K r) (col_SO_D r)) (Some 1) (Some (- 1))"

section \<open>Example inputs\<close>

definition flat_candle :: "nat \<Rightarrow> real \<Rightarrow> candle" where
  \<comment> \<open>a candle whose four prices agree\<close>
  "flat_candle t c = \<lparr>Date = t, Open = c, High = c, Low = c, Close = c, Volume = 1\<rparr>"

definition zigzag :: "candle list" where
  "zigzag = [flat_candle 0 1, flat_candle 1 2, flat_candle 2 1, flat_candle 3 2]"

definition updown :: "candle list" where
  "updown = [flat_candle 0 1, flat_candle 1 2, flat_candle 2 3, flat_candle 3 2]"

definition bars :: "candle list" where
  "bars = [\<lparr>Date = 0, Open = 2, High = 3, Low = 1, Close = 2, Volume = 1\<rparr>,
           \<lparr>Date = 1, Open = 2, High = 4, Low = 2, Close = 4, Volume = 1\<rparr>,
           \<lparr>Date = 2, Open = 4, High = 4, Low = 1, Close = 2, Volume = 1\<rparr>,
           \<lparr>Date = 3, Open = 2, High = 3, Low = 2, Close = 3, Volume = 1\<rparr>]"

definition sma_example :: SMABacktester where
  "sma_example = projr (SMA_init ''EUR_USD'' 1 2 ''2020-01-01'' ''2020-01-05'' ''D'' (1 / 100) zigzag)"

definition ema_example :: EMABacktester where
  "ema_example = projr (EMA_init ''EUR_USD'' 1 2 ''2020-01-01'' ''2020-01-05'' ''D'' (1 / 100) zigzag)"

definition macd_example :: MACDBacktester where
  "macd_example = projr (MACD_init ''EUR_USD'' 1 2 1 ''2020-01-01'' ''2020-01-05'' ''D'' (1 / 100) zigzag)"

definition rsi_example :: RSIBacktester where
  "rsi_example = projr (RSI_init ''EUR_USD'' 2 70 30 ''2020-01-01'' ''2020-01-05'' ''D'' (1 / 100) updown)"

definition so_example :: SOBacktester where
  "so_example = projr (SO_init ''EUR_USD'' 2 1 ''2020-01-01'' ''2020-01-05'' ''D'' (1 / 100) bars)"

definition two_candles :: "candle list" where
  "two_candles = [flat_candle 0 1, flat_candle 1 2]"

definition sma_short :: SMABacktester where
  "sma_short = projr (SMA_init ''EUR_USD'' 1 1 ''2020-01-01'' ''2020-01-03'' ''D'' 0 two_candles)"

definition rsi_short :: RSIBacktester where
  "rsi_short = projr (RSI_init ''EUR_USD'' 1 70 30 ''2020-01-01'' ''2020-01-03'' ''D'' 0 two_candles)"



definition plateau :: "candle list" where
  "plateau = [flat_candle 0 1, flat_candle 1 2, flat_candle 2 2, flat_candle 3 2, flat_candle 4 3,
              flat_candle 5 2, flat_candle 6 1]"

definition rsi_plateau :: RSIBacktester where
  "rsi_plateau = projr (RSI_init ''EUR_USD'' 2 70 30 ''2020-01-01'' ''2020-01-08'' ''D'' 0 plateau)"

definition so_plateau :: SOBacktester where
  "so_plateau = projr (SO_init ''EUR_USD'' 2 1 ''2020-01-01'' ''2020-01-08'' ''D'' 0 plateau)"

definition sma_optimized :: SMABacktester where
  "sma_optimized = fst (SMA_optimize_parameters (\<lambda>x. x) (2, 3, 1 / 2) (2, 4, 1) sma_example)"

definition ema_optimized :: EMABacktester where
  "ema_optimized = fst (EMA_optimize_parameters (\<lambda>x. x) (1, 2, 1) (2, 3, 1) ema_example)"

definition macd_optimized :: MACDBacktester where
  "macd_optimized =
     fst (MACD_optimize_parameters (\<lambda>x. x) (1, 2, 1) (2, 3, 1) (1, 3, 1) macd_example)"

definition rsi_optimized :: RSIBacktester where
  "rsi_optimized =
     fst (RSI_optimize_parameters (\<lambda>x. x) (2, 3, 1) (70, 71, 1) (30, 31, 1) rsi_example)"

definition so_optimized :: SOBacktester where
  "so_optimized = fst (SO_optimize_parameters (\<lambda>x. x) (2, 3, 1) (1, 2, 1) so_example)"

section \<open>Series lemmas\<close>

lemma length_shift1 [simp]: "length (shift1 xs) = length xs"
  by (cases xs) (simp_all add: shift1_def)

lemma length_diff [simp]: "length (diff xs) = length xs"
  by (simp add: diff_def)

lemma length_fillna [simp]: "length (fillna v xs) = length xs"
  by (simp add: fillna_def)

lemma length_cumsum_from [simp]: "length (cumsum_from acc xs) = length xs"
  by (induction acc xs rule: cumsum_from.induct) simp_all

lemma length_cumsum [simp]: "length (cumsum xs) = length xs"
  by (simp add: cumsum_def)

lemma length_rolling_from [simp]: "length (rolling_from agg w seen xs) = length xs"
  by (induction xs arbitrary: seen) simp_all

lemma rolling_length: "rolling agg w xs = Inr ys \<Longrightarrow> length ys = length xs"
  by (auto simp: rolling_def split: if_splits)

lemma length_ewm_loop [simp]: "length (ewm_loop a m wt ow n xs) = length xs"
  by (induction xs arbitrary: wt ow n) (simp_all add: Let_def)

lemma ewm_mean_length: "ewm_mean sp xs = Inr ys \<Longrightarrow> length ys = length xs"
  by (auto simp: ewm_mean_def Let_def split: if_splits list.splits)

lemma nth_rolling_from:
  "i < length xs \<Longrightarrow> rolling_from agg w seen xs ! i = roll_apply agg w (seen @ take (Suc i) xs)"
proof (induction xs arbitrary: seen i)
  case Nil
  then show ?case by simp
next
  case (Cons x xs)
  show ?case
  proof (cases i)
    case 0
    then show ?thesis by simp
  next
    case (Suc k)
    with Cons.prems have "k < length xs" by simp
    from Cons.IH [OF this, of "seen @ [x]"] Suc show ?thesis by simp
  qed
qed

section \<open>The backtest is a function of the data frame\<close>

lemma SMA_test_strategy_eq:
  "SMA_test_strategy self =
     (self\<lparr>results := Some (sma_frame (data self))\<rparr>, outcome (sma_frame (data self)))"
  unfolding SMA_test_strategy_def sma_frame_def outcome_def Let_def
  by (simp split: sum.split)

lemma test_strategy_tc_eq:
  "test_strategy_tc notna rule self =
     (self\<lparr>results := Some (tc_frame notna rule (tc self) (data self))\<rparr>,
      outcome (tc_frame notna rule (tc self) (data self)))"
  unfolding test_strategy_tc_def tc_frame_def outcome_def Let_def
  by (simp split: sum.split)

lemmas tc_test_strategy_defs =
  EMA_test_strategy_def MACD_test_strategy_def RSI_test_strategy_def SO_test_strategy_def

text \<open>
  C8. Running the backtest twice without touching the object in between returns the same
  value both times and leaves the same object; the run changes nothing of the object but
  its stored result (the data frame and the parameters stay as they were). This holds for
  each of the five classes.
\<close>

theorem test_strategy_idempotent:
  "(SMA_test_strategy (fst (SMA_test_strategy a)) = SMA_test_strategy a \<and>
    fst (SMA_test_strategy a) = a\<lparr>results := results (fst (SMA_test_strategy a))\<rparr>) \<and>
   (EMA_test_strategy (fst (EMA_test_strategy b)) = EMA_test_strategy b \<and>
    fst (EMA_test_strategy b) = b\<lparr>results := results (fst (EMA_test_strategy b))\<rparr>) \<and>
   (MACD_test_strategy (fst (MACD_test_strategy c)) = MACD_test_strategy c \<and>
    fst (MACD_test_strategy c) = c\<lparr>results := results (fst (MACD_test_strategy c))\<rparr>) \<and>
   (RSI_test_strategy (fst (RSI_test_strategy d)) = RSI_test_strategy d \<and>
    fst (RSI_test_strategy d) = d\<lparr>results := results (fst (RSI_test_strategy d))\<rparr>) \<and>
   (SO_test_strategy (fst (SO_test_strategy e)) = SO_test_strategy e \<and>
    fst (SO_test_strategy e) = e\<lparr>results := results (fst (SO_test_strategy e))\<rparr>)"
  by (simp add: SMA_test_strategy_eq tc_test_strategy_defs test_strategy_tc_eq)

theorem test_strategy_idempotent_witness:
  "(SMA_test_strategy (fst (SMA_test_strategy sma_example)) = SMA_test_strategy sma_example \<and>
    fst (SMA_test_strategy sma_example) =
      sma_example\<lparr>results := results (fst (SMA_test_strategy sma_example))\<rparr>) \<and>
   (SO_test_strategy (fst (SO_test_strategy so_example)) = SO_test_strategy so_example \<and>
    fst (SO_test_strategy so_example) =
      so_example\<lparr>results := results (fst (SO_test_strategy so_example))\<rparr>)"
  using test_strategy_idempotent [of sma_example ema_example macd_example rsi_example so_example]
  by blast

section \<open>The examples, evaluated\<close>

lemmas series_eval =
  log_returns_def shift1_def diff_def fdiv_def fmul_def fsub_def fadd_def fneg_def fabs_def fexp_def
  np_log_def fgt_def flt_def np_where_def fillna_def cumsum_def iloc_last_def
  rolling_def roll_apply_def window_def observations_def List.map_filter_simps mean_def
  ewm_mean_def Let_def


lemma sma_example_data:
  "data sma_example =
    [\<lparr>candle = flat_candle 0 1, returns = None, col_SMA_S = Some 1, col_SMA_L = None\<rparr>,
     \<lparr>candle = flat_candle 1 2, returns = Some (ln 2), col_SMA_S = Some 2, col_SMA_L = Some (3 / 2)\<rparr>,
     \<lparr>candle = flat_candle 2 1, returns = Some (ln (1 / 2)), col_SMA_S = Some 1, col_SMA_L = Some (3 / 2)\<rparr>,
     \<lparr>candle = flat_candle 3 2, returns = Some (ln 2), col_SMA_S = Some 2, col_SMA_L = Some (3 / 2)\<rparr>]"
  by (simp add: sma_example_def SMA_init_def SMA_get_data_def zigzag_def flat_candle_def series_eval
      del: not_None_eq)

lemma sma_example_tc: "tc sma_example = 1 / 100"
  by (simp add: sma_example_def SMA_init_def SMA_get_data_def zigzag_def flat_candle_def series_eval
      del: not_None_eq)


lemma ema_example_data:
  "data ema_example =
    [\<lparr>candle = flat_candle 0 1, returns = None, col_EMA_S = Some 1, col_EMA_L = None\<rparr>,
     \<lparr>candle = flat_candle 1 2, returns = Some (ln 2), col_EMA_S = Some 2, col_EMA_L = Some (7 / 4)\<rparr>,
     \<lparr>candle = flat_candle 2 1, returns = Some (ln (1 / 2)), col_EMA_S = Some 1, col_EMA_L = Some (16 / 13)\<rparr>,
     \<lparr>candle = flat_candle 3 2, returns = Some (ln 2), col_EMA_S = Some 2, col_EMA_L = Some (7 / 4)\<rparr>]"
  by (simp add: ema_example_def EMA_init_def EMA_get_data_def zigzag_def flat_candle_def series_eval
      del: not_None_eq)

lemma ema_example_tc: "tc ema_example = 1 / 100"
  by (simp add: ema_example_def EMA_init_def EMA_get_data_def zigzag_def flat_candle_def series_eval
      del: not_None_eq)

lemma macd_example_init:
  "MACD_init ''EUR_USD'' 1 2 1 ''2020-01-01'' ''2020-01-05'' ''D'' (1 / 100) zigzag = Inr macd_example"
  by (simp add: macd_example_def MACD_init_def MACD_get_data_def zigzag_def flat_candle_def series_eval
      del: not_None_eq)

lemma macd_example_data:
  "data macd_example =
    [\<lparr>candle = flat_candle 0 1, returns = None, mcol_EMA_S = Some 1, mcol_EMA_L = None,
      col_MACD = None, col_MACD_Signal = None\<rparr>,
     \<lparr>candle = flat_candle 1 2, returns = Some (ln 2), mcol_EMA_S = Some 2, mcol_EMA_L = Some (7 / 4),
      col_MACD = Some (1 / 4), col_MACD_Signal = Some (1 / 4)\<rparr>,
     \<lparr>candle = flat_candle 2 1, returns = Some (ln (1 / 2)), mcol_EMA_S = Some 1,
      mcol_EMA_L = Some (16 / 13), col_MACD = Some (- (3 / 13)), col_MACD_Signal = Some (- (3 / 13))\<rparr>,
     \<lparr>candle = flat_candle 3 2, returns = Some (ln 2), mcol_EMA_S = Some 2, mcol_EMA_L = Some (7 / 4),
      col_MACD = Some (1 / 4), col_MACD_Signal = Some (1 / 4)\<rparr>]"
  by (simp add: macd_example_def MACD_init_def MACD_get_data_def zigzag_def flat_candle_def series_eval
      del: not_None_eq)

lemma rsi_example_init:
  "RSI_init ''EUR_USD'' 2 70 30 ''2020-01-01'' ''2020-01-05'' ''D'' (1 / 100) updown = Inr rsi_example"
  by (simp add: rsi_example_def RSI_init_def RSI_get_data_def updown_def flat_candle_def series_eval
      rsi_value_def up_moves_def down_moves_def del: not_None_eq)

lemma rsi_example_data:
  "data rsi_example =
    [\<lparr>candle = flat_candle 0 1, returns = None, col_U = Some 0, col_D = Some 0, col_MA_U = None,
      col_MA_D = None, col_RSI = None\<rparr>,
     \<lparr>candle = flat_candle 1 2, returns = Some (ln 2), col_U = Some 1, col_D = Some 0,
      col_MA_U = Some (1 / 2), col_MA_D = Some 0, col_RSI = Some 100\<rparr>,
     \<lparr>candle = flat_candle 2 3, returns = Some (ln (3 / 2)), col_U = Some 1, col_D = Some 0,
      col_MA_U = Some 1, col_MA_D = Some 0, col_RSI = Some 100\<rparr>,
     \<lparr>candle = flat_candle 3 2, returns = Some (ln (2 / 3)), col_U = Some 0, col_D = Some 1,
      col_MA_U = Some (1 / 2), col_MA_D = Some (1 / 2), col_RSI = Some 50\<rparr>]"
  by (simp add: rsi_example_def RSI_init_def RSI_get_data_def updown_def flat_candle_def series_eval
      rsi_value_def up_moves_def down_moves_def del: not_None_eq)

lemma rsi_example_params:
  "rsi_upper rsi_example = 70" "rsi_lower rsi_example = 30" "tc rsi_example = 1 / 100"
  by (simp_all add: rsi_example_def RSI_init_def RSI_get_data_def updown_def flat_candle_def series_eval
      rsi_value_def up_moves_def down_moves_def del: not_None_eq)

lemma so_example_init:
  "SO_init ''EUR_USD'' 2 1 ''2020-01-01'' ''2020-01-05'' ''D'' (1 / 100) bars = Inr so_example"
  by (simp add: so_example_def SO_init_def SO_get_data_def bars_def series_eval k_value_def
      del: not_None_eq)

lemma so_example_data:
  "data so_example =
    [\<lparr>candle = \<lparr>Date = 0, Open = 2, High = 3, Low = 1, Close = 2, Volume = 1\<rparr>,
      returns = None, col_roll_low = None, col_roll_high = None, col_K = None, col_SO_D = None\<rparr>,
     \<lparr>candle = \<lparr>Date = 1, Open = 2, High = 4, Low = 2, Close = 4, Volume = 1\<rparr>,
      returns = Some (ln 2), col_roll_low = Some 1, col_roll_high = Some 4, col_K = Some 100,
      col_SO_D = Some 100\<rparr>,
     \<lparr>candle = \<lparr>Date = 2, Open = 4, High = 4, Low = 1, Close = 2, Volume = 1\<rparr>,
      returns = Some (ln (1 / 2)), col_roll_low = Some 1, col_roll_high = Some 4,
      col_K = Some (100 / 3), col_SO_D = Some (100 / 3)\<rparr>,
     \<lparr>candle = \<lparr>Date = 3, Open = 2, High = 3, Low = 2, Close = 3, Volume = 1\<rparr>,
      returns = Some (ln (3 / 2)), col_roll_low = Some 1, col_roll_high = Some 4,
      col_K = Some (200 / 3), col_SO_D = Some (200 / 3)\<rparr>]"
  by (simp add: so_example_def SO_init_def SO_get_data_def bars_def series_eval k_value_def
      del: not_None_eq)

lemma sma_example_frame:
  "map (\<lambda>x. (position x, returns (row x), strategy x)) (sma_frame (data sma_example)) =
     [(Some (- 1), Some (ln (1 / 2)), Some (ln (1 / 2))), (Some 1, Some (ln 2), Some (- ln 2))]"
  by (simp add: sma_example_data sma_frame_def sma_notna_def series_eval del: not_None_eq)

lemma ema_example_frame:
  "map (\<lambda>x. (position x, returns (row x), strategy x, trades x))
     (tc_frame ema_notna (\<lambda>r. np_where (fgt (col_EMA_S r) (col_EMA_L r)) (Some 1) (Some (- 1)))
        (1 / 100) (data ema_example)) =
     [(Some (- 1), Some (ln (1 / 2)), Some (ln (1 / 2)), Some 0),
      (Some 1, Some (ln 2), Some (- ln 2 - 1 / 50), Some 2)]"
  by (simp add: ema_example_data tc_frame_def ema_notna_def series_eval del: not_None_eq)

section \<open>Transaction costs\<close>

text \<open>
  C1. SMABacktester is built with the cost 1/100 on the closes 1, 2, 1, 2 and the windows
  1 and 2. Its backtest holds the position -1 and then +1, a reversal, yet the strategy
  return of the last period is the plain product of the earlier position and the
  log-return: no cost is taken off. EMABacktester, on the same candles with the same cost and
  the same positions, takes twice the cost off in that period.
\<close>

theorem SMA_test_strategy_ignores_tc:
  "tc sma_example = 1 / 100 \<and>
   map_option (map (\<lambda>x. (position x, returns (row x), strategy x)))
     (results (fst (SMA_test_strategy sma_example))) =
     Some [(Some (- 1), Some (ln (1 / 2)), Some (ln (1 / 2))), (Some 1, Some (ln 2), Some (- ln 2))] \<and>
   map_option (map (\<lambda>x. (position x, returns (row x), strategy x, trades x)))
     (results (fst (EMA_test_strategy ema_example))) =
     Some [(Some (- 1), Some (ln (1 / 2)), Some (ln (1 / 2)), Some 0),
           (Some 1, Some (ln 2), Some (- ln 2 - 1 / 50), Some 2)]"
  by (simp add: SMA_test_strategy_eq EMA_test_strategy_def test_strategy_tc_eq sma_example_tc
      ema_example_tc sma_example_frame ema_example_frame)

section \<open>Re-parameterising one axis\<close>

lemma map_zip_unchanged:
  "length col = length rows \<Longrightarrow> (\<And>r v. h (r, v) = f r) \<Longrightarrow> map h (zip rows col) = map f rows"
  by (induction rows col rule: list_induct2') simp_all

lemma map_zip_snd:
  "length col = length rows \<Longrightarrow> (\<And>r v. h (r, v) = v) \<Longrightarrow> map h (zip rows col) = col"
  by (induction rows col rule: list_induct2') simp_all

lemma set_SMA_S_length [simp]:
  "length col = length rows \<Longrightarrow> length (set_SMA_S col rows) = length rows"
  by (simp add: set_SMA_S_def)

lemma set_SMA_S_other [simp]:
  "length col = length rows \<Longrightarrow> (\<And>r v. g (r\<lparr>col_SMA_S := v\<rparr>) = g r) \<Longrightarrow>
   map g (set_SMA_S col rows) = map g rows"
  by (auto simp: set_SMA_S_def intro!: map_zip_unchanged)

lemma set_SMA_S_same [simp]:
  "length col = length rows \<Longrightarrow> map col_SMA_S (set_SMA_S col rows) = col"
  by (auto simp: set_SMA_S_def intro!: map_zip_snd)

lemma set_SMA_L_length [simp]:
  "length col = length rows \<Longrightarrow> length (set_SMA_L col rows) = length rows"
  by (simp add: set_SMA_L_def)

lemma set_SMA_L_other [simp]:
  "length col = length rows \<Longrightarrow> (\<And>r v. g (r\<lparr>col_SMA_L := v\<rparr>) = g r) \<Longrightarrow>
   map g (set_SMA_L col rows) = map g rows"
  by (auto simp: set_SMA_L_def intro!: map_zip_unchanged)

lemma set_SMA_L_same [simp]:
  "length col = length rows \<Longrightarrow> map col_SMA_L (set_SMA_L col rows) = col"
  by (auto simp: set_SMA_L_def intro!: map_zip_snd)

lemma set_EMA_S_length [simp]:
  "length col = length rows \<Longrightarrow> length (set_EMA_S col rows) = length rows"
  by (simp add: set_EMA_S_def)

lemma set_EMA_S_other [simp]:
  "length col = length rows \<Longrightarrow> (\<And>r v. g (r\<lparr>col_EMA_S := v\<rparr>) = g r) \<Longrightarrow>
   map g (set_EMA_S col rows) = map g rows"
  by (auto simp: set_EMA_S_def intro!: map_zip_unchanged)

lemma set_EMA_S_same [simp]:
  "length col = length rows \<Longrightarrow> map col_EMA_S (set_EMA_S col rows) = col"
  by (auto simp: set_EMA_S_def intro!: map_zip_snd)

lemma set_EMA_L_length [simp]:
  "length col = length rows \<Longrightarrow> length (set_EMA_L col rows) = length rows"
  by (simp add: set_EMA_L_def)

lemma set_EMA_L_other [simp]:
  "length col = length rows \<Longrightarrow> (\<And>r v. g (r\<lparr>col_EMA_L := v\<rparr>) = g r) \<Longrightarrow>
   map g (set_EMA_L col rows) = map g rows"
  by (auto simp: set_EMA_L_def intro!: map_zip_unchanged)

lemma set_EMA_L_same [simp]:
  "length col = length rows \<Longrightarrow> map col_EMA_L (set_EMA_L col rows) = col"
  by (auto simp: set_EMA_L_def intro!: map_zip_snd)

lemma set_mEMA_S_length [simp]:
  "length col = length rows \<Longrightarrow> length (set_mEMA_S col rows) = length rows"
  by (simp add: set_mEMA_S_def)

lemma set_mEMA_S_other [simp]:
  "length col = length rows \<Longrightarrow> (\<And>r v. g (r\<lparr>mcol_EMA_S := v\<rparr>) = g r) \<Longrightarrow>
   map g (set_mEMA_S col rows) = map g rows"
  by (auto simp: set_mEMA_S_def intro!: map_zip_unchanged)

lemma set_mEMA_S_same [simp]:
  "length col = length rows \<Longrightarrow> map mcol_EMA_S (set_mEMA_S col rows) = col"
  by (auto simp: set_mEMA_S_def intro!: map_zip_snd)

lemma set_mEMA_L_length [simp]:
  "length col = length rows \<Longrightarrow> length (set_mEMA_L col rows) = length rows"
  by (simp add: set_mEMA_L_def)

lemma set_mEMA_L_other [simp]:
  "length col = length rows \<Longrightarrow> (\<And>r v. g (r\<lparr>mcol_EMA_L := v\<rparr>) = g r) \<Longrightarrow>
   map g (set_mEMA_L col rows) = map g rows"
  by (auto simp: set_mEMA_L_def intro!: map_zip_unchanged)

lemma set_mEMA_L_same [simp]:
  "length col = length rows \<Longrightarrow> map mcol_EMA_L (set_mEMA_L col rows) = col"
  by (auto simp: set_mEMA_L_def intro!: map_zip_snd)

lemma set_MACD_length [simp]:
  "length col = length rows \<Longrightarrow> length (set_MACD col rows) = length rows"
  by (simp add: set_MACD_def)

lemma set_MACD_other [simp]:
  "length col = length rows \<Longrightarrow> (\<And>r v. g (r\<lparr>col_MACD := v\<rparr>) = g r) \<Longrightarrow>
   map g (set_MACD col rows) = map g rows"
  by (auto simp: set_MACD_def intro!: map_zip_unchanged)

lemma set_MACD_same [simp]:
  "length col = length rows \<Longrightarrow> map col_MACD (set_MACD col rows) = col"
  by (auto simp: set_MACD_def intro!: map_zip_snd)

lemma set_MACD_Signal_length [simp]:
  "length col = length rows \<Longrightarrow> length (set_MACD_Signal col rows) = length rows"
  by (simp add: set_MACD_Signal_def)

lemma set_MACD_Signal_other [simp]:
  "length col = length rows \<Longrightarrow> (\<And>r v. g (r\<lparr>col_MACD_Signal := v\<rparr>) = g r) \<Longrightarrow>
   map g (set_MACD_Signal col rows) = map g rows"
  by (auto simp: set_MACD_Signal_def intro!: map_zip_unchanged)

lemma set_MACD_Signal_same [simp]:
  "length col = length rows \<Longrightarrow> map col_MACD_Signal (set_MACD_Signal col rows) = col"
  by (auto simp: set_MACD_Signal_def intro!: map_zip_snd)

lemma set_MA_U_length [simp]:
  "length col = length rows \<Longrightarrow> length (set_MA_U col rows) = length rows"
  by (simp add: set_MA_U_def)

lemma set_MA_U_other [simp]:
  "length col = length rows \<Longrightarrow> (\<And>r v. g (r\<lparr>col_MA_U := v\<rparr>) = g r) \<Longrightarrow>
   map g (set_MA_U col rows) = map g rows"
  by (auto simp: set_MA_U_def intro!: map_zip_unchanged)

lemma set_MA_U_same [simp]:
  "length col = length rows \<Longrightarrow> map col_MA_U (set_MA_U col rows) = col"
  by (auto simp: set_MA_U_def intro!: map_zip_snd)

lemma set_MA_D_length [simp]:
  "length col = length rows \<Longrightarrow> length (set_MA_D col rows) = length rows"
  by (simp add: set_MA_D_def)

lemma set_MA_D_other [simp]:
  "length col = length rows \<Longrightarrow> (\<And>r v. g (r\<lparr>col_MA_D := v\<rparr>) = g r) \<Longrightarrow>
   map g (set_MA_D col rows) = map g rows"
  by (auto simp: set_MA_D_def intro!: map_zip_unchanged)

lemma set_MA_D_same [simp]:
  "length col = length rows \<Longrightarrow> map col_MA_D (set_MA_D col rows) = col"
  by (auto simp: set_MA_D_def intro!: map_zip_snd)

lemma set_RSI_length [simp]:
  "length col = length rows \<Longrightarrow> length (set_RSI col rows) = length rows"
  by (simp add: set_RSI_def)

lemma set_RSI_other [simp]:
  "length col = length rows \<Longrightarrow> (\<And>r v. g (r\<lparr>col_RSI := v\<rparr>) = g r) \<Longrightarrow>
   map g (set_RSI col rows) = map g rows"
  by (auto simp: set_RSI_def intro!: map_zip_unchanged)

lemma set_RSI_same [simp]:
  "length col = length rows \<Longrightarrow> map col_RSI (set_RSI col rows) = col"
  by (auto simp: set_RSI_def intro!: map_zip_snd)

lemma set_roll_low_length [simp]:
  "length col = length rows \<Longrightarrow> length (set_roll_low col rows) = length rows"
  by (simp add: set_roll_low_def)

lemma set_roll_low_other [simp]:
  "length col = length rows \<Longrightarrow> (\<And>r v. g (r\<lparr>col_roll_low := v\<rparr>) = g r) \<Longrightarrow>
   map g (set_roll_low col rows) = map g rows"
  by (auto simp: set_roll_low_def intro!: map_zip_unchanged)

lemma set_roll_low_same [simp]:
  "length col = length rows \<Longrightarrow> map col_roll_low (set_roll_low col rows) = col"
  by (auto simp: set_roll_low_def intro!: map_zip_snd)

lemma set_roll_high_length [simp]:
  "length col = length rows \<Longrightarrow> length (set_roll_high col rows) = length rows"
  by (simp add: set_roll_high_def)

lemma set_roll_high_other [simp]:
  "length col = length rows \<Longrightarrow> (\<And>r v. g (r\<lparr>col_roll_high := v\<rparr>) = g r) \<Longrightarrow>
   map g (set_roll_high col rows) = map g rows"
  by (auto simp: set_roll_high_def intro!: map_zip_unchanged)

lemma set_roll_high_same [simp]:
  "length col = length rows \<Longrightarrow> map col_roll_high (set_roll_high col rows) = col"
  by (auto simp: set_roll_high_def intro!: map_zip_snd)

lemma set_K_length [simp]:
  "length col = length rows \<Longrightarrow> length (set_K col rows) = length rows"
  by (simp add: set_K_def)

lemma set_K_other [simp]:
  "length col = length rows \<Longrightarrow> (\<And>r v. g (r\<lparr>col_K := v\<rparr>) = g r) \<Longrightarrow>
   map g (set_K col rows) = map g rows"
  by (auto simp: set_K_def intro!: map_zip_unchanged)

lemma set_K_same [simp]:
  "length col = length rows \<Longrightarrow> map col_K (set_K col rows) = col"
  by (auto simp: set_K_def intro!: map_zip_snd)

lemma set_SO_D_length [simp]:
  "length col = length rows \<Longrightarrow> length (set_SO_D col rows) = length rows"
  by (simp add: set_SO_D_def)

lemma set_SO_D_other [simp]:
  "length col = length rows \<Longrightarrow> (\<And>r v. g (r\<lparr>col_SO_D := v\<rparr>) = g r) \<Longrightarrow>
   map g (set_SO_D col rows) = map g rows"
  by (auto simp: set_SO_D_def intro!: map_zip_unchanged)

lemma set_SO_D_same [simp]:
  "length col = length rows \<Longrightarrow> map col_SO_D (set_SO_D col rows) = col"
  by (auto simp: set_SO_D_def intro!: map_zip_snd)

lemma assign_data:
  "data (fst (assign ser setc self)) = (case ser of Inl e \<Rightarrow> data self | Inr col \<Rightarrow> setc col (data self))"
  by (simp add: assign_def split: sum.splits)

lemma assign_keeps:
  assumes "\<And>col. ser = Inr col \<Longrightarrow> f (setc col (data self)) = f (data self)"
  shows "f (data (fst (assign ser setc self))) = f (data self)"
  using assms by (simp add: assign_def split: sum.splits)

lemma assign_more:
  "fst (assign ser setc self) = self\<lparr>data := data (fst (assign ser setc self))\<rparr>"
  by (simp add: assign_def split: sum.splits)

lemma length_close_col [simp]: "length (close_col rows) = length rows"
  by (simp add: close_col_def)

lemma SMA_set_S_only:
  "map (\<lambda>r. (candle r, returns r, col_SMA_L r)) (data (fst (SMA_set_parameters (Some v) None a))) =
     map (\<lambda>r. (candle r, returns r, col_SMA_L r)) (data a) \<and>
   SMA_L (fst (SMA_set_parameters (Some v) None a)) = SMA_L a"
  by (auto simp: SMA_set_parameters_def andthen_def assign_def Let_def
        dest!: rolling_length split: sum.splits prod.splits)

lemma SMA_set_L_only:
  "map (\<lambda>r. (candle r, returns r, col_SMA_S r)) (data (fst (SMA_set_parameters None (Some v) a))) =
     map (\<lambda>r. (candle r, returns r, col_SMA_S r)) (data a) \<and>
   SMA_S (fst (SMA_set_parameters None (Some v) a)) = SMA_S a"
  by (auto simp: SMA_set_parameters_def andthen_def assign_def Let_def
        dest!: rolling_length split: sum.splits prod.splits)

lemma EMA_set_S_only:
  "map (\<lambda>r. (candle r, returns r, col_EMA_L r)) (data (fst (EMA_set_parameters (Some v) None a))) =
     map (\<lambda>r. (candle r, returns r, col_EMA_L r)) (data a) \<and>
   EMA_L (fst (EMA_set_parameters (Some v) None a)) = EMA_L a"
  by (auto simp: EMA_set_parameters_def andthen_def assign_def Let_def
        dest!: ewm_mean_length split: sum.splits prod.splits)

lemma EMA_set_L_only:
  "map (\<lambda>r. (candle r, returns r, col_EMA_S r)) (data (fst (EMA_set_parameters None (Some v) a))) =
     map (\<lambda>r. (candle r, returns r, col_EMA_S r)) (data a) \<and>
   EMA_S (fst (EMA_set_parameters None (Some v) a)) = EMA_S a"
  by (auto simp: EMA_set_parameters_def andthen_def assign_def Let_def
        dest!: ewm_mean_length split: sum.splits prod.splits)

lemma length_macd_line [simp]: "length (macd_line rows) = length rows"
  by (simp add: macd_line_def)

lemma MACD_set_S_only:
  "map (\<lambda>r. (candle r, returns r, mcol_EMA_L r)) (data (fst (MACD_set_parameters (Some v) None None a))) =
     map (\<lambda>r. (candle r, returns r, mcol_EMA_L r)) (data a) \<and>
   MACD_EMA_L (fst (MACD_set_parameters (Some v) None None a)) = MACD_EMA_L a \<and>
   signal_mw (fst (MACD_set_parameters (Some v) None None a)) = signal_mw a"
  by (auto simp: MACD_set_parameters_def andthen_def assign_def Let_def
        dest!: ewm_mean_length split: sum.splits prod.splits)

lemma MACD_set_L_only:
  "map (\<lambda>r. (candle r, returns r, mcol_EMA_S r)) (data (fst (MACD_set_parameters None (Some v) None a))) =
     map (\<lambda>r. (candle r, returns r, mcol_EMA_S r)) (data a) \<and>
   MACD_EMA_S (fst (MACD_set_parameters None (Some v) None a)) = MACD_EMA_S a \<and>
   signal_mw (fst (MACD_set_parameters None (Some v) None a)) = signal_mw a"
  by (auto simp: MACD_set_parameters_def andthen_def assign_def Let_def
        dest!: ewm_mean_length split: sum.splits prod.splits)

lemma MACD_set_signal_only:
  "map (\<lambda>r. (candle r, returns r, mcol_EMA_S r, mcol_EMA_L r, col_MACD r))
     (data (fst (MACD_set_parameters None None (Some v) a))) =
     map (\<lambda>r. (candle r, returns r, mcol_EMA_S r, mcol_EMA_L r, col_MACD r)) (data a) \<and>
   MACD_EMA_S (fst (MACD_set_parameters None None (Some v) a)) = MACD_EMA_S a \<and>
   MACD_EMA_L (fst (MACD_set_parameters None None (Some v) a)) = MACD_EMA_L a"
  by (auto simp: MACD_set_parameters_def andthen_def assign_def Let_def
        dest!: ewm_mean_length split: sum.splits prod.splits)

lemma RSI_set_periods_only:
  "map (\<lambda>r. (candle r, returns r, col_U r, col_D r)) (data (fst (RSI_set_parameters (Some v) None None a))) =
     map (\<lambda>r. (candle r, returns r, col_U r, col_D r)) (data a) \<and>
   rsi_upper (fst (RSI_set_parameters (Some v) None None a)) = rsi_upper a \<and>
   rsi_lower (fst (RSI_set_parameters (Some v) None None a)) = rsi_lower a"
  by (auto simp: RSI_set_parameters_def andthen_def assign_def Let_def
        dest!: rolling_length split: sum.splits prod.splits)

lemma RSI_set_thresholds_only:
  "data (fst (RSI_set_parameters None up lo a)) = data a \<and>
   RSI_periods (fst (RSI_set_parameters None up lo a)) = RSI_periods a"
  by (auto simp: RSI_set_parameters_def andthen_def split: option.splits)

lemma SO_set_periods_only:
  "map (\<lambda>r. (candle r, returns r)) (data (fst (SO_set_parameters (Some v) None a))) =
     map (\<lambda>r. (candle r, returns r)) (data a) \<and>
   D_mw (fst (SO_set_parameters (Some v) None a)) = D_mw a"
  by (auto simp: SO_set_parameters_def andthen_def assign_def Let_def
        dest!: rolling_length split: sum.splits prod.splits)

lemma SO_set_D_mw_only:
  "map (\<lambda>r. (candle r, returns r, col_roll_low r, col_roll_high r, col_K r))
     (data (fst (SO_set_parameters None (Some v) a))) =
     map (\<lambda>r. (candle r, returns r, col_roll_low r, col_roll_high r, col_K r)) (data a) \<and>
   SO_periods (fst (SO_set_parameters None (Some v) a)) = SO_periods a"
  by (auto simp: SO_set_parameters_def andthen_def assign_def Let_def
        dest!: rolling_length split: sum.splits prod.splits)

lemma SMA_set_S_result:
  assumes "snd (SMA_set_parameters (Some v) None a) = Inr ()"
  shows "SMA_S (fst (SMA_set_parameters (Some v) None a)) = v \<and>
         rolling mean v (close_col (data a)) =
           Inr (map col_SMA_S (data (fst (SMA_set_parameters (Some v) None a))))"
  using assms
  by (auto simp: SMA_set_parameters_def andthen_def assign_def Let_def
        dest!: rolling_length split: sum.splits prod.splits)

lemma SMA_set_L_result:
  assumes "snd (SMA_set_parameters None (Some v) a) = Inr ()"
  shows "SMA_L (fst (SMA_set_parameters None (Some v) a)) = v \<and>
         rolling mean v (close_col (data a)) =
           Inr (map col_SMA_L (data (fst (SMA_set_parameters None (Some v) a))))"
  using assms
  by (auto simp: SMA_set_parameters_def andthen_def assign_def Let_def
        dest!: rolling_length split: sum.splits prod.splits)

lemma EMA_set_S_result:
  assumes "snd (EMA_set_parameters (Some v) None a) = Inr ()"
  shows "EMA_S (fst (EMA_set_parameters (Some v) None a)) = v \<and>
         ewm_mean v (close_col (data a)) =
           Inr (map col_EMA_S (data (fst (EMA_set_parameters (Some v) None a))))"
  using assms
  by (auto simp: EMA_set_parameters_def andthen_def assign_def Let_def
        dest!: ewm_mean_length split: sum.splits prod.splits)

lemma EMA_set_L_result:
  assumes "snd (EMA_set_parameters None (Some v) a) = Inr ()"
  shows "EMA_L (fst (EMA_set_parameters None (Some v) a)) = v \<and>
         ewm_mean v (close_col (data a)) =
           Inr (map col_EMA_L (data (fst (EMA_set_parameters None (Some v) a))))"
  using assms
  by (auto simp: EMA_set_parameters_def andthen_def assign_def Let_def
        dest!: ewm_mean_length split: sum.splits prod.splits)

lemma map_cong_cols3:
  assumes "map f rows = map f rows'" "map g rows = map g rows'" "map k rows = map k rows'"
  shows "map (\<lambda>r. h (f r) (g r) (k r)) rows = map (\<lambda>r. h (f r) (g r) (k r)) rows'"
proof -
  from assms(1) have len: "length rows = length rows'" by (metis length_map)
  show ?thesis
  proof (rule nth_equalityI)
    show "length (map (\<lambda>r. h (f r) (g r) (k r)) rows) = length (map (\<lambda>r. h (f r) (g r) (k r)) rows')"
      using len by simp
  next
    fix i assume "i < length (map (\<lambda>r. h (f r) (g r) (k r)) rows)"
    then have i: "i < length rows" "i < length rows'" using len by simp_all
    from assms i have "f (rows ! i) = f (rows' ! i)" "g (rows ! i) = g (rows' ! i)"
      "k (rows ! i) = k (rows' ! i)"
      by (metis nth_map)+
    with i show "map (\<lambda>r. h (f r) (g r) (k r)) rows ! i = map (\<lambda>r. h (f r) (g r) (k r)) rows' ! i"
      by simp
  qed
qed

lemma macd_line_cong:
  fixes rows rows' :: "macd_row list"
  assumes "map mcol_EMA_S rows = map mcol_EMA_S rows'" "map mcol_EMA_L rows = map mcol_EMA_L rows'"
  shows "macd_line rows = macd_line rows'"
  unfolding macd_line_def
  using map_cong_cols3 [where h = "\<lambda>a b c. fsub a b", OF assms(1) assms(2) assms(2)] by simp

lemma MACD_set_S_result:
  assumes "snd (MACD_set_parameters (Some v) None None c) = Inr ()"
  shows "MACD_EMA_S (fst (MACD_set_parameters (Some v) None None c)) = v \<and>
         ewm_mean v (close_col (data c)) =
           Inr (map mcol_EMA_S (data (fst (MACD_set_parameters (Some v) None None c)))) \<and>
         map col_MACD (data (fst (MACD_set_parameters (Some v) None None c))) =
           macd_line (data (fst (MACD_set_parameters (Some v) None None c))) \<and>
         ewm_mean (signal_mw c) (map col_MACD (data (fst (MACD_set_parameters (Some v) None None c)))) =
           Inr (map col_MACD_Signal (data (fst (MACD_set_parameters (Some v) None None c))))"
proof -
  from assms obtain es sg where es: "ewm_mean v (close_col (data c)) = Inr es"
    and sg: "ewm_mean (signal_mw c) (macd_line (set_mEMA_S es (data c))) = Inr sg"
    by (auto simp: MACD_set_parameters_def andthen_def assign_def Let_def
        dest!: ewm_mean_length split: sum.splits prod.splits)
  from ewm_mean_length [OF es] have les: "length es = length (data c)" by simp
  from ewm_mean_length [OF sg] les have lsg: "length sg = length (data c)" by simp
  let ?d1 = "set_mEMA_S es (data c)"
  let ?d2 = "set_MACD (macd_line ?d1) ?d1"
  let ?d3 = "set_MACD_Signal sg ?d2"
  have f: "fst (MACD_set_parameters (Some v) None None c) = c\<lparr>MACD_EMA_S := v, data := ?d3\<rparr>"
    using es sg les
    by (simp add: MACD_set_parameters_def andthen_def assign_def Let_def)
  have l: "macd_line ?d3 = macd_line ?d1"
    using les lsg by (intro macd_line_cong) simp_all
  show ?thesis
    using es sg les lsg by (simp add: f l)
qed

lemma MACD_set_L_result:
  assumes "snd (MACD_set_parameters None (Some v) None c) = Inr ()"
  shows "MACD_EMA_L (fst (MACD_set_parameters None (Some v) None c)) = v \<and>
         ewm_mean v (close_col (data c)) =
           Inr (map mcol_EMA_L (data (fst (MACD_set_parameters None (Some v) None c)))) \<and>
         map col_MACD (data (fst (MACD_set_parameters None (Some v) None c))) =
           macd_line (data (fst (MACD_set_parameters None (Some v) None c))) \<and>
         ewm_mean (signal_mw c) (map col_MACD (data (fst (MACD_set_parameters None (Some v) None c)))) =
           Inr (map col_MACD_Signal (data (fst (MACD_set_parameters None (Some v) None c))))"
proof -
  from assms obtain es sg where es: "ewm_mean v (close_col (data c)) = Inr es"
    and sg: "ewm_mean (signal_mw c) (macd_line (set_mEMA_L es (data c))) = Inr sg"
    by (auto simp: MACD_set_parameters_def andthen_def assign_def Let_def
        dest!: ewm_mean_length split: sum.splits prod.splits)
  from ewm_mean_length [OF es] have les: "length es = length (data c)" by simp
  from ewm_mean_length [OF sg] les have lsg: "length sg = length (data c)" by simp
  let ?d1 = "set_mEMA_L es (data c)"
  let ?d2 = "set_MACD (macd_line ?d1) ?d1"
  let ?d3 = "set_MACD_Signal sg ?d2"
  have f: "fst (MACD_set_parameters None (Some v) None c) = c\<lparr>MACD_EMA_L := v, data := ?d3\<rparr>"
    using es sg les
    by (simp add: MACD_set_parameters_def andthen_def assign_def Let_def)
  have l: "macd_line ?d3 = macd_line ?d1"
    using les lsg by (intro macd_line_cong) simp_all
  show ?thesis
    using es sg les lsg by (simp add: f l)
qed

lemma MACD_set_signal_result:
  assumes "snd (MACD_set_parameters None None (Some v) c) = Inr ()"
  shows "signal_mw (fst (MACD_set_parameters None None (Some v) c)) = v \<and>
         ewm_mean v (map col_MACD (data c)) =
           Inr (map col_MACD_Signal (data (fst (MACD_set_parameters None None (Some v) c))))"
  using assms
  by (auto simp: MACD_set_parameters_def andthen_def assign_def Let_def
        dest!: ewm_mean_length split: sum.splits prod.splits)

lemma rsi_line_cong:
  fixes rows rows' :: "rsi_row list"
  assumes "map col_MA_U rows = map col_MA_U rows'" "map col_MA_D rows = map col_MA_D rows'"
  shows "map (\<lambda>r. rsi_value (col_MA_U r) (col_MA_D r)) rows =
         map (\<lambda>r. rsi_value (col_MA_U r) (col_MA_D r)) rows'"
  using map_cong_cols3 [where h = "\<lambda>a b c. rsi_value a b", OF assms(1) assms(2) assms(2)]
  by simp

lemma RSI_set_periods_result:
  assumes "snd (RSI_set_parameters (Some v) None None d) = Inr ()"
  shows "RSI_periods (fst (RSI_set_parameters (Some v) None None d)) = v \<and>
         rolling mean v (map col_U (data d)) =
           Inr (map col_MA_U (data (fst (RSI_set_parameters (Some v) None None d)))) \<and>
         rolling mean v (map col_D (data d)) =
           Inr (map col_MA_D (data (fst (RSI_set_parameters (Some v) None None d)))) \<and>
         map col_RSI (data (fst (RSI_set_parameters (Some v) None None d))) =
           map (\<lambda>r. rsi_value (col_MA_U r) (col_MA_D r))
             (data (fst (RSI_set_parameters (Some v) None None d)))"
proof -
  from assms have v: "0 \<le> v"
    by (auto simp: RSI_set_parameters_def andthen_def assign_def Let_def rolling_def
        split: sum.splits prod.splits if_splits)
  let ?u = "rolling_from mean (nat v) [] (map col_U (data d))"
  let ?dn = "rolling_from mean (nat v) [] (map col_D (data d))"
  let ?d1 = "set_MA_U ?u (data d)"
  let ?d2 = "set_MA_D ?dn ?d1"
  let ?d3 = "set_RSI (map (\<lambda>r. rsi_value (col_MA_U r) (col_MA_D r)) ?d2) ?d2"
  have f: "fst (RSI_set_parameters (Some v) None None d) = d\<lparr>RSI_periods := v, data := ?d3\<rparr>"
    using v by (simp add: RSI_set_parameters_def andthen_def assign_def Let_def rolling_def)
  have l: "map (\<lambda>r. rsi_value (col_MA_U r) (col_MA_D r)) ?d3 =
           map (\<lambda>r. rsi_value (col_MA_U r) (col_MA_D r)) ?d2"
    by (intro rsi_line_cong) simp_all
  show ?thesis
    using v by (simp add: f l rolling_def)
qed

lemma RSI_set_thresholds_result:
  "snd (RSI_set_parameters None up lo d) = Inr () \<and>
   rsi_upper (fst (RSI_set_parameters None up lo d)) = (case up of None \<Rightarrow> rsi_upper d | Some u \<Rightarrow> u) \<and>
   rsi_lower (fst (RSI_set_parameters None up lo d)) = (case lo of None \<Rightarrow> rsi_lower d | Some l \<Rightarrow> l)"
  by (auto simp: RSI_set_parameters_def andthen_def split: option.splits)

lemma k_line_cong:
  fixes rows rows' :: "so_row list"
  assumes "map candle rows = map candle rows'" "map col_roll_low rows = map col_roll_low rows'"
    "map col_roll_high rows = map col_roll_high rows'"
  shows "map (\<lambda>r. k_value (Close (candle r)) (col_roll_low r) (col_roll_high r)) rows =
         map (\<lambda>r. k_value (Close (candle r)) (col_roll_low r) (col_roll_high r)) rows'"
  using map_cong_cols3 [where h = "\<lambda>a b c. k_value (Close a) b c", OF assms]
  by simp

lemma SO_set_periods_result:
  assumes "snd (SO_set_parameters (Some v) None e) = Inr ()"
  shows "SO_periods (fst (SO_set_parameters (Some v) None e)) = v \<and>
         rolling list_min v (map (\<lambda>r. Some (Low (candle r))) (data e)) =
           Inr (map col_roll_low (data (fst (SO_set_parameters (Some v) None e)))) \<and>
         rolling list_max v (map (\<lambda>r. Some (High (candle r))) (data e)) =
           Inr (map col_roll_high (data (fst (SO_set_parameters (Some v) None e)))) \<and>
         map col_K (data (fst (SO_set_parameters (Some v) None e))) =
           map (\<lambda>r. k_value (Close (candle r)) (col_roll_low r) (col_roll_high r))
             (data (fst (SO_set_parameters (Some v) None e))) \<and>
         rolling mean (D_mw e) (map col_K (data (fst (SO_set_parameters (Some v) None e)))) =
           Inr (map col_SO_D (data (fst (SO_set_parameters (Some v) None e))))"
proof -
  from assms have v: "0 \<le> v" and w: "0 \<le> D_mw e"
    by (auto simp: SO_set_parameters_def andthen_def assign_def Let_def rolling_def
        split: sum.splits prod.splits if_splits)
  let ?lo = "rolling_from list_min (nat v) [] (map (\<lambda>r. Some (Low (candle r))) (data e))"
  let ?hi = "rolling_from list_max (nat v) [] (map (\<lambda>r. Some (High (candle r))) (data e))"
  let ?d1 = "set_roll_low ?lo (data e)"
  let ?d2 = "set_roll_high ?hi ?d1"
  let ?k = "map (\<lambda>r. k_value (Close (candle r)) (col_roll_low r) (col_roll_high r)) ?d2"
  let ?d3 = "set_K ?k ?d2"
  let ?dd = "rolling_from mean (nat (D_mw e)) [] ?k"
  let ?d4 = "set_SO_D ?dd ?d3"
  have c1: "map (\<lambda>r. Some (High (candle r))) ?d1 = map (\<lambda>r. Some (High (candle r))) (data e)"
    by simp
  have f: "fst (SO_set_parameters (Some v) None e) = e\<lparr>SO_periods := v, data := ?d4\<rparr>"
    using v w by (simp add: SO_set_parameters_def andthen_def assign_def Let_def rolling_def c1)
  have l: "map (\<lambda>r. k_value (Close (candle r)) (col_roll_low r) (col_roll_high r)) ?d4 = ?k"
    by (intro k_line_cong) simp_all
  show ?thesis
    using v w by (simp add: f l rolling_def)
qed

lemma SO_set_D_mw_result:
  assumes "snd (SO_set_parameters None (Some v) e) = Inr ()"
  shows "D_mw (fst (SO_set_parameters None (Some v) e)) = v \<and>
         rolling mean v (map col_K (data e)) =
           Inr (map col_SO_D (data (fst (SO_set_parameters None (Some v) e))))"
  using assms
  by (auto simp: SO_set_parameters_def andthen_def assign_def Let_def
        dest!: rolling_length split: sum.splits prod.splits)

lemma init_params:
  "SMA_init n s l st en g c cs = Inr a1 \<Longrightarrow> SMA_S a1 = s \<and> SMA_L a1 = l \<and> tc a1 = c"
  "EMA_init n s l st en g c cs = Inr a2 \<Longrightarrow> EMA_S a2 = s \<and> EMA_L a2 = l \<and> tc a2 = c"
  "MACD_init n s l sg st en g c cs = Inr a3 \<Longrightarrow>
     MACD_EMA_S a3 = s \<and> MACD_EMA_L a3 = l \<and> signal_mw a3 = sg \<and> tc a3 = c"
  "RSI_init n p up lo st en g c cs = Inr a4 \<Longrightarrow>
     RSI_periods a4 = p \<and> rsi_upper a4 = up \<and> rsi_lower a4 = lo \<and> tc a4 = c"
  "SO_init n p dw st en g c cs = Inr a5 \<Longrightarrow> SO_periods a5 = p \<and> D_mw a5 = dw \<and> tc a5 = c"
  by (auto simp: SMA_init_def EMA_init_def MACD_init_def RSI_init_def SO_init_def split: sum.splits)

lemma set_one_ok:
  "snd (SMA_set_parameters (Some v) None a1) = (if v < 0 then Inl ValueError else Inr ())"
  "snd (SMA_set_parameters None (Some v) a1) = (if v < 0 then Inl ValueError else Inr ())"
  "snd (EMA_set_parameters (Some v) None a2) = (if v < 1 then Inl ValueError else Inr ())"
  "snd (EMA_set_parameters None (Some v) a2) = (if v < 1 then Inl ValueError else Inr ())"
  "snd (MACD_set_parameters (Some v) None None a3) =
     (if v < 1 \<or> signal_mw a3 < 1 then Inl ValueError else Inr ())"
  "snd (MACD_set_parameters None (Some v) None a3) =
     (if v < 1 \<or> signal_mw a3 < 1 then Inl ValueError else Inr ())"
  "snd (MACD_set_parameters None None (Some v) a3) = (if v < 1 then Inl ValueError else Inr ())"
  "snd (RSI_set_parameters (Some v) None None a4) = (if v < 0 then Inl ValueError else Inr ())"
  "snd (SO_set_parameters (Some v) None a5) =
     (if v < 0 \<or> D_mw a5 < 0 then Inl ValueError else Inr ())"
  "snd (SO_set_parameters None (Some v) a5) = (if v < 0 then Inl ValueError else Inr ())"
  by (auto simp: SMA_set_parameters_def EMA_set_parameters_def MACD_set_parameters_def
        RSI_set_parameters_def SO_set_parameters_def andthen_def assign_def Let_def rolling_def
        ewm_mean_def split: sum.splits prod.splits)

lemma macd_example_resized:
  "map (\<lambda>r. (mcol_EMA_S r, mcol_EMA_L r, col_MACD r, col_MACD_Signal r))
     (data (fst (MACD_set_parameters (Some 2) None None macd_example))) =
   [(None, None, None, None),
    (Some (7 / 4), Some (7 / 4), Some 0, Some 0),
    (Some (16 / 13), Some (16 / 13), Some 0, Some 0),
    (Some (7 / 4), Some (7 / 4), Some 0, Some 0)]"
  by (simp add: MACD_set_parameters_def andthen_def assign_def macd_example_data
      init_params(3) [OF macd_example_init] close_col_def flat_candle_def
      set_mEMA_S_def set_MACD_def set_MACD_Signal_def macd_line_def series_eval del: not_None_eq)

lemma so_example_resized:
  "map (\<lambda>r. (col_roll_low r, col_roll_high r, col_K r, col_SO_D r))
     (data (fst (SO_set_parameters (Some 1) None so_example))) =
   [(Some 1, Some 3, Some 50, Some 50),
    (Some 2, Some 4, Some 100, Some 100),
    (Some 1, Some 4, Some (100 / 3), Some (100 / 3)),
    (Some 2, Some 3, Some 100, Some 100)]"
  by (simp add: SO_set_parameters_def andthen_def assign_def so_example_data
      init_params(5) [OF so_example_init]
      set_roll_low_def set_roll_high_def set_K_def set_SO_D_def k_value_def series_eval
      del: not_None_eq)

lemma macd_line_map2:
  "macd_line rows = map2 fsub (map mcol_EMA_S rows) (map mcol_EMA_L rows)"
  by (induction rows) (simp_all add: macd_line_def)

text \<open>
  C7, as the code has it. \<open>set_parameters\<close> called with a value for one parameter only
  leaves untouched, also when it raises, the candles (the price columns), the log-returns,
  the other parameters and every column that is not computed from the supplied parameter;
  when it returns it has stored the parameter and recomputed every column that is computed
  from it, directly or through another column. For SMABacktester and EMABacktester a new
  window recomputes its own average and leaves the other one. For MACDBacktester a new
  \<open>EMA_S\<close> (or \<open>EMA_L\<close>) recomputes that average, the MACD line and the signal line, the
  last with the stored \<open>signal_mw\<close>, and leaves the other average; a new \<open>signal_mw\<close>
  recomputes the signal line only. For RSIBacktester a new \<open>periods\<close> recomputes both
  rolling means and the index and leaves U and D; a threshold changes no column. For
  SOBacktester a new \<open>periods\<close> recomputes the rolling low, the rolling high, K and, with
  the stored \<open>D_mw\<close>, the D column; a new \<open>D_mw\<close> recomputes the D column only.
\<close>

theorem set_parameters_one_axis:
  "(let a' = fst (SMA_set_parameters (Some v) None a) in
      map (\<lambda>r. (candle r, returns r, col_SMA_L r)) (data a') =
        map (\<lambda>r. (candle r, returns r, col_SMA_L r)) (data a) \<and>
      SMA_L a' = SMA_L a \<and>
      (snd (SMA_set_parameters (Some v) None a) = Inr () \<longrightarrow>
         SMA_S a' = v \<and> rolling mean v (close_col (data a)) = Inr (map col_SMA_S (data a')))) \<and>
   (let a' = fst (SMA_set_parameters None (Some v) a) in
      map (\<lambda>r. (candle r, returns r, col_SMA_S r)) (data a') =
        map (\<lambda>r. (candle r, returns r, col_SMA_S r)) (data a) \<and>
      SMA_S a' = SMA_S a \<and>
      (snd (SMA_set_parameters None (Some v) a) = Inr () \<longrightarrow>
         SMA_L a' = v \<and> rolling mean v (close_col (data a)) = Inr (map col_SMA_L (data a')))) \<and>
   (let b' = fst (EMA_set_parameters (Some v) None b) in
      map (\<lambda>r. (candle r, returns r, col_EMA_L r)) (data b') =
        map (\<lambda>r. (candle r, returns r, col_EMA_L r)) (data b) \<and>
      EMA_L b' = EMA_L b \<and>
      (snd (EMA_set_parameters (Some v) None b) = Inr () \<longrightarrow>
         EMA_S b' = v \<and> ewm_mean v (close_col (data b)) = Inr (map col_EMA_S (data b')))) \<and>
   (let b' = fst (EMA_set_parameters None (Some v) b) in
      map (\<lambda>r. (candle r, returns r, col_EMA_S r)) (data b') =
        map (\<lambda>r. (candle r, returns r, col_EMA_S r)) (data b) \<and>
      EMA_S b' = EMA_S b \<and>
      (snd (EMA_set_parameters None (Some v) b) = Inr () \<longrightarrow>
         EMA_L b' = v \<and> ewm_mean v (close_col (data b)) = Inr (map col_EMA_L (data b')))) \<and>
   (let c' = fst (MACD_set_parameters (Some v) None None c) in
      map (\<lambda>r. (candle r, returns r, mcol_EMA_L r)) (data c') =
        map (\<lambda>r. (candle r, returns r, mcol_EMA_L r)) (data c) \<and>
      MACD_EMA_L c' = MACD_EMA_L c \<and> signal_mw c' = signal_mw c \<and>
      (snd (MACD_set_parameters (Some v) None None c) = Inr () \<longrightarrow>
         MACD_EMA_S c' = v \<and>
         ewm_mean v (close_col (data c)) = Inr (map mcol_EMA_S (data c')) \<and>
         map col_MACD (data c') = macd_line (data c') \<and>
         ewm_mean (signal_mw c) (map col_MACD (data c')) = Inr (map col_MACD_Signal (data c')))) \<and>
   (let c' = fst (MACD_set_parameters None (Some v) None c) in
      map (\<lambda>r. (candle r, returns r, mcol_EMA_S r)) (data c') =
        map (\<lambda>r. (candle r, returns r, mcol_EMA_S r)) (data c) \<and>
      MACD_EMA_S c' = MACD_EMA_S c \<and> signal_mw c' = signal_mw c \<and>
      (snd (MACD_set_parameters None (Some v) None c) = Inr () \<longrightarrow>
         MACD_EMA_L c' = v \<and>
         ewm_mean v (close_col (data c)) = Inr (map mcol_EMA_L (data c')) \<and>
         map col_MACD (data c') = macd_line (data c') \<and>
         ewm_mean (signal_mw c) (map col_MACD (data c')) = Inr (map col_MACD_Signal (data c')))) \<and>
   (let c' = fst (MACD_set_parameters None None (Some v) c) in
      map (\<lambda>r. (candle r, returns r, mcol_EMA_S r, mcol_EMA_L r, col_MACD r)) (data c') =
        map (\<lambda>r. (candle r, returns r, mcol_EMA_S r, mcol_EMA_L r, col_MACD r)) (data c) \<and>
      MACD_EMA_S c' = MACD_EMA_S c \<and> MACD_EMA_L c' = MACD_EMA_L c \<and>
      (snd (MACD_set_parameters None None (Some v) c) = Inr () \<longrightarrow>
         signal_mw c' = v \<and>
         ewm_mean v (map col_MACD (data c)) = Inr (map col_MACD_Signal (data c')))) \<and>
   (let d' = fst (RSI_set_parameters (Some v) None None d) in
      map (\<lambda>r. (candle r, returns r, col_U r, col_D r)) (data d') =
        map (\<lambda>r. (candle r, returns r, col_U r, col_D r)) (data d) \<and>
      rsi_upper d' = rsi_upper d \<and> rsi_lower d' = rsi_lower d \<and>
      (snd (RSI_set_parameters (Some v) None None d) = Inr () \<longrightarrow>
         RSI_periods d' = v \<and>
         rolling mean v (map col_U (data d)) = Inr (map col_MA_U (data d')) \<and>
         rolling mean v (map col_D (data d)) = Inr (map col_MA_D (data d')) \<and>
         map col_RSI (data d') = map (\<lambda>r. rsi_value (col_MA_U r) (col_MA_D r)) (data d'))) \<and>
   (let d' = fst (RSI_set_parameters None up lo d) in
      data d' = data d \<and> RSI_periods d' = RSI_periods d \<and>
      snd (RSI_set_parameters None up lo d) = Inr () \<and>
      rsi_upper d' = (case up of None \<Rightarrow> rsi_upper d | Some u \<Rightarrow> u) \<and>
      rsi_lower d' = (case lo of None \<Rightarrow> rsi_lower d | Some l \<Rightarrow> l)) \<and>
   (let e' = fst (SO_set_parameters (Some v) None e) in
      map (\<lambda>r. (candle r, returns r)) (data e') = map (\<lambda>r. (candle r, returns r)) (data e) \<and>
      D_mw e' = D_mw e \<and>
      (snd (SO_set_parameters (Some v) None e) = Inr () \<longrightarrow>
         SO_periods e' = v \<and>
         rolling list_min v (map (\<lambda>r. Some (Low (candle r))) (data e)) =
           Inr (map col_roll_low (data e')) \<and>
         rolling list_max v (map (\<lambda>r. Some (High (candle r))) (data e)) =
           Inr (map col_roll_high (data e')) \<and>
         map col_K (data e') =
           map (\<lambda>r. k_value (Close (candle r)) (col_roll_low r) (col_roll_high r)) (data e') \<and>
         rolling mean (D_mw e) (map col_K (data e')) = Inr (map col_SO_D (data e')))) \<and>
   (let e' = fst (SO_set_parameters None (Some v) e) in
      map (\<lambda>r. (candle r, returns r, col_roll_low r, col_roll_high r, col_K r)) (data e') =
        map (\<lambda>r. (candle r, returns r, col_roll_low r, col_roll_high r, col_K r)) (data e) \<and>
      SO_periods e' = SO_periods e \<and>
      (snd (SO_set_parameters None (Some v) e) = Inr () \<longrightarrow>
         D_mw e' = v \<and> rolling mean v (map col_K (data e)) = Inr (map col_SO_D (data e'))))"
proof -
  have 1: "let a' = fst (SMA_set_parameters (Some v) None a) in
      map (\<lambda>r. (candle r, returns r, col_SMA_L r)) (data a') =
        map (\<lambda>r. (candle r, returns r, col_SMA_L r)) (data a) \<and>
      SMA_L a' = SMA_L a \<and>
      (snd (SMA_set_parameters (Some v) None a) = Inr () \<longrightarrow>
         SMA_S a' = v \<and> rolling mean v (close_col (data a)) = Inr (map col_SMA_S (data a')))"
    unfolding Let_def using SMA_set_S_only [of v a] SMA_set_S_result [of v a] by blast
  have 2: "let a' = fst (SMA_set_parameters None (Some v) a) in
      map (\<lambda>r. (candle r, returns r, col_SMA_S r)) (data a') =
        map (\<lambda>r. (candle r, returns r, col_SMA_S r)) (data a) \<and>
      SMA_S a' = SMA_S a \<and>
      (snd (SMA_set_parameters None (Some v) a) = Inr () \<longrightarrow>
         SMA_L a' = v \<and> rolling mean v (close_col (data a)) = Inr (map col_SMA_L (data a')))"
    unfolding Let_def using SMA_set_L_only [of v a] SMA_set_L_result [of v a] by blast
  have 3: "let b' = fst (EMA_set_parameters (Some v) None b) in
      map (\<lambda>r. (candle r, returns r, col_EMA_L r)) (data b') =
        map (\<lambda>r. (candle r, returns r, col_EMA_L r)) (data b) \<and>
      EMA_L b' = EMA_L b \<and>
      (snd (EMA_set_parameters (Some v) None b) = Inr () \<longrightarrow>
         EMA_S b' = v \<and> ewm_mean v (close_col (data b)) = Inr (map col_EMA_S (data b')))"
    unfolding Let_def using EMA_set_S_only [of v b] EMA_set_S_result [of v b] by blast
  have 4: "let b' = fst (EMA_set_parameters None (Some v) b) in
      map (\<lambda>r. (candle r, returns r, col_EMA_S r)) (data b') =
        map (\<lambda>r. (candle r, returns r, col_EMA_S r)) (data b) \<and>
      EMA_S b' = EMA_S b \<and>
      (snd (EMA_set_parameters None (Some v) b) = Inr () \<longrightarrow>
         EMA_L b' = v \<and> ewm_mean v (close_col (data b)) = Inr (map col_EMA_L (data b')))"
    unfolding Let_def using EMA_set_L_only [of v b] EMA_set_L_result [of v b] by blast
  have 5: "let c' = fst (MACD_set_parameters (Some v) None None c) in
      map (\<lambda>r. (candle r, returns r, mcol_EMA_L r)) (data c') =
        map (\<lambda>r. (candle r, returns r, mcol_EMA_L r)) (data c) \<and>
      MACD_EMA_L c' = MACD_EMA_L c \<and> signal_mw c' = signal_mw c \<and>
      (snd (MACD_set_parameters (Some v) None None c) = Inr () \<longrightarrow>
         MACD_EMA_S c' = v \<and>
         ewm_mean v (close_col (data c)) = Inr (map mcol_EMA_S (data c')) \<and>
         map col_MACD (data c') = macd_line (data c') \<and>
         ewm_mean (signal_mw c) (map col_MACD (data c')) = Inr (map col_MACD_Signal (data c')))"
    unfolding Let_def using MACD_set_S_only [of v c] MACD_set_S_result [of v c] by blast
  have 6: "let c' = fst (MACD_set_parameters None (Some v) None c) in
      map (\<lambda>r. (candle r, returns r, mcol_EMA_S r)) (data c') =
        map (\<lambda>r. (candle r, returns r, mcol_EMA_S r)) (data c) \<and>
      MACD_EMA_S c' = MACD_EMA_S c \<and> signal_mw c' = signal_mw c \<and>
      (snd (MACD_set_parameters None (Some v) None c) = Inr () \<longrightarrow>
         MACD_EMA_L c' = v \<and>
         ewm_mean v (close_col (data c)) = Inr (map mcol_EMA_L (data c')) \<and>
         map col_MACD (data c') = macd_line (data c') \<and>
         ewm_mean (signal_mw c) (map col_MACD (data c')) = Inr (map col_MACD_Signal (data c')))"
    unfolding Let_def using MACD_set_L_only [of v c] MACD_set_L_result [of v c] by blast
  have 7: "let c' = fst (MACD_set_parameters None None (Some v) c) in
      map (\<lambda>r. (candle r, returns r, mcol_EMA_S r, mcol_EMA_L r, col_MACD r)) (data c') =
        map (\<lambda>r. (candle r, returns r, mcol_EMA_S r, mcol_EMA_L r, col_MACD r)) (data c) \<and>
      MACD_EMA_S c' = MACD_EMA_S c \<and> MACD_EMA_L c' = MACD_EMA_L c \<and>
      (snd (MACD_set_parameters None None (Some v) c) = Inr () \<longrightarrow>
         signal_mw c' = v \<and>
         ewm_mean v (map col_MACD (data c)) = Inr (map col_MACD_Signal (data c')))"
    unfolding Let_def using MACD_set_signal_only [of v c] MACD_set_signal_result [of v c] by blast
  have 8: "let d' = fst (RSI_set_parameters (Some v) None None d) in
      map (\<lambda>r. (candle r, returns r, col_U r, col_D r)) (data d') =
        map (\<lambda>r. (candle r, returns r, col_U r, col_D r)) (data d) \<and>
      rsi_upper d' = rsi_upper d \<and> rsi_lower d' = rsi_lower d \<and>
      (snd (RSI_set_parameters (Some v) None None d) = Inr () \<longrightarrow>
         RSI_periods d' = v \<and>
         rolling mean v (map col_U (data d)) = Inr (map col_MA_U (data d')) \<and>
         rolling mean v (map col_D (data d)) = Inr (map col_MA_D (data d')) \<and>
         map col_RSI (data d') = map (\<lambda>r. rsi_value (col_MA_U r) (col_MA_D r)) (data d'))"
    unfolding Let_def using RSI_set_periods_only [of v d] RSI_set_periods_result [of v d] by blast
  have 9: "let d' = fst (RSI_set_parameters None up lo d) in
      data d' = data d \<and> RSI_periods d' = RSI_periods d \<and>
      snd (RSI_set_parameters None up lo d) = Inr () \<and>
      rsi_upper d' = (case up of None \<Rightarrow> rsi_upper d | Some u \<Rightarrow> u) \<and>
      rsi_lower d' = (case lo of None \<Rightarrow> rsi_lower d | Some l \<Rightarrow> l)"
    unfolding Let_def using RSI_set_thresholds_only [of up lo d] RSI_set_thresholds_result [of up lo d]
    by blast
  have 10: "let e' = fst (SO_set_parameters (Some v) None e) in
      map (\<lambda>r. (candle r, returns r)) (data e') = map (\<lambda>r. (candle r, returns r)) (data e) \<and>
      D_mw e' = D_mw e \<and>
      (snd (SO_set_parameters (Some v) None e) = Inr () \<longrightarrow>
         SO_periods e' = v \<and>
         rolling list_min v (map (\<lambda>r. Some (Low (candle r))) (data e)) =
           Inr (map col_roll_low (data e')) \<and>
         rolling list_max v (map (\<lambda>r. Some (High (candle r))) (data e)) =
           Inr (map col_roll_high (data e')) \<and>
         map col_K (data e') =
           map (\<lambda>r. k_value (Close (candle r)) (col_roll_low r) (col_roll_high r)) (data e') \<and>
         rolling mean (D_mw e) (map col_K (data e')) = Inr (map col_SO_D (data e')))"
    unfolding Let_def using SO_set_periods_only [of v e] SO_set_periods_result [of v e] by blast
  have 11: "let e' = fst (SO_set_parameters None (Some v) e) in
      map (\<lambda>r. (candle r, returns r, col_roll_low r, col_roll_high r, col_K r)) (data e') =
        map (\<lambda>r. (candle r, returns r, col_roll_low r, col_roll_high r, col_K r)) (data e) \<and>
      SO_periods e' = SO_periods e \<and>
      (snd (SO_set_parameters None (Some v) e) = Inr () \<longrightarrow>
         D_mw e' = v \<and> rolling mean v (map col_K (data e)) = Inr (map col_SO_D (data e')))"
    unfolding Let_def using SO_set_D_mw_only [of v e] SO_set_D_mw_result [of v e] by blast
  show ?thesis
    by (rule conjI [OF 1 conjI [OF 2 conjI [OF 3 conjI [OF 4 conjI [OF 5 conjI [OF 6
        conjI [OF 7 conjI [OF 8 conjI [OF 9 conjI [OF 10 11]]]]]]]]]])
qed

theorem set_parameters_one_axis_witness:
  "(snd (SMA_set_parameters (Some 2) None sma_example) = Inr () \<and>
    SMA_S (fst (SMA_set_parameters (Some 2) None sma_example)) = 2 \<and>
    map col_SMA_S (data (fst (SMA_set_parameters (Some 2) None sma_example))) =
      [None, Some (3 / 2), Some (3 / 2), Some (3 / 2)] \<and>
    map col_SMA_L (data (fst (SMA_set_parameters (Some 2) None sma_example))) =
      [None, Some (3 / 2), Some (3 / 2), Some (3 / 2)]) \<and>
   (snd (SMA_set_parameters None (Some 2) sma_example) = Inr () \<and>
    SMA_L (fst (SMA_set_parameters None (Some 2) sma_example)) = 2) \<and>
   (snd (EMA_set_parameters (Some 2) None ema_example) = Inr () \<and>
    EMA_S (fst (EMA_set_parameters (Some 2) None ema_example)) = 2) \<and>
   (snd (EMA_set_parameters None (Some 2) ema_example) = Inr () \<and>
    EMA_L (fst (EMA_set_parameters None (Some 2) ema_example)) = 2) \<and>
   (snd (MACD_set_parameters (Some 2) None None macd_example) = Inr () \<and>
    MACD_EMA_S (fst (MACD_set_parameters (Some 2) None None macd_example)) = 2 \<and>
    signal_mw (fst (MACD_set_parameters (Some 2) None None macd_example)) = 1 \<and>
    map mcol_EMA_S (data (fst (MACD_set_parameters (Some 2) None None macd_example))) =
      [None, Some (7 / 4), Some (16 / 13), Some (7 / 4)] \<and>
    map mcol_EMA_L (data (fst (MACD_set_parameters (Some 2) None None macd_example))) =
      [None, Some (7 / 4), Some (16 / 13), Some (7 / 4)] \<and>
    map col_MACD (data (fst (MACD_set_parameters (Some 2) None None macd_example))) =
      [None, Some 0, Some 0, Some 0] \<and>
    map col_MACD_Signal (data (fst (MACD_set_parameters (Some 2) None None macd_example))) =
      [None, Some 0, Some 0, Some 0]) \<and>
   (snd (MACD_set_parameters None (Some 2) None macd_example) = Inr () \<and>
    MACD_EMA_L (fst (MACD_set_parameters None (Some 2) None macd_example)) = 2) \<and>
   (snd (MACD_set_parameters None None (Some 2) macd_example) = Inr () \<and>
    signal_mw (fst (MACD_set_parameters None None (Some 2) macd_example)) = 2) \<and>
   (snd (RSI_set_parameters (Some 2) None None rsi_example) = Inr () \<and>
    RSI_periods (fst (RSI_set_parameters (Some 2) None None rsi_example)) = 2) \<and>
   (data (fst (RSI_set_parameters None (Some 80) (Some 20) rsi_example)) = data rsi_example \<and>
    rsi_upper (fst (RSI_set_parameters None (Some 80) (Some 20) rsi_example)) = 80 \<and>
    rsi_lower (fst (RSI_set_parameters None (Some 80) (Some 20) rsi_example)) = 20) \<and>
   (snd (SO_set_parameters (Some 2) None so_example) = Inr () \<and>
    SO_periods (fst (SO_set_parameters (Some 2) None so_example)) = 2 \<and>
    D_mw (fst (SO_set_parameters (Some 2) None so_example)) = 1) \<and>
   (snd (SO_set_parameters None (Some 2) so_example) = Inr () \<and>
    D_mw (fst (SO_set_parameters None (Some 2) so_example)) = 2 \<and>
    map col_K (data (fst (SO_set_parameters None (Some 2) so_example))) =
      [None, Some 100, Some (100 / 3), Some (200 / 3)] \<and>
    map col_SO_D (data (fst (SO_set_parameters None (Some 2) so_example))) =
      [None, None, Some (200 / 3), Some 50])"
proof -
  note t = set_parameters_one_axis
    [of 2 sma_example ema_example macd_example rsi_example "Some 80" "Some 20" so_example,
     unfolded Let_def]
  note mp = init_params(3) [OF macd_example_init]
  note sp = init_params(5) [OF so_example_init]
  have ok: "snd (SMA_set_parameters (Some 2) None sma_example) = Inr ()"
    "snd (SMA_set_parameters None (Some 2) sma_example) = Inr ()"
    "snd (EMA_set_parameters (Some 2) None ema_example) = Inr ()"
    "snd (EMA_set_parameters None (Some 2) ema_example) = Inr ()"
    "snd (MACD_set_parameters (Some 2) None None macd_example) = Inr ()"
    "snd (MACD_set_parameters None (Some 2) None macd_example) = Inr ()"
    "snd (MACD_set_parameters None None (Some 2) macd_example) = Inr ()"
    "snd (RSI_set_parameters (Some 2) None None rsi_example) = Inr ()"
    "snd (SO_set_parameters (Some 2) None so_example) = Inr ()"
    "snd (SO_set_parameters None (Some 2) so_example) = Inr ()"
    by (simp_all add: set_one_ok mp sp)
  have cs: "close_col (data sma_example) = [Some 1, Some 2, Some 1, Some 2]"
    by (simp add: sma_example_data close_col_def flat_candle_def)
  have cm: "close_col (data macd_example) = [Some 1, Some 2, Some 1, Some 2]"
    by (simp add: macd_example_data close_col_def flat_candle_def)
  have r2: "rolling mean 2 [Some 1, Some 2, Some 1, Some 2] =
      Inr [None, Some (3 / 2), Some (3 / 2), Some (3 / 2)]"
    by (simp add: series_eval del: not_None_eq)
  have e2: "ewm_mean 2 [Some 1, Some 2, Some 1, Some 2] =
       Inr [None, Some (7 / 4), Some (16 / 13), Some (7 / 4)]"
    by (simp add: series_eval del: not_None_eq)
  have e1: "ewm_mean 1 [None, Some 0, Some 0, Some 0] = Inr [None, Some 0, Some 0, Some 0]"
    by (simp add: series_eval del: not_None_eq)
  have rk: "rolling mean 2 [None, Some 100, Some (100 / 3), Some (200 / 3)] =
      Inr [None, None, Some (200 / 3), Some 50]"
    by (simp add: series_eval del: not_None_eq)
  have g1: "snd (SMA_set_parameters (Some 2) None sma_example) = Inr () \<and>
    SMA_S (fst (SMA_set_parameters (Some 2) None sma_example)) = 2 \<and>
    map col_SMA_S (data (fst (SMA_set_parameters (Some 2) None sma_example))) =
      [None, Some (3 / 2), Some (3 / 2), Some (3 / 2)] \<and>
    map col_SMA_L (data (fst (SMA_set_parameters (Some 2) None sma_example))) =
      [None, Some (3 / 2), Some (3 / 2), Some (3 / 2)]"
  proof -
    from t ok(1) have a: "SMA_S (fst (SMA_set_parameters (Some 2) None sma_example)) = 2"
      and b: "rolling mean 2 (close_col (data sma_example)) =
           Inr (map col_SMA_S (data (fst (SMA_set_parameters (Some 2) None sma_example))))"
      and c: "map (\<lambda>r. (candle r, returns r, col_SMA_L r))
           (data (fst (SMA_set_parameters (Some 2) None sma_example))) =
           map (\<lambda>r. (candle r, returns r, col_SMA_L r)) (data sma_example)"
      by blast+
    from arg_cong [OF c, of "map (\<lambda>(x, y, z). z)"]
    have "map col_SMA_L (data (fst (SMA_set_parameters (Some 2) None sma_example))) =
        map col_SMA_L (data sma_example)"
      by (simp add: o_def)
    then have d: "map col_SMA_L (data (fst (SMA_set_parameters (Some 2) None sma_example))) =
        [None, Some (3 / 2), Some (3 / 2), Some (3 / 2)]"
      by (simp add: sma_example_data)
    from b have "map col_SMA_S (data (fst (SMA_set_parameters (Some 2) None sma_example))) =
      [None, Some (3 / 2), Some (3 / 2), Some (3 / 2)]"
      by (simp add: cs r2)
    with ok(1) a d show ?thesis by blast
  qed
  have g2: "snd (SMA_set_parameters None (Some 2) sma_example) = Inr () \<and>
    SMA_L (fst (SMA_set_parameters None (Some 2) sma_example)) = 2"
    using t ok(2) by blast
  have g3: "snd (EMA_set_parameters (Some 2) None ema_example) = Inr () \<and>
    EMA_S (fst (EMA_set_parameters (Some 2) None ema_example)) = 2"
    using t ok(3) by blast
  have g4: "snd (EMA_set_parameters None (Some 2) ema_example) = Inr () \<and>
    EMA_L (fst (EMA_set_parameters None (Some 2) ema_example)) = 2"
    using t ok(4) by blast
  have g5: "snd (MACD_set_parameters (Some 2) None None macd_example) = Inr () \<and>
    MACD_EMA_S (fst (MACD_set_parameters (Some 2) None None macd_example)) = 2 \<and>
    signal_mw (fst (MACD_set_parameters (Some 2) None None macd_example)) = 1 \<and>
    map mcol_EMA_S (data (fst (MACD_set_parameters (Some 2) None None macd_example))) =
      [None, Some (7 / 4), Some (16 / 13), Some (7 / 4)] \<and>
    map mcol_EMA_L (data (fst (MACD_set_parameters (Some 2) None None macd_example))) =
      [None, Some (7 / 4), Some (16 / 13), Some (7 / 4)] \<and>
    map col_MACD (data (fst (MACD_set_parameters (Some 2) None None macd_example))) =
      [None, Some 0, Some 0, Some 0] \<and>
    map col_MACD_Signal (data (fst (MACD_set_parameters (Some 2) None None macd_example))) =
      [None, Some 0, Some 0, Some 0]"
  proof -
    let ?d = "data (fst (MACD_set_parameters (Some 2) None None macd_example))"
    from t ok(5) have a: "MACD_EMA_S (fst (MACD_set_parameters (Some 2) None None macd_example)) = 2"
      and s: "signal_mw (fst (MACD_set_parameters (Some 2) None None macd_example)) =
          signal_mw macd_example"
      and b: "ewm_mean 2 (close_col (data macd_example)) = Inr (map mcol_EMA_S ?d)"
      and c: "map (\<lambda>r. (candle r, returns r, mcol_EMA_L r)) ?d =
           map (\<lambda>r. (candle r, returns r, mcol_EMA_L r)) (data macd_example)"
      and m: "map col_MACD ?d = macd_line ?d"
      and g: "ewm_mean (signal_mw macd_example) (map col_MACD ?d) = Inr (map col_MACD_Signal ?d)"
      by blast+
    from arg_cong [OF c, of "map (\<lambda>(x, y, z). z)"]
    have "map mcol_EMA_L ?d = map mcol_EMA_L (data macd_example)"
      by (simp add: o_def)
    then have l: "map mcol_EMA_L ?d = [None, Some (7 / 4), Some (16 / 13), Some (7 / 4)]"
      by (simp add: macd_example_data)
    from b have es: "map mcol_EMA_S ?d = [None, Some (7 / 4), Some (16 / 13), Some (7 / 4)]"
      by (simp add: cm e2)
    from m have md: "map col_MACD ?d = [None, Some 0, Some 0, Some 0]"
      by (simp add: macd_line_map2 es l fsub_def)
    from g have sg: "map col_MACD_Signal ?d = [None, Some 0, Some 0, Some 0]"
      by (simp add: md mp e1)
    from ok(5) a s mp es l md sg show ?thesis by simp
  qed
  have g6: "snd (MACD_set_parameters None (Some 2) None macd_example) = Inr () \<and>
    MACD_EMA_L (fst (MACD_set_parameters None (Some 2) None macd_example)) = 2"
    using t ok(6) by blast
  have g7: "snd (MACD_set_parameters None None (Some 2) macd_example) = Inr () \<and>
    signal_mw (fst (MACD_set_parameters None None (Some 2) macd_example)) = 2"
    using t ok(7) by blast
  have g8: "snd (RSI_set_parameters (Some 2) None None rsi_example) = Inr () \<and>
    RSI_periods (fst (RSI_set_parameters (Some 2) None None rsi_example)) = 2"
    using t ok(8) by blast
  have g9: "data (fst (RSI_set_parameters None (Some 80) (Some 20) rsi_example)) = data rsi_example \<and>
    rsi_upper (fst (RSI_set_parameters None (Some 80) (Some 20) rsi_example)) = 80 \<and>
    rsi_lower (fst (RSI_set_parameters None (Some 80) (Some 20) rsi_example)) = 20"
    using t by simp
  have g10: "snd (SO_set_parameters (Some 2) None so_example) = Inr () \<and>
    SO_periods (fst (SO_set_parameters (Some 2) None so_example)) = 2 \<and>
    D_mw (fst (SO_set_parameters (Some 2) None so_example)) = 1"
    using t ok(9) sp by simp
  have g11: "snd (SO_set_parameters None (Some 2) so_example) = Inr () \<and>
    D_mw (fst (SO_set_parameters None (Some 2) so_example)) = 2 \<and>
    map col_K (data (fst (SO_set_parameters None (Some 2) so_example))) =
      [None, Some 100, Some (100 / 3), Some (200 / 3)] \<and>
    map col_SO_D (data (fst (SO_set_parameters None (Some 2) so_example))) =
      [None, None, Some (200 / 3), Some 50]"
  proof -
    let ?d = "data (fst (SO_set_parameters None (Some 2) so_example))"
    from t ok(10) have a: "D_mw (fst (SO_set_parameters None (Some 2) so_example)) = 2"
      and b: "rolling mean 2 (map col_K (data so_example)) = Inr (map col_SO_D ?d)"
      and c: "map (\<lambda>r. (candle r, returns r, col_roll_low r, col_roll_high r, col_K r)) ?d =
        map (\<lambda>r. (candle r, returns r, col_roll_low r, col_roll_high r, col_K r)) (data so_example)"
      by blast+
    from arg_cong [OF c, of "map (\<lambda>(x, y, z, u, w). w)"]
    have "map col_K ?d = map col_K (data so_example)"
      by (simp add: o_def)
    then have k: "map col_K ?d = [None, Some 100, Some (100 / 3), Some (200 / 3)]"
      by (simp add: so_example_data)
    have k0: "map col_K (data so_example) = [None, Some 100, Some (100 / 3), Some (200 / 3)]"
      by (simp add: so_example_data)
    from b have "map col_SO_D ?d = [None, None, Some (200 / 3), Some 50]"
      by (simp add: k0 rk)
    with ok(10) a k show ?thesis by blast
  qed
  show ?thesis
    by (rule conjI [OF g1 conjI [OF g2 conjI [OF g3 conjI [OF g4 conjI [OF g5 conjI [OF g6
        conjI [OF g7 conjI [OF g8 conjI [OF g9 conjI [OF g10 g11]]]]]]]]]])
qed

text \<open>
  The claim as stated fails: the column of the other axis is not always left alone.
  MACDBacktester built with the spans 1, 2 and the signal span 1 on the closes 1, 2, 1, 2
  has the signal line NaN, 1/4, -3/13, 1/4; after \<open>set_parameters(EMA_S = 2)\<close>, which
  leaves \<open>signal_mw\<close> at 1, the signal line is NaN, 0, 0, 0. SOBacktester built with
  \<open>periods = 2\<close> and \<open>D_mw = 1\<close> has the D column NaN, 100, 100/3, 200/3; after
  \<open>set_parameters(periods = 1)\<close>, which leaves \<open>D_mw\<close> at 1, it is 50, 100, 100/3, 100.
\<close>

theorem set_parameters_signal_counterexample:
  "MACD_init ''EUR_USD'' 1 2 1 ''2020-01-01'' ''2020-01-05'' ''D'' (1 / 100) zigzag = Inr macd_example \<and>
   snd (MACD_set_parameters (Some 2) None None macd_example) = Inr () \<and>
   signal_mw (fst (MACD_set_parameters (Some 2) None None macd_example)) = signal_mw macd_example \<and>
   map col_MACD_Signal (data macd_example) = [None, Some (1 / 4), Some (- (3 / 13)), Some (1 / 4)] \<and>
   map col_MACD_Signal (data (fst (MACD_set_parameters (Some 2) None None macd_example))) =
     [None, Some 0, Some 0, Some 0] \<and>
   SO_init ''EUR_USD'' 2 1 ''2020-01-01'' ''2020-01-05'' ''D'' (1 / 100) bars = Inr so_example \<and>
   snd (SO_set_parameters (Some 1) None so_example) = Inr () \<and>
   D_mw (fst (SO_set_parameters (Some 1) None so_example)) = D_mw so_example \<and>
   map col_SO_D (data so_example) = [None, Some 100, Some (100 / 3), Some (200 / 3)] \<and>
   map col_SO_D (data (fst (SO_set_parameters (Some 1) None so_example))) =
     [Some 50, Some 100, Some (100 / 3), Some 100]"
proof -
  have m1: "snd (MACD_set_parameters (Some 2) None None macd_example) = Inr ()"
    by (simp add: set_one_ok init_params(3) [OF macd_example_init])
  have m2: "signal_mw (fst (MACD_set_parameters (Some 2) None None macd_example)) = signal_mw macd_example"
    using MACD_set_S_only [of 2 macd_example] by simp
  have m3: "map col_MACD_Signal (data macd_example) = [None, Some (1 / 4), Some (- (3 / 13)), Some (1 / 4)]"
    by (simp add: macd_example_data)
  have m4: "map col_MACD_Signal (data (fst (MACD_set_parameters (Some 2) None None macd_example))) =
     [None, Some 0, Some 0, Some 0]"
    using arg_cong [OF macd_example_resized, of "map (\<lambda>(a, b, c, d). d)"] by (simp add: o_def)
  have s1: "snd (SO_set_parameters (Some 1) None so_example) = Inr ()"
    by (simp add: set_one_ok init_params(5) [OF so_example_init])
  have s2: "D_mw (fst (SO_set_parameters (Some 1) None so_example)) = D_mw so_example"
    using SO_set_periods_only [of 1 so_example] by simp
  have s3: "map col_SO_D (data so_example) = [None, Some 100, Some (100 / 3), Some (200 / 3)]"
    by (simp add: so_example_data)
  have s4: "map col_SO_D (data (fst (SO_set_parameters (Some 1) None so_example))) =
     [Some 50, Some 100, Some (100 / 3), Some 100]"
    using arg_cong [OF so_example_resized, of "map (\<lambda>(a, b, c, d). d)"] by (simp add: o_def)
  from macd_example_init m1 m2 m3 m4 so_example_init s1 s2 s3 s4 show ?thesis by blast
qed

section \<open>The columns of the result frame\<close>

lemma zip3_maps_aux:
  "length a = length b \<Longrightarrow> length b = length c \<Longrightarrow>
   map (\<lambda>(x, y, z). f x) (zip a (zip b c)) = map f a \<and>
   map (\<lambda>(x, y, z). g y) (zip a (zip b c)) = map g b \<and>
   map (\<lambda>(x, y, z). h z) (zip a (zip b c)) = map h c"
  by (induction a b c rule: list_induct3) simp_all

lemma zip3_maps:
  assumes "length b = length a" "length c = length a"
  shows "map (\<lambda>(x, y, z). f x) (zip a (zip b c)) = map f a"
    and "map (\<lambda>(x, y, z). g y) (zip a (zip b c)) = map g b"
    and "map (\<lambda>(x, y, z). h z) (zip a (zip b c)) = map h c"
  using zip3_maps_aux [of a b c f g h] assms by simp_all

lemma sma_frame_columns:
  fixes rows
  defines "frame \<equiv> bt_rows sma_notna sma_rule rows"
  shows "map row (sma_frame rows) = map fst frame"
    and "map position (sma_frame rows) = map (\<lambda>(r, p, s). p) frame"
    and "map strategy (sma_frame rows) = map (\<lambda>(r, p, s). s) frame"
    and "map creturns (sma_frame rows) = map fexp (cumsum (map (\<lambda>(r, p, s). returns r) frame))"
    and "map cstrategy (sma_frame rows) = map fexp (cumsum (map (\<lambda>(r, p, s). s) frame))"
proof -
  let ?cret = "map fexp (cumsum (map (\<lambda>(r, p, s). returns r) frame))"
  let ?cstr = "map fexp (cumsum (map (\<lambda>(r, p, s). s) frame))"
  have eq: "sma_frame rows = map (\<lambda>((r, p, s), cr, cs).
                   \<lparr>row = r, position = p, strategy = s, creturns = cr, cstrategy = cs\<rparr>)
                  (zip frame (zip ?cret ?cstr))"
    unfolding sma_frame_def frame_def bt_rows_def sma_rule_def Let_def ..
  have len: "length ?cret = length frame" "length ?cstr = length frame" by simp_all
  show "map row (sma_frame rows) = map fst frame"
    unfolding eq using zip3_maps(1) [OF len, of fst] by (simp add: o_def split_def)
  show "map position (sma_frame rows) = map (\<lambda>(r, p, s). p) frame"
    unfolding eq using zip3_maps(1) [OF len, of "\<lambda>(r, p, s). p"] by (simp add: o_def split_def)
  show "map strategy (sma_frame rows) = map (\<lambda>(r, p, s). s) frame"
    unfolding eq using zip3_maps(1) [OF len, of "\<lambda>(r, p, s). s"] by (simp add: o_def split_def)
  show "map creturns (sma_frame rows) = ?cret"
    unfolding eq using zip3_maps(2) [OF len, of "\<lambda>x. x"] by (simp add: o_def split_def)
  show "map cstrategy (sma_frame rows) = ?cstr"
    unfolding eq using zip3_maps(3) [OF len, of "\<lambda>x. x"] by (simp add: o_def split_def)
qed

lemma length_tc_trades [simp]: "length (tc_trades frame) = length frame"
  by (simp add: tc_trades_def)

lemma length_tc_strategy [simp]: "length (tc_strategy c frame) = length frame"
  by (simp add: tc_strategy_def)

lemma tc_frame_eq:
  "tc_frame notna rule c rows =
     (let frame = bt_rows notna rule rows
      in map (\<lambda>((r, p, s), s1, t, cr, cs).
                   \<lparr>row = r, position = p, strategy = s1, creturns = cr, cstrategy = cs,
                    trades = t\<rparr>)
           (zip frame (zip (tc_strategy c frame) (zip (tc_trades frame)
              (zip (map fexp (cumsum (map (\<lambda>(r, p, s). returns r) frame)))
                   (map fexp (cumsum (tc_strategy c frame))))))))"
  unfolding tc_frame_def bt_rows_def tc_strategy_def tc_trades_def Let_def ..

lemma length_tc_frame: "length (tc_frame notna rule c rows) = length (bt_rows notna rule rows)"
  by (simp add: tc_frame_eq Let_def)

lemma tc_frame_nth:
  assumes "i < length (bt_rows notna rule rows)"
  shows "tc_frame notna rule c rows ! i =
     \<lparr>row = fst (bt_rows notna rule rows ! i),
      position = fst (snd (bt_rows notna rule rows ! i)),
      strategy = tc_strategy c (bt_rows notna rule rows) ! i,
      creturns = fexp (cumsum (map (\<lambda>(r, p, s). returns r) (bt_rows notna rule rows)) ! i),
      cstrategy = fexp (cumsum (tc_strategy c (bt_rows notna rule rows)) ! i),
      trades = tc_trades (bt_rows notna rule rows) ! i\<rparr>"
  using assms by (simp add: tc_frame_eq Let_def split_def)

lemma tc_frame_columns:
  fixes rows notna rule c
  defines "frame \<equiv> bt_rows notna rule rows"
  shows "map row (tc_frame notna rule c rows) = map fst frame"
    and "map position (tc_frame notna rule c rows) = map (\<lambda>(r, p, s). p) frame"
    and "map strategy (tc_frame notna rule c rows) = tc_strategy c frame"
    and "map trades (tc_frame notna rule c rows) = tc_trades frame"
    and "map creturns (tc_frame notna rule c rows) =
           map fexp (cumsum (map (\<lambda>(r, p, s). returns r) frame))"
    and "map cstrategy (tc_frame notna rule c rows) = map fexp (cumsum (tc_strategy c frame))"
  unfolding frame_def
  by (rule nth_equalityI; simp add: length_tc_frame tc_frame_nth split_def)+

lemma fmul_Some_iff: "fmul a b \<noteq> None \<longleftrightarrow> a \<noteq> None \<and> b \<noteq> None"
  by (simp add: fmul_def split: option.splits)

lemma shifted_pairs:
  "zip xs (zip (map rule xs) (map2 fmul (map rule (butlast (x # xs))) (map returns xs))) =
     map (\<lambda>(prev, r). (r, rule r, fmul (rule prev) (returns r))) (zip (x # xs) xs)"
  by (induction xs arbitrary: x) simp_all

lemma bt_rows_pairs:
  assumes ret: "\<And>r. notna r \<Longrightarrow> returns r \<noteq> None" and pos: "\<And>r. rule r \<noteq> None"
  shows "bt_rows notna rule rows =
     map (\<lambda>(prev, r). (r, rule r, fmul (rule prev) (returns r)))
       (zip (filter notna rows) (tl (filter notna rows)))"
proof (cases "filter notna rows")
  case Nil
  then show ?thesis by (simp add: bt_rows_def shift1_def)
next
  case (Cons x xs)
  have "set (x # xs) = {r \<in> set rows. notna r}"
    using Cons [symmetric] by simp
  then have all: "\<forall>r \<in> set xs. notna r" by auto
  let ?f = "\<lambda>(prev, r). (r, rule r, fmul (rule prev) (returns r))"
  let ?P = "\<lambda>(r, p, s). notna r \<and> p \<noteq> None \<and> s \<noteq> None"
  have keep: "filter ?P (map ?f (zip (x # xs) xs)) = map ?f (zip (x # xs) xs)"
  proof (rule filter_True, clarify)
    fix r p s
    assume "(r, p, s) \<in> set (map ?f (zip (x # xs) xs))"
    then obtain prev where "(prev, r) \<in> set (zip (x # xs) xs)"
      and p: "p = rule r" and s: "s = fmul (rule prev) (returns r)"
      by auto
    then have "r \<in> set xs" by (auto dest: set_zip_rightD)
    with all have n: "notna r" by simp
    have "fmul (rule prev) (returns r) \<noteq> None"
      unfolding fmul_Some_iff using ret [OF n] pos [of prev] by blast
    with n pos [of r] show "notna r \<and> p \<noteq> None \<and> s \<noteq> None"
      unfolding p s by blast
  qed
  have "bt_rows notna rule rows =
      filter ?P (zip (x # xs) (zip (map rule (x # xs))
        (map2 fmul (None # map rule (butlast (x # xs))) (map returns (x # xs)))))"
    by (simp add: bt_rows_def Let_def Cons shift1_def map_butlast)
  also have "\<dots> = filter ?P (zip xs (zip (map rule xs)
        (map2 fmul (map rule (butlast (x # xs))) (map returns xs))))"
    by (simp add: fmul_def)
  also have "\<dots> = map ?f (zip (x # xs) xs)"
    by (simp only: shifted_pairs keep)
  finally show ?thesis by (simp add: Cons)
qed

lemma length_bt_rows:
  assumes "\<And>r. notna r \<Longrightarrow> returns r \<noteq> None" "\<And>r. rule r \<noteq> None"
  shows "length (bt_rows notna rule rows) = length (filter notna rows) - 1"
  by (simp add: bt_rows_pairs [OF assms])

lemma cumsum_from_Some:
  "cumsum_from acc (map Some xs) = map (\<lambda>i. Some (acc + sum_list (take (Suc i) xs))) [0..<length xs]"
proof (induction xs arbitrary: acc)
  case Nil
  then show ?case by simp
next
  case (Cons x xs)
  have "[0..<length (x # xs)] = 0 # map Suc [0..<length xs]"
    by (simp add: upt_conv_Cons map_Suc_upt del: upt_Suc)
  then show ?case using Cons.IH [of "acc + x"]
    by (simp add: o_def add.assoc del: upt_Suc)
qed

lemma cumsum_Some: "cumsum (map Some xs) = map Some (running_sums xs)"
  by (simp add: cumsum_def cumsum_from_Some running_sums_def)

lemma all_Some: "list_all (\<lambda>x. x \<noteq> None) xs \<Longrightarrow> xs = map Some (map the xs)"
  by (induction xs) auto

lemma fexp_cumsum:
  assumes "list_all (\<lambda>x. x \<noteq> None) xs"
  shows "map fexp (cumsum xs) = map (\<lambda>v. Some (exp v)) (running_sums (map the xs))"
proof -
  have "cumsum xs = map Some (running_sums (map the xs))"
    using all_Some [OF assms] cumsum_Some [of "map the xs"] by simp
  then show ?thesis by (simp add: fexp_def)
qed

lemma bt_rows_defined:
  "(r, p, s) \<in> set (bt_rows notna rule rows) \<Longrightarrow> notna r \<and> p \<noteq> None \<and> s \<noteq> None"
  by (auto simp: bt_rows_def Let_def)

lemma compoundedI:
  assumes "list_all (\<lambda>x. x \<noteq> None) (map (\<lambda>x. returns (row x)) res)"
      and "list_all (\<lambda>x. x \<noteq> None) (map strategy res)"
      and "map creturns res = map fexp (cumsum (map (\<lambda>x. returns (row x)) res))"
      and "map cstrategy res = map fexp (cumsum (map strategy res))"
  shows "compounded res"
  using assms fexp_cumsum [OF assms(1)] fexp_cumsum [OF assms(2)]
  by (simp add: compounded_def list_all_iff o_def)

lemma tc_trades_defined: "list_all (\<lambda>x. x \<noteq> None) (tc_trades frame)"
  by (auto simp: tc_trades_def fillna_def fabs_def list_all_iff split: option.splits)

lemma tc_strategy_defined:
  assumes "\<And>r p s. (r, p, s) \<in> set frame \<Longrightarrow> s \<noteq> None"
  shows "list_all (\<lambda>x. x \<noteq> None) (tc_strategy c frame)"
proof -
  have "tc_strategy c frame ! i \<noteq> None" if "i < length frame" for i
  proof -
    obtain r p s where f: "frame ! i = (r, p, s)" by (cases "frame ! i") auto
    with that have "(r, p, s) \<in> set frame" by (metis nth_mem)
    then have s: "s \<noteq> None" by (rule assms)
    have "tc_trades frame ! i \<noteq> None"
      using tc_trades_defined [of frame] that by (simp add: list_all_length)
    with s f that show ?thesis
      by (auto simp: tc_strategy_def fsub_def fmul_def split: option.splits)
  qed
  then show ?thesis by (simp add: list_all_length)
qed

lemma sma_frame_compounded: "compounded (sma_frame rows)"
proof (rule compoundedI)
  let ?frame = "bt_rows sma_notna sma_rule rows"
  have r: "map (\<lambda>x. returns (row x)) (sma_frame rows) = map (\<lambda>(r, p, s). returns r) ?frame"
    using arg_cong [OF sma_frame_columns(1) [of rows], of "map returns"]
    by (simp add: o_def split_def)
  show "list_all (\<lambda>x. x \<noteq> None) (map (\<lambda>x. returns (row x)) (sma_frame rows))"
    unfolding r by (auto simp: list_all_iff sma_notna_def dest!: bt_rows_defined)
  show "list_all (\<lambda>x. x \<noteq> None) (map strategy (sma_frame rows))"
    unfolding sma_frame_columns by (auto simp: list_all_iff dest!: bt_rows_defined)
  show "map creturns (sma_frame rows) = map fexp (cumsum (map (\<lambda>x. returns (row x)) (sma_frame rows)))"
    unfolding r by (rule sma_frame_columns)
  show "map cstrategy (sma_frame rows) = map fexp (cumsum (map strategy (sma_frame rows)))"
    by (simp only: sma_frame_columns)
qed

lemma tc_frame_compounded:
  assumes ret: "\<And>r. notna r \<Longrightarrow> returns r \<noteq> None"
  shows "compounded (tc_frame notna rule c rows)"
proof (rule compoundedI)
  let ?frame = "bt_rows notna rule rows"
  let ?res = "tc_frame notna rule c rows"
  have r: "map (\<lambda>x. returns (row x)) ?res = map (\<lambda>(r, p, s). returns r) ?frame"
    using arg_cong [OF tc_frame_columns(1) [of notna rule c rows], of "map returns"]
    by (simp add: o_def split_def)
  show "list_all (\<lambda>x. x \<noteq> None) (map (\<lambda>x. returns (row x)) ?res)"
    unfolding r using ret by (auto simp: list_all_iff dest!: bt_rows_defined)
  show "list_all (\<lambda>x. x \<noteq> None) (map strategy ?res)"
    unfolding tc_frame_columns by (rule tc_strategy_defined) (auto dest: bt_rows_defined)
  show "map creturns ?res = map fexp (cumsum (map (\<lambda>x. returns (row x)) ?res))"
    unfolding r by (rule tc_frame_columns)
  show "map cstrategy ?res = map fexp (cumsum (map strategy ?res))"
    by (simp only: tc_frame_columns)
qed

lemma outcome_Nil: "outcome [] = Inl IndexError"
  by (simp add: outcome_def iloc_last_def)

lemma outcome_nonempty:
  "res \<noteq> [] \<Longrightarrow>
   outcome res = Inr (cstrategy (last res), fsub (cstrategy (last res)) (creturns (last res)), res)"
  by (simp add: outcome_def iloc_last_def last_map)

lemma outcome_Inr: "outcome res = Inr (perf, outperf, res') \<Longrightarrow> res' = res \<and> res \<noteq> []"
  by (cases "res = []") (simp_all add: outcome_Nil outcome_nonempty)

section \<open>What the backtest returns\<close>

lemma notna_returns:
  "sma_notna r1 \<Longrightarrow> returns r1 \<noteq> None" "ema_notna r2 \<Longrightarrow> returns r2 \<noteq> None"
  "macd_notna r3 \<Longrightarrow> returns r3 \<noteq> None" "rsi_notna r4 \<Longrightarrow> returns r4 \<noteq> None"
  "so_notna r5 \<Longrightarrow> returns r5 \<noteq> None"
  by (simp_all add: sma_notna_def ema_notna_def macd_notna_def rsi_notna_def so_notna_def)

lemma rsi_position_defined: "rsi_position up lo v \<noteq> None"
  by (simp add: rsi_position_def np_where_def Let_def split: option.splits)

lemma rule_defined:
  "sma_rule r \<noteq> None" "np_where c (Some x) (Some y) \<noteq> None"
  by (simp_all add: sma_rule_def np_where_def)

lemma length_sma_frame: "length (sma_frame rows) = length (filter sma_notna rows) - 1"
proof -
  have "length (sma_frame rows) = length (map row (sma_frame rows))" by simp
  also have "\<dots> = length (bt_rows sma_notna sma_rule rows)"
    by (simp only: sma_frame_columns length_map)
  finally show ?thesis
    by (simp add: length_bt_rows [of sma_notna sma_rule] notna_returns rule_defined)
qed

lemma length_tc_frame_rows:
  assumes "\<And>r. notna r \<Longrightarrow> returns r \<noteq> None" "\<And>r. rule r \<noteq> None"
  shows "length (tc_frame notna rule c rows) = length (filter notna rows) - 1"
  by (simp add: length_tc_frame length_bt_rows [OF assms])

lemma outcome_IndexError: "outcome res = Inl IndexError \<longleftrightarrow> res = []"
  by (cases "res = []") (simp_all add: outcome_Nil outcome_nonempty)

lemma outcome_isl: "isl (outcome res) \<longleftrightarrow> res = []"
  by (cases "res = []") (simp_all add: outcome_Nil outcome_nonempty)

lemma SMA_fails_iff:
  "(snd (SMA_test_strategy a) = Inl IndexError) = (length (filter sma_notna (data a)) < 2) \<and>
   (\<not> isl (snd (SMA_test_strategy a))) = (2 \<le> length (filter sma_notna (data a)))"
proof -
  have "length (sma_frame (data a)) = 0 \<longleftrightarrow> length (filter sma_notna (data a)) < 2"
    using length_sma_frame [of "data a"] by arith
  then have "sma_frame (data a) = [] \<longleftrightarrow> length (filter sma_notna (data a)) < 2"
    by simp
  then show ?thesis
    by (auto simp: SMA_test_strategy_eq outcome_IndexError outcome_isl)
qed

lemma tc_fails_iff:
  assumes "\<And>r. notna r \<Longrightarrow> returns r \<noteq> None" "\<And>r. rule r \<noteq> None"
  shows "(snd (test_strategy_tc notna rule a) = Inl IndexError) = (length (filter notna (data a)) < 2) \<and>
   (\<not> isl (snd (test_strategy_tc notna rule a))) = (2 \<le> length (filter notna (data a)))"
proof -
  have "length (tc_frame notna rule (tc a) (data a)) = 0 \<longleftrightarrow> length (filter notna (data a)) < 2"
    using length_tc_frame_rows [of notna rule "tc a" "data a", OF assms] by arith
  then have "tc_frame notna rule (tc a) (data a) = [] \<longleftrightarrow> length (filter notna (data a)) < 2"
    by simp
  then show ?thesis
    by (auto simp: test_strategy_tc_eq outcome_IndexError outcome_isl)
qed

lemma running_sums_Cons: "running_sums (x # xs) = x # map (\<lambda>v. x + v) (running_sums xs)"
proof -
  have "[0..<length (x # xs)] = 0 # map Suc [0..<length xs]"
    by (simp add: upt_conv_Cons map_Suc_upt del: upt_Suc)
  then show ?thesis by (simp add: running_sums_def o_def del: upt_Suc)
qed

lemma compounded_first:
  assumes "compounded res" "res \<noteq> []"
  shows "creturns (hd res) = fexp (returns (row (hd res))) \<and>
         cstrategy (hd res) = fexp (strategy (hd res))"
proof -
  obtain x xs where res: "res = x # xs" using assms(2) by (cases res) auto
  from assms(1) obtain r s where "returns (row x) = Some r" "strategy x = Some s"
    by (auto simp: compounded_def res)
  with assms(1) show ?thesis
    by (simp add: compounded_def res running_sums_Cons fexp_def)
qed

lemma strategy_resultI:
  assumes "outcome res = Inr (perf, outperf, res')" "compounded res"
  shows "strategy_result perf outperf res'"
proof -
  from outcome_Inr [OF assms(1)] have eq: "res' = res" and ne: "res \<noteq> []" by simp_all
  from assms(1) ne have "perf = cstrategy (last res)" "outperf = fsub perf (creturns (last res))"
    by (auto simp: outcome_nonempty)
  with compounded_first [OF assms(2) ne] assms(2) ne show ?thesis
    unfolding strategy_result_def eq by blast
qed

lemma SMA_strategy_result:
  "snd (SMA_test_strategy a) = Inr (perf, outperf, res) \<Longrightarrow> strategy_result perf outperf res"
  by (simp add: SMA_test_strategy_eq strategy_resultI [OF _ sma_frame_compounded])

lemma tc_strategy_result:
  assumes "\<And>r. notna r \<Longrightarrow> returns r \<noteq> None"
      and "snd (test_strategy_tc notna rule a) = Inr (perf, outperf, res)"
  shows "strategy_result perf outperf res"
  using assms(2) strategy_resultI [OF _ tc_frame_compounded [of notna rule "tc a" "data a"]] assms(1)
  by (simp add: test_strategy_tc_eq)

lemma EMA_strategy_result:
  "snd (EMA_test_strategy a) = Inr (perf, outperf, res) \<Longrightarrow> strategy_result perf outperf res"
  unfolding EMA_test_strategy_def by (erule tc_strategy_result [rotated]) (rule notna_returns)

lemma MACD_strategy_result:
  "snd (MACD_test_strategy a) = Inr (perf, outperf, res) \<Longrightarrow> strategy_result perf outperf res"
  unfolding MACD_test_strategy_def by (erule tc_strategy_result [rotated]) (rule notna_returns)

lemma RSI_strategy_result:
  "snd (RSI_test_strategy a) = Inr (perf, outperf, res) \<Longrightarrow> strategy_result perf outperf res"
  unfolding RSI_test_strategy_def by (erule tc_strategy_result [rotated]) (rule notna_returns)

lemma SO_strategy_result:
  "snd (SO_test_strategy a) = Inr (perf, outperf, res) \<Longrightarrow> strategy_result perf outperf res"
  unfolding SO_test_strategy_def by (erule tc_strategy_result [rotated]) (rule notna_returns)

lemma bt_rows_rule:
  assumes "(r, p, s) \<in> set (bt_rows notna rule rows)"
  shows "p = rule r"
proof -
  let ?d = "filter notna rows"
  from assms have "(r, p, s) \<in> set (zip ?d (zip (map rule ?d)
      (map2 fmul (shift1 (map rule ?d)) (map returns ?d))))"
    by (simp add: bt_rows_def Let_def)
  then obtain n where "?d ! n = r" "n < length ?d"
    "zip (map rule ?d) (map2 fmul (shift1 (map rule ?d)) (map returns ?d)) ! n = (p, s)"
    by (auto simp: in_set_zip)
  then show ?thesis by simp
qed

lemma tc_frame_member:
  assumes "x \<in> set (tc_frame notna rule c rows)"
  shows "\<exists>s. (row x, position x, s) \<in> set (bt_rows notna rule rows)"
proof -
  from assms obtain i where i: "i < length (bt_rows notna rule rows)"
    and x: "x = tc_frame notna rule c rows ! i"
    by (auto simp: in_set_conv_nth length_tc_frame)
  have "bt_rows notna rule rows ! i \<in> set (bt_rows notna rule rows)"
    using i by simp
  moreover have "bt_rows notna rule rows ! i =
      (row x, position x, snd (snd (bt_rows notna rule rows ! i)))"
    by (simp add: x tc_frame_nth [OF i])
  ultimately show ?thesis by metis
qed

lemma rsi_position_Some:
  "rsi_position up lo (Some v) = Some (if v < lo then 1 else if up < v then - 1 else 0)"
  by (simp add: rsi_position_def np_where_def fgt_def flt_def Let_def)

lemma RSI_position_rule_aux:
  assumes "snd (RSI_test_strategy a) = Inr (perf, outperf, res)" "x \<in> set res"
  shows "col_RSI (row x) \<noteq> None \<and>
         position x = Some (if the (col_RSI (row x)) < rsi_lower a then 1
                            else if rsi_upper a < the (col_RSI (row x)) then - 1 else 0)"
proof -
  let ?rule = "\<lambda>r. rsi_position (rsi_upper a) (rsi_lower a) (col_RSI r)"
  from assms(1) have "res = tc_frame rsi_notna ?rule (tc a) (data a)"
    by (auto simp: RSI_test_strategy_def test_strategy_tc_eq dest: outcome_Inr)
  with assms(2) obtain s where m: "(row x, position x, s) \<in> set (bt_rows rsi_notna ?rule (data a))"
    using tc_frame_member by blast
  from bt_rows_defined [OF m] have "col_RSI (row x) \<noteq> None" by (simp add: rsi_notna_def)
  then obtain v where v: "col_RSI (row x) = Some v" by auto
  from bt_rows_rule [OF m] show ?thesis by (simp add: v rsi_position_Some)
qed

lemma sma_short_init:
  "SMA_init ''EUR_USD'' 1 1 ''2020-01-01'' ''2020-01-03'' ''D'' 0 two_candles = Inr sma_short"
  by (simp add: sma_short_def SMA_init_def SMA_get_data_def two_candles_def flat_candle_def series_eval
      del: not_None_eq)

lemma sma_short_data:
  "data sma_short =
    [\<lparr>candle = flat_candle 0 1, returns = None, col_SMA_S = Some 1, col_SMA_L = Some 1\<rparr>,
     \<lparr>candle = flat_candle 1 2, returns = Some (ln 2), col_SMA_S = Some 2, col_SMA_L = Some 2\<rparr>]"
  by (simp add: sma_short_def SMA_init_def SMA_get_data_def two_candles_def flat_candle_def series_eval
      del: not_None_eq)

lemma rsi_short_init:
  "RSI_init ''EUR_USD'' 1 70 30 ''2020-01-01'' ''2020-01-03'' ''D'' 0 two_candles = Inr rsi_short"
  by (simp add: rsi_short_def RSI_init_def RSI_get_data_def two_candles_def flat_candle_def series_eval
      rsi_value_def up_moves_def down_moves_def del: not_None_eq)

lemma rsi_short_data:
  "data rsi_short =
    [\<lparr>candle = flat_candle 0 1, returns = None, col_U = Some 0, col_D = Some 0, col_MA_U = Some 0,
      col_MA_D = Some 0, col_RSI = None\<rparr>,
     \<lparr>candle = flat_candle 1 2, returns = Some (ln 2), col_U = Some 1, col_D = Some 0,
      col_MA_U = Some 1, col_MA_D = Some 0, col_RSI = Some 100\<rparr>]"
  by (simp add: rsi_short_def RSI_init_def RSI_get_data_def two_candles_def flat_candle_def series_eval
      rsi_value_def up_moves_def down_moves_def del: not_None_eq)

lemma examples_kept:
  "length (filter sma_notna (data sma_example)) = 3"
  "length (filter ema_notna (data ema_example)) = 3"
  "length (filter macd_notna (data macd_example)) = 3"
  "length (filter rsi_notna (data rsi_example)) = 3"
  "length (filter so_notna (data so_example)) = 3"
  "length (filter sma_notna (data sma_short)) = 1"
  "length (filter rsi_notna (data rsi_short)) = 1"
  by (simp_all add: sma_example_data ema_example_data macd_example_data rsi_example_data
      so_example_data sma_short_data rsi_short_data
      sma_notna_def ema_notna_def macd_notna_def rsi_notna_def so_notna_def)

lemma rsi_example_frame:
  "map (\<lambda>x. (col_RSI (row x), position x))
     (tc_frame rsi_notna (\<lambda>r. rsi_position 70 30 (col_RSI r)) (1 / 100) (data rsi_example)) =
     [(Some 100, Some (- 1)), (Some 50, Some 0)]"
  by (simp add: rsi_example_data tc_frame_def rsi_notna_def rsi_position_def series_eval del: not_None_eq)

lemma sma_example_cumulative:
  "map (\<lambda>x. (creturns x, cstrategy x)) (sma_frame (data sma_example)) =
     [(Some (1 / 2), Some (1 / 2)), (Some 1, Some (1 / 4))]"
  by (simp add: sma_example_data sma_frame_def sma_notna_def series_eval exp_add exp_diff
      del: not_None_eq)

lemma returns_collapse:
  "\<not> isl (snd m) \<Longrightarrow> snd m = Inr (fst (projr (snd m)), fst (snd (projr (snd m))), snd (snd (projr (snd m))))"
  by (cases "snd m") simp_all

lemma examples_return:
  "\<not> isl (snd (SMA_test_strategy sma_example))"
  "\<not> isl (snd (EMA_test_strategy ema_example))"
  "\<not> isl (snd (MACD_test_strategy macd_example))"
  "\<not> isl (snd (RSI_test_strategy rsi_example))"
  "\<not> isl (snd (SO_test_strategy so_example))"
  unfolding tc_test_strategy_defs
  by (simp_all add: SMA_fails_iff tc_fails_iff notna_returns rule_defined rsi_position_defined
      examples_kept)

section \<open>Cumulative returns\<close>

text \<open>
  C3, as the code has it. Whenever \<open>test_strategy\<close> of one of the five classes returns, the
  returned frame has a defined log-return and a defined strategy return in every row, its
  cumulative buy-and-hold column is the exponential of the running sum of the log-returns
  and its cumulative strategy column the exponential of the running sum of the strategy
  returns, the running sums including the current row. So at the first row the two
  columns hold the exponentials of the first log-return and of the first strategy return
  (the value 1 only when that return is 0). The performance returned is the last cumulative
  strategy value, the out-performance its difference to the last cumulative buy-and-hold
  value.
\<close>

theorem cumulative_series:
  "(snd (SMA_test_strategy a) = Inr (p1, o1, r1) \<longrightarrow> strategy_result p1 o1 r1) \<and>
   (snd (EMA_test_strategy b) = Inr (p2, o2, r2) \<longrightarrow> strategy_result p2 o2 r2) \<and>
   (snd (MACD_test_strategy c) = Inr (p3, o3, r3) \<longrightarrow> strategy_result p3 o3 r3) \<and>
   (snd (RSI_test_strategy d) = Inr (p4, o4, r4) \<longrightarrow> strategy_result p4 o4 r4) \<and>
   (snd (SO_test_strategy e) = Inr (p5, o5, r5) \<longrightarrow> strategy_result p5 o5 r5)"
  using SMA_strategy_result EMA_strategy_result MACD_strategy_result RSI_strategy_result
    SO_strategy_result
  by blast

theorem cumulative_series_witness:
  "(snd (SMA_test_strategy sma_example) =
      Inr (fst (projr (snd (SMA_test_strategy sma_example))),
           fst (snd (projr (snd (SMA_test_strategy sma_example)))),
           snd (snd (projr (snd (SMA_test_strategy sma_example))))) \<and>
    strategy_result (fst (projr (snd (SMA_test_strategy sma_example))))
      (fst (snd (projr (snd (SMA_test_strategy sma_example)))))
      (snd (snd (projr (snd (SMA_test_strategy sma_example)))))) \<and>
   (snd (EMA_test_strategy ema_example) =
      Inr (fst (projr (snd (EMA_test_strategy ema_example))),
           fst (snd (projr (snd (EMA_test_strategy ema_example)))),
           snd (snd (projr (snd (EMA_test_strategy ema_example))))) \<and>
    strategy_result (fst (projr (snd (EMA_test_strategy ema_example))))
      (fst (snd (projr (snd (EMA_test_strategy ema_example)))))
      (snd (snd (projr (snd (EMA_test_strategy ema_example)))))) \<and>
   (snd (MACD_test_strategy macd_example) =
      Inr (fst (projr (snd (MACD_test_strategy macd_example))),
           fst (snd (projr (snd (MACD_test_strategy macd_example)))),
           snd (snd (projr (snd (MACD_test_strategy macd_example))))) \<and>
    strategy_result (fst (projr (snd (MACD_test_strategy macd_example))))
      (fst (snd (projr (snd (MACD_test_strategy macd_example)))))
      (snd (snd (projr (snd (MACD_test_strategy macd_example)))))) \<and>
   (snd (RSI_test_strategy rsi_example) =
      Inr (fst (projr (snd (RSI_test_strategy rsi_example))),
           fst (snd (projr (snd (RSI_test_strategy rsi_example)))),
           snd (snd (projr (snd (RSI_test_strategy rsi_example))))) \<and>
    strategy_result (fst (projr (snd (RSI_test_strategy rsi_example))))
      (fst (snd (projr (snd (RSI_test_strategy rsi_example)))))
      (snd (snd (projr (snd (RSI_test_strategy rsi_example)))))) \<and>
   (snd (SO_test_strategy so_example) =
      Inr (fst (projr (snd (SO_test_strategy so_example))),
           fst (snd (projr (snd (SO_test_strategy so_example)))),
           snd (snd (projr (snd (SO_test_strategy so_example))))) \<and>
    strategy_result (fst (projr (snd (SO_test_strategy so_example))))
      (fst (snd (projr (snd (SO_test_strategy so_example)))))
      (snd (snd (projr (snd (SO_test_strategy so_example))))))"
  using cumulative_series
    [of sma_example "fst (projr (snd (SMA_test_strategy sma_example)))"
        "fst (snd (projr (snd (SMA_test_strategy sma_example))))"
        "snd (snd (projr (snd (SMA_test_strategy sma_example))))"
        ema_example "fst (projr (snd (EMA_test_strategy ema_example)))"
        "fst (snd (projr (snd (EMA_test_strategy ema_example))))"
        "snd (snd (projr (snd (EMA_test_strategy ema_example))))"
        macd_example "fst (projr (snd (MACD_test_strategy macd_example)))"
        "fst (snd (projr (snd (MACD_test_strategy macd_example))))"
        "snd (snd (projr (snd (MACD_test_strategy macd_example))))"
        rsi_example "fst (projr (snd (RSI_test_strategy rsi_example)))"
        "fst (snd (projr (snd (RSI_test_strategy rsi_example))))"
        "snd (snd (projr (snd (RSI_test_strategy rsi_example))))"
        so_example "fst (projr (snd (SO_test_strategy so_example)))"
        "fst (snd (projr (snd (SO_test_strategy so_example))))"
        "snd (snd (projr (snd (SO_test_strategy so_example))))"]
    returns_collapse [OF examples_return(1)] returns_collapse [OF examples_return(2)]
    returns_collapse [OF examples_return(3)] returns_collapse [OF examples_return(4)]
    returns_collapse [OF examples_return(5)]
  by blast

text \<open>
  The claim as stated fails: on the closes 1, 2, 1, 2 with the windows 1 and 2 the first
  row of the result frame of SMABacktester has the cumulative buy-and-hold value 1/2 and
  the cumulative strategy value 1/2, not 1.
\<close>

theorem cumulative_series_start_counterexample:
  "map_option (map (\<lambda>x. (creturns x, cstrategy x)))
     (results (fst (SMA_test_strategy sma_example))) =
     Some [(Some (1 / 2), Some (1 / 2)), (Some 1, Some (1 / 4))]"
  by (simp add: SMA_test_strategy_eq sma_example_cumulative)

section \<open>Too few periods\<close>

text \<open>
  C5, as the code has it. For each of the five classes: the backtest fails with IndexError
  (raised by \<open>iloc[-1]\<close> on the empty cumulative column, and not caught) exactly when fewer
  than 2 rows of the data frame have all their columns defined, and it returns a result
  exactly when 2 or more have.
\<close>

theorem test_strategy_fails_iff:
  "((snd (SMA_test_strategy a) = Inl IndexError) = (length (filter sma_notna (data a)) < 2) \<and>
    (\<not> isl (snd (SMA_test_strategy a))) = (2 \<le> length (filter sma_notna (data a)))) \<and>
   ((snd (EMA_test_strategy b) = Inl IndexError) = (length (filter ema_notna (data b)) < 2) \<and>
    (\<not> isl (snd (EMA_test_strategy b))) = (2 \<le> length (filter ema_notna (data b)))) \<and>
   ((snd (MACD_test_strategy c) = Inl IndexError) = (length (filter macd_notna (data c)) < 2) \<and>
    (\<not> isl (snd (MACD_test_strategy c))) = (2 \<le> length (filter macd_notna (data c)))) \<and>
   ((snd (RSI_test_strategy d) = Inl IndexError) = (length (filter rsi_notna (data d)) < 2) \<and>
    (\<not> isl (snd (RSI_test_strategy d))) = (2 \<le> length (filter rsi_notna (data d)))) \<and>
   ((snd (SO_test_strategy e) = Inl IndexError) = (length (filter so_notna (data e)) < 2) \<and>
    (\<not> isl (snd (SO_test_strategy e))) = (2 \<le> length (filter so_notna (data e))))"
  unfolding tc_test_strategy_defs
  by (intro conjI SMA_fails_iff [THEN conjunct1] SMA_fails_iff [THEN conjunct2]
        tc_fails_iff [THEN conjunct1] tc_fails_iff [THEN conjunct2];
      simp add: notna_returns rule_defined rsi_position_defined)

theorem test_strategy_fails_iff_witness:
  "snd (SMA_test_strategy sma_short) = Inl IndexError \<and>
   snd (RSI_test_strategy rsi_short) = Inl IndexError \<and>
   \<not> isl (snd (SMA_test_strategy sma_example)) \<and>
   \<not> isl (snd (RSI_test_strategy rsi_example))"
  using test_strategy_fails_iff [of sma_short ema_example macd_example rsi_short so_example]
    test_strategy_fails_iff [of sma_example ema_example macd_example rsi_example so_example]
  by (simp add: examples_kept)

text \<open>
  The claim as stated fails: SMABacktester on two candles with both windows 1 keeps one
  row, and its backtest fails with IndexError; no InsufficientDataError is raised.
\<close>

theorem insufficient_data_counterexample:
  "SMA_init ''EUR_USD'' 1 1 ''2020-01-01'' ''2020-01-03'' ''D'' 0 two_candles = Inr sma_short \<and>
   length (filter sma_notna (data sma_short)) = 1 \<and>
   snd (SMA_test_strategy sma_short) = Inl IndexError \<and>
   snd (SMA_test_strategy sma_short) \<noteq> Inl InsufficientDataError"
  using SMA_fails_iff [of sma_short] by (simp add: sma_short_init examples_kept)

section \<open>The position of the relative-strength strategy\<close>

text \<open>
  C2, as the code has it. In every row of the frame that \<open>test_strategy\<close> of RSIBacktester
  returns the indicator is defined, and the position is +1 when the indicator is below
  the lower threshold, otherwise -1 when it is above the upper threshold, and 0 otherwise.
  The position depends on the indicator of its own row only: nothing is carried forward
  from an earlier crossing.
\<close>

theorem RSI_position_rule:
  assumes "snd (RSI_test_strategy a) = Inr (perf, outperf, res)" "x \<in> set res"
  shows "col_RSI (row x) \<noteq> None \<and>
         position x = Some (if the (col_RSI (row x)) < rsi_lower a then 1
                            else if rsi_upper a < the (col_RSI (row x)) then - 1 else 0)"
  using assms by (rule RSI_position_rule_aux)

theorem RSI_position_rule_witness:
  "snd (RSI_test_strategy rsi_example) =
     Inr (fst (projr (snd (RSI_test_strategy rsi_example))),
          fst (snd (projr (snd (RSI_test_strategy rsi_example)))),
          snd (snd (projr (snd (RSI_test_strategy rsi_example))))) \<and>
   last (snd (snd (projr (snd (RSI_test_strategy rsi_example))))) \<in>
     set (snd (snd (projr (snd (RSI_test_strategy rsi_example))))) \<and>
   col_RSI (row (last (snd (snd (projr (snd (RSI_test_strategy rsi_example))))))) \<noteq> None \<and>
   position (last (snd (snd (projr (snd (RSI_test_strategy rsi_example)))))) =
     Some (if the (col_RSI (row (last (snd (snd (projr (snd (RSI_test_strategy rsi_example))))))))
              < rsi_lower rsi_example then 1
           else if rsi_upper rsi_example
              < the (col_RSI (row (last (snd (snd (projr (snd (RSI_test_strategy rsi_example))))))))
           then - 1 else 0)"
proof -
  let ?R = "projr (snd (RSI_test_strategy rsi_example))"
  have r: "snd (RSI_test_strategy rsi_example) = Inr (fst ?R, fst (snd ?R), snd (snd ?R))"
    by (rule returns_collapse [OF examples_return(4)])
  from RSI_strategy_result [OF r] have "snd (snd ?R) \<noteq> []"
    by (simp add: strategy_result_def)
  then have m: "last (snd (snd ?R)) \<in> set (snd (snd ?R))" by simp
  from RSI_position_rule [OF r m] r m show ?thesis by blast
qed

text \<open>
  The claim as stated fails: on the closes 1, 2, 3, 2 with 2 periods and the thresholds 70
  and 30 the indicator is 100 and then 50 in the result frame. It has crossed above 70
  and never falls below 30, yet the position of the last row is 0, not -1.
\<close>

theorem RSI_carry_forward_counterexample:
  "rsi_upper rsi_example = 70 \<and> rsi_lower rsi_example = 30 \<and>
   map_option (map (\<lambda>x. (col_RSI (row x), position x)))
     (results (fst (RSI_test_strategy rsi_example))) =
     Some [(Some 100, Some (- 1)), (Some 50, Some 0)]"
  by (simp add: RSI_test_strategy_def test_strategy_tc_eq rsi_example_params rsi_example_frame)

section \<open>Degenerate windows\<close>

lemma rsi_value_zero: "rsi_value (Some 0) (Some 0) = None"
  by (simp add: rsi_value_def fdiv_def fadd_def fmul_def)

lemma RSI_get_data_rows:
  assumes "RSI_get_data p cs = Inr rows" "r \<in> set rows"
  shows "col_RSI r = rsi_value (col_MA_U r) (col_MA_D r)"
  using assms by (auto simp: RSI_get_data_def Let_def split: sum.splits)

lemma RSI_get_data_ok: "(\<exists>rows. RSI_get_data p cs = Inr rows) = (0 \<le> p)"
  by (auto simp: RSI_get_data_def Let_def rolling_def split: sum.splits)

lemma SO_get_data_ok: "(\<exists>rows. SO_get_data q dw cs = Inr rows) = (0 \<le> q \<and> 0 \<le> dw)"
  by (auto simp: SO_get_data_def Let_def rolling_def split: sum.splits)

lemma tc_frame_rows_notna:
  assumes "x \<in> set (tc_frame notna rule c rows)"
  shows "notna (row x)"
  using tc_frame_member [OF assms] bt_rows_defined by blast

lemma RSI_degenerate:
  assumes init: "RSI_init n p up lo s e g c cs = Inr a"
      and r: "r \<in> set (data a)" and z: "col_MA_U r = Some 0" "col_MA_D r = Some 0"
  shows "col_RSI r = None \<and>
         (\<forall>res. results (fst (RSI_test_strategy a)) = Some res \<longrightarrow> r \<notin> row ` set res)"
proof -
  from init obtain rows where g: "RSI_get_data p cs = Inr rows" and d: "data a = rows"
    by (auto simp: RSI_init_def split: sum.splits)
  from RSI_get_data_rows [OF g] r d z have nan: "col_RSI r = None"
    by (simp add: rsi_value_zero)
  have "r \<notin> row ` set res" if "results (fst (RSI_test_strategy a)) = Some res" for res
  proof
    assume "r \<in> row ` set res"
    then obtain x where "x \<in> set res" "row x = r" by auto
    with that have "rsi_notna r"
      by (auto simp: RSI_test_strategy_def test_strategy_tc_eq dest: tc_frame_rows_notna)
    with nan show False by (simp add: rsi_notna_def)
  qed
  with nan show ?thesis by blast
qed

lemma fold_min_le: "fold min ys y \<le> (y::real) \<and> (\<forall>x \<in> set ys. fold min ys y \<le> x)"
proof (induction ys arbitrary: y)
  case Nil
  then show ?case by simp
next
  case (Cons z zs)
  from Cons.IH [of "min z y"] show ?case by (auto simp: min_le_iff_disj)
qed

lemma fold_max_ge: "(y::real) \<le> fold max ys y \<and> (\<forall>x \<in> set ys. x \<le> fold max ys y)"
proof (induction ys arbitrary: y)
  case Nil
  then show ?case by simp
next
  case (Cons z zs)
  from Cons.IH [of "max z y"] show ?case by (auto simp: le_max_iff_disj)
qed

lemma list_min_le: "x \<in> set xs \<Longrightarrow> list_min xs \<le> x"
  using fold_min_le by (cases xs) auto

lemma list_max_ge: "x \<in> set xs \<Longrightarrow> x \<le> list_max xs"
  using fold_max_ge by (cases xs) auto

lemma observations_Some [simp]: "observations (map Some vs) = vs"
  by (induction vs) (simp_all add: observations_def List.map_filter_simps)

lemma roll_apply_defined:
  assumes "roll_apply agg w (map Some vs) = Some v" "vs \<noteq> []"
  shows "v = agg (drop (length vs - w) vs) \<and> last vs \<in> set (drop (length vs - w) vs)"
proof -
  have win: "window w (map Some vs) = map Some (drop (length vs - w) vs)"
    by (simp add: window_def drop_map)
  from assms(1) have v: "v = agg (drop (length vs - w) vs)" and "0 < length (drop (length vs - w) vs)"
    by (auto simp: roll_apply_def win Let_def split: if_splits)
  then have ne: "drop (length vs - w) vs \<noteq> []" by simp
  then have "last (drop (length vs - w) vs) = last vs" by simp
  with ne have "last vs \<in> set (drop (length vs - w) vs)" by (metis last_in_set)
  with v show ?thesis by simp
qed

lemma rolling_min_le:
  assumes "i < length cs"
      and "rolling_from list_min w [] (map (\<lambda>c. Some (f c)) cs) ! i = Some v"
  shows "v \<le> f (cs ! i)"
proof -
  let ?vs = "map f (take (Suc i) cs)"
  have t: "take (Suc i) (map (\<lambda>c. Some (f c)) cs) = map Some ?vs"
    by (simp add: take_map)
  have ne: "?vs \<noteq> []" using assms(1) by (cases cs) auto
  have l: "last ?vs = f (cs ! i)"
    using assms(1) by (simp add: last_map take_Suc_conv_app_nth)
  from assms have "roll_apply list_min w (map Some ?vs) = Some v"
    by (simp add: nth_rolling_from t del: take_Suc)
  from roll_apply_defined [OF this ne] l show ?thesis
    by (auto intro: list_min_le)
qed

lemma rolling_max_ge:
  assumes "i < length cs"
      and "rolling_from list_max w [] (map (\<lambda>c. Some (f c)) cs) ! i = Some v"
  shows "f (cs ! i) \<le> v"
proof -
  let ?vs = "map f (take (Suc i) cs)"
  have t: "take (Suc i) (map (\<lambda>c. Some (f c)) cs) = map Some ?vs"
    by (simp add: take_map)
  have ne: "?vs \<noteq> []" using assms(1) by (cases cs) auto
  have l: "last ?vs = f (cs ! i)"
    using assms(1) by (simp add: last_map take_Suc_conv_app_nth)
  from assms have "roll_apply list_max w (map Some ?vs) = Some v"
    by (simp add: nth_rolling_from t del: take_Suc)
  from roll_apply_defined [OF this ne] l show ?thesis
    by (auto intro: list_max_ge)
qed

lemma length_log_returns [simp]: "length (log_returns cs) = length cs"
  by (simp add: log_returns_def Let_def)

lemma SO_get_data_row:
  assumes "SO_get_data q dw cs = Inr rows" "r \<in> set rows"
  shows "\<exists>i < length cs. candle r = cs ! i \<and>
           col_roll_low r = rolling_from list_min (nat q) [] (map (\<lambda>c. Some (Low c)) cs) ! i \<and>
           col_roll_high r = rolling_from list_max (nat q) [] (map (\<lambda>c. Some (High c)) cs) ! i \<and>
           col_K r = k_value (Close (candle r)) (col_roll_low r) (col_roll_high r)"
proof -
  let ?lows = "rolling_from list_min (nat q) [] (map (\<lambda>c. Some (Low c)) cs)"
  let ?highs = "rolling_from list_max (nat q) [] (map (\<lambda>c. Some (High c)) cs)"
  let ?k = "map (\<lambda>(c, lo, hi). k_value (Close c) lo hi) (zip cs (zip ?lows ?highs))"
  from assms(1) obtain d where d: "rolling mean dw ?k = Inr d"
    and rows: "rows = map (\<lambda>(c, r, lo, hi, k, d).
                            \<lparr>candle = c, returns = r, col_roll_low = lo, col_roll_high = hi,
                             col_K = k, col_SO_D = d\<rparr>)
                           (zip cs (zip (log_returns cs) (zip ?lows (zip ?highs (zip ?k d)))))"
    by (auto simp: SO_get_data_def Let_def rolling_def split: sum.splits if_splits)
  from rolling_length [OF d] have ld: "length d = length cs" by simp
  then have len: "length rows = length cs" by (simp add: rows)
  from assms(2) obtain i where i: "i < length rows" and r: "r = rows ! i"
    by (auto simp: in_set_conv_nth)
  from i len ld have "candle r = cs ! i \<and> col_roll_low r = ?lows ! i \<and> col_roll_high r = ?highs ! i \<and>
      col_K r = k_value (Close (candle r)) (col_roll_low r) (col_roll_high r)"
    by (simp add: r rows)
  with i len show ?thesis by auto
qed

lemma k_value_degenerate: "k_value c (Some v) (Some v) = None"
  by (simp add: k_value_def fdiv_def fsub_def fmul_def)

lemma SO_degenerate:
  assumes init: "SO_init n q dw s e g c cs = Inr b"
      and wf: "\<forall>c \<in> set cs. Low c \<le> Close c \<and> Close c \<le> High c"
      and r: "r \<in> set (data b)" and z: "col_roll_high r \<noteq> None" "col_roll_high r = col_roll_low r"
  shows "Some (Close (candle r)) = col_roll_low r \<and> col_K r = None \<and>
         (\<forall>res. results (fst (SO_test_strategy b)) = Some res \<longrightarrow> r \<notin> row ` set res)"
proof -
  from init obtain rows where g: "SO_get_data q dw cs = Inr rows" and d: "data b = rows"
    by (auto simp: SO_init_def split: sum.splits)
  from z obtain v where hi: "col_roll_high r = Some v" and lo: "col_roll_low r = Some v" by auto
  from SO_get_data_row [OF g] r d obtain i where i: "i < length cs" and c: "candle r = cs ! i"
    and l: "col_roll_low r = rolling_from list_min (nat q) [] (map (\<lambda>c. Some (Low c)) cs) ! i"
    and h: "col_roll_high r = rolling_from list_max (nat q) [] (map (\<lambda>c. Some (High c)) cs) ! i"
    and k: "col_K r = k_value (Close (candle r)) (col_roll_low r) (col_roll_high r)"
    by blast
  from rolling_min_le [OF i] l lo have 1: "v \<le> Low (cs ! i)" by simp
  from rolling_max_ge [OF i] h hi have 2: "High (cs ! i) \<le> v" by simp
  from wf i have "Low (cs ! i) \<le> Close (cs ! i) \<and> Close (cs ! i) \<le> High (cs ! i)" by simp
  with 1 2 have cl: "Close (candle r) = v" by (simp add: c)
  from k hi lo have nan: "col_K r = None" by (simp add: k_value_degenerate)
  have "r \<notin> row ` set res" if "results (fst (SO_test_strategy b)) = Some res" for res
  proof
    assume "r \<in> row ` set res"
    then obtain x where "x \<in> set res" "row x = r" by auto
    with that have "so_notna r"
      by (auto simp: SO_test_strategy_def test_strategy_tc_eq dest: tc_frame_rows_notna)
    with nan show False by (simp add: so_notna_def)
  qed
  with nan cl lo show ?thesis by simp
qed

lemma up_moves_nonneg: "x \<in> set (up_moves close) \<Longrightarrow> \<exists>y\<ge>0. x = Some y"
  by (auto simp: up_moves_def np_where_def fgt_def split: option.splits)

lemma down_moves_nonneg: "x \<in> set (down_moves close) \<Longrightarrow> \<exists>y\<ge>0. x = Some y"
  by (auto simp: down_moves_def np_where_def flt_def fgt_def fneg_def split: option.splits)

lemma length_up_moves [simp]: "length (up_moves close) = length close"
  by (simp add: up_moves_def)

lemma length_down_moves [simp]: "length (down_moves close) = length close"
  by (simp add: down_moves_def)

lemma mean_nonneg: "\<forall>x \<in> set vs. 0 \<le> x \<Longrightarrow> 0 \<le> mean vs"
  by (simp add: mean_def sum_list_nonneg)

lemma rolling_mean_nonneg:
  assumes nn: "\<And>x. x \<in> set xs \<Longrightarrow> \<exists>y\<ge>0. x = Some y" and i: "i < length xs"
      and v: "rolling_from mean w [] xs ! i = Some v"
  shows "0 \<le> v"
proof -
  let ?vs = "map the (take (Suc i) xs)"
  have el: "\<exists>y\<ge>0. x = Some y" if "x \<in> set (take (Suc i) xs)" for x
    using nn that by (meson in_set_takeD)
  have "map (\<lambda>x. Some (the x)) (take (Suc i) xs) = take (Suc i) xs"
  proof (rule map_idI)
    fix x assume "x \<in> set (take (Suc i) xs)"
    from el [OF this] show "Some (the x) = x" by auto
  qed
  then have t: "take (Suc i) xs = map Some ?vs" by (simp add: o_def)
  have pos: "\<forall>x \<in> set ?vs. 0 \<le> x"
  proof
    fix x assume "x \<in> set ?vs"
    then obtain z where "z \<in> set (take (Suc i) xs)" "x = the z" by auto
    with el [of z] show "0 \<le> x" by auto
  qed
  have ne: "?vs \<noteq> []" using i by (cases xs) auto
  from v i have "roll_apply mean w (map Some ?vs) = Some v"
    using nth_rolling_from [OF i, of mean w "[]"] t by simp
  from roll_apply_defined [OF this ne] have "v = mean (drop (length ?vs - w) ?vs)" by simp
  moreover have "\<forall>x \<in> set (drop (length ?vs - w) ?vs). 0 \<le> x"
    using pos by (meson in_set_dropD)
  ultimately show ?thesis by (simp add: mean_nonneg)
qed

lemma RSI_get_data_row:
  assumes "RSI_get_data p cs = Inr rows" "r \<in> set rows"
  shows "\<exists>i < length cs.
           col_MA_U r = rolling_from mean (nat p) [] (up_moves (map (\<lambda>c. Some (Close c)) cs)) ! i \<and>
           col_MA_D r = rolling_from mean (nat p) [] (down_moves (map (\<lambda>c. Some (Close c)) cs)) ! i"
proof -
  let ?close = "map (\<lambda>c. Some (Close c)) cs"
  let ?mu = "rolling_from mean (nat p) [] (up_moves ?close)"
  let ?md = "rolling_from mean (nat p) [] (down_moves ?close)"
  from assms(1) have rows: "rows = map (\<lambda>(c, r, u, d, mu, md).
                    \<lparr>candle = c, returns = r, col_U = u, col_D = d, col_MA_U = mu,
                     col_MA_D = md, col_RSI = rsi_value mu md\<rparr>)
                   (zip cs (zip (log_returns cs) (zip (up_moves ?close) (zip (down_moves ?close)
                      (zip ?mu ?md)))))"
    by (auto simp: RSI_get_data_def Let_def rolling_def split: sum.splits if_splits)
  then have len: "length rows = length cs" by simp
  from assms(2) obtain i where i: "i < length rows" and r: "r = rows ! i"
    by (auto simp: in_set_conv_nth)
  from i len have "col_MA_U r = ?mu ! i \<and> col_MA_D r = ?md ! i"
    by (simp add: r rows)
  with i len show ?thesis by auto
qed

lemma RSI_zero_denominator:
  assumes init: "RSI_init n p up lo s e g c cs = Inr a" and r: "r \<in> set (data a)"
      and u: "col_MA_U r = Some u" and d: "col_MA_D r = Some d" and z: "u + d = 0"
  shows "u = 0 \<and> d = 0"
proof -
  from init obtain rows where g: "RSI_get_data p cs = Inr rows" and da: "data a = rows"
    by (auto simp: RSI_init_def split: sum.splits)
  let ?close = "map (\<lambda>c. Some (Close c)) cs"
  from RSI_get_data_row [OF g] r da obtain i where i: "i < length cs"
    and mu: "col_MA_U r = rolling_from mean (nat p) [] (up_moves ?close) ! i"
    and md: "col_MA_D r = rolling_from mean (nat p) [] (down_moves ?close) ! i"
    by blast
  have "0 \<le> u"
  proof (rule rolling_mean_nonneg)
    show "\<And>x. x \<in> set (up_moves ?close) \<Longrightarrow> \<exists>y\<ge>0. x = Some y" by (rule up_moves_nonneg)
    show "i < length (up_moves ?close)" using i by simp
    show "rolling_from mean (nat p) [] (up_moves ?close) ! i = Some u" using mu u by simp
  qed
  moreover have "0 \<le> d"
  proof (rule rolling_mean_nonneg)
    show "\<And>x. x \<in> set (down_moves ?close) \<Longrightarrow> \<exists>y\<ge>0. x = Some y" by (rule down_moves_nonneg)
    show "i < length (down_moves ?close)" using i by simp
    show "rolling_from mean (nat p) [] (down_moves ?close) ! i = Some d" using md d by simp
  qed
  ultimately show ?thesis using z by simp
qed

lemma stored_results:
  "results (fst (test_strategy_tc notna rule a)) = Some (the (results (fst (test_strategy_tc notna rule a))))"
  by (simp add: test_strategy_tc_eq)

lemma map_snd_zip_tl: "map (\<lambda>p. f (snd p)) (zip xs (tl xs)) = map f (tl xs)"
proof (cases xs)
  case Nil
  then show ?thesis by simp
next
  case (Cons x ys)
  have "map (\<lambda>p. f (snd p)) (zip (x # ys) ys) = map f ys" for x
    by (induction ys arbitrary: x) simp_all
  with Cons show ?thesis by simp
qed

lemma bt_rows_rows:
  assumes "\<And>r. notna r \<Longrightarrow> returns r \<noteq> None" "\<And>r. rule r \<noteq> None"
  shows "map fst (bt_rows notna rule rows) = tl (filter notna rows)"
proof -
  let ?d = "filter notna rows"
  have "map fst (bt_rows notna rule rows) = map (\<lambda>p. snd p) (zip ?d (tl ?d))"
    by (simp add: bt_rows_pairs [OF assms] o_def split_def)
  also have "\<dots> = tl ?d"
    using map_snd_zip_tl [of "\<lambda>r. r" ?d] by simp
  finally show ?thesis .
qed

lemma tc_frame_rows:
  assumes "\<And>r. notna r \<Longrightarrow> returns r \<noteq> None" "\<And>r. rule r \<noteq> None"
  shows "map row (tc_frame notna rule c rows) = tl (filter notna rows)"
  by (simp only: tc_frame_columns bt_rows_rows [OF assms])

lemma sma_frame_rows: "map row (sma_frame rows) = tl (filter sma_notna rows)"
  by (simp only: sma_frame_columns bt_rows_rows [of sma_notna sma_rule, OF notna_returns(1) rule_defined(1)])

lemma rsi_plateau_init:
  "RSI_init ''EUR_USD'' 2 70 30 ''2020-01-01'' ''2020-01-08'' ''D'' 0 plateau = Inr rsi_plateau"
  by (simp add: rsi_plateau_def RSI_init_def RSI_get_data_def rolling_def Let_def)

lemma rsi_plateau_data:
  "data rsi_plateau =
    [\<lparr>candle = flat_candle 0 1, returns = None, col_U = Some 0, col_D = Some 0, col_MA_U = None,
      col_MA_D = None, col_RSI = None\<rparr>,
     \<lparr>candle = flat_candle 1 2, returns = Some (ln 2), col_U = Some 1, col_D = Some 0,
      col_MA_U = Some (1 / 2), col_MA_D = Some 0, col_RSI = Some 100\<rparr>,
     \<lparr>candle = flat_candle 2 2, returns = Some 0, col_U = Some 0, col_D = Some 0,
      col_MA_U = Some (1 / 2), col_MA_D = Some 0, col_RSI = Some 100\<rparr>,
     \<lparr>candle = flat_candle 3 2, returns = Some 0, col_U = Some 0, col_D = Some 0,
      col_MA_U = Some 0, col_MA_D = Some 0, col_RSI = None\<rparr>,
     \<lparr>candle = flat_candle 4 3, returns = Some (ln (3 / 2)), col_U = Some 1, col_D = Some 0,
      col_MA_U = Some (1 / 2), col_MA_D = Some 0, col_RSI = Some 100\<rparr>,
     \<lparr>candle = flat_candle 5 2, returns = Some (ln (2 / 3)), col_U = Some 0, col_D = Some 1,
      col_MA_U = Some (1 / 2), col_MA_D = Some (1 / 2), col_RSI = Some 50\<rparr>,
     \<lparr>candle = flat_candle 6 1, returns = Some (ln (1 / 2)), col_U = Some 0, col_D = Some 1,
      col_MA_U = Some 0, col_MA_D = Some 1, col_RSI = Some 0\<rparr>]"
  by (simp add: rsi_plateau_def RSI_init_def RSI_get_data_def plateau_def flat_candle_def series_eval
      rsi_value_def up_moves_def down_moves_def del: not_None_eq)

lemma so_plateau_init:
  "SO_init ''EUR_USD'' 2 1 ''2020-01-01'' ''2020-01-08'' ''D'' 0 plateau = Inr so_plateau"
  by (simp add: so_plateau_def SO_init_def SO_get_data_def rolling_def Let_def)

lemma so_plateau_data:
  "data so_plateau =
    [\<lparr>candle = flat_candle 0 1, returns = None, col_roll_low = None, col_roll_high = None,
      col_K = None, col_SO_D = None\<rparr>,
     \<lparr>candle = flat_candle 1 2, returns = Some (ln 2), col_roll_low = Some 1, col_roll_high = Some 2,
      col_K = Some 100, col_SO_D = Some 100\<rparr>,
     \<lparr>candle = flat_candle 2 2, returns = Some 0, col_roll_low = Some 2, col_roll_high = Some 2,
      col_K = None, col_SO_D = None\<rparr>,
     \<lparr>candle = flat_candle 3 2, returns = Some 0, col_roll_low = Some 2, col_roll_high = Some 2,
      col_K = None, col_SO_D = None\<rparr>,
     \<lparr>candle = flat_candle 4 3, returns = Some (ln (3 / 2)), col_roll_low = Some 2,
      col_roll_high = Some 3, col_K = Some 100, col_SO_D = Some 100\<rparr>,
     \<lparr>candle = flat_candle 5 2, returns = Some (ln (2 / 3)), col_roll_low = Some 2,
      col_roll_high = Some 3, col_K = Some 0, col_SO_D = Some 0\<rparr>,
     \<lparr>candle = flat_candle 6 1, returns = Some (ln (1 / 2)), col_roll_low = Some 1,
      col_roll_high = Some 2, col_K = Some 0, col_SO_D = Some 0\<rparr>]"
  by (simp add: so_plateau_def SO_init_def SO_get_data_def plateau_def flat_candle_def series_eval
      k_value_def del: not_None_eq)

lemma rsi_plateau_rows:
  "results (fst (RSI_test_strategy rsi_plateau)) =
     Some (the (results (fst (RSI_test_strategy rsi_plateau))))"
  "map (\<lambda>x. Date (candle (row x))) (the (results (fst (RSI_test_strategy rsi_plateau)))) = [2, 4, 5, 6]"
proof -
  let ?rule = "\<lambda>r. rsi_position (rsi_upper rsi_plateau) (rsi_lower rsi_plateau) (col_RSI r)"
  show "results (fst (RSI_test_strategy rsi_plateau)) =
     Some (the (results (fst (RSI_test_strategy rsi_plateau))))"
    unfolding RSI_test_strategy_def by (rule stored_results)
  have rw: "map row (tc_frame rsi_notna ?rule (tc rsi_plateau) (data rsi_plateau)) =
      tl (filter rsi_notna (data rsi_plateau))"
    by (rule tc_frame_rows) (simp_all add: notna_returns rsi_position_defined)
  have "map (\<lambda>x. Date (candle (row x))) (tc_frame rsi_notna ?rule (tc rsi_plateau) (data rsi_plateau)) =
      map (\<lambda>r. Date (candle r)) (map row (tc_frame rsi_notna ?rule (tc rsi_plateau) (data rsi_plateau)))"
    by (simp add: o_def)
  also have "\<dots> = map (\<lambda>r. Date (candle r)) (tl (filter rsi_notna (data rsi_plateau)))"
    by (simp only: rw)
  also have "\<dots> = [2, 4, 5, 6]"
    by (simp add: rsi_plateau_data rsi_notna_def flat_candle_def)
  finally show "map (\<lambda>x. Date (candle (row x))) (the (results (fst (RSI_test_strategy rsi_plateau)))) =
      [2, 4, 5, 6]"
    by (simp add: RSI_test_strategy_def test_strategy_tc_eq)
qed

lemma so_plateau_rows:
  "results (fst (SO_test_strategy so_plateau)) =
     Some (the (results (fst (SO_test_strategy so_plateau))))"
  "map (\<lambda>x. Date (candle (row x))) (the (results (fst (SO_test_strategy so_plateau)))) = [4, 5, 6]"
proof -
  let ?rule = "\<lambda>r. np_where (fgt (col_K r) (col_SO_D r)) (Some 1) (Some (- 1))"
  show "results (fst (SO_test_strategy so_plateau)) =
     Some (the (results (fst (SO_test_strategy so_plateau))))"
    unfolding SO_test_strategy_def by (rule stored_results)
  have rw: "map row (tc_frame so_notna ?rule (tc so_plateau) (data so_plateau)) =
      tl (filter so_notna (data so_plateau))"
    by (rule tc_frame_rows) (simp_all add: notna_returns rule_defined)
  have "map (\<lambda>x. Date (candle (row x))) (tc_frame so_notna ?rule (tc so_plateau) (data so_plateau)) =
      map (\<lambda>r. Date (candle r)) (map row (tc_frame so_notna ?rule (tc so_plateau) (data so_plateau)))"
    by (simp add: o_def)
  also have "\<dots> = map (\<lambda>r. Date (candle r)) (tl (filter so_notna (data so_plateau)))"
    by (simp only: rw)
  also have "\<dots> = [4, 5, 6]"
    by (simp add: so_plateau_data so_notna_def flat_candle_def)
  finally show "map (\<lambda>x. Date (candle (row x))) (the (results (fst (SO_test_strategy so_plateau)))) =
      [4, 5, 6]"
    by (simp add: SO_test_strategy_def test_strategy_tc_eq)
qed

text \<open>
  C10. Computing the indicators raises on no price series: \<open>get_data\<close> of RSIBacktester and
  of SOBacktester fail only on a negative window. In the frame of a new RSIBacktester a
  zero denominator \<open>MA_U + MA_D\<close> comes with a zero numerator (both means are zero), the
  indicator of such a row is NaN, and the row is in no result frame of the backtest. In the
  frame of a new SOBacktester built from candles with Low \<le> Close \<le> High, a row whose
  rolling high equals its rolling low has its close at that value (the division is 0/0),
  its \<open>K\<close> is NaN, and the row is in no result frame of the backtest.
\<close>

theorem degenerate_windows:
  "((\<exists>rows. RSI_get_data p cs = Inr rows) = (0 \<le> p)) \<and>
   (RSI_init n p up lo s e g c cs = Inr a \<and> r \<in> set (data a) \<longrightarrow>
      (col_MA_U r = Some u \<and> col_MA_D r = Some d \<and> u + d = 0 \<longrightarrow> u = 0 \<and> d = 0) \<and>
      (col_MA_U r = Some 0 \<and> col_MA_D r = Some 0 \<longrightarrow>
         col_RSI r = None \<and>
         (\<forall>res. results (fst (RSI_test_strategy a)) = Some res \<longrightarrow> r \<notin> row ` set res))) \<and>
   ((\<exists>rows. SO_get_data q dw cs' = Inr rows) = (0 \<le> q \<and> 0 \<le> dw)) \<and>
   (SO_init n' q dw s' e' g' c' cs' = Inr b \<and>
    (\<forall>k \<in> set cs'. Low k \<le> Close k \<and> Close k \<le> High k) \<and>
    r' \<in> set (data b) \<and> col_roll_high r' \<noteq> None \<and> col_roll_high r' = col_roll_low r' \<longrightarrow>
      Some (Close (candle r')) = col_roll_low r' \<and> col_K r' = None \<and>
      (\<forall>res. results (fst (SO_test_strategy b)) = Some res \<longrightarrow> r' \<notin> row ` set res))"
  using RSI_get_data_ok [of p cs] SO_get_data_ok [of q dw cs']
    RSI_zero_denominator [of n p up lo s e g c cs a r u d]
    RSI_degenerate [of n p up lo s e g c cs a r]
    SO_degenerate [of n' q dw s' e' g' c' cs' b r']
  by blast

theorem degenerate_windows_witness:
  "(RSI_init ''EUR_USD'' 2 70 30 ''2020-01-01'' ''2020-01-08'' ''D'' 0 plateau = Inr rsi_plateau \<and>
    data rsi_plateau ! 3 \<in> set (data rsi_plateau) \<and>
    map Close plateau = [1, 2, 2, 2, 3, 2, 1] \<and>
    candle (data rsi_plateau ! 3) = flat_candle 3 2 \<and>
    returns (data rsi_plateau ! 3) = Some 0 \<and>
    col_MA_U (data rsi_plateau ! 3) = Some 0 \<and> col_MA_D (data rsi_plateau ! 3) = Some 0 \<and>
    col_RSI (data rsi_plateau ! 3) = None \<and>
    results (fst (RSI_test_strategy rsi_plateau)) =
      Some (the (results (fst (RSI_test_strategy rsi_plateau)))) \<and>
    map (\<lambda>x. Date (candle (row x))) (the (results (fst (RSI_test_strategy rsi_plateau)))) =
      [2, 4, 5, 6] \<and>
    \<not> isl (snd (RSI_test_strategy rsi_plateau)) \<and>
    data rsi_plateau ! 3 \<notin> row ` set (the (results (fst (RSI_test_strategy rsi_plateau))))) \<and>
   (SO_init ''EUR_USD'' 2 1 ''2020-01-01'' ''2020-01-08'' ''D'' 0 plateau = Inr so_plateau \<and>
    data so_plateau ! 2 \<in> set (data so_plateau) \<and>
    candle (data so_plateau ! 2) = flat_candle 2 2 \<and>
    returns (data so_plateau ! 2) = Some 0 \<and>
    col_roll_high (data so_plateau ! 2) = Some 2 \<and> col_roll_low (data so_plateau ! 2) = Some 2 \<and>
    Close (candle (data so_plateau ! 2)) = 2 \<and>
    col_K (data so_plateau ! 2) = None \<and>
    results (fst (SO_test_strategy so_plateau)) =
      Some (the (results (fst (SO_test_strategy so_plateau)))) \<and>
    map (\<lambda>x. Date (candle (row x))) (the (results (fst (SO_test_strategy so_plateau)))) = [4, 5, 6] \<and>
    \<not> isl (snd (SO_test_strategy so_plateau)) \<and>
    data so_plateau ! 2 \<notin> row ` set (the (results (fst (SO_test_strategy so_plateau)))))"
proof -
  have wf: "\<forall>k \<in> set plateau. Low k \<le> Close k \<and> Close k \<le> High k"
    by (simp add: plateau_def flat_candle_def)
  have cl: "map Close plateau = [1, 2, 2, 2, 3, 2, 1]"
    by (simp add: plateau_def flat_candle_def)
  have r: "data rsi_plateau ! 3 \<in> set (data rsi_plateau)"
    "candle (data rsi_plateau ! 3) = flat_candle 3 2"
    "returns (data rsi_plateau ! 3) = Some 0"
    "col_MA_U (data rsi_plateau ! 3) = Some 0" "col_MA_D (data rsi_plateau ! 3) = Some 0"
    by (simp_all add: rsi_plateau_data)
  have b: "data so_plateau ! 2 \<in> set (data so_plateau)"
    "candle (data so_plateau ! 2) = flat_candle 2 2"
    "returns (data so_plateau ! 2) = Some 0"
    "col_roll_high (data so_plateau ! 2) = Some 2" "col_roll_low (data so_plateau ! 2) = Some 2"
    "Close (candle (data so_plateau ! 2)) = 2"
    by (simp_all add: so_plateau_data flat_candle_def)
  have nr: "\<not> isl (snd (RSI_test_strategy rsi_plateau))"
    unfolding RSI_test_strategy_def
    using tc_fails_iff [of rsi_notna "\<lambda>r. rsi_position (rsi_upper rsi_plateau) (rsi_lower rsi_plateau)
        (col_RSI r)" rsi_plateau, OF notna_returns(4) rsi_position_defined]
    by (simp add: rsi_plateau_data rsi_notna_def)
  have nb: "\<not> isl (snd (SO_test_strategy so_plateau))"
    unfolding SO_test_strategy_def
    using tc_fails_iff [of so_notna "\<lambda>r. np_where (fgt (col_K r) (col_SO_D r)) (Some 1) (Some (- 1))"
        so_plateau, OF notna_returns(5) rule_defined(2)]
    by (simp add: so_plateau_data so_notna_def)
  from degenerate_windows
    [of 2 plateau "''EUR_USD''" 70 30 "''2020-01-01''" "''2020-01-08''" "''D''" 0 rsi_plateau
      "data rsi_plateau ! 3" 0 0 2 1 plateau "''EUR_USD''" "''2020-01-01''" "''2020-01-08''"
      "''D''" 0 so_plateau "data so_plateau ! 2"]
    rsi_plateau_init so_plateau_init wf r b rsi_plateau_rows(1) so_plateau_rows(1)
  have "col_RSI (data rsi_plateau ! 3) = None \<and>
      data rsi_plateau ! 3 \<notin> row ` set (the (results (fst (RSI_test_strategy rsi_plateau)))) \<and>
      col_K (data so_plateau ! 2) = None \<and>
      data so_plateau ! 2 \<notin> row ` set (the (results (fst (SO_test_strategy so_plateau))))"
    by simp
  with rsi_plateau_init so_plateau_init cl r b nr nb rsi_plateau_rows so_plateau_rows
  show ?thesis by simp
qed

section \<open>Warm-up\<close>



















section \<open>Grid search\<close>

subsection \<open>The least value and its index\<close>

lemma argmin_scan_Some:
  assumes "bi < j" "j = length pre" "pre ! bi = b"
      and "\<forall>k < j. b \<le> pre ! k" and "\<forall>k < bi. b < pre ! k"
  shows "let i = argmin_scan bi (Some b) j (map Some us) in
         i < length (pre @ us) \<and> (\<forall>k < length (pre @ us). (pre @ us) ! i \<le> (pre @ us) ! k) \<and>
         (\<forall>k < i. (pre @ us) ! i < (pre @ us) ! k)"
  using assms
proof (induction us arbitrary: bi b j pre)
  case Nil
  then show ?case by (simp add: Let_def)
next
  case (Cons u us)
  show ?case
  proof (cases "u < b")
    case True
    have "let i = argmin_scan j (Some u) (Suc j) (map Some us) in
         i < length ((pre @ [u]) @ us) \<and>
         (\<forall>k < length ((pre @ [u]) @ us). ((pre @ [u]) @ us) ! i \<le> ((pre @ [u]) @ us) ! k) \<and>
         (\<forall>k < i. ((pre @ [u]) @ us) ! i < ((pre @ [u]) @ us) ! k)"
    proof (rule Cons.IH)
      show "j < Suc j" by simp
      show "Suc j = length (pre @ [u])" using Cons.prems by simp
      show "(pre @ [u]) ! j = u" using Cons.prems by simp
      show "\<forall>k < Suc j. u \<le> (pre @ [u]) ! k"
        using Cons.prems True by (auto simp: nth_append less_Suc_eq intro: less_imp_le order_trans)
      show "\<forall>k < j. u < (pre @ [u]) ! k"
        using Cons.prems True by (auto simp: nth_append intro: less_le_trans)
    qed
    with True show ?thesis by (simp add: less_val_def)
  next
    case False
    have "let i = argmin_scan bi (Some b) (Suc j) (map Some us) in
         i < length ((pre @ [u]) @ us) \<and>
         (\<forall>k < length ((pre @ [u]) @ us). ((pre @ [u]) @ us) ! i \<le> ((pre @ [u]) @ us) ! k) \<and>
         (\<forall>k < i. ((pre @ [u]) @ us) ! i < ((pre @ [u]) @ us) ! k)"
    proof (rule Cons.IH)
      show "bi < Suc j" using Cons.prems by simp
      show "Suc j = length (pre @ [u])" using Cons.prems by simp
      show "(pre @ [u]) ! bi = b" using Cons.prems by (simp add: nth_append)
      show "\<forall>k < Suc j. b \<le> (pre @ [u]) ! k"
        using Cons.prems False by (auto simp: nth_append less_Suc_eq)
      show "\<forall>k < bi. b < (pre @ [u]) ! k"
        using Cons.prems by (auto simp: nth_append)
    qed
    with False show ?thesis by (simp add: less_val_def)
  qed
qed

lemma np_argmin_Some:
  assumes "np_argmin (map Some ws) = Inr i"
  shows "i < length ws \<and> (\<forall>k < length ws. ws ! i \<le> ws ! k) \<and> (\<forall>k < i. ws ! i < ws ! k)"
proof -
  from assms obtain w rest where ws: "ws = w # rest" by (cases ws) (auto simp: np_argmin_def)
  from assms have i: "i = argmin_scan 0 (Some w) 1 (map Some rest)"
    by (simp add: np_argmin_def ws)
  from argmin_scan_Some [of 0 1 "[w]" w rest] show ?thesis
    by (simp add: Let_def i ws)
qed

lemma np_argmin_error: "np_argmin vs = Inl e \<Longrightarrow> vs = []"
  by (cases vs) (simp_all add: np_argmin_def)

lemma eval_grid_inv:
  assumes inv: "\<And>x s. I s \<Longrightarrow> \<not> isl (snd (f x s)) \<Longrightarrow> I (fst (f x s))"
  shows "I s \<Longrightarrow> \<not> isl (snd (eval_grid f xs s)) \<Longrightarrow> I (fst (eval_grid f xs s))"
proof (induction xs arbitrary: s)
  case Nil
  then show ?case by simp
next
  case (Cons x xs)
  from Cons.prems(2) have ok: "\<not> isl (snd (f x s))"
    by (auto split: prod.splits sum.splits)
  from inv [OF Cons.prems(1) ok] have 1: "I (fst (f x s))" .
  from Cons.prems(2) ok have 2: "\<not> isl (snd (eval_grid f xs (fst (f x s))))"
    by (auto split: prod.splits sum.splits)
  from Cons.IH [OF 1 2] ok 2 show ?case
    by (auto split: prod.splits sum.splits)
qed

lemma eval_grid_values:
  assumes inv: "\<And>x s. I s \<Longrightarrow> \<not> isl (snd (f x s)) \<Longrightarrow> I (fst (f x s))"
      and indep: "\<And>x s. I s \<Longrightarrow> snd (f x s) = J x"
  shows "I s \<Longrightarrow> eval_grid f xs s = (s', Inr vs) \<Longrightarrow> map J xs = map Inr vs"
proof (induction xs arbitrary: s vs)
  case Nil
  then show ?case by simp
next
  case (Cons x xs)
  from Cons.prems(2) obtain s1 v ws where 1: "f x s = (s1, Inr v)"
    and 2: "eval_grid f xs s1 = (s', Inr ws)" and vs: "vs = v # ws"
    by (auto split: prod.splits sum.splits)
  from inv [OF Cons.prems(1), of x] 1 have "I s1" by simp
  from Cons.IH [OF this 2] indep [OF Cons.prems(1), of x] 1 show ?case by (simp add: vs)
qed

lemma brute_result:
  assumes inv: "\<And>x s. I s \<Longrightarrow> \<not> isl (snd (f x s)) \<Longrightarrow> I (fst (f x s))"
      and indep: "\<And>x s. I s \<Longrightarrow> snd (f x s) = J x"
      and some: "\<And>x v. J x = Inr v \<Longrightarrow> v \<noteq> None"
      and I: "I s" and b: "brute rd f ranges s = (s1, Inr opt)"
  shows "I s1 \<and> (\<exists>grid ws i. mgrid rd ranges = Inr grid \<and> length ws = length grid \<and>
           map J grid = map (\<lambda>w. Inr (Some w)) ws \<and> i < length grid \<and> opt = grid ! i \<and>
           (\<forall>k < length ws. ws ! i \<le> ws ! k) \<and> (\<forall>k < i. ws ! i < ws ! k))"
proof -
  from b obtain grid jout i where g: "mgrid rd ranges = Inr grid"
    and e: "eval_grid f grid s = (s1, Inr jout)" and a: "np_argmin jout = Inr i"
    and opt: "opt = grid ! i"
    by (auto simp: brute_def split: sum.splits prod.splits)
  have "I (fst (eval_grid f grid s))"
  proof (rule eval_grid_inv [where I=I])
    show "\<And>x s. I s \<Longrightarrow> \<not> isl (snd (f x s)) \<Longrightarrow> I (fst (f x s))" by (rule inv)
    show "I s" by (rule I)
    show "\<not> isl (snd (eval_grid f grid s))" by (simp add: e)
  qed
  with e have 1: "I s1" by simp
  have J: "map J grid = map Inr jout"
  proof (rule eval_grid_values [where I=I and f=f and J=J])
    show "\<And>x s. I s \<Longrightarrow> \<not> isl (snd (f x s)) \<Longrightarrow> I (fst (f x s))" by (rule inv)
    show "\<And>x s. I s \<Longrightarrow> snd (f x s) = J x" by (rule indep)
    show "I s" by (rule I)
    show "eval_grid f grid s = (s1, Inr jout)" by (rule e)
  qed
  then have len: "length jout = length grid" by (metis length_map)
  have "\<forall>v \<in> set jout. v \<noteq> None"
  proof
    fix v assume "v \<in> set jout"
    then obtain k where k: "k < length jout" "v = jout ! k" by (auto simp: in_set_conv_nth)
    with J len have "J (grid ! k) = Inr v" by (metis nth_map)
    then show "v \<noteq> None" by (rule some)
  qed
  then have "map (\<lambda>v. Some (the v)) jout = jout" by (intro map_idI) auto
  then have jout: "jout = map Some (map the jout)" by (simp add: o_def)
  let ?ws = "map the jout"
  from a jout have "np_argmin (map Some ?ws) = Inr i" by simp
  from np_argmin_Some [OF this]
  have i: "i < length ?ws" "\<forall>k < length ?ws. ?ws ! i \<le> ?ws ! k" "\<forall>k < i. ?ws ! i < ?ws ! k"
    by blast+
  have "map J grid = map (\<lambda>w. Inr (Some w)) ?ws"
    using J jout by (metis (no_types, lifting) map_map o_def map_eq_conv)
  with g len i opt 1 show ?thesis
    by (intro conjI exI [of _ grid] exI [of _ ?ws] exI [of _ i]) simp_all
qed

lemma optimize_result:
  assumes inv: "\<And>x s. I s \<Longrightarrow> \<not> isl (snd (f x s)) \<Longrightarrow> I (fst (f x s))"
      and indep: "\<And>x s. I s \<Longrightarrow> snd (f x s) = J x"
      and some: "\<And>x v. J x = Inr v \<Longrightarrow> v \<noteq> None"
      and I: "I a" and o: "optimize rd f ranges a = (a', Inr (opt, perf))"
  shows "\<exists>s1 grid ps i. I s1 \<and> f opt s1 = (a', Inr (fneg perf)) \<and>
           mgrid rd ranges = Inr grid \<and> length ps = length grid \<and>
           map J grid = map (\<lambda>p. Inr (Some (- p))) ps \<and> i < length grid \<and> opt = grid ! i \<and>
           perf = Some (ps ! i) \<and>
           (\<forall>k < length ps. ps ! k \<le> ps ! i) \<and> (\<forall>k < i. ps ! k < ps ! i)"
proof -
  from o obtain s1 v where b: "brute rd f ranges a = (s1, Inr opt)"
    and f: "f opt s1 = (a', Inr v)" and perf: "perf = fneg v"
    by (auto simp: optimize_def split: sum.splits prod.splits)
  have "I s1 \<and> (\<exists>grid ws i. mgrid rd ranges = Inr grid \<and> length ws = length grid \<and>
           map J grid = map (\<lambda>w. Inr (Some w)) ws \<and> i < length grid \<and> opt = grid ! i \<and>
           (\<forall>k < length ws. ws ! i \<le> ws ! k) \<and> (\<forall>k < i. ws ! i < ws ! k))"
  proof (rule brute_result [where I=I and f=f and J=J])
    show "\<And>x s. I s \<Longrightarrow> \<not> isl (snd (f x s)) \<Longrightarrow> I (fst (f x s))" by (rule inv)
    show "\<And>x s. I s \<Longrightarrow> snd (f x s) = J x" by (rule indep)
    show "\<And>x v. J x = Inr v \<Longrightarrow> v \<noteq> None" by (rule some)
    show "I a" by (rule I)
    show "brute rd f ranges a = (s1, Inr opt)" by (rule b)
  qed
  then obtain grid ws i
    where 1: "I s1" and g: "mgrid rd ranges = Inr grid" and len: "length ws = length grid"
      and J: "map J grid = map (\<lambda>w. Inr (Some w)) ws" and i: "i < length grid"
      and opt: "opt = grid ! i" and le: "\<forall>k < length ws. ws ! i \<le> ws ! k"
      and lt: "\<forall>k < i. ws ! i < ws ! k"
    by blast
  from J i len have "J opt = Inr (Some (ws ! i))" unfolding opt by (metis nth_map)
  with indep [OF 1, of opt] f have v: "v = Some (ws ! i)" by simp
  let ?ps = "map uminus ws"
  have "map J grid = map (\<lambda>p. Inr (Some (- p))) ?ps" by (simp add: J o_def)
  moreover have "f opt s1 = (a', Inr (fneg perf))" by (simp add: f perf v fneg_def)
  moreover have "perf = Some (?ps ! i)" using i len by (simp add: perf v fneg_def)
  moreover have "\<forall>k < length ?ps. ?ps ! k \<le> ?ps ! i" using le i len by simp
  moreover have "\<forall>k < i. ?ps ! k < ?ps ! i" using lt i len by simp
  ultimately show ?thesis using 1 g len i opt
    by (intro exI [of _ s1] exI [of _ grid] exI [of _ ?ps] exI [of _ i]) simp_all
qed

lemma optimize_first:
  assumes "optimize rd f ranges a = (a', Inr r)"
  shows "\<exists>x v. snd (f x a) = Inr v"
proof -
  from assms obtain s1 opt where b: "brute rd f ranges a = (s1, Inr opt)"
    by (auto simp: optimize_def split: sum.splits prod.splits)
  then obtain grid jout i where e: "eval_grid f grid a = (s1, Inr jout)"
    and a: "np_argmin jout = Inr i"
    by (auto simp: brute_def split: sum.splits prod.splits)
  from a have "jout \<noteq> []" by (auto simp: np_argmin_def)
  with e obtain x xs where "grid = x # xs" by (cases grid) auto
  with e obtain s2 v where "f x a = (s2, Inr v)" by (auto split: prod.splits sum.splits)
  then have "snd (f x a) = Inr v" by simp
  then show ?thesis by blast
qed

subsection \<open>The search evaluated forwards\<close>

lemma eval_grid_forward:
  assumes inv: "\<And>x s. I s \<Longrightarrow> \<not> isl (snd (f x s)) \<Longrightarrow> I (fst (f x s))"
      and indep: "\<And>x s. I s \<Longrightarrow> snd (f x s) = J x"
  shows "I s \<Longrightarrow> map J xs = map Inr vs \<Longrightarrow>
         snd (eval_grid f xs s) = Inr vs \<and> I (fst (eval_grid f xs s))"
proof (induction xs arbitrary: s vs)
  case Nil
  then show ?case by simp
next
  case (Cons x xs)
  from Cons.prems(2) obtain v ws where vs: "vs = v # ws" and v: "J x = Inr v"
    and ws: "map J xs = map Inr ws" by (cases vs) auto
  from indep [OF Cons.prems(1), of x] v have 1: "snd (f x s) = Inr v" by simp
  then have "\<not> isl (snd (f x s))" by simp
  from inv [OF Cons.prems(1) this] have I1: "I (fst (f x s))" .
  from Cons.IH [OF I1 ws] have 2: "snd (eval_grid f xs (fst (f x s))) = Inr ws"
    and 3: "I (fst (eval_grid f xs (fst (f x s))))"
    by simp_all
  from 1 2 3 show ?case by (simp add: vs case_prod_beta)
qed

lemma optimize_eval:
  assumes inv: "\<And>x s. I s \<Longrightarrow> \<not> isl (snd (f x s)) \<Longrightarrow> I (fst (f x s))"
      and indep: "\<And>x s. I s \<Longrightarrow> snd (f x s) = J x"
      and I: "I a" and g: "mgrid rd ranges = Inr grid" and J: "map J grid = map Inr vs"
      and i: "np_argmin vs = Inr i" and v: "J (grid ! i) = Inr v"
  shows "snd (optimize rd f ranges a) = Inr (grid ! i, fneg v)"
proof -
  let ?s1 = "fst (eval_grid f grid a)"
  have "snd (eval_grid f grid a) = Inr vs \<and> I ?s1"
  proof (rule eval_grid_forward [where I=I and f=f and J=J])
    show "\<And>x s. I s \<Longrightarrow> \<not> isl (snd (f x s)) \<Longrightarrow> I (fst (f x s))" by (rule inv)
    show "\<And>x s. I s \<Longrightarrow> snd (f x s) = J x" by (rule indep)
    show "I a" by (rule I)
    show "map J grid = map Inr vs" by (rule J)
  qed
  then have e: "snd (eval_grid f grid a) = Inr vs" and I1: "I ?s1"
    by simp_all
  have b: "fst (brute rd f ranges a) = ?s1" "snd (brute rd f ranges a) = Inr (grid ! i)"
    by (simp_all add: brute_def g e i case_prod_beta)
  from indep [OF I1, of "grid ! i"] v have "snd (f (grid ! i) ?s1) = Inr v"
    by simp
  then show ?thesis
    by (simp add: optimize_def b case_prod_beta)
qed

subsection \<open>Grids of two and of three axes\<close>

lemma mgrid_two:
  assumes "mgrid rd [r1, r2] = Inr grid"
  shows "\<exists>n1 n2. axis_size rd r1 = Inr n1 \<and> axis_size rd r2 = Inr n2 \<and>
           grid = concat (map (\<lambda>x. map (\<lambda>y. [x, y]) (axis_points rd r2 n2)) (axis_points rd r1 n1))"
  using assms by (auto simp: mgrid_def o_def split: sum.splits if_splits)

lemma mgrid_three:
  assumes "mgrid rd [r1, r2, r3] = Inr grid"
  shows "\<exists>n1 n2 n3. axis_size rd r1 = Inr n1 \<and> axis_size rd r2 = Inr n2 \<and> axis_size rd r3 = Inr n3 \<and>
           grid = concat (map (\<lambda>x. concat (map (\<lambda>y. map (\<lambda>z. [x, y, z]) (axis_points rd r3 n3))
                    (axis_points rd r2 n2))) (axis_points rd r1 n1))"
  using assms by (auto simp: mgrid_def o_def map_concat split: sum.splits if_splits)

lemma grid_two_nth:
  assumes "k < length (concat (map (\<lambda>x. map (\<lambda>y. [x, y]) ys) xs))"
  shows "\<exists>x y. concat (map (\<lambda>x. map (\<lambda>y. [x, y]) ys) xs) ! k = [x, y]"
proof -
  from assms have "concat (map (\<lambda>x. map (\<lambda>y. [x, y]) ys) xs) ! k
      \<in> set (concat (map (\<lambda>x. map (\<lambda>y. [x, y]) ys) xs))" by (rule nth_mem)
  then show ?thesis by auto
qed

lemma grid_three_nth:
  assumes "k < length (concat (map (\<lambda>x. concat (map (\<lambda>y. map (\<lambda>z. [x, y, z]) zs) ys)) xs))"
  shows "\<exists>x y z. concat (map (\<lambda>x. concat (map (\<lambda>y. map (\<lambda>z. [x, y, z]) zs) ys)) xs) ! k = [x, y, z]"
proof -
  from assms have "concat (map (\<lambda>x. concat (map (\<lambda>y. map (\<lambda>z. [x, y, z]) zs) ys)) xs) ! k
      \<in> set (concat (map (\<lambda>x. concat (map (\<lambda>y. map (\<lambda>z. [x, y, z]) zs) ys)) xs))" by (rule nth_mem)
  then show ?thesis by auto
qed

subsection \<open>Sequencing\<close>

lemma neg_perf_simps:
  "neg_perf (s, Inl e) = (s, Inl e)" "neg_perf (s, Inr (perf, outperf, res)) = (s, Inr (fneg perf))"
  by (simp_all add: neg_perf_def)

lemma andthen_simps:
  "andthen (s, Inl e) f = (s, Inl e)" "andthen (s, Inr u) f = f s"
  by (simp_all add: andthen_def)

lemma andthen_unit: "andthen m (\<lambda>s. (s, Inr ())) = m"
  by (cases m; cases "snd m") (auto simp: andthen_def)

lemma andthen_assoc: "andthen (andthen m f) g = andthen m (\<lambda>s. andthen (f s) g)"
  by (cases m; cases "snd m") (auto simp: andthen_def)

lemma andthen_fst_snd:
  "snd (andthen m f) = (case snd m of Inl e \<Rightarrow> Inl e | Inr u \<Rightarrow> snd (f (fst m)))"
  "fst (andthen m f) = (case snd m of Inl e \<Rightarrow> fst m | Inr u \<Rightarrow> fst (f (fst m)))"
  by (cases m; cases "snd m"; auto simp: andthen_def)+

lemma same_prices_trans:
  "same_prices a b \<Longrightarrow> same_prices b c \<Longrightarrow> same_prices a c"
  by (simp add: same_prices_def)

lemma same_prices_refl [simp]: "same_prices a a"
  by (simp add: same_prices_def)

lemma close_col_cong:
  "map candle rows = map candle rows' \<Longrightarrow> close_col rows = close_col rows'"
proof -
  assume "map candle rows = map candle rows'"
  then have "map (\<lambda>c. Some (Close c)) (map candle rows) = map (\<lambda>c. Some (Close c)) (map candle rows')"
    by simp
  then show ?thesis by (simp add: close_col_def o_def)
qed

lemma strategy_result_perf: "strategy_result perf outperf res \<Longrightarrow> perf \<noteq> None"
proof -
  assume r: "strategy_result perf outperf res"
  then have ne: "res \<noteq> []" and c: "compounded res" and p: "perf = cstrategy (last res)"
    by (simp_all add: strategy_result_def)
  from c have "\<forall>v \<in> set (map cstrategy res). v \<noteq> None"
    by (auto simp: compounded_def)
  with ne show ?thesis unfolding p by (simp add: last_in_set)
qed

lemma fneg_inj: "fneg x = fneg y \<Longrightarrow> x = y"
  by (cases x; cases y) (simp_all add: fneg_def)

lemma fneg_Some: "fneg x = Some (- p) \<Longrightarrow> x = Some p"
  by (cases x) (simp_all add: fneg_def)

lemma outcome_perf:
  "(case outcome res of Inl e \<Rightarrow> Inl e | Inr (perf, outperf, r) \<Rightarrow> Inr (fneg perf)) =
   (case iloc_last (map cstrategy res) of Inl e \<Rightarrow> Inl e | Inr perf \<Rightarrow> Inr (fneg perf))"
  by (cases res) (simp_all add: outcome_def iloc_last_def)

subsection \<open>Setting every parameter\<close>

lemma map_pair_eq:
  "map (\<lambda>r. (f r, g r)) xs = map (\<lambda>r. (f r, g r)) ys \<longleftrightarrow> map f xs = map f ys \<and> map g xs = map g ys"
proof
  assume e: "map (\<lambda>r. (f r, g r)) xs = map (\<lambda>r. (f r, g r)) ys"
  from arg_cong [OF e, of "map fst"] arg_cong [OF e, of "map snd"]
  show "map f xs = map f ys \<and> map g xs = map g ys" by (simp add: o_def)
next
  assume e: "map f xs = map f ys \<and> map g xs = map g ys"
  have "map (\<lambda>r. (f r, g r)) zs = zip (map f zs) (map g zs)" for zs
    by (induction zs) simp_all
  with e show "map (\<lambda>r. (f r, g r)) xs = map (\<lambda>r. (f r, g r)) ys" by metis
qed

lemma MACD_test_strategy_eq:
  "MACD_test_strategy self =
     (self\<lparr>results := Some (tc_frame macd_notna macd_rule (tc self) (data self))\<rparr>,
      outcome (tc_frame macd_notna macd_rule (tc self) (data self)))"
proof -
  have "macd_rule = (\<lambda>r. np_where (fgt (col_MACD r) (col_MACD_Signal r)) (Some 1) (Some (- 1)))"
    by (rule ext) (simp add: macd_rule_def)
  then show ?thesis by (simp add: MACD_test_strategy_def test_strategy_tc_eq)
qed

lemma MACD_set_split:
  "MACD_set_parameters ps ql gs s =
     andthen (MACD_set_parameters ps None None s)
       (\<lambda>s1. andthen (MACD_set_parameters None ql None s1)
         (\<lambda>s2. MACD_set_parameters None None gs s2))"
  by (simp add: MACD_set_parameters_def andthen_simps andthen_unit)

lemma MACD_set_untouched:
  "tc (fst (MACD_set_parameters ps ql gs s)) = tc s \<and>
   results (fst (MACD_set_parameters ps ql gs s)) = results s"
  by (auto simp: MACD_set_parameters_def andthen_def assign_def Let_def
        split: sum.splits prod.splits option.splits)

lemma macd_rows_eqI:
  fixes rows rows' :: "macd_row list"
  assumes "map candle rows = map candle rows'" "map returns rows = map returns rows'"
    "map mcol_EMA_S rows = map mcol_EMA_S rows'" "map mcol_EMA_L rows = map mcol_EMA_L rows'"
    "map col_MACD rows = map col_MACD rows'" "map col_MACD_Signal rows = map col_MACD_Signal rows'"
  shows "rows = rows'"
proof (rule nth_equalityI)
  from assms(1) show len: "length rows = length rows'" by (metis length_map)
  fix i assume i: "i < length rows"
  with len have i': "i < length rows'" by simp
  from assms i i' have "candle (rows ! i) = candle (rows' ! i)" "returns (rows ! i) = returns (rows' ! i)"
    "mcol_EMA_S (rows ! i) = mcol_EMA_S (rows' ! i)" "mcol_EMA_L (rows ! i) = mcol_EMA_L (rows' ! i)"
    "col_MACD (rows ! i) = col_MACD (rows' ! i)" "col_MACD_Signal (rows ! i) = col_MACD_Signal (rows' ! i)"
    by (metis nth_map)+
  then show "rows ! i = rows' ! i" by simp
qed

lemma MACD_full_ok:
  "snd (MACD_set_parameters (Some p) (Some q) (Some g) s) =
     (if p < 1 \<or> q < 1 \<or> g < 1 \<or> signal_mw s < 1 then Inl ValueError else Inr ())"
proof -
  let ?m1 = "MACD_set_parameters (Some p) None None s"
  let ?m2 = "MACD_set_parameters None (Some q) None (fst ?m1)"
  have sg: "signal_mw (fst ?m1) = signal_mw s" using MACD_set_S_only [of p s] by simp
  show ?thesis
    by (subst MACD_set_split) (auto simp: andthen_fst_snd set_one_ok sg)
qed

lemma MACD_full_result:
  assumes "snd (MACD_set_parameters (Some p) (Some q) (Some g) s) = Inr ()"
  shows "MACD_EMA_S (fst (MACD_set_parameters (Some p) (Some q) (Some g) s)) = p"
    and "MACD_EMA_L (fst (MACD_set_parameters (Some p) (Some q) (Some g) s)) = q"
    and "signal_mw (fst (MACD_set_parameters (Some p) (Some q) (Some g) s)) = g"
    and "same_prices (data (fst (MACD_set_parameters (Some p) (Some q) (Some g) s))) (data s)"
    and "ewm_mean p (close_col (data s)) =
           Inr (map mcol_EMA_S (data (fst (MACD_set_parameters (Some p) (Some q) (Some g) s))))"
    and "ewm_mean q (close_col (data s)) =
           Inr (map mcol_EMA_L (data (fst (MACD_set_parameters (Some p) (Some q) (Some g) s))))"
    and "map col_MACD (data (fst (MACD_set_parameters (Some p) (Some q) (Some g) s))) =
           macd_line (data (fst (MACD_set_parameters (Some p) (Some q) (Some g) s)))"
    and "ewm_mean g (map col_MACD (data (fst (MACD_set_parameters (Some p) (Some q) (Some g) s)))) =
           Inr (map col_MACD_Signal (data (fst (MACD_set_parameters (Some p) (Some q) (Some g) s))))"
proof -
  let ?m1 = "MACD_set_parameters (Some p) None None s"
  let ?s1 = "fst ?m1"
  let ?m2 = "MACD_set_parameters None (Some q) None ?s1"
  let ?s2 = "fst ?m2"
  let ?m3 = "MACD_set_parameters None None (Some g) ?s2"
  let ?s3 = "fst ?m3"
  from assms have ok: "1 \<le> p" "1 \<le> q" "1 \<le> g" "1 \<le> signal_mw s"
    by (auto simp: MACD_full_ok split: if_splits)
  have sg1: "signal_mw ?s1 = signal_mw s" using MACD_set_S_only [of p s] by simp
  have o1: "snd ?m1 = Inr ()" using ok by (simp add: set_one_ok)
  have o2: "snd ?m2 = Inr ()" using ok by (simp add: set_one_ok sg1)
  have o3: "snd ?m3 = Inr ()" using ok by (simp add: set_one_ok)
  have f: "fst (MACD_set_parameters (Some p) (Some q) (Some g) s) = ?s3"
    by (subst MACD_set_split) (simp add: andthen_fst_snd o1 o2)
  note k1 = MACD_set_S_only [of p s, unfolded map_pair_eq]
  note k2 = MACD_set_L_only [of q ?s1, unfolded map_pair_eq]
  note k3 = MACD_set_signal_only [of g ?s2, unfolded map_pair_eq]
  note r1 = MACD_set_S_result [OF o1]
  note r2 = MACD_set_L_result [OF o2]
  note r3 = MACD_set_signal_result [OF o3]
  have c1: "close_col (data ?s1) = close_col (data s)"
    using k1 by (intro close_col_cong) simp
  show "MACD_EMA_S (fst (MACD_set_parameters (Some p) (Some q) (Some g) s)) = p"
    using k2 k3 r1 by (simp add: f)
  show "MACD_EMA_L (fst (MACD_set_parameters (Some p) (Some q) (Some g) s)) = q"
    using k3 r2 by (simp add: f)
  show "signal_mw (fst (MACD_set_parameters (Some p) (Some q) (Some g) s)) = g"
    using r3 by (simp add: f)
  show "same_prices (data (fst (MACD_set_parameters (Some p) (Some q) (Some g) s))) (data s)"
    using k1 k2 k3 by (simp add: f same_prices_def)
  show "ewm_mean p (close_col (data s)) =
           Inr (map mcol_EMA_S (data (fst (MACD_set_parameters (Some p) (Some q) (Some g) s))))"
    using k2 k3 r1 by (simp add: f)
  show "ewm_mean q (close_col (data s)) =
           Inr (map mcol_EMA_L (data (fst (MACD_set_parameters (Some p) (Some q) (Some g) s))))"
    using k3 r2 by (simp add: f c1)
  have l: "macd_line (data ?s3) = macd_line (data ?s2)"
    using k3 by (intro macd_line_cong) simp_all
  show "map col_MACD (data (fst (MACD_set_parameters (Some p) (Some q) (Some g) s))) =
           macd_line (data (fst (MACD_set_parameters (Some p) (Some q) (Some g) s)))"
    using k3 r2 by (simp add: f l)
  show "ewm_mean g (map col_MACD (data (fst (MACD_set_parameters (Some p) (Some q) (Some g) s)))) =
           Inr (map col_MACD_Signal (data (fst (MACD_set_parameters (Some p) (Some q) (Some g) s))))"
    using k3 r3 by (simp add: f)
qed

lemma MACD_data_determined:
  assumes sp: "same_prices (data s) (data a)"
      and s: "snd (MACD_set_parameters (Some p) (Some q) (Some g) s) = Inr ()"
      and a: "snd (MACD_set_parameters (Some p) (Some q) (Some g) a) = Inr ()"
  shows "data (fst (MACD_set_parameters (Some p) (Some q) (Some g) s)) =
         data (fst (MACD_set_parameters (Some p) (Some q) (Some g) a))"
proof (rule macd_rows_eqI)
  let ?d = "data (fst (MACD_set_parameters (Some p) (Some q) (Some g) s))"
  let ?e = "data (fst (MACD_set_parameters (Some p) (Some q) (Some g) a))"
  note rs = MACD_full_result [OF s]
  note ra = MACD_full_result [OF a]
  from sp have cc: "close_col (data s) = close_col (data a)"
    by (intro close_col_cong) (simp add: same_prices_def)
  from rs(4) ra(4) sp show "map candle ?d = map candle ?e" "map returns ?d = map returns ?e"
    by (simp_all add: same_prices_def)
  from rs(5) ra(5) show S: "map mcol_EMA_S ?d = map mcol_EMA_S ?e" by (simp add: cc)
  from rs(6) ra(6) show L: "map mcol_EMA_L ?d = map mcol_EMA_L ?e" by (simp add: cc)
  from rs(7) ra(7) macd_line_cong [OF S L] show M: "map col_MACD ?d = map col_MACD ?e" by simp
  from rs(8) ra(8) show "map col_MACD_Signal ?d = map col_MACD_Signal ?e" by (simp add: M)
qed

lemma SMA_set_split:
  "SMA_set_parameters ps ql s =
     andthen (SMA_set_parameters ps None s) (\<lambda>s1. SMA_set_parameters None ql s1)"
  by (simp add: SMA_set_parameters_def andthen_simps andthen_unit)

lemma SMA_set_untouched:
  "tc (fst (SMA_set_parameters ps ql s)) = tc s \<and>
   results (fst (SMA_set_parameters ps ql s)) = results s"
  by (auto simp: SMA_set_parameters_def andthen_def assign_def Let_def
        split: sum.splits prod.splits option.splits)

lemma sma_rows_eqI:
  fixes rows rows' :: "sma_row list"
  assumes "map candle rows = map candle rows'" "map returns rows = map returns rows'"
    "map col_SMA_S rows = map col_SMA_S rows'" "map col_SMA_L rows = map col_SMA_L rows'"
  shows "rows = rows'"
proof (rule nth_equalityI)
  from assms(1) show len: "length rows = length rows'" by (metis length_map)
  fix i assume i: "i < length rows"
  with len have i': "i < length rows'" by simp
  from assms i i' have "candle (rows ! i) = candle (rows' ! i)" "returns (rows ! i) = returns (rows' ! i)"
    "col_SMA_S (rows ! i) = col_SMA_S (rows' ! i)" "col_SMA_L (rows ! i) = col_SMA_L (rows' ! i)"
    by (metis nth_map)+
  then show "rows ! i = rows' ! i" by simp
qed

lemma SMA_full_ok:
  "snd (SMA_set_parameters (Some p) (Some q) s) =
     (if p < 0 \<or> q < 0 then Inl ValueError else Inr ())"
  by (subst SMA_set_split) (auto simp: andthen_fst_snd set_one_ok)

lemma SMA_full_result:
  assumes "snd (SMA_set_parameters (Some p) (Some q) s) = Inr ()"
  shows "SMA_S (fst (SMA_set_parameters (Some p) (Some q) s)) = p"
    and "SMA_L (fst (SMA_set_parameters (Some p) (Some q) s)) = q"
    and "same_prices (data (fst (SMA_set_parameters (Some p) (Some q) s))) (data s)"
    and "rolling mean p (close_col (data s)) =
           Inr (map col_SMA_S (data (fst (SMA_set_parameters (Some p) (Some q) s))))"
    and "rolling mean q (close_col (data s)) =
           Inr (map col_SMA_L (data (fst (SMA_set_parameters (Some p) (Some q) s))))"
proof -
  let ?m1 = "SMA_set_parameters (Some p) None s"
  let ?s1 = "fst ?m1"
  let ?m2 = "SMA_set_parameters None (Some q) ?s1"
  let ?s2 = "fst ?m2"
  from assms have ok: "0 \<le> p" "0 \<le> q"
    by (auto simp: SMA_full_ok split: if_splits)
  have o1: "snd ?m1 = Inr ()" using ok by (simp add: set_one_ok)
  have o2: "snd ?m2 = Inr ()" using ok by (simp add: set_one_ok)
  have f: "fst (SMA_set_parameters (Some p) (Some q) s) = ?s2"
    by (subst SMA_set_split) (simp add: andthen_fst_snd o1)
  note k1 = SMA_set_S_only [of p s, unfolded map_pair_eq]
  note k2 = SMA_set_L_only [of q ?s1, unfolded map_pair_eq]
  note r1 = SMA_set_S_result [OF o1]
  note r2 = SMA_set_L_result [OF o2]
  have c1: "close_col (data ?s1) = close_col (data s)"
    using k1 by (intro close_col_cong) simp
  show "SMA_S (fst (SMA_set_parameters (Some p) (Some q) s)) = p"
    using k2 r1 by (simp add: f)
  show "SMA_L (fst (SMA_set_parameters (Some p) (Some q) s)) = q"
    using r2 by (simp add: f)
  show "same_prices (data (fst (SMA_set_parameters (Some p) (Some q) s))) (data s)"
    using k1 k2 by (simp add: f same_prices_def)
  show "rolling mean p (close_col (data s)) =
           Inr (map col_SMA_S (data (fst (SMA_set_parameters (Some p) (Some q) s))))"
    using k2 r1 by (simp add: f)
  show "rolling mean q (close_col (data s)) =
           Inr (map col_SMA_L (data (fst (SMA_set_parameters (Some p) (Some q) s))))"
    using r2 by (simp add: f c1)
qed

lemma SMA_data_determined:
  assumes sp: "same_prices (data s) (data a)"
      and s: "snd (SMA_set_parameters (Some p) (Some q) s) = Inr ()"
      and a: "snd (SMA_set_parameters (Some p) (Some q) a) = Inr ()"
  shows "data (fst (SMA_set_parameters (Some p) (Some q) s)) =
         data (fst (SMA_set_parameters (Some p) (Some q) a))"
proof (rule sma_rows_eqI)
  let ?d = "data (fst (SMA_set_parameters (Some p) (Some q) s))"
  let ?e = "data (fst (SMA_set_parameters (Some p) (Some q) a))"
  note rs = SMA_full_result [OF s]
  note ra = SMA_full_result [OF a]
  from sp have cc: "close_col (data s) = close_col (data a)"
    by (intro close_col_cong) (simp add: same_prices_def)
  from rs(3) ra(3) sp show "map candle ?d = map candle ?e" "map returns ?d = map returns ?e"
    by (simp_all add: same_prices_def)
  from rs(4) ra(4) show "map col_SMA_S ?d = map col_SMA_S ?e" by (simp add: cc)
  from rs(5) ra(5) show "map col_SMA_L ?d = map col_SMA_L ?e" by (simp add: cc)
qed

lemma EMA_test_strategy_eq:
  "EMA_test_strategy self =
     (self\<lparr>results := Some (tc_frame ema_notna ema_rule (tc self) (data self))\<rparr>,
      outcome (tc_frame ema_notna ema_rule (tc self) (data self)))"
proof -
  have "ema_rule = (\<lambda>r. np_where (fgt (col_EMA_S r) (col_EMA_L r)) (Some 1) (Some (- 1)))"
    by (rule ext) (simp add: ema_rule_def)
  then show ?thesis by (simp add: EMA_test_strategy_def test_strategy_tc_eq)
qed

lemma EMA_set_split:
  "EMA_set_parameters ps ql s =
     andthen (EMA_set_parameters ps None s) (\<lambda>s1. EMA_set_parameters None ql s1)"
  by (simp add: EMA_set_parameters_def andthen_simps andthen_unit)

lemma EMA_set_untouched:
  "tc (fst (EMA_set_parameters ps ql s)) = tc s \<and>
   results (fst (EMA_set_parameters ps ql s)) = results s"
  by (auto simp: EMA_set_parameters_def andthen_def assign_def Let_def
        split: sum.splits prod.splits option.splits)

lemma ema_rows_eqI:
  fixes rows rows' :: "ema_row list"
  assumes "map candle rows = map candle rows'" "map returns rows = map returns rows'"
    "map col_EMA_S rows = map col_EMA_S rows'" "map col_EMA_L rows = map col_EMA_L rows'"
  shows "rows = rows'"
proof (rule nth_equalityI)
  from assms(1) show len: "length rows = length rows'" by (metis length_map)
  fix i assume i: "i < length rows"
  with len have i': "i < length rows'" by simp
  from assms i i' have "candle (rows ! i) = candle (rows' ! i)" "returns (rows ! i) = returns (rows' ! i)"
    "col_EMA_S (rows ! i) = col_EMA_S (rows' ! i)" "col_EMA_L (rows ! i) = col_EMA_L (rows' ! i)"
    by (metis nth_map)+
  then show "rows ! i = rows' ! i" by simp
qed

lemma EMA_full_ok:
  "snd (EMA_set_parameters (Some p) (Some q) s) =
     (if p < 1 \<or> q < 1 then Inl ValueError else Inr ())"
  by (subst EMA_set_split) (auto simp: andthen_fst_snd set_one_ok)

lemma EMA_full_result:
  assumes "snd (EMA_set_parameters (Some p) (Some q) s) = Inr ()"
  shows "EMA_S (fst (EMA_set_parameters (Some p) (Some q) s)) = p"
    and "EMA_L (fst (EMA_set_parameters (Some p) (Some q) s)) = q"
    and "same_prices (data (fst (EMA_set_parameters (Some p) (Some q) s))) (data s)"
    and "ewm_mean p (close_col (data s)) =
           Inr (map col_EMA_S (data (fst (EMA_set_parameters (Some p) (Some q) s))))"
    and "ewm_mean q (close_col (data s)) =
           Inr (map col_EMA_L (data (fst (EMA_set_parameters (Some p) (Some q) s))))"
proof -
  let ?m1 = "EMA_set_parameters (Some p) None s"
  let ?s1 = "fst ?m1"
  let ?m2 = "EMA_set_parameters None (Some q) ?s1"
  let ?s2 = "fst ?m2"
  from assms have ok: "1 \<le> p" "1 \<le> q"
    by (auto simp: EMA_full_ok split: if_splits)
  have o1: "snd ?m1 = Inr ()" using ok by (simp add: set_one_ok)
  have o2: "snd ?m2 = Inr ()" using ok by (simp add: set_one_ok)
  have f: "fst (EMA_set_parameters (Some p) (Some q) s) = ?s2"
    by (subst EMA_set_split) (simp add: andthen_fst_snd o1)
  note k1 = EMA_set_S_only [of p s, unfolded map_pair_eq]
  note k2 = EMA_set_L_only [of q ?s1, unfolded map_pair_eq]
  note r1 = EMA_set_S_result [OF o1]
  note r2 = EMA_set_L_result [OF o2]
  have c1: "close_col (data ?s1) = close_col (data s)"
    using k1 by (intro close_col_cong) simp
  show "EMA_S (fst (EMA_set_parameters (Some p) (Some q) s)) = p"
    using k2 r1 by (simp add: f)
  show "EMA_L (fst (EMA_set_parameters (Some p) (Some q) s)) = q"
    using r2 by (simp add: f)
  show "same_prices (data (fst (EMA_set_parameters (Some p) (Some q) s))) (data s)"
    using k1 k2 by (simp add: f same_prices_def)
  show "ewm_mean p (close_col (data s)) =
           Inr (map col_EMA_S (data (fst (EMA_set_parameters (Some p) (Some q) s))))"
    using k2 r1 by (simp add: f)
  show "ewm_mean q (close_col (data s)) =
           Inr (map col_EMA_L (data (fst (EMA_set_parameters (Some p) (Some q) s))))"
    using r2 by (simp add: f c1)
qed

lemma EMA_data_determined:
  assumes sp: "same_prices (data s) (data a)"
      and s: "snd (EMA_set_parameters (Some p) (Some q) s) = Inr ()"
      and a: "snd (EMA_set_parameters (Some p) (Some q) a) = Inr ()"
  shows "data (fst (EMA_set_parameters (Some p) (Some q) s)) =
         data (fst (EMA_set_parameters (Some p) (Some q) a))"
proof (rule ema_rows_eqI)
  let ?d = "data (fst (EMA_set_parameters (Some p) (Some q) s))"
  let ?e = "data (fst (EMA_set_parameters (Some p) (Some q) a))"
  note rs = EMA_full_result [OF s]
  note ra = EMA_full_result [OF a]
  from sp have cc: "close_col (data s) = close_col (data a)"
    by (intro close_col_cong) (simp add: same_prices_def)
  from rs(3) ra(3) sp show "map candle ?d = map candle ?e" "map returns ?d = map returns ?e"
    by (simp_all add: same_prices_def)
  from rs(4) ra(4) show "map col_EMA_S ?d = map col_EMA_S ?e" by (simp add: cc)
  from rs(5) ra(5) show "map col_EMA_L ?d = map col_EMA_L ?e" by (simp add: cc)
qed

lemma SO_test_strategy_eq:
  "SO_test_strategy self =
     (self\<lparr>results := Some (tc_frame so_notna so_rule (tc self) (data self))\<rparr>,
      outcome (tc_frame so_notna so_rule (tc self) (data self)))"
proof -
  have "so_rule = (\<lambda>r. np_where (fgt (col_K r) (col_SO_D r)) (Some 1) (Some (- 1)))"
    by (rule ext) (simp add: so_rule_def)
  then show ?thesis by (simp add: SO_test_strategy_def test_strategy_tc_eq)
qed

lemma SO_set_split:
  "SO_set_parameters ps ds s =
     andthen (SO_set_parameters ps None s) (\<lambda>s1. SO_set_parameters None ds s1)"
  by (simp add: SO_set_parameters_def andthen_simps andthen_unit)

lemma SO_set_untouched:
  "tc (fst (SO_set_parameters ps ds s)) = tc s \<and>
   results (fst (SO_set_parameters ps ds s)) = results s"
  by (auto simp: SO_set_parameters_def andthen_def assign_def Let_def
        split: sum.splits prod.splits option.splits)

lemma so_rows_eqI:
  fixes rows rows' :: "so_row list"
  assumes "map candle rows = map candle rows'" "map returns rows = map returns rows'"
    "map col_roll_low rows = map col_roll_low rows'" "map col_roll_high rows = map col_roll_high rows'"
    "map col_K rows = map col_K rows'" "map col_SO_D rows = map col_SO_D rows'"
  shows "rows = rows'"
proof (rule nth_equalityI)
  from assms(1) show len: "length rows = length rows'" by (metis length_map)
  fix i assume i: "i < length rows"
  with len have i': "i < length rows'" by simp
  from assms i i' have "candle (rows ! i) = candle (rows' ! i)" "returns (rows ! i) = returns (rows' ! i)"
    "col_roll_low (rows ! i) = col_roll_low (rows' ! i)" "col_roll_high (rows ! i) = col_roll_high (rows' ! i)"
    "col_K (rows ! i) = col_K (rows' ! i)" "col_SO_D (rows ! i) = col_SO_D (rows' ! i)"
    by (metis nth_map)+
  then show "rows ! i = rows' ! i" by simp
qed

lemma price_col_cong:
  assumes "map candle rows = map candle rows'"
  shows "map (\<lambda>r. Some (f (candle r))) rows = map (\<lambda>r. Some (f (candle r))) rows'"
proof -
  from assms have "map (\<lambda>c. Some (f c)) (map candle rows) = map (\<lambda>c. Some (f c)) (map candle rows')"
    by simp
  then show ?thesis by (simp add: o_def)
qed

lemma SO_full_ok:
  "snd (SO_set_parameters (Some p) (Some q) s) =
     (if p < 0 \<or> q < 0 \<or> D_mw s < 0 then Inl ValueError else Inr ())"
  by (subst SO_set_split) (auto simp: andthen_fst_snd set_one_ok)

lemma SO_full_result:
  assumes "snd (SO_set_parameters (Some p) (Some q) s) = Inr ()"
  shows "SO_periods (fst (SO_set_parameters (Some p) (Some q) s)) = p"
    and "D_mw (fst (SO_set_parameters (Some p) (Some q) s)) = q"
    and "same_prices (data (fst (SO_set_parameters (Some p) (Some q) s))) (data s)"
    and "rolling list_min p (map (\<lambda>r. Some (Low (candle r))) (data s)) =
           Inr (map col_roll_low (data (fst (SO_set_parameters (Some p) (Some q) s))))"
    and "rolling list_max p (map (\<lambda>r. Some (High (candle r))) (data s)) =
           Inr (map col_roll_high (data (fst (SO_set_parameters (Some p) (Some q) s))))"
    and "map col_K (data (fst (SO_set_parameters (Some p) (Some q) s))) =
           map (\<lambda>r. k_value (Close (candle r)) (col_roll_low r) (col_roll_high r))
             (data (fst (SO_set_parameters (Some p) (Some q) s)))"
    and "rolling mean q (map col_K (data (fst (SO_set_parameters (Some p) (Some q) s)))) =
           Inr (map col_SO_D (data (fst (SO_set_parameters (Some p) (Some q) s))))"
proof -
  let ?m1 = "SO_set_parameters (Some p) None s"
  let ?s1 = "fst ?m1"
  let ?m2 = "SO_set_parameters None (Some q) ?s1"
  let ?s2 = "fst ?m2"
  from assms have ok: "0 \<le> p" "0 \<le> q" "0 \<le> D_mw s"
    by (auto simp: SO_full_ok split: if_splits)
  have o1: "snd ?m1 = Inr ()" using ok by (simp add: set_one_ok)
  have o2: "snd ?m2 = Inr ()" using ok by (simp add: set_one_ok)
  have f: "fst (SO_set_parameters (Some p) (Some q) s) = ?s2"
    by (subst SO_set_split) (simp add: andthen_fst_snd o1)
  note k1 = SO_set_periods_only [of p s, unfolded map_pair_eq]
  note k2 = SO_set_D_mw_only [of q ?s1, unfolded map_pair_eq]
  note r1 = SO_set_periods_result [OF o1]
  note r2 = SO_set_D_mw_result [OF o2]
  show "SO_periods (fst (SO_set_parameters (Some p) (Some q) s)) = p"
    using k2 r1 by (simp add: f)
  show "D_mw (fst (SO_set_parameters (Some p) (Some q) s)) = q"
    using r2 by (simp add: f)
  show "same_prices (data (fst (SO_set_parameters (Some p) (Some q) s))) (data s)"
    using k1 k2 by (simp add: f same_prices_def)
  show "rolling list_min p (map (\<lambda>r. Some (Low (candle r))) (data s)) =
           Inr (map col_roll_low (data (fst (SO_set_parameters (Some p) (Some q) s))))"
    using k2 r1 by (simp add: f)
  show "rolling list_max p (map (\<lambda>r. Some (High (candle r))) (data s)) =
           Inr (map col_roll_high (data (fst (SO_set_parameters (Some p) (Some q) s))))"
    using k2 r1 by (simp add: f)
  have l: "map (\<lambda>r. k_value (Close (candle r)) (col_roll_low r) (col_roll_high r)) (data ?s2) =
           map (\<lambda>r. k_value (Close (candle r)) (col_roll_low r) (col_roll_high r)) (data ?s1)"
    using k2 by (intro k_line_cong) simp_all
  show "map col_K (data (fst (SO_set_parameters (Some p) (Some q) s))) =
           map (\<lambda>r. k_value (Close (candle r)) (col_roll_low r) (col_roll_high r))
             (data (fst (SO_set_parameters (Some p) (Some q) s)))"
    using k2 r1 by (simp add: f l)
  show "rolling mean q (map col_K (data (fst (SO_set_parameters (Some p) (Some q) s)))) =
           Inr (map col_SO_D (data (fst (SO_set_parameters (Some p) (Some q) s))))"
    using k2 r2 by (simp add: f)
qed

lemma SO_data_determined:
  assumes sp: "same_prices (data s) (data a)"
      and s: "snd (SO_set_parameters (Some p) (Some q) s) = Inr ()"
      and a: "snd (SO_set_parameters (Some p) (Some q) a) = Inr ()"
  shows "data (fst (SO_set_parameters (Some p) (Some q) s)) =
         data (fst (SO_set_parameters (Some p) (Some q) a))"
proof (rule so_rows_eqI)
  let ?d = "data (fst (SO_set_parameters (Some p) (Some q) s))"
  let ?e = "data (fst (SO_set_parameters (Some p) (Some q) a))"
  note rs = SO_full_result [OF s]
  note ra = SO_full_result [OF a]
  from sp have c: "map candle (data s) = map candle (data a)" by (simp add: same_prices_def)
  from rs(3) ra(3) sp show C: "map candle ?d = map candle ?e" and "map returns ?d = map returns ?e"
    by (simp_all add: same_prices_def)
  from rs(4) ra(4) show L: "map col_roll_low ?d = map col_roll_low ?e"
    by (simp add: price_col_cong [OF c])
  from rs(5) ra(5) show H: "map col_roll_high ?d = map col_roll_high ?e"
    by (simp add: price_col_cong [OF c])
  from rs(6) ra(6) k_line_cong [OF C L H] show K: "map col_K ?d = map col_K ?e" by simp
  from rs(7) ra(7) show "map col_SO_D ?d = map col_SO_D ?e" by (simp add: K)
qed

lemma RSI_test_strategy_eq:
  "RSI_test_strategy self =
     (self\<lparr>results := Some (tc_frame rsi_notna (rsi_rule (rsi_upper self) (rsi_lower self))
                (tc self) (data self))\<rparr>,
      outcome (tc_frame rsi_notna (rsi_rule (rsi_upper self) (rsi_lower self)) (tc self) (data self)))"
proof -
  have "rsi_rule (rsi_upper self) (rsi_lower self) =
      (\<lambda>r. rsi_position (rsi_upper self) (rsi_lower self) (col_RSI r))"
    by (rule ext) (simp add: rsi_rule_def)
  then show ?thesis by (simp add: RSI_test_strategy_def test_strategy_tc_eq)
qed

lemma RSI_set_split:
  "RSI_set_parameters ps us ls s =
     andthen (RSI_set_parameters ps None None s) (\<lambda>s1. RSI_set_parameters None us ls s1)"
  by (simp add: RSI_set_parameters_def andthen_simps andthen_unit)

lemma RSI_set_untouched:
  "tc (fst (RSI_set_parameters ps us ls s)) = tc s \<and>
   results (fst (RSI_set_parameters ps us ls s)) = results s"
  by (auto simp: RSI_set_parameters_def andthen_def assign_def Let_def
        split: sum.splits prod.splits option.splits)

lemma rsi_rows_eqI:
  fixes rows rows' :: "rsi_row list"
  assumes "map candle rows = map candle rows'" "map returns rows = map returns rows'"
    "map col_U rows = map col_U rows'" "map col_D rows = map col_D rows'"
    "map col_MA_U rows = map col_MA_U rows'" "map col_MA_D rows = map col_MA_D rows'"
    "map col_RSI rows = map col_RSI rows'"
  shows "rows = rows'"
proof (rule nth_equalityI)
  from assms(1) show len: "length rows = length rows'" by (metis length_map)
  fix i assume i: "i < length rows"
  with len have i': "i < length rows'" by simp
  from assms i i' have "candle (rows ! i) = candle (rows' ! i)" "returns (rows ! i) = returns (rows' ! i)"
    "col_U (rows ! i) = col_U (rows' ! i)" "col_D (rows ! i) = col_D (rows' ! i)"
    "col_MA_U (rows ! i) = col_MA_U (rows' ! i)" "col_MA_D (rows ! i) = col_MA_D (rows' ! i)"
    "col_RSI (rows ! i) = col_RSI (rows' ! i)"
    by (metis nth_map)+
  then show "rows ! i = rows' ! i" by simp
qed

lemma RSI_full_ok:
  "snd (RSI_set_parameters (Some p) (Some u) (Some l) s) =
     (if p < 0 then Inl ValueError else Inr ())"
  using RSI_set_thresholds_result [of "Some u" "Some l"]
  by (subst RSI_set_split) (auto simp: andthen_fst_snd set_one_ok)

lemma RSI_full_result:
  assumes "snd (RSI_set_parameters (Some p) (Some u) (Some l) s) = Inr ()"
  shows "RSI_periods (fst (RSI_set_parameters (Some p) (Some u) (Some l) s)) = p"
    and "rsi_upper (fst (RSI_set_parameters (Some p) (Some u) (Some l) s)) = u"
    and "rsi_lower (fst (RSI_set_parameters (Some p) (Some u) (Some l) s)) = l"
    and "same_prices (data (fst (RSI_set_parameters (Some p) (Some u) (Some l) s))) (data s)"
    and "map col_U (data (fst (RSI_set_parameters (Some p) (Some u) (Some l) s))) = map col_U (data s)"
    and "map col_D (data (fst (RSI_set_parameters (Some p) (Some u) (Some l) s))) = map col_D (data s)"
    and "rolling mean p (map col_U (data s)) =
           Inr (map col_MA_U (data (fst (RSI_set_parameters (Some p) (Some u) (Some l) s))))"
    and "rolling mean p (map col_D (data s)) =
           Inr (map col_MA_D (data (fst (RSI_set_parameters (Some p) (Some u) (Some l) s))))"
    and "map col_RSI (data (fst (RSI_set_parameters (Some p) (Some u) (Some l) s))) =
           map (\<lambda>r. rsi_value (col_MA_U r) (col_MA_D r))
             (data (fst (RSI_set_parameters (Some p) (Some u) (Some l) s)))"
proof -
  let ?m1 = "RSI_set_parameters (Some p) None None s"
  let ?s1 = "fst ?m1"
  let ?m2 = "RSI_set_parameters None (Some u) (Some l) ?s1"
  let ?s2 = "fst ?m2"
  from assms have ok: "0 \<le> p"
    by (auto simp: RSI_full_ok split: if_splits)
  have o1: "snd ?m1 = Inr ()" using ok by (simp add: set_one_ok)
  have f: "fst (RSI_set_parameters (Some p) (Some u) (Some l) s) = ?s2"
    by (subst RSI_set_split) (simp add: andthen_fst_snd o1)
  note k1 = RSI_set_periods_only [of p s, unfolded map_pair_eq]
  note k2 = RSI_set_thresholds_only [of "Some u" "Some l" ?s1]
  note r1 = RSI_set_periods_result [OF o1]
  note r2 = RSI_set_thresholds_result [of "Some u" "Some l" ?s1]
  show "RSI_periods (fst (RSI_set_parameters (Some p) (Some u) (Some l) s)) = p"
    using k2 r1 by (simp add: f)
  show "rsi_upper (fst (RSI_set_parameters (Some p) (Some u) (Some l) s)) = u"
    using r2 by (simp add: f)
  show "rsi_lower (fst (RSI_set_parameters (Some p) (Some u) (Some l) s)) = l"
    using r2 by (simp add: f)
  show "same_prices (data (fst (RSI_set_parameters (Some p) (Some u) (Some l) s))) (data s)"
    using k1 k2 by (simp add: f same_prices_def)
  show "map col_U (data (fst (RSI_set_parameters (Some p) (Some u) (Some l) s))) = map col_U (data s)"
    using k1 k2 by (simp add: f)
  show "map col_D (data (fst (RSI_set_parameters (Some p) (Some u) (Some l) s))) = map col_D (data s)"
    using k1 k2 by (simp add: f)
  show "rolling mean p (map col_U (data s)) =
           Inr (map col_MA_U (data (fst (RSI_set_parameters (Some p) (Some u) (Some l) s))))"
    using k2 r1 by (simp add: f)
  show "rolling mean p (map col_D (data s)) =
           Inr (map col_MA_D (data (fst (RSI_set_parameters (Some p) (Some u) (Some l) s))))"
    using k2 r1 by (simp add: f)
  show "map col_RSI (data (fst (RSI_set_parameters (Some p) (Some u) (Some l) s))) =
           map (\<lambda>r. rsi_value (col_MA_U r) (col_MA_D r))
             (data (fst (RSI_set_parameters (Some p) (Some u) (Some l) s)))"
    using k2 r1 by (simp add: f)
qed

lemma RSI_data_determined:
  assumes sp: "same_prices (data s) (data a) \<and> map col_U (data s) = map col_U (data a) \<and>
               map col_D (data s) = map col_D (data a)"
      and s: "snd (RSI_set_parameters (Some p) (Some u) (Some l) s) = Inr ()"
      and a: "snd (RSI_set_parameters (Some p) (Some u) (Some l) a) = Inr ()"
  shows "data (fst (RSI_set_parameters (Some p) (Some u) (Some l) s)) =
         data (fst (RSI_set_parameters (Some p) (Some u) (Some l) a))"
proof (rule rsi_rows_eqI)
  let ?d = "data (fst (RSI_set_parameters (Some p) (Some u) (Some l) s))"
  let ?e = "data (fst (RSI_set_parameters (Some p) (Some u) (Some l) a))"
  note rs = RSI_full_result [OF s]
  note ra = RSI_full_result [OF a]
  from rs(4) ra(4) sp show "map candle ?d = map candle ?e" "map returns ?d = map returns ?e"
    by (simp_all add: same_prices_def)
  from rs(5) ra(5) sp show "map col_U ?d = map col_U ?e" by simp
  from rs(6) ra(6) sp show "map col_D ?d = map col_D ?e" by simp
  from rs(7) ra(7) sp show U: "map col_MA_U ?d = map col_MA_U ?e" by simp
  from rs(8) ra(8) sp show D: "map col_MA_D ?d = map col_MA_D ?e" by simp
  from rs(9) ra(9) rsi_line_cong [OF U D] show "map col_RSI ?d = map col_RSI ?e" by simp
qed

subsection \<open>The objective of the search\<close>

lemma neg_perf_fst_snd:
  "fst (neg_perf m) = fst m"
  "snd (neg_perf m) = (case snd m of Inl e \<Rightarrow> Inl e | Inr (perf, outperf, res) \<Rightarrow> Inr (fneg perf))"
  by (cases m; cases "snd m"; auto simp: neg_perf_def)+

lemma SMA_update_and_run_short:
  "SMA_update_and_run [] s = (s, Inl IndexError)" "SMA_update_and_run [pa] s = (s, Inl IndexError)"
  by (simp_all add: SMA_update_and_run_def)

lemma SMA_update_and_run_long:
  "SMA_update_and_run (pa # pb # rest) s =
     (let m = SMA_set_parameters (Some (py_int pa)) (Some (py_int pb)) s;
          frame = sma_frame (data (fst m))
      in if py_int pa < 0 \<or> py_int pb < 0
         then (fst m, Inl ValueError)
         else ((fst m)\<lparr>results := Some frame\<rparr>,
               case outcome frame of Inl e \<Rightarrow> Inl e
               | Inr (perf, outperf, res) \<Rightarrow> Inr (fneg perf)))"
proof -
  let ?m = "SMA_set_parameters (Some (py_int pa)) (Some (py_int pb)) s"
  have tc: "tc (fst ?m) = tc s" using SMA_set_untouched by blast
  have "SMA_update_and_run (pa # pb # rest) s =
      andthen (fst ?m, snd ?m) (\<lambda>self. neg_perf (SMA_test_strategy self))"
    by (simp add: SMA_update_and_run_def)
  also have "\<dots> = (let m = ?m;
          frame = sma_frame (data (fst m))
      in if py_int pa < 0 \<or> py_int pb < 0
         then (fst m, Inl ValueError)
         else ((fst m)\<lparr>results := Some frame\<rparr>,
               case outcome frame of Inl e \<Rightarrow> Inl e
               | Inr (perf, outperf, res) \<Rightarrow> Inr (fneg perf)))"
    unfolding SMA_full_ok Let_def
    by (simp add: andthen_simps SMA_test_strategy_eq tc prod_eq_iff neg_perf_fst_snd)
  finally show ?thesis .
qed

lemma SMA_update_and_run_success:
  assumes "\<not> isl (snd (SMA_update_and_run x s))"
  shows "\<exists>pa pb rest. x = pa # pb # rest \<and>
           snd (SMA_set_parameters (Some (py_int pa)) (Some (py_int pb)) s) = Inr () \<and>
           fst (SMA_update_and_run x s) =
             (fst (SMA_set_parameters (Some (py_int pa)) (Some (py_int pb)) s))
               \<lparr>results := Some (sma_frame (data (fst (SMA_set_parameters (Some (py_int pa)) (Some (py_int pb)) s))))\<rparr> \<and>
           (\<exists>perf outperf res.
              outcome (sma_frame (data (fst (SMA_set_parameters (Some (py_int pa)) (Some (py_int pb)) s)))) = Inr (perf, outperf, res) \<and>
              snd (SMA_update_and_run x s) = Inr (fneg perf))"
proof -
  from assms obtain pa pb rest where x: "x = pa # pb # rest"
    by (cases x; cases "tl (x)") (auto simp: SMA_update_and_run_short)
  from assms show ?thesis
    unfolding x SMA_update_and_run_long Let_def
    by (auto simp: SMA_full_ok split: if_splits sum.splits)
qed

lemma SMA_update_and_run_inv:
  assumes "same_prices (data s) (data a)"
      and "\<not> isl (snd (SMA_update_and_run x s))"
  shows "same_prices (data (fst (SMA_update_and_run x s))) (data a)"
proof -
  from SMA_update_and_run_success [OF assms(2)] obtain pa pb
    where ok: "snd (SMA_set_parameters (Some (py_int pa)) (Some (py_int pb)) s) = Inr ()"
      and f: "fst (SMA_update_and_run x s) =
             (fst (SMA_set_parameters (Some (py_int pa)) (Some (py_int pb)) s))
               \<lparr>results := Some (sma_frame (data (fst (SMA_set_parameters (Some (py_int pa)) (Some (py_int pb)) s))))\<rparr>"
    by blast
  note r = SMA_full_result [OF ok]
  from ok have okp: "\<not> (py_int pa < 0 \<or> py_int pb < 0)" by (auto simp: SMA_full_ok split: if_splits)
  from okp r(3) assms(1) SMA_set_untouched [of "Some (py_int pa)" "Some (py_int pb)" s]
  show ?thesis
    by (auto simp: f intro: same_prices_trans)
qed

lemma SMA_update_and_run_indep:
  assumes s: "same_prices (data s) (data a)"
  shows "snd (SMA_update_and_run x s) = snd (SMA_update_and_run x a)"
proof (cases "\<exists>pa pb rest. x = pa # pb # rest")
  case False
  then have "x = [] \<or> (\<exists>pa. x = [pa])"
    by (cases x; cases "tl (x)") auto
  then show ?thesis by (auto simp: SMA_update_and_run_short)
next
  case True
  then obtain pa pb rest where x: "x = pa # pb # rest" by blast
  show ?thesis
  proof (cases "py_int pa < 0 \<or> py_int pb < 0")
    case True
    then show ?thesis by (auto simp: x SMA_update_and_run_long Let_def)
  next
    case False
    with s have oks: "snd (SMA_set_parameters (Some (py_int pa)) (Some (py_int pb)) s) = Inr ()"
      and oka: "snd (SMA_set_parameters (Some (py_int pa)) (Some (py_int pb)) a) = Inr ()"
      by (simp_all add: SMA_full_ok)
    from s have sp: "same_prices (data s) (data a)" by simp
    from SMA_data_determined [OF sp oks oka] False s show ?thesis
      by (simp add: x SMA_update_and_run_long Let_def)
  qed
qed

lemma SMA_objective_defined:
  assumes "snd (SMA_update_and_run x a) = Inr v"
  shows "v \<noteq> None"
proof -
  from assms have "\<not> isl (snd (SMA_update_and_run x a))" by simp
  from SMA_update_and_run_success [OF this] assms obtain pa pb perf outperf res
    where o: "outcome (sma_frame (data (fst (SMA_set_parameters (Some (py_int pa)) (Some (py_int pb)) a)))) = Inr (perf, outperf, res)"
      and v: "v = fneg perf"
    by auto
  have "strategy_result perf outperf res"
    by (rule strategy_resultI [OF o]) (rule sma_frame_compounded)
  from strategy_result_perf [OF this] show ?thesis
    by (cases perf) (simp_all add: v fneg_def)
qed

lemma SMA_objective_performance:
  assumes "snd (SMA_update_and_run [x, y] a) = Inr (Some (- p))"
  shows "SMA_performance a (py_int x) (py_int y) = Inr (Some p)"
  using assms
  by (auto simp: SMA_update_and_run_def SMA_performance_def andthen_simps neg_perf_fst_snd
        split: sum.splits prod.splits dest: fneg_Some)

lemma SMA_optimize_search:
  assumes "SMA_optimize_parameters rd r1 r2 a = (a', Inr (opt, perf))"
  shows "\<exists>s1 grid ps i. (same_prices (data s1) (data a)) \<and>
           SMA_update_and_run opt s1 = (a', Inr (fneg perf)) \<and>
           mgrid rd [r1, r2] = Inr grid \<and> length ps = length grid \<and>
           map (\<lambda>x. snd (SMA_update_and_run x a)) grid = map (\<lambda>p. Inr (Some (- p))) ps \<and>
           i < length grid \<and> opt = grid ! i \<and> perf = Some (ps ! i) \<and>
           (\<forall>k < length ps. ps ! k \<le> ps ! i) \<and> (\<forall>k < i. ps ! k < ps ! i)"
proof -
  from assms have o: "optimize rd SMA_update_and_run [r1, r2] a = (a', Inr (opt, perf))"
    by (simp add: SMA_optimize_parameters_def)
  show ?thesis
  proof (rule optimize_result [where I = "\<lambda>s. same_prices (data s) (data a)"
      and f = SMA_update_and_run and J = "\<lambda>x. snd (SMA_update_and_run x a)" and a = a])
    show "\<And>x s. same_prices (data s) (data a) \<Longrightarrow>
        \<not> isl (snd (SMA_update_and_run x s)) \<Longrightarrow>
        same_prices (data (fst (SMA_update_and_run x s))) (data a)"
      by (rule SMA_update_and_run_inv)
    show "\<And>x s. same_prices (data s) (data a) \<Longrightarrow>
        snd (SMA_update_and_run x s) = snd (SMA_update_and_run x a)"
      by (rule SMA_update_and_run_indep)
    show "\<And>x v. snd (SMA_update_and_run x a) = Inr v \<Longrightarrow> v \<noteq> None"
      by (rule SMA_objective_defined)
    show "same_prices (data a) (data a)" by simp
    show "optimize rd SMA_update_and_run [r1, r2] a = (a', Inr (opt, perf))" by (rule o)
  qed
qed

lemma SMA_optimize_maximum:
  assumes "SMA_optimize_parameters rd r1 r2 a = (a', Inr (opt, perf))"
  shows "\<exists>n1 n2 ps i. axis_size rd r1 = Inr n1 \<and> axis_size rd r2 = Inr n2 \<and>
           (let grid = concat (map (\<lambda>x. map (\<lambda>y. [x, y]) (axis_points rd r2 n2)) (axis_points rd r1 n1)) in
            length ps = length grid \<and> i < length grid \<and> opt = grid ! i \<and> perf = Some (ps ! i) \<and>
            (\<forall>k < length grid. \<exists>x y. grid ! k = [x, y] \<and>
               SMA_performance a (py_int x) (py_int y) = Inr (Some (ps ! k))) \<and>
            (\<forall>k < length grid. ps ! k \<le> ps ! i) \<and> (\<forall>k < i. ps ! k < ps ! i))"
proof -
  from SMA_optimize_search [OF assms] obtain grid ps i
    where g: "mgrid rd [r1, r2] = Inr grid" and len: "length ps = length grid"
      and J: "map (\<lambda>x. snd (SMA_update_and_run x a)) grid = map (\<lambda>p. Inr (Some (- p))) ps"
      and i: "i < length grid" "opt = grid ! i" "perf = Some (ps ! i)"
      and le: "\<forall>k < length ps. ps ! k \<le> ps ! i" and lt: "\<forall>k < i. ps ! k < ps ! i"
    by blast
  from mgrid_two [OF g] obtain n1 n2 where n: "axis_size rd r1 = Inr n1" "axis_size rd r2 = Inr n2"
    and grid: "grid = concat (map (\<lambda>x. map (\<lambda>y. [x, y]) (axis_points rd r2 n2)) (axis_points rd r1 n1))"
    by blast
  have pt: "\<exists>x y. grid ! k = [x, y] \<and>
      SMA_performance a (py_int x) (py_int y) = Inr (Some (ps ! k))"
    if k: "k < length grid" for k
  proof -
    from k grid_two_nth [of k "axis_points rd r2 n2" "axis_points rd r1 n1"]
    obtain x y where xy: "grid ! k = [x, y]" unfolding grid by blast
    from J k len have "snd (SMA_update_and_run (grid ! k) a) = Inr (Some (- (ps ! k)))"
      by (metis (mono_tags, lifting) nth_map length_map)
    with xy have "SMA_performance a (py_int x) (py_int y) = Inr (Some (ps ! k))"
      by (simp add: SMA_objective_performance)
    with xy show ?thesis by blast
  qed
  show ?thesis
    apply (rule exI [of _ n1], rule exI [of _ n2], rule exI [of _ ps], rule exI [of _ i])
    using n len i le lt pt unfolding Let_def grid [symmetric] by simp
qed

lemma SMA_optimize_final_state:
  assumes "SMA_optimize_parameters rd r1 r2 a = (a', Inr (opt, perf))"
  shows "\<exists>x y outperf res. opt = [x, y] \<and>
     SMA_S a' = py_int x \<and>
     SMA_L a' = py_int y \<and>
     rolling mean (py_int x) (close_col (data a)) = Inr (map col_SMA_S (data a')) \<and>
     rolling mean (py_int y) (close_col (data a)) = Inr (map col_SMA_L (data a')) \<and>
     same_prices (data a') (data a) \<and>
     results a' = Some res \<and> SMA_test_strategy a' = (a', Inr (perf, outperf, res))"
proof -
  from SMA_optimize_search [OF assms] obtain s1 grid i
    where I: "same_prices (data s1) (data a)"
      and run: "SMA_update_and_run opt s1 = (a', Inr (fneg perf))"
      and g: "mgrid rd [r1, r2] = Inr grid" and i: "i < length grid" "opt = grid ! i"
    by blast
  from mgrid_two [OF g] obtain n1 n2
    where grid: "grid = concat (map (\<lambda>x. map (\<lambda>y. [x, y]) (axis_points rd r2 n2)) (axis_points rd r1 n1))"
    by blast
  from i grid_two_nth [of i "axis_points rd r2 n2" "axis_points rd r1 n1"]
  obtain x y where opt: "opt = [x, y]" unfolding grid by auto
  let ?m = "SMA_set_parameters (Some (py_int x)) (Some (py_int y)) s1"
  let ?frame = "sma_frame (data (fst ?m))"
  from run have ok': "\<not> isl (snd (SMA_update_and_run opt s1))" by simp
  from SMA_update_and_run_success [OF ok'] run obtain perf' outperf res
    where ok: "snd ?m = Inr ()"
      and a': "a' = (fst ?m)\<lparr>results := Some ?frame\<rparr>"
      and o: "outcome ?frame = Inr (perf', outperf, res)"
      and p: "fneg perf = fneg perf'"
    unfolding opt by auto
  from fneg_inj [OF p] have perf: "perf' = perf" by simp
  from outcome_Inr [OF o] have res: "res = ?frame" by simp
  note r = SMA_full_result [OF ok]
  have d: "data a' = data (fst ?m)" by (simp add: a')
  have tc': "tc a' = tc s1"
    using SMA_set_untouched [of "Some (py_int x)" "Some (py_int y)" s1]
    by (simp add: a')
  from I have sp0: "same_prices (data s1) (data a)" by simp
  from sp0 have cm: "map candle (data s1) = map candle (data a)" by (simp add: same_prices_def)
  from sp0 have cc: "close_col (data s1) = close_col (data a)"
    by (intro close_col_cong) (simp add: same_prices_def)
  have sp: "same_prices (data a') (data a)"
    using r(3) sp0 by (auto simp: d intro: same_prices_trans)
  have c1: "SMA_S a' = py_int x"
    using r(1) by (simp add: a')
  have c2: "SMA_L a' = py_int y"
    using r(2) by (simp add: a')
  have c3: "rolling mean (py_int x) (close_col (data a)) = Inr (map col_SMA_S (data a'))"
    using r(4) by (simp add: d cc)
  have c4: "rolling mean (py_int y) (close_col (data a)) = Inr (map col_SMA_L (data a'))"
    using r(5) by (simp add: d cc)
  have t: "SMA_test_strategy a' = (a', Inr (perf, outperf, res))"
    using o  by (simp add: SMA_test_strategy_eq d tc' perf) (simp add: a')
  have rr: "results a' = Some res" by (simp add: a' res)
  from opt c1 c2 c3 c4 sp rr t show ?thesis by blast
qed

lemma SMA_optimize_eval:
  assumes g: "mgrid rd [r1, r2] = Inr grid"
      and J: "map (\<lambda>x. snd (SMA_update_and_run x a)) grid = map Inr vs"
      and i: "np_argmin vs = Inr i" and v: "snd (SMA_update_and_run (grid ! i) a) = Inr v"
  shows "snd (SMA_optimize_parameters rd r1 r2 a) = Inr (grid ! i, fneg v)"
  unfolding SMA_optimize_parameters_def
proof (rule optimize_eval [where I = "\<lambda>s. same_prices (data s) (data a)"
      and J = "\<lambda>x. snd (SMA_update_and_run x a)" and grid = grid and vs = vs])
  show "\<And>x s. same_prices (data s) (data a) \<Longrightarrow>
      \<not> isl (snd (SMA_update_and_run x s)) \<Longrightarrow>
      same_prices (data (fst (SMA_update_and_run x s))) (data a)"
    by (rule SMA_update_and_run_inv)
  show "\<And>x s. same_prices (data s) (data a) \<Longrightarrow>
      snd (SMA_update_and_run x s) = snd (SMA_update_and_run x a)"
    by (rule SMA_update_and_run_indep)
  show "same_prices (data a) (data a)" by simp
qed (rule g J i v)+

lemma EMA_update_and_run_short:
  "EMA_update_and_run [] s = (s, Inl IndexError)" "EMA_update_and_run [pa] s = (s, Inl IndexError)"
  by (simp_all add: EMA_update_and_run_def)

lemma EMA_update_and_run_long:
  "EMA_update_and_run (pa # pb # rest) s =
     (let m = EMA_set_parameters (Some (py_int pa)) (Some (py_int pb)) s;
          frame = tc_frame ema_notna ema_rule (tc s) (data (fst m))
      in if py_int pa < 1 \<or> py_int pb < 1
         then (fst m, Inl ValueError)
         else ((fst m)\<lparr>results := Some frame\<rparr>,
               case outcome frame of Inl e \<Rightarrow> Inl e
               | Inr (perf, outperf, res) \<Rightarrow> Inr (fneg perf)))"
proof -
  let ?m = "EMA_set_parameters (Some (py_int pa)) (Some (py_int pb)) s"
  have tc: "tc (fst ?m) = tc s" using EMA_set_untouched by blast
  have "EMA_update_and_run (pa # pb # rest) s =
      andthen (fst ?m, snd ?m) (\<lambda>self. neg_perf (EMA_test_strategy self))"
    by (simp add: EMA_update_and_run_def)
  also have "\<dots> = (let m = ?m;
          frame = tc_frame ema_notna ema_rule (tc s) (data (fst m))
      in if py_int pa < 1 \<or> py_int pb < 1
         then (fst m, Inl ValueError)
         else ((fst m)\<lparr>results := Some frame\<rparr>,
               case outcome frame of Inl e \<Rightarrow> Inl e
               | Inr (perf, outperf, res) \<Rightarrow> Inr (fneg perf)))"
    unfolding EMA_full_ok Let_def
    by (simp add: andthen_simps EMA_test_strategy_eq tc prod_eq_iff neg_perf_fst_snd)
  finally show ?thesis .
qed

lemma EMA_update_and_run_success:
  assumes "\<not> isl (snd (EMA_update_and_run x s))"
  shows "\<exists>pa pb rest. x = pa # pb # rest \<and>
           snd (EMA_set_parameters (Some (py_int pa)) (Some (py_int pb)) s) = Inr () \<and>
           fst (EMA_update_and_run x s) =
             (fst (EMA_set_parameters (Some (py_int pa)) (Some (py_int pb)) s))
               \<lparr>results := Some (tc_frame ema_notna ema_rule (tc s) (data (fst (EMA_set_parameters (Some (py_int pa)) (Some (py_int pb)) s))))\<rparr> \<and>
           (\<exists>perf outperf res.
              outcome (tc_frame ema_notna ema_rule (tc s) (data (fst (EMA_set_parameters (Some (py_int pa)) (Some (py_int pb)) s)))) = Inr (perf, outperf, res) \<and>
              snd (EMA_update_and_run x s) = Inr (fneg perf))"
proof -
  from assms obtain pa pb rest where x: "x = pa # pb # rest"
    by (cases x; cases "tl (x)") (auto simp: EMA_update_and_run_short)
  from assms show ?thesis
    unfolding x EMA_update_and_run_long Let_def
    by (auto simp: EMA_full_ok split: if_splits sum.splits)
qed

lemma EMA_update_and_run_inv:
  assumes "same_prices (data s) (data a) \<and> tc s = tc a"
      and "\<not> isl (snd (EMA_update_and_run x s))"
  shows "same_prices (data (fst (EMA_update_and_run x s))) (data a) \<and> tc (fst (EMA_update_and_run x s)) = tc a"
proof -
  from EMA_update_and_run_success [OF assms(2)] obtain pa pb
    where ok: "snd (EMA_set_parameters (Some (py_int pa)) (Some (py_int pb)) s) = Inr ()"
      and f: "fst (EMA_update_and_run x s) =
             (fst (EMA_set_parameters (Some (py_int pa)) (Some (py_int pb)) s))
               \<lparr>results := Some (tc_frame ema_notna ema_rule (tc s) (data (fst (EMA_set_parameters (Some (py_int pa)) (Some (py_int pb)) s))))\<rparr>"
    by blast
  note r = EMA_full_result [OF ok]
  from ok have okp: "\<not> (py_int pa < 1 \<or> py_int pb < 1)" by (auto simp: EMA_full_ok split: if_splits)
  from okp r(3) assms(1) EMA_set_untouched [of "Some (py_int pa)" "Some (py_int pb)" s]
  show ?thesis
    by (auto simp: f intro: same_prices_trans)
qed

lemma EMA_update_and_run_indep:
  assumes s: "same_prices (data s) (data a) \<and> tc s = tc a"
  shows "snd (EMA_update_and_run x s) = snd (EMA_update_and_run x a)"
proof (cases "\<exists>pa pb rest. x = pa # pb # rest")
  case False
  then have "x = [] \<or> (\<exists>pa. x = [pa])"
    by (cases x; cases "tl (x)") auto
  then show ?thesis by (auto simp: EMA_update_and_run_short)
next
  case True
  then obtain pa pb rest where x: "x = pa # pb # rest" by blast
  show ?thesis
  proof (cases "py_int pa < 1 \<or> py_int pb < 1")
    case True
    then show ?thesis by (auto simp: x EMA_update_and_run_long Let_def)
  next
    case False
    with s have oks: "snd (EMA_set_parameters (Some (py_int pa)) (Some (py_int pb)) s) = Inr ()"
      and oka: "snd (EMA_set_parameters (Some (py_int pa)) (Some (py_int pb)) a) = Inr ()"
      by (simp_all add: EMA_full_ok)
    from s have sp: "same_prices (data s) (data a)" by simp
    from EMA_data_determined [OF sp oks oka] False s show ?thesis
      by (simp add: x EMA_update_and_run_long Let_def)
  qed
qed

lemma EMA_objective_defined:
  assumes "snd (EMA_update_and_run x a) = Inr v"
  shows "v \<noteq> None"
proof -
  from assms have "\<not> isl (snd (EMA_update_and_run x a))" by simp
  from EMA_update_and_run_success [OF this] assms obtain pa pb perf outperf res
    where o: "outcome (tc_frame ema_notna ema_rule (tc a) (data (fst (EMA_set_parameters (Some (py_int pa)) (Some (py_int pb)) a)))) = Inr (perf, outperf, res)"
      and v: "v = fneg perf"
    by auto
  have "strategy_result perf outperf res"
    by (rule strategy_resultI [OF o]) (rule tc_frame_compounded, rule notna_returns)
  from strategy_result_perf [OF this] show ?thesis
    by (cases perf) (simp_all add: v fneg_def)
qed

lemma EMA_objective_performance:
  assumes "snd (EMA_update_and_run [x, y] a) = Inr (Some (- p))"
  shows "EMA_performance a (py_int x) (py_int y) = Inr (Some p)"
  using assms
  by (auto simp: EMA_update_and_run_def EMA_performance_def andthen_simps neg_perf_fst_snd
        split: sum.splits prod.splits dest: fneg_Some)

lemma EMA_optimize_search:
  assumes "EMA_optimize_parameters rd r1 r2 a = (a', Inr (opt, perf))"
  shows "\<exists>s1 grid ps i. (same_prices (data s1) (data a) \<and> tc s1 = tc a) \<and>
           EMA_update_and_run opt s1 = (a', Inr (fneg perf)) \<and>
           mgrid rd [r1, r2] = Inr grid \<and> length ps = length grid \<and>
           map (\<lambda>x. snd (EMA_update_and_run x a)) grid = map (\<lambda>p. Inr (Some (- p))) ps \<and>
           i < length grid \<and> opt = grid ! i \<and> perf = Some (ps ! i) \<and>
           (\<forall>k < length ps. ps ! k \<le> ps ! i) \<and> (\<forall>k < i. ps ! k < ps ! i)"
proof -
  from assms have o: "optimize rd EMA_update_and_run [r1, r2] a = (a', Inr (opt, perf))"
    by (simp add: EMA_optimize_parameters_def)
  show ?thesis
  proof (rule optimize_result [where I = "\<lambda>s. same_prices (data s) (data a) \<and> tc s = tc a"
      and f = EMA_update_and_run and J = "\<lambda>x. snd (EMA_update_and_run x a)" and a = a])
    show "\<And>x s. same_prices (data s) (data a) \<and> tc s = tc a \<Longrightarrow>
        \<not> isl (snd (EMA_update_and_run x s)) \<Longrightarrow>
        same_prices (data (fst (EMA_update_and_run x s))) (data a) \<and> tc (fst (EMA_update_and_run x s)) = tc a"
      by (rule EMA_update_and_run_inv)
    show "\<And>x s. same_prices (data s) (data a) \<and> tc s = tc a \<Longrightarrow>
        snd (EMA_update_and_run x s) = snd (EMA_update_and_run x a)"
      by (rule EMA_update_and_run_indep)
    show "\<And>x v. snd (EMA_update_and_run x a) = Inr v \<Longrightarrow> v \<noteq> None"
      by (rule EMA_objective_defined)
    show "same_prices (data a) (data a) \<and> tc a = tc a" by simp
    show "optimize rd EMA_update_and_run [r1, r2] a = (a', Inr (opt, perf))" by (rule o)
  qed
qed

lemma EMA_optimize_maximum:
  assumes "EMA_optimize_parameters rd r1 r2 a = (a', Inr (opt, perf))"
  shows "\<exists>n1 n2 ps i. axis_size rd r1 = Inr n1 \<and> axis_size rd r2 = Inr n2 \<and>
           (let grid = concat (map (\<lambda>x. map (\<lambda>y. [x, y]) (axis_points rd r2 n2)) (axis_points rd r1 n1)) in
            length ps = length grid \<and> i < length grid \<and> opt = grid ! i \<and> perf = Some (ps ! i) \<and>
            (\<forall>k < length grid. \<exists>x y. grid ! k = [x, y] \<and>
               EMA_performance a (py_int x) (py_int y) = Inr (Some (ps ! k))) \<and>
            (\<forall>k < length grid. ps ! k \<le> ps ! i) \<and> (\<forall>k < i. ps ! k < ps ! i))"
proof -
  from EMA_optimize_search [OF assms] obtain grid ps i
    where g: "mgrid rd [r1, r2] = Inr grid" and len: "length ps = length grid"
      and J: "map (\<lambda>x. snd (EMA_update_and_run x a)) grid = map (\<lambda>p. Inr (Some (- p))) ps"
      and i: "i < length grid" "opt = grid ! i" "perf = Some (ps ! i)"
      and le: "\<forall>k < length ps. ps ! k \<le> ps ! i" and lt: "\<forall>k < i. ps ! k < ps ! i"
    by blast
  from mgrid_two [OF g] obtain n1 n2 where n: "axis_size rd r1 = Inr n1" "axis_size rd r2 = Inr n2"
    and grid: "grid = concat (map (\<lambda>x. map (\<lambda>y. [x, y]) (axis_points rd r2 n2)) (axis_points rd r1 n1))"
    by blast
  have pt: "\<exists>x y. grid ! k = [x, y] \<and>
      EMA_performance a (py_int x) (py_int y) = Inr (Some (ps ! k))"
    if k: "k < length grid" for k
  proof -
    from k grid_two_nth [of k "axis_points rd r2 n2" "axis_points rd r1 n1"]
    obtain x y where xy: "grid ! k = [x, y]" unfolding grid by blast
    from J k len have "snd (EMA_update_and_run (grid ! k) a) = Inr (Some (- (ps ! k)))"
      by (metis (mono_tags, lifting) nth_map length_map)
    with xy have "EMA_performance a (py_int x) (py_int y) = Inr (Some (ps ! k))"
      by (simp add: EMA_objective_performance)
    with xy show ?thesis by blast
  qed
  show ?thesis
    apply (rule exI [of _ n1], rule exI [of _ n2], rule exI [of _ ps], rule exI [of _ i])
    using n len i le lt pt unfolding Let_def grid [symmetric] by simp
qed

lemma EMA_optimize_final_state:
  assumes "EMA_optimize_parameters rd r1 r2 a = (a', Inr (opt, perf))"
  shows "\<exists>x y outperf res. opt = [x, y] \<and>
     EMA_S a' = py_int x \<and>
     EMA_L a' = py_int y \<and>
     ewm_mean (py_int x) (close_col (data a)) = Inr (map col_EMA_S (data a')) \<and>
     ewm_mean (py_int y) (close_col (data a)) = Inr (map col_EMA_L (data a')) \<and>
     same_prices (data a') (data a) \<and>
     results a' = Some res \<and> EMA_test_strategy a' = (a', Inr (perf, outperf, res))"
proof -
  from EMA_optimize_search [OF assms] obtain s1 grid i
    where I: "same_prices (data s1) (data a) \<and> tc s1 = tc a"
      and run: "EMA_update_and_run opt s1 = (a', Inr (fneg perf))"
      and g: "mgrid rd [r1, r2] = Inr grid" and i: "i < length grid" "opt = grid ! i"
    by blast
  from mgrid_two [OF g] obtain n1 n2
    where grid: "grid = concat (map (\<lambda>x. map (\<lambda>y. [x, y]) (axis_points rd r2 n2)) (axis_points rd r1 n1))"
    by blast
  from i grid_two_nth [of i "axis_points rd r2 n2" "axis_points rd r1 n1"]
  obtain x y where opt: "opt = [x, y]" unfolding grid by auto
  let ?m = "EMA_set_parameters (Some (py_int x)) (Some (py_int y)) s1"
  let ?frame = "tc_frame ema_notna ema_rule (tc s1) (data (fst ?m))"
  from run have ok': "\<not> isl (snd (EMA_update_and_run opt s1))" by simp
  from EMA_update_and_run_success [OF ok'] run obtain perf' outperf res
    where ok: "snd ?m = Inr ()"
      and a': "a' = (fst ?m)\<lparr>results := Some ?frame\<rparr>"
      and o: "outcome ?frame = Inr (perf', outperf, res)"
      and p: "fneg perf = fneg perf'"
    unfolding opt by auto
  from fneg_inj [OF p] have perf: "perf' = perf" by simp
  from outcome_Inr [OF o] have res: "res = ?frame" by simp
  note r = EMA_full_result [OF ok]
  have d: "data a' = data (fst ?m)" by (simp add: a')
  have tc': "tc a' = tc s1"
    using EMA_set_untouched [of "Some (py_int x)" "Some (py_int y)" s1]
    by (simp add: a')
  from I have sp0: "same_prices (data s1) (data a)" by simp
  from sp0 have cm: "map candle (data s1) = map candle (data a)" by (simp add: same_prices_def)
  from sp0 have cc: "close_col (data s1) = close_col (data a)"
    by (intro close_col_cong) (simp add: same_prices_def)
  have sp: "same_prices (data a') (data a)"
    using r(3) sp0 by (auto simp: d intro: same_prices_trans)
  have c1: "EMA_S a' = py_int x"
    using r(1) by (simp add: a')
  have c2: "EMA_L a' = py_int y"
    using r(2) by (simp add: a')
  have c3: "ewm_mean (py_int x) (close_col (data a)) = Inr (map col_EMA_S (data a'))"
    using r(4) by (simp add: d cc)
  have c4: "ewm_mean (py_int y) (close_col (data a)) = Inr (map col_EMA_L (data a'))"
    using r(5) by (simp add: d cc)
  have t: "EMA_test_strategy a' = (a', Inr (perf, outperf, res))"
    using o  by (simp add: EMA_test_strategy_eq d tc' perf) (simp add: a')
  have rr: "results a' = Some res" by (simp add: a' res)
  from opt c1 c2 c3 c4 sp rr t show ?thesis by blast
qed

lemma EMA_optimize_eval:
  assumes g: "mgrid rd [r1, r2] = Inr grid"
      and J: "map (\<lambda>x. snd (EMA_update_and_run x a)) grid = map Inr vs"
      and i: "np_argmin vs = Inr i" and v: "snd (EMA_update_and_run (grid ! i) a) = Inr v"
  shows "snd (EMA_optimize_parameters rd r1 r2 a) = Inr (grid ! i, fneg v)"
  unfolding EMA_optimize_parameters_def
proof (rule optimize_eval [where I = "\<lambda>s. same_prices (data s) (data a) \<and> tc s = tc a"
      and J = "\<lambda>x. snd (EMA_update_and_run x a)" and grid = grid and vs = vs])
  show "\<And>x s. same_prices (data s) (data a) \<and> tc s = tc a \<Longrightarrow>
      \<not> isl (snd (EMA_update_and_run x s)) \<Longrightarrow>
      same_prices (data (fst (EMA_update_and_run x s))) (data a) \<and> tc (fst (EMA_update_and_run x s)) = tc a"
    by (rule EMA_update_and_run_inv)
  show "\<And>x s. same_prices (data s) (data a) \<and> tc s = tc a \<Longrightarrow>
      snd (EMA_update_and_run x s) = snd (EMA_update_and_run x a)"
    by (rule EMA_update_and_run_indep)
  show "same_prices (data a) (data a) \<and> tc a = tc a" by simp
qed (rule g J i v)+

lemma MACD_update_and_run_short:
  "MACD_update_and_run [] s = (s, Inl IndexError)" "MACD_update_and_run [pa] s = (s, Inl IndexError)" "MACD_update_and_run [pa, pb] s = (s, Inl IndexError)"
  by (simp_all add: MACD_update_and_run_def)

lemma MACD_update_and_run_long:
  "MACD_update_and_run (pa # pb # pc # rest) s =
     (let m = MACD_set_parameters (Some (py_int pa)) (Some (py_int pb)) (Some (py_int pc)) s;
          frame = tc_frame macd_notna macd_rule (tc s) (data (fst m))
      in if py_int pa < 1 \<or> py_int pb < 1 \<or> py_int pc < 1 \<or> signal_mw s < 1
         then (fst m, Inl ValueError)
         else ((fst m)\<lparr>results := Some frame\<rparr>,
               case outcome frame of Inl e \<Rightarrow> Inl e
               | Inr (perf, outperf, res) \<Rightarrow> Inr (fneg perf)))"
proof -
  let ?m = "MACD_set_parameters (Some (py_int pa)) (Some (py_int pb)) (Some (py_int pc)) s"
  have tc: "tc (fst ?m) = tc s" using MACD_set_untouched by blast
  have "MACD_update_and_run (pa # pb # pc # rest) s =
      andthen (fst ?m, snd ?m) (\<lambda>self. neg_perf (MACD_test_strategy self))"
    by (simp add: MACD_update_and_run_def)
  also have "\<dots> = (let m = ?m;
          frame = tc_frame macd_notna macd_rule (tc s) (data (fst m))
      in if py_int pa < 1 \<or> py_int pb < 1 \<or> py_int pc < 1 \<or> signal_mw s < 1
         then (fst m, Inl ValueError)
         else ((fst m)\<lparr>results := Some frame\<rparr>,
               case outcome frame of Inl e \<Rightarrow> Inl e
               | Inr (perf, outperf, res) \<Rightarrow> Inr (fneg perf)))"
    unfolding MACD_full_ok Let_def
    by (simp add: andthen_simps MACD_test_strategy_eq tc prod_eq_iff neg_perf_fst_snd)
  finally show ?thesis .
qed

lemma MACD_update_and_run_success:
  assumes "\<not> isl (snd (MACD_update_and_run x s))"
  shows "\<exists>pa pb pc rest. x = pa # pb # pc # rest \<and>
           snd (MACD_set_parameters (Some (py_int pa)) (Some (py_int pb)) (Some (py_int pc)) s) = Inr () \<and>
           fst (MACD_update_and_run x s) =
             (fst (MACD_set_parameters (Some (py_int pa)) (Some (py_int pb)) (Some (py_int pc)) s))
               \<lparr>results := Some (tc_frame macd_notna macd_rule (tc s) (data (fst (MACD_set_parameters (Some (py_int pa)) (Some (py_int pb)) (Some (py_int pc)) s))))\<rparr> \<and>
           (\<exists>perf outperf res.
              outcome (tc_frame macd_notna macd_rule (tc s) (data (fst (MACD_set_parameters (Some (py_int pa)) (Some (py_int pb)) (Some (py_int pc)) s)))) = Inr (perf, outperf, res) \<and>
              snd (MACD_update_and_run x s) = Inr (fneg perf))"
proof -
  from assms obtain pa pb pc rest where x: "x = pa # pb # pc # rest"
    by (cases x; cases "tl (x)"; cases "tl (tl (x))") (auto simp: MACD_update_and_run_short)
  from assms show ?thesis
    unfolding x MACD_update_and_run_long Let_def
    by (auto simp: MACD_full_ok split: if_splits sum.splits)
qed

lemma MACD_update_and_run_inv:
  assumes "same_prices (data s) (data a) \<and> tc s = tc a \<and> 1 \<le> signal_mw s"
      and "\<not> isl (snd (MACD_update_and_run x s))"
  shows "same_prices (data (fst (MACD_update_and_run x s))) (data a) \<and> tc (fst (MACD_update_and_run x s)) = tc a \<and> 1 \<le> signal_mw (fst (MACD_update_and_run x s))"
proof -
  from MACD_update_and_run_success [OF assms(2)] obtain pa pb pc
    where ok: "snd (MACD_set_parameters (Some (py_int pa)) (Some (py_int pb)) (Some (py_int pc)) s) = Inr ()"
      and f: "fst (MACD_update_and_run x s) =
             (fst (MACD_set_parameters (Some (py_int pa)) (Some (py_int pb)) (Some (py_int pc)) s))
               \<lparr>results := Some (tc_frame macd_notna macd_rule (tc s) (data (fst (MACD_set_parameters (Some (py_int pa)) (Some (py_int pb)) (Some (py_int pc)) s))))\<rparr>"
    by blast
  note r = MACD_full_result [OF ok]
  from ok have okp: "\<not> (py_int pa < 1 \<or> py_int pb < 1 \<or> py_int pc < 1 \<or> signal_mw s < 1)" by (auto simp: MACD_full_ok split: if_splits)
  from okp r(3) r(4) assms(1) MACD_set_untouched [of "Some (py_int pa)" "Some (py_int pb)" "Some (py_int pc)" s]
  show ?thesis
    by (auto simp: f intro: same_prices_trans)
qed

lemma MACD_update_and_run_indep:
  assumes s: "same_prices (data s) (data a) \<and> tc s = tc a \<and> 1 \<le> signal_mw s"
      and a: "1 \<le> signal_mw a"
  shows "snd (MACD_update_and_run x s) = snd (MACD_update_and_run x a)"
proof (cases "\<exists>pa pb pc rest. x = pa # pb # pc # rest")
  case False
  then have "x = [] \<or> (\<exists>pa. x = [pa]) \<or> (\<exists>pa pb. x = [pa, pb])"
    by (cases x; cases "tl (x)"; cases "tl (tl (x))") auto
  then show ?thesis by (auto simp: MACD_update_and_run_short)
next
  case True
  then obtain pa pb pc rest where x: "x = pa # pb # pc # rest" by blast
  show ?thesis
  proof (cases "py_int pa < 1 \<or> py_int pb < 1 \<or> py_int pc < 1")
    case True
    then show ?thesis by (auto simp: x MACD_update_and_run_long Let_def)
  next
    case False
    with s a have oks: "snd (MACD_set_parameters (Some (py_int pa)) (Some (py_int pb)) (Some (py_int pc)) s) = Inr ()"
      and oka: "snd (MACD_set_parameters (Some (py_int pa)) (Some (py_int pb)) (Some (py_int pc)) a) = Inr ()"
      by (simp_all add: MACD_full_ok)
    from s have sp: "same_prices (data s) (data a)" by simp
    from MACD_data_determined [OF sp oks oka] False s a show ?thesis
      by (simp add: x MACD_update_and_run_long Let_def)
  qed
qed

lemma MACD_objective_defined:
  assumes "snd (MACD_update_and_run x a) = Inr v"
  shows "v \<noteq> None"
proof -
  from assms have "\<not> isl (snd (MACD_update_and_run x a))" by simp
  from MACD_update_and_run_success [OF this] assms obtain pa pb pc perf outperf res
    where o: "outcome (tc_frame macd_notna macd_rule (tc a) (data (fst (MACD_set_parameters (Some (py_int pa)) (Some (py_int pb)) (Some (py_int pc)) a)))) = Inr (perf, outperf, res)"
      and v: "v = fneg perf"
    by auto
  have "strategy_result perf outperf res"
    by (rule strategy_resultI [OF o]) (rule tc_frame_compounded, rule notna_returns)
  from strategy_result_perf [OF this] show ?thesis
    by (cases perf) (simp_all add: v fneg_def)
qed

lemma MACD_objective_performance:
  assumes "snd (MACD_update_and_run [x, y, z] a) = Inr (Some (- p))"
  shows "MACD_performance a (py_int x) (py_int y) (py_int z) = Inr (Some p)"
  using assms
  by (auto simp: MACD_update_and_run_def MACD_performance_def andthen_simps neg_perf_fst_snd
        split: sum.splits prod.splits dest: fneg_Some)

lemma MACD_optimize_search:
  assumes "MACD_optimize_parameters rd r1 r2 r3 a = (a', Inr (opt, perf))"
  shows "\<exists>s1 grid ps i. (same_prices (data s1) (data a) \<and> tc s1 = tc a \<and> 1 \<le> signal_mw s1) \<and>
           MACD_update_and_run opt s1 = (a', Inr (fneg perf)) \<and>
           mgrid rd [r1, r2, r3] = Inr grid \<and> length ps = length grid \<and>
           map (\<lambda>x. snd (MACD_update_and_run x a)) grid = map (\<lambda>p. Inr (Some (- p))) ps \<and>
           i < length grid \<and> opt = grid ! i \<and> perf = Some (ps ! i) \<and>
           (\<forall>k < length ps. ps ! k \<le> ps ! i) \<and> (\<forall>k < i. ps ! k < ps ! i)"
proof -
  from assms have o: "optimize rd MACD_update_and_run [r1, r2, r3] a = (a', Inr (opt, perf))"
    by (simp add: MACD_optimize_parameters_def)
  from optimize_first [OF o] obtain x v where "snd (MACD_update_and_run x a) = Inr v" by blast
  then have "\<not> isl (snd (MACD_update_and_run x a))" by simp
  from MACD_update_and_run_success [OF this] have a: "1 \<le> signal_mw a"
    by (auto simp: MACD_full_ok split: if_splits)
  show ?thesis
  proof (rule optimize_result [where I = "\<lambda>s. same_prices (data s) (data a) \<and> tc s = tc a \<and> 1 \<le> signal_mw s"
      and f = MACD_update_and_run and J = "\<lambda>x. snd (MACD_update_and_run x a)" and a = a])
    show "\<And>x s. same_prices (data s) (data a) \<and> tc s = tc a \<and> 1 \<le> signal_mw s \<Longrightarrow>
        \<not> isl (snd (MACD_update_and_run x s)) \<Longrightarrow>
        same_prices (data (fst (MACD_update_and_run x s))) (data a) \<and> tc (fst (MACD_update_and_run x s)) = tc a \<and> 1 \<le> signal_mw (fst (MACD_update_and_run x s))"
      by (rule MACD_update_and_run_inv)
    show "\<And>x s. same_prices (data s) (data a) \<and> tc s = tc a \<and> 1 \<le> signal_mw s \<Longrightarrow>
        snd (MACD_update_and_run x s) = snd (MACD_update_and_run x a)"
      by (rule MACD_update_and_run_indep) (assumption, rule a)
    show "\<And>x v. snd (MACD_update_and_run x a) = Inr v \<Longrightarrow> v \<noteq> None"
      by (rule MACD_objective_defined)
    show "same_prices (data a) (data a) \<and> tc a = tc a \<and> 1 \<le> signal_mw a" using a by simp
    show "optimize rd MACD_update_and_run [r1, r2, r3] a = (a', Inr (opt, perf))" by (rule o)
  qed
qed

lemma MACD_optimize_maximum:
  assumes "MACD_optimize_parameters rd r1 r2 r3 a = (a', Inr (opt, perf))"
  shows "\<exists>n1 n2 n3 ps i. axis_size rd r1 = Inr n1 \<and> axis_size rd r2 = Inr n2 \<and> axis_size rd r3 = Inr n3 \<and>
           (let grid = concat (map (\<lambda>x. concat (map (\<lambda>y. map (\<lambda>z. [x, y, z]) (axis_points rd r3 n3))
                         (axis_points rd r2 n2))) (axis_points rd r1 n1)) in
            length ps = length grid \<and> i < length grid \<and> opt = grid ! i \<and> perf = Some (ps ! i) \<and>
            (\<forall>k < length grid. \<exists>x y z. grid ! k = [x, y, z] \<and>
               MACD_performance a (py_int x) (py_int y) (py_int z) = Inr (Some (ps ! k))) \<and>
            (\<forall>k < length grid. ps ! k \<le> ps ! i) \<and> (\<forall>k < i. ps ! k < ps ! i))"
proof -
  from MACD_optimize_search [OF assms] obtain grid ps i
    where g: "mgrid rd [r1, r2, r3] = Inr grid" and len: "length ps = length grid"
      and J: "map (\<lambda>x. snd (MACD_update_and_run x a)) grid = map (\<lambda>p. Inr (Some (- p))) ps"
      and i: "i < length grid" "opt = grid ! i" "perf = Some (ps ! i)"
      and le: "\<forall>k < length ps. ps ! k \<le> ps ! i" and lt: "\<forall>k < i. ps ! k < ps ! i"
    by blast
  from mgrid_three [OF g] obtain n1 n2 n3 where n: "axis_size rd r1 = Inr n1" "axis_size rd r2 = Inr n2" "axis_size rd r3 = Inr n3"
    and grid: "grid = concat (map (\<lambda>x. concat (map (\<lambda>y. map (\<lambda>z. [x, y, z]) (axis_points rd r3 n3))
                         (axis_points rd r2 n2))) (axis_points rd r1 n1))"
    by blast
  have pt: "\<exists>x y z. grid ! k = [x, y, z] \<and>
      MACD_performance a (py_int x) (py_int y) (py_int z) = Inr (Some (ps ! k))"
    if k: "k < length grid" for k
  proof -
    from k grid_three_nth [of k "axis_points rd r3 n3" "axis_points rd r2 n2" "axis_points rd r1 n1"]
    obtain x y z where xy: "grid ! k = [x, y, z]" unfolding grid by blast
    from J k len have "snd (MACD_update_and_run (grid ! k) a) = Inr (Some (- (ps ! k)))"
      by (metis (mono_tags, lifting) nth_map length_map)
    with xy have "MACD_performance a (py_int x) (py_int y) (py_int z) = Inr (Some (ps ! k))"
      by (simp add: MACD_objective_performance)
    with xy show ?thesis by blast
  qed
  show ?thesis
    apply (rule exI [of _ n1], rule exI [of _ n2], rule exI [of _ n3], rule exI [of _ ps], rule exI [of _ i])
    using n len i le lt pt unfolding Let_def grid [symmetric] by simp
qed

lemma MACD_optimize_final_state:
  assumes "MACD_optimize_parameters rd r1 r2 r3 a = (a', Inr (opt, perf))"
  shows "\<exists>x y z outperf res. opt = [x, y, z] \<and>
     MACD_EMA_S a' = py_int x \<and>
     MACD_EMA_L a' = py_int y \<and>
     signal_mw a' = py_int z \<and>
     ewm_mean (py_int x) (close_col (data a)) = Inr (map mcol_EMA_S (data a')) \<and>
     ewm_mean (py_int y) (close_col (data a)) = Inr (map mcol_EMA_L (data a')) \<and>
     map col_MACD (data a') = macd_line (data a') \<and>
     ewm_mean (py_int z) (map col_MACD (data a')) = Inr (map col_MACD_Signal (data a')) \<and>
     same_prices (data a') (data a) \<and>
     results a' = Some res \<and> MACD_test_strategy a' = (a', Inr (perf, outperf, res))"
proof -
  from MACD_optimize_search [OF assms] obtain s1 grid i
    where I: "same_prices (data s1) (data a) \<and> tc s1 = tc a \<and> 1 \<le> signal_mw s1"
      and run: "MACD_update_and_run opt s1 = (a', Inr (fneg perf))"
      and g: "mgrid rd [r1, r2, r3] = Inr grid" and i: "i < length grid" "opt = grid ! i"
    by blast
  from mgrid_three [OF g] obtain n1 n2 n3
    where grid: "grid = concat (map (\<lambda>x. concat (map (\<lambda>y. map (\<lambda>z. [x, y, z]) (axis_points rd r3 n3))
                         (axis_points rd r2 n2))) (axis_points rd r1 n1))"
    by blast
  from i grid_three_nth [of i "axis_points rd r3 n3" "axis_points rd r2 n2" "axis_points rd r1 n1"]
  obtain x y z where opt: "opt = [x, y, z]" unfolding grid by auto
  let ?m = "MACD_set_parameters (Some (py_int x)) (Some (py_int y)) (Some (py_int z)) s1"
  let ?frame = "tc_frame macd_notna macd_rule (tc s1) (data (fst ?m))"
  from run have ok': "\<not> isl (snd (MACD_update_and_run opt s1))" by simp
  from MACD_update_and_run_success [OF ok'] run obtain perf' outperf res
    where ok: "snd ?m = Inr ()"
      and a': "a' = (fst ?m)\<lparr>results := Some ?frame\<rparr>"
      and o: "outcome ?frame = Inr (perf', outperf, res)"
      and p: "fneg perf = fneg perf'"
    unfolding opt by auto
  from fneg_inj [OF p] have perf: "perf' = perf" by simp
  from outcome_Inr [OF o] have res: "res = ?frame" by simp
  note r = MACD_full_result [OF ok]
  have d: "data a' = data (fst ?m)" by (simp add: a')
  have tc': "tc a' = tc s1"
    using MACD_set_untouched [of "Some (py_int x)" "Some (py_int y)" "Some (py_int z)" s1]
    by (simp add: a')
  from I have sp0: "same_prices (data s1) (data a)" by simp
  from sp0 have cm: "map candle (data s1) = map candle (data a)" by (simp add: same_prices_def)
  from sp0 have cc: "close_col (data s1) = close_col (data a)"
    by (intro close_col_cong) (simp add: same_prices_def)
  have sp: "same_prices (data a') (data a)"
    using r(4) sp0 by (auto simp: d intro: same_prices_trans)
  have c1: "MACD_EMA_S a' = py_int x"
    using r(1) by (simp add: a')
  have c2: "MACD_EMA_L a' = py_int y"
    using r(2) by (simp add: a')
  have c3: "signal_mw a' = py_int z"
    using r(3) by (simp add: a')
  have c4: "ewm_mean (py_int x) (close_col (data a)) = Inr (map mcol_EMA_S (data a'))"
    using r(5) by (simp add: d cc)
  have c5: "ewm_mean (py_int y) (close_col (data a)) = Inr (map mcol_EMA_L (data a'))"
    using r(6) by (simp add: d cc)
  have c6: "map col_MACD (data a') = macd_line (data a')"
    using r(7) by (simp add: d)
  have c7: "ewm_mean (py_int z) (map col_MACD (data a')) = Inr (map col_MACD_Signal (data a'))"
    using r(8) by (simp add: d)
  have t: "MACD_test_strategy a' = (a', Inr (perf, outperf, res))"
    using o  by (simp add: MACD_test_strategy_eq d tc' perf) (simp add: a')
  have rr: "results a' = Some res" by (simp add: a' res)
  from opt c1 c2 c3 c4 c5 c6 c7 sp rr t show ?thesis by blast
qed

lemma MACD_optimize_eval:
  assumes a: "1 \<le> signal_mw a"
      and g: "mgrid rd [r1, r2, r3] = Inr grid"
      and J: "map (\<lambda>x. snd (MACD_update_and_run x a)) grid = map Inr vs"
      and i: "np_argmin vs = Inr i" and v: "snd (MACD_update_and_run (grid ! i) a) = Inr v"
  shows "snd (MACD_optimize_parameters rd r1 r2 r3 a) = Inr (grid ! i, fneg v)"
  unfolding MACD_optimize_parameters_def
proof (rule optimize_eval [where I = "\<lambda>s. same_prices (data s) (data a) \<and> tc s = tc a \<and> 1 \<le> signal_mw s"
      and J = "\<lambda>x. snd (MACD_update_and_run x a)" and grid = grid and vs = vs])
  show "\<And>x s. same_prices (data s) (data a) \<and> tc s = tc a \<and> 1 \<le> signal_mw s \<Longrightarrow>
      \<not> isl (snd (MACD_update_and_run x s)) \<Longrightarrow>
      same_prices (data (fst (MACD_update_and_run x s))) (data a) \<and> tc (fst (MACD_update_and_run x s)) = tc a \<and> 1 \<le> signal_mw (fst (MACD_update_and_run x s))"
    by (rule MACD_update_and_run_inv)
  show "\<And>x s. same_prices (data s) (data a) \<and> tc s = tc a \<and> 1 \<le> signal_mw s \<Longrightarrow>
      snd (MACD_update_and_run x s) = snd (MACD_update_and_run x a)"
    by (rule MACD_update_and_run_indep) (assumption, rule a)
  show "same_prices (data a) (data a) \<and> tc a = tc a \<and> 1 \<le> signal_mw a" using a by simp
qed (rule g J i v)+

lemma RSI_full_thresholds:
  "0 \<le> p \<Longrightarrow> rsi_upper (fst (RSI_set_parameters (Some p) (Some u) (Some l) s)) = u"
  "0 \<le> p \<Longrightarrow> rsi_lower (fst (RSI_set_parameters (Some p) (Some u) (Some l) s)) = l"
  "\<not> p < 0 \<Longrightarrow> rsi_upper (fst (RSI_set_parameters (Some p) (Some u) (Some l) s)) = u"
  "\<not> p < 0 \<Longrightarrow> rsi_lower (fst (RSI_set_parameters (Some p) (Some u) (Some l) s)) = l"
  using RSI_full_result(2,3) [of p u l s] by (simp_all add: RSI_full_ok)

lemma RSI_update_and_run_short:
  "RSI_update_and_run [] s = (s, Inl IndexError)" "RSI_update_and_run [pa] s = (s, Inl IndexError)" "RSI_update_and_run [pa, pb] s = (s, Inl IndexError)"
  by (simp_all add: RSI_update_and_run_def)

lemma RSI_update_and_run_long:
  "RSI_update_and_run (pa # pb # pc # rest) s =
     (let m = RSI_set_parameters (Some (py_int pa)) (Some (real_of_int (py_int pb))) (Some (real_of_int (py_int pc))) s;
          frame = tc_frame rsi_notna (rsi_rule (real_of_int (py_int pb)) (real_of_int (py_int pc))) (tc s) (data (fst m))
      in if py_int pa < 0
         then (fst m, Inl ValueError)
         else ((fst m)\<lparr>results := Some frame\<rparr>,
               case outcome frame of Inl e \<Rightarrow> Inl e
               | Inr (perf, outperf, res) \<Rightarrow> Inr (fneg perf)))"
proof -
  let ?m = "RSI_set_parameters (Some (py_int pa)) (Some (real_of_int (py_int pb))) (Some (real_of_int (py_int pc))) s"
  have tc: "tc (fst ?m) = tc s" using RSI_set_untouched by blast
  have "RSI_update_and_run (pa # pb # pc # rest) s =
      andthen (fst ?m, snd ?m) (\<lambda>self. neg_perf (RSI_test_strategy self))"
    by (simp add: RSI_update_and_run_def)
  also have "\<dots> = (let m = ?m;
          frame = tc_frame rsi_notna (rsi_rule (real_of_int (py_int pb)) (real_of_int (py_int pc))) (tc s) (data (fst m))
      in if py_int pa < 0
         then (fst m, Inl ValueError)
         else ((fst m)\<lparr>results := Some frame\<rparr>,
               case outcome frame of Inl e \<Rightarrow> Inl e
               | Inr (perf, outperf, res) \<Rightarrow> Inr (fneg perf)))"
    unfolding RSI_full_ok Let_def
    by (simp add: andthen_simps RSI_test_strategy_eq tc prod_eq_iff neg_perf_fst_snd RSI_full_thresholds)
  finally show ?thesis .
qed

lemma RSI_update_and_run_success:
  assumes "\<not> isl (snd (RSI_update_and_run x s))"
  shows "\<exists>pa pb pc rest. x = pa # pb # pc # rest \<and>
           snd (RSI_set_parameters (Some (py_int pa)) (Some (real_of_int (py_int pb))) (Some (real_of_int (py_int pc))) s) = Inr () \<and>
           fst (RSI_update_and_run x s) =
             (fst (RSI_set_parameters (Some (py_int pa)) (Some (real_of_int (py_int pb))) (Some (real_of_int (py_int pc))) s))
               \<lparr>results := Some (tc_frame rsi_notna (rsi_rule (real_of_int (py_int pb)) (real_of_int (py_int pc))) (tc s) (data (fst (RSI_set_parameters (Some (py_int pa)) (Some (real_of_int (py_int pb))) (Some (real_of_int (py_int pc))) s))))\<rparr> \<and>
           (\<exists>perf outperf res.
              outcome (tc_frame rsi_notna (rsi_rule (real_of_int (py_int pb)) (real_of_int (py_int pc))) (tc s) (data (fst (RSI_set_parameters (Some (py_int pa)) (Some (real_of_int (py_int pb))) (Some (real_of_int (py_int pc))) s)))) = Inr (perf, outperf, res) \<and>
              snd (RSI_update_and_run x s) = Inr (fneg perf))"
proof -
  from assms obtain pa pb pc rest where x: "x = pa # pb # pc # rest"
    by (cases x; cases "tl (x)"; cases "tl (tl (x))") (auto simp: RSI_update_and_run_short)
  from assms show ?thesis
    unfolding x RSI_update_and_run_long Let_def
    by (auto simp: RSI_full_ok split: if_splits sum.splits)
qed

lemma RSI_update_and_run_inv:
  assumes "same_prices (data s) (data a) \<and> map col_U (data s) = map col_U (data a) \<and> map col_D (data s) = map col_D (data a) \<and> tc s = tc a"
      and "\<not> isl (snd (RSI_update_and_run x s))"
  shows "same_prices (data (fst (RSI_update_and_run x s))) (data a) \<and> map col_U (data (fst (RSI_update_and_run x s))) = map col_U (data a) \<and> map col_D (data (fst (RSI_update_and_run x s))) = map col_D (data a) \<and> tc (fst (RSI_update_and_run x s)) = tc a"
proof -
  from RSI_update_and_run_success [OF assms(2)] obtain pa pb pc
    where ok: "snd (RSI_set_parameters (Some (py_int pa)) (Some (real_of_int (py_int pb))) (Some (real_of_int (py_int pc))) s) = Inr ()"
      and f: "fst (RSI_update_and_run x s) =
             (fst (RSI_set_parameters (Some (py_int pa)) (Some (real_of_int (py_int pb))) (Some (real_of_int (py_int pc))) s))
               \<lparr>results := Some (tc_frame rsi_notna (rsi_rule (real_of_int (py_int pb)) (real_of_int (py_int pc))) (tc s) (data (fst (RSI_set_parameters (Some (py_int pa)) (Some (real_of_int (py_int pb))) (Some (real_of_int (py_int pc))) s))))\<rparr>"
    by blast
  note r = RSI_full_result [OF ok]
  from ok have okp: "\<not> (py_int pa < 0)" by (auto simp: RSI_full_ok split: if_splits)
  from okp r(4) r(5) r(6) assms(1) RSI_set_untouched [of "Some (py_int pa)" "Some (real_of_int (py_int pb))" "Some (real_of_int (py_int pc))" s]
  show ?thesis
    by (auto simp: f intro: same_prices_trans)
qed

lemma RSI_update_and_run_indep:
  assumes s: "same_prices (data s) (data a) \<and> map col_U (data s) = map col_U (data a) \<and> map col_D (data s) = map col_D (data a) \<and> tc s = tc a"
  shows "snd (RSI_update_and_run x s) = snd (RSI_update_and_run x a)"
proof (cases "\<exists>pa pb pc rest. x = pa # pb # pc # rest")
  case False
  then have "x = [] \<or> (\<exists>pa. x = [pa]) \<or> (\<exists>pa pb. x = [pa, pb])"
    by (cases x; cases "tl (x)"; cases "tl (tl (x))") auto
  then show ?thesis by (auto simp: RSI_update_and_run_short)
next
  case True
  then obtain pa pb pc rest where x: "x = pa # pb # pc # rest" by blast
  show ?thesis
  proof (cases "py_int pa < 0")
    case True
    then show ?thesis by (auto simp: x RSI_update_and_run_long Let_def)
  next
    case False
    with s have oks: "snd (RSI_set_parameters (Some (py_int pa)) (Some (real_of_int (py_int pb))) (Some (real_of_int (py_int pc))) s) = Inr ()"
      and oka: "snd (RSI_set_parameters (Some (py_int pa)) (Some (real_of_int (py_int pb))) (Some (real_of_int (py_int pc))) a) = Inr ()"
      by (simp_all add: RSI_full_ok)
    from s have sp: "same_prices (data s) (data a) \<and> map col_U (data s) = map col_U (data a) \<and>
               map col_D (data s) = map col_D (data a)" by simp
    from RSI_data_determined [OF sp oks oka] False s show ?thesis
      by (simp add: x RSI_update_and_run_long Let_def)
  qed
qed

lemma RSI_objective_defined:
  assumes "snd (RSI_update_and_run x a) = Inr v"
  shows "v \<noteq> None"
proof -
  from assms have "\<not> isl (snd (RSI_update_and_run x a))" by simp
  from RSI_update_and_run_success [OF this] assms obtain pa pb pc perf outperf res
    where o: "outcome (tc_frame rsi_notna (rsi_rule (real_of_int (py_int pb)) (real_of_int (py_int pc))) (tc a) (data (fst (RSI_set_parameters (Some (py_int pa)) (Some (real_of_int (py_int pb))) (Some (real_of_int (py_int pc))) a)))) = Inr (perf, outperf, res)"
      and v: "v = fneg perf"
    by auto
  have "strategy_result perf outperf res"
    by (rule strategy_resultI [OF o]) (rule tc_frame_compounded, rule notna_returns)
  from strategy_result_perf [OF this] show ?thesis
    by (cases perf) (simp_all add: v fneg_def)
qed

lemma RSI_objective_performance:
  assumes "snd (RSI_update_and_run [x, y, z] a) = Inr (Some (- p))"
  shows "RSI_performance a (py_int x) (py_int y) (py_int z) = Inr (Some p)"
  using assms
  by (auto simp: RSI_update_and_run_def RSI_performance_def andthen_simps neg_perf_fst_snd
        split: sum.splits prod.splits dest: fneg_Some)

lemma RSI_optimize_search:
  assumes "RSI_optimize_parameters rd r1 r2 r3 a = (a', Inr (opt, perf))"
  shows "\<exists>s1 grid ps i. (same_prices (data s1) (data a) \<and> map col_U (data s1) = map col_U (data a) \<and> map col_D (data s1) = map col_D (data a) \<and> tc s1 = tc a) \<and>
           RSI_update_and_run opt s1 = (a', Inr (fneg perf)) \<and>
           mgrid rd [r1, r2, r3] = Inr grid \<and> length ps = length grid \<and>
           map (\<lambda>x. snd (RSI_update_and_run x a)) grid = map (\<lambda>p. Inr (Some (- p))) ps \<and>
           i < length grid \<and> opt = grid ! i \<and> perf = Some (ps ! i) \<and>
           (\<forall>k < length ps. ps ! k \<le> ps ! i) \<and> (\<forall>k < i. ps ! k < ps ! i)"
proof -
  from assms have o: "optimize rd RSI_update_and_run [r1, r2, r3] a = (a', Inr (opt, perf))"
    by (simp add: RSI_optimize_parameters_def)
  show ?thesis
  proof (rule optimize_result [where I = "\<lambda>s. same_prices (data s) (data a) \<and> map col_U (data s) = map col_U (data a) \<and> map col_D (data s) = map col_D (data a) \<and> tc s = tc a"
      and f = RSI_update_and_run and J = "\<lambda>x. snd (RSI_update_and_run x a)" and a = a])
    show "\<And>x s. same_prices (data s) (data a) \<and> map col_U (data s) = map col_U (data a) \<and> map col_D (data s) = map col_D (data a) \<and> tc s = tc a \<Longrightarrow>
        \<not> isl (snd (RSI_update_and_run x s)) \<Longrightarrow>
        same_prices (data (fst (RSI_update_and_run x s))) (data a) \<and> map col_U (data (fst (RSI_update_and_run x s))) = map col_U (data a) \<and> map col_D (data (fst (RSI_update_and_run x s))) = map col_D (data a) \<and> tc (fst (RSI_update_and_run x s)) = tc a"
      by (rule RSI_update_and_run_inv)
    show "\<And>x s. same_prices (data s) (data a) \<and> map col_U (data s) = map col_U (data a) \<and> map col_D (data s) = map col_D (data a) \<and> tc s = tc a \<Longrightarrow>
        snd (RSI_update_and_run x s) = snd (RSI_update_and_run x a)"
      by (rule RSI_update_and_run_indep)
    show "\<And>x v. snd (RSI_update_and_run x a) = Inr v \<Longrightarrow> v \<noteq> None"
      by (rule RSI_objective_defined)
    show "same_prices (data a) (data a) \<and> map col_U (data a) = map col_U (data a) \<and> map col_D (data a) = map col_D (data a) \<and> tc a = tc a" by simp
    show "optimize rd RSI_update_and_run [r1, r2, r3] a = (a', Inr (opt, perf))" by (rule o)
  qed
qed

lemma RSI_optimize_maximum:
  assumes "RSI_optimize_parameters rd r1 r2 r3 a = (a', Inr (opt, perf))"
  shows "\<exists>n1 n2 n3 ps i. axis_size rd r1 = Inr n1 \<and> axis_size rd r2 = Inr n2 \<and> axis_size rd r3 = Inr n3 \<and>
           (let grid = concat (map (\<lambda>x. concat (map (\<lambda>y. map (\<lambda>z. [x, y, z]) (axis_points rd r3 n3))
                         (axis_points rd r2 n2))) (axis_points rd r1 n1)) in
            length ps = length grid \<and> i < length grid \<and> opt = grid ! i \<and> perf = Some (ps ! i) \<and>
            (\<forall>k < length grid. \<exists>x y z. grid ! k = [x, y, z] \<and>
               RSI_performance a (py_int x) (py_int y) (py_int z) = Inr (Some (ps ! k))) \<and>
            (\<forall>k < length grid. ps ! k \<le> ps ! i) \<and> (\<forall>k < i. ps ! k < ps ! i))"
proof -
  from RSI_optimize_search [OF assms] obtain grid ps i
    where g: "mgrid rd [r1, r2, r3] = Inr grid" and len: "length ps = length grid"
      and J: "map (\<lambda>x. snd (RSI_update_and_run x a)) grid = map (\<lambda>p. Inr (Some (- p))) ps"
      and i: "i < length grid" "opt = grid ! i" "perf = Some (ps ! i)"
      and le: "\<forall>k < length ps. ps ! k \<le> ps ! i" and lt: "\<forall>k < i. ps ! k < ps ! i"
    by blast
  from mgrid_three [OF g] obtain n1 n2 n3 where n: "axis_size rd r1 = Inr n1" "axis_size rd r2 = Inr n2" "axis_size rd r3 = Inr n3"
    and grid: "grid = concat (map (\<lambda>x. concat (map (\<lambda>y. map (\<lambda>z. [x, y, z]) (axis_points rd r3 n3))
                         (axis_points rd r2 n2))) (axis_points rd r1 n1))"
    by blast
  have pt: "\<exists>x y z. grid ! k = [x, y, z] \<and>
      RSI_performance a (py_int x) (py_int y) (py_int z) = Inr (Some (ps ! k))"
    if k: "k < length grid" for k
  proof -
    from k grid_three_nth [of k "axis_points rd r3 n3" "axis_points rd r2 n2" "axis_points rd r1 n1"]
    obtain x y z where xy: "grid ! k = [x, y, z]" unfolding grid by blast
    from J k len have "snd (RSI_update_and_run (grid ! k) a) = Inr (Some (- (ps ! k)))"
      by (metis (mono_tags, lifting) nth_map length_map)
    with xy have "RSI_performance a (py_int x) (py_int y) (py_int z) = Inr (Some (ps ! k))"
      by (simp add: RSI_objective_performance)
    with xy show ?thesis by blast
  qed
  show ?thesis
    apply (rule exI [of _ n1], rule exI [of _ n2], rule exI [of _ n3], rule exI [of _ ps], rule exI [of _ i])
    using n len i le lt pt unfolding Let_def grid [symmetric] by simp
qed

lemma RSI_optimize_final_state:
  assumes "RSI_optimize_parameters rd r1 r2 r3 a = (a', Inr (opt, perf))"
  shows "\<exists>x y z outperf res. opt = [x, y, z] \<and>
     RSI_periods a' = py_int x \<and>
     rsi_upper a' = real_of_int (py_int y) \<and>
     rsi_lower a' = real_of_int (py_int z) \<and>
     map col_U (data a') = map col_U (data a) \<and>
     map col_D (data a') = map col_D (data a) \<and>
     rolling mean (py_int x) (map col_U (data a)) = Inr (map col_MA_U (data a')) \<and>
     rolling mean (py_int x) (map col_D (data a)) = Inr (map col_MA_D (data a')) \<and>
     map col_RSI (data a') = map (\<lambda>r. rsi_value (col_MA_U r) (col_MA_D r)) (data a') \<and>
     same_prices (data a') (data a) \<and>
     results a' = Some res \<and> RSI_test_strategy a' = (a', Inr (perf, outperf, res))"
proof -
  from RSI_optimize_search [OF assms] obtain s1 grid i
    where I: "same_prices (data s1) (data a) \<and> map col_U (data s1) = map col_U (data a) \<and> map col_D (data s1) = map col_D (data a) \<and> tc s1 = tc a"
      and run: "RSI_update_and_run opt s1 = (a', Inr (fneg perf))"
      and g: "mgrid rd [r1, r2, r3] = Inr grid" and i: "i < length grid" "opt = grid ! i"
    by blast
  from mgrid_three [OF g] obtain n1 n2 n3
    where grid: "grid = concat (map (\<lambda>x. concat (map (\<lambda>y. map (\<lambda>z. [x, y, z]) (axis_points rd r3 n3))
                         (axis_points rd r2 n2))) (axis_points rd r1 n1))"
    by blast
  from i grid_three_nth [of i "axis_points rd r3 n3" "axis_points rd r2 n2" "axis_points rd r1 n1"]
  obtain x y z where opt: "opt = [x, y, z]" unfolding grid by auto
  let ?m = "RSI_set_parameters (Some (py_int x)) (Some (real_of_int (py_int y))) (Some (real_of_int (py_int z))) s1"
  let ?frame = "tc_frame rsi_notna (rsi_rule (real_of_int (py_int y)) (real_of_int (py_int z))) (tc s1) (data (fst ?m))"
  from run have ok': "\<not> isl (snd (RSI_update_and_run opt s1))" by simp
  from RSI_update_and_run_success [OF ok'] run obtain perf' outperf res
    where ok: "snd ?m = Inr ()"
      and a': "a' = (fst ?m)\<lparr>results := Some ?frame\<rparr>"
      and o: "outcome ?frame = Inr (perf', outperf, res)"
      and p: "fneg perf = fneg perf'"
    unfolding opt by auto
  from fneg_inj [OF p] have perf: "perf' = perf" by simp
  from outcome_Inr [OF o] have res: "res = ?frame" by simp
  note r = RSI_full_result [OF ok]
  have d: "data a' = data (fst ?m)" by (simp add: a')
  have tc': "tc a' = tc s1"
    using RSI_set_untouched [of "Some (py_int x)" "Some (real_of_int (py_int y))" "Some (real_of_int (py_int z))" s1]
    by (simp add: a')
  from I have sp0: "same_prices (data s1) (data a)" by simp
  from sp0 have cm: "map candle (data s1) = map candle (data a)" by (simp add: same_prices_def)
  from sp0 have cc: "close_col (data s1) = close_col (data a)"
    by (intro close_col_cong) (simp add: same_prices_def)
  have sp: "same_prices (data a') (data a)"
    using r(4) sp0 by (auto simp: d intro: same_prices_trans)
  have c1: "RSI_periods a' = py_int x"
    using r(1) by (simp add: a')
  have c2: "rsi_upper a' = real_of_int (py_int y)"
    using r(2) by (simp add: a')
  have c3: "rsi_lower a' = real_of_int (py_int z)"
    using r(3) by (simp add: a')
  have c4: "map col_U (data a') = map col_U (data a)"
    using r(5) I by (simp add: d)
  have c5: "map col_D (data a') = map col_D (data a)"
    using r(6) I by (simp add: d)
  have c6: "rolling mean (py_int x) (map col_U (data a)) = Inr (map col_MA_U (data a'))"
    using r(7) I by (simp add: d)
  have c7: "rolling mean (py_int x) (map col_D (data a)) = Inr (map col_MA_D (data a'))"
    using r(8) I by (simp add: d)
  have c8: "map col_RSI (data a') = map (\<lambda>r. rsi_value (col_MA_U r) (col_MA_D r)) (data a')"
    using r(9) by (simp add: d)
  have t: "RSI_test_strategy a' = (a', Inr (perf, outperf, res))"
    using o c2 c3 by (simp add: RSI_test_strategy_eq d tc' perf) (simp add: a')
  have rr: "results a' = Some res" by (simp add: a' res)
  from opt c1 c2 c3 c4 c5 c6 c7 c8 sp rr t show ?thesis by blast
qed

lemma RSI_optimize_eval:
  assumes g: "mgrid rd [r1, r2, r3] = Inr grid"
      and J: "map (\<lambda>x. snd (RSI_update_and_run x a)) grid = map Inr vs"
      and i: "np_argmin vs = Inr i" and v: "snd (RSI_update_and_run (grid ! i) a) = Inr v"
  shows "snd (RSI_optimize_parameters rd r1 r2 r3 a) = Inr (grid ! i, fneg v)"
  unfolding RSI_optimize_parameters_def
proof (rule optimize_eval [where I = "\<lambda>s. same_prices (data s) (data a) \<and> map col_U (data s) = map col_U (data a) \<and> map col_D (data s) = map col_D (data a) \<and> tc s = tc a"
      and J = "\<lambda>x. snd (RSI_update_and_run x a)" and grid = grid and vs = vs])
  show "\<And>x s. same_prices (data s) (data a) \<and> map col_U (data s) = map col_U (data a) \<and> map col_D (data s) = map col_D (data a) \<and> tc s = tc a \<Longrightarrow>
      \<not> isl (snd (RSI_update_and_run x s)) \<Longrightarrow>
      same_prices (data (fst (RSI_update_and_run x s))) (data a) \<and> map col_U (data (fst (RSI_update_and_run x s))) = map col_U (data a) \<and> map col_D (data (fst (RSI_update_and_run x s))) = map col_D (data a) \<and> tc (fst (RSI_update_and_run x s)) = tc a"
    by (rule RSI_update_and_run_inv)
  show "\<And>x s. same_prices (data s) (data a) \<and> map col_U (data s) = map col_U (data a) \<and> map col_D (data s) = map col_D (data a) \<and> tc s = tc a \<Longrightarrow>
      snd (RSI_update_and_run x s) = snd (RSI_update_and_run x a)"
    by (rule RSI_update_and_run_indep)
  show "same_prices (data a) (data a) \<and> map col_U (data a) = map col_U (data a) \<and> map col_D (data a) = map col_D (data a) \<and> tc a = tc a" by simp
qed (rule g J i v)+

lemma SO_update_and_run_short:
  "SO_update_and_run [] s = (s, Inl IndexError)" "SO_update_and_run [pa] s = (s, Inl IndexError)"
  by (simp_all add: SO_update_and_run_def)

lemma SO_update_and_run_long:
  "SO_update_and_run (pa # pb # rest) s =
     (let m = SO_set_parameters (Some (py_int pa)) (Some (py_int pb)) s;
          frame = tc_frame so_notna so_rule (tc s) (data (fst m))
      in if py_int pa < 0 \<or> py_int pb < 0 \<or> D_mw s < 0
         then (fst m, Inl ValueError)
         else ((fst m)\<lparr>results := Some frame\<rparr>,
               case outcome frame of Inl e \<Rightarrow> Inl e
               | Inr (perf, outperf, res) \<Rightarrow> Inr (fneg perf)))"
proof -
  let ?m = "SO_set_parameters (Some (py_int pa)) (Some (py_int pb)) s"
  have tc: "tc (fst ?m) = tc s" using SO_set_untouched by blast
  have "SO_update_and_run (pa # pb # rest) s =
      andthen (fst ?m, snd ?m) (\<lambda>self. neg_perf (SO_test_strategy self))"
    by (simp add: SO_update_and_run_def)
  also have "\<dots> = (let m = ?m;
          frame = tc_frame so_notna so_rule (tc s) (data (fst m))
      in if py_int pa < 0 \<or> py_int pb < 0 \<or> D_mw s < 0
         then (fst m, Inl ValueError)
         else ((fst m)\<lparr>results := Some frame\<rparr>,
               case outcome frame of Inl e \<Rightarrow> Inl e
               | Inr (perf, outperf, res) \<Rightarrow> Inr (fneg perf)))"
    unfolding SO_full_ok Let_def
    by (simp add: andthen_simps SO_test_strategy_eq tc prod_eq_iff neg_perf_fst_snd)
  finally show ?thesis .
qed

lemma SO_update_and_run_success:
  assumes "\<not> isl (snd (SO_update_and_run x s))"
  shows "\<exists>pa pb rest. x = pa # pb # rest \<and>
           snd (SO_set_parameters (Some (py_int pa)) (Some (py_int pb)) s) = Inr () \<and>
           fst (SO_update_and_run x s) =
             (fst (SO_set_parameters (Some (py_int pa)) (Some (py_int pb)) s))
               \<lparr>results := Some (tc_frame so_notna so_rule (tc s) (data (fst (SO_set_parameters (Some (py_int pa)) (Some (py_int pb)) s))))\<rparr> \<and>
           (\<exists>perf outperf res.
              outcome (tc_frame so_notna so_rule (tc s) (data (fst (SO_set_parameters (Some (py_int pa)) (Some (py_int pb)) s)))) = Inr (perf, outperf, res) \<and>
              snd (SO_update_and_run x s) = Inr (fneg perf))"
proof -
  from assms obtain pa pb rest where x: "x = pa # pb # rest"
    by (cases x; cases "tl (x)") (auto simp: SO_update_and_run_short)
  from assms show ?thesis
    unfolding x SO_update_and_run_long Let_def
    by (auto simp: SO_full_ok split: if_splits sum.splits)
qed

lemma SO_update_and_run_inv:
  assumes "same_prices (data s) (data a) \<and> tc s = tc a \<and> 0 \<le> D_mw s"
      and "\<not> isl (snd (SO_update_and_run x s))"
  shows "same_prices (data (fst (SO_update_and_run x s))) (data a) \<and> tc (fst (SO_update_and_run x s)) = tc a \<and> 0 \<le> D_mw (fst (SO_update_and_run x s))"
proof -
  from SO_update_and_run_success [OF assms(2)] obtain pa pb
    where ok: "snd (SO_set_parameters (Some (py_int pa)) (Some (py_int pb)) s) = Inr ()"
      and f: "fst (SO_update_and_run x s) =
             (fst (SO_set_parameters (Some (py_int pa)) (Some (py_int pb)) s))
               \<lparr>results := Some (tc_frame so_notna so_rule (tc s) (data (fst (SO_set_parameters (Some (py_int pa)) (Some (py_int pb)) s))))\<rparr>"
    by blast
  note r = SO_full_result [OF ok]
  from ok have okp: "\<not> (py_int pa < 0 \<or> py_int pb < 0 \<or> D_mw s < 0)" by (auto simp: SO_full_ok split: if_splits)
  from okp r(2) r(3) assms(1) SO_set_untouched [of "Some (py_int pa)" "Some (py_int pb)" s]
  show ?thesis
    by (auto simp: f intro: same_prices_trans)
qed

lemma SO_update_and_run_indep:
  assumes s: "same_prices (data s) (data a) \<and> tc s = tc a \<and> 0 \<le> D_mw s"
      and a: "0 \<le> D_mw a"
  shows "snd (SO_update_and_run x s) = snd (SO_update_and_run x a)"
proof (cases "\<exists>pa pb rest. x = pa # pb # rest")
  case False
  then have "x = [] \<or> (\<exists>pa. x = [pa])"
    by (cases x; cases "tl (x)") auto
  then show ?thesis by (auto simp: SO_update_and_run_short)
next
  case True
  then obtain pa pb rest where x: "x = pa # pb # rest" by blast
  show ?thesis
  proof (cases "py_int pa < 0 \<or> py_int pb < 0")
    case True
    then show ?thesis by (auto simp: x SO_update_and_run_long Let_def)
  next
    case False
    with s a have oks: "snd (SO_set_parameters (Some (py_int pa)) (Some (py_int pb)) s) = Inr ()"
      and oka: "snd (SO_set_parameters (Some (py_int pa)) (Some (py_int pb)) a) = Inr ()"
      by (simp_all add: SO_full_ok)
    from s have sp: "same_prices (data s) (data a)" by simp
    from SO_data_determined [OF sp oks oka] False s a show ?thesis
      by (simp add: x SO_update_and_run_long Let_def)
  qed
qed

lemma SO_objective_defined:
  assumes "snd (SO_update_and_run x a) = Inr v"
  shows "v \<noteq> None"
proof -
  from assms have "\<not> isl (snd (SO_update_and_run x a))" by simp
  from SO_update_and_run_success [OF this] assms obtain pa pb perf outperf res
    where o: "outcome (tc_frame so_notna so_rule (tc a) (data (fst (SO_set_parameters (Some (py_int pa)) (Some (py_int pb)) a)))) = Inr (perf, outperf, res)"
      and v: "v = fneg perf"
    by auto
  have "strategy_result perf outperf res"
    by (rule strategy_resultI [OF o]) (rule tc_frame_compounded, rule notna_returns)
  from strategy_result_perf [OF this] show ?thesis
    by (cases perf) (simp_all add: v fneg_def)
qed

lemma SO_objective_performance:
  assumes "snd (SO_update_and_run [x, y] a) = Inr (Some (- p))"
  shows "SO_performance a (py_int x) (py_int y) = Inr (Some p)"
  using assms
  by (auto simp: SO_update_and_run_def SO_performance_def andthen_simps neg_perf_fst_snd
        split: sum.splits prod.splits dest: fneg_Some)

lemma SO_optimize_search:
  assumes "SO_optimize_parameters rd r1 r2 a = (a', Inr (opt, perf))"
  shows "\<exists>s1 grid ps i. (same_prices (data s1) (data a) \<and> tc s1 = tc a \<and> 0 \<le> D_mw s1) \<and>
           SO_update_and_run opt s1 = (a', Inr (fneg perf)) \<and>
           mgrid rd [r1, r2] = Inr grid \<and> length ps = length grid \<and>
           map (\<lambda>x. snd (SO_update_and_run x a)) grid = map (\<lambda>p. Inr (Some (- p))) ps \<and>
           i < length grid \<and> opt = grid ! i \<and> perf = Some (ps ! i) \<and>
           (\<forall>k < length ps. ps ! k \<le> ps ! i) \<and> (\<forall>k < i. ps ! k < ps ! i)"
proof -
  from assms have o: "optimize rd SO_update_and_run [r1, r2] a = (a', Inr (opt, perf))"
    by (simp add: SO_optimize_parameters_def)
  from optimize_first [OF o] obtain x v where "snd (SO_update_and_run x a) = Inr v" by blast
  then have "\<not> isl (snd (SO_update_and_run x a))" by simp
  from SO_update_and_run_success [OF this] have a: "0 \<le> D_mw a"
    by (auto simp: SO_full_ok split: if_splits)
  show ?thesis
  proof (rule optimize_result [where I = "\<lambda>s. same_prices (data s) (data a) \<and> tc s = tc a \<and> 0 \<le> D_mw s"
      and f = SO_update_and_run and J = "\<lambda>x. snd (SO_update_and_run x a)" and a = a])
    show "\<And>x s. same_prices (data s) (data a) \<and> tc s = tc a \<and> 0 \<le> D_mw s \<Longrightarrow>
        \<not> isl (snd (SO_update_and_run x s)) \<Longrightarrow>
        same_prices (data (fst (SO_update_and_run x s))) (data a) \<and> tc (fst (SO_update_and_run x s)) = tc a \<and> 0 \<le> D_mw (fst (SO_update_and_run x s))"
      by (rule SO_update_and_run_inv)
    show "\<And>x s. same_prices (data s) (data a) \<and> tc s = tc a \<and> 0 \<le> D_mw s \<Longrightarrow>
        snd (SO_update_and_run x s) = snd (SO_update_and_run x a)"
      by (rule SO_update_and_run_indep) (assumption, rule a)
    show "\<And>x v. snd (SO_update_and_run x a) = Inr v \<Longrightarrow> v \<noteq> None"
      by (rule SO_objective_defined)
    show "same_prices (data a) (data a) \<and> tc a = tc a \<and> 0 \<le> D_mw a" using a by simp
    show "optimize rd SO_update_and_run [r1, r2] a = (a', Inr (opt, perf))" by (rule o)
  qed
qed

lemma SO_optimize_maximum:
  assumes "SO_optimize_parameters rd r1 r2 a = (a', Inr (opt, perf))"
  shows "\<exists>n1 n2 ps i. axis_size rd r1 = Inr n1 \<and> axis_size rd r2 = Inr n2 \<and>
           (let grid = concat (map (\<lambda>x. map (\<lambda>y. [x, y]) (axis_points rd r2 n2)) (axis_points rd r1 n1)) in
            length ps = length grid \<and> i < length grid \<and> opt = grid ! i \<and> perf = Some (ps ! i) \<and>
            (\<forall>k < length grid. \<exists>x y. grid ! k = [x, y] \<and>
               SO_performance a (py_int x) (py_int y) = Inr (Some (ps ! k))) \<and>
            (\<forall>k < length grid. ps ! k \<le> ps ! i) \<and> (\<forall>k < i. ps ! k < ps ! i))"
proof -
  from SO_optimize_search [OF assms] obtain grid ps i
    where g: "mgrid rd [r1, r2] = Inr grid" and len: "length ps = length grid"
      and J: "map (\<lambda>x. snd (SO_update_and_run x a)) grid = map (\<lambda>p. Inr (Some (- p))) ps"
      and i: "i < length grid" "opt = grid ! i" "perf = Some (ps ! i)"
      and le: "\<forall>k < length ps. ps ! k \<le> ps ! i" and lt: "\<forall>k < i. ps ! k < ps ! i"
    by blast
  from mgrid_two [OF g] obtain n1 n2 where n: "axis_size rd r1 = Inr n1" "axis_size rd r2 = Inr n2"
    and grid: "grid = concat (map (\<lambda>x. map (\<lambda>y. [x, y]) (axis_points rd r2 n2)) (axis_points rd r1 n1))"
    by blast
  have pt: "\<exists>x y. grid ! k = [x, y] \<and>
      SO_performance a (py_int x) (py_int y) = Inr (Some (ps ! k))"
    if k: "k < length grid" for k
  proof -
    from k grid_two_nth [of k "axis_points rd r2 n2" "axis_points rd r1 n1"]
    obtain x y where xy: "grid ! k = [x, y]" unfolding grid by blast
    from J k len have "snd (SO_update_and_run (grid ! k) a) = Inr (Some (- (ps ! k)))"
      by (metis (mono_tags, lifting) nth_map length_map)
    with xy have "SO_performance a (py_int x) (py_int y) = Inr (Some (ps ! k))"
      by (simp add: SO_objective_performance)
    with xy show ?thesis by blast
  qed
  show ?thesis
    apply (rule exI [of _ n1], rule exI [of _ n2], rule exI [of _ ps], rule exI [of _ i])
    using n len i le lt pt unfolding Let_def grid [symmetric] by simp
qed

lemma SO_optimize_final_state:
  assumes "SO_optimize_parameters rd r1 r2 a = (a', Inr (opt, perf))"
  shows "\<exists>x y outperf res. opt = [x, y] \<and>
     SO_periods a' = py_int x \<and>
     D_mw a' = py_int y \<and>
     rolling list_min (py_int x) (map (\<lambda>r. Some (Low (candle r))) (data a)) = Inr (map col_roll_low (data a')) \<and>
     rolling list_max (py_int x) (map (\<lambda>r. Some (High (candle r))) (data a)) = Inr (map col_roll_high (data a')) \<and>
     map col_K (data a') = map (\<lambda>r. k_value (Close (candle r)) (col_roll_low r) (col_roll_high r)) (data a') \<and>
     rolling mean (py_int y) (map col_K (data a')) = Inr (map col_SO_D (data a')) \<and>
     same_prices (data a') (data a) \<and>
     results a' = Some res \<and> SO_test_strategy a' = (a', Inr (perf, outperf, res))"
proof -
  from SO_optimize_search [OF assms] obtain s1 grid i
    where I: "same_prices (data s1) (data a) \<and> tc s1 = tc a \<and> 0 \<le> D_mw s1"
      and run: "SO_update_and_run opt s1 = (a', Inr (fneg perf))"
      and g: "mgrid rd [r1, r2] = Inr grid" and i: "i < length grid" "opt = grid ! i"
    by blast
  from mgrid_two [OF g] obtain n1 n2
    where grid: "grid = concat (map (\<lambda>x. map (\<lambda>y. [x, y]) (axis_points rd r2 n2)) (axis_points rd r1 n1))"
    by blast
  from i grid_two_nth [of i "axis_points rd r2 n2" "axis_points rd r1 n1"]
  obtain x y where opt: "opt = [x, y]" unfolding grid by auto
  let ?m = "SO_set_parameters (Some (py_int x)) (Some (py_int y)) s1"
  let ?frame = "tc_frame so_notna so_rule (tc s1) (data (fst ?m))"
  from run have ok': "\<not> isl (snd (SO_update_and_run opt s1))" by simp
  from SO_update_and_run_success [OF ok'] run obtain perf' outperf res
    where ok: "snd ?m = Inr ()"
      and a': "a' = (fst ?m)\<lparr>results := Some ?frame\<rparr>"
      and o: "outcome ?frame = Inr (perf', outperf, res)"
      and p: "fneg perf = fneg perf'"
    unfolding opt by auto
  from fneg_inj [OF p] have perf: "perf' = perf" by simp
  from outcome_Inr [OF o] have res: "res = ?frame" by simp
  note r = SO_full_result [OF ok]
  have d: "data a' = data (fst ?m)" by (simp add: a')
  have tc': "tc a' = tc s1"
    using SO_set_untouched [of "Some (py_int x)" "Some (py_int y)" s1]
    by (simp add: a')
  from I have sp0: "same_prices (data s1) (data a)" by simp
  from sp0 have cm: "map candle (data s1) = map candle (data a)" by (simp add: same_prices_def)
  from sp0 have cc: "close_col (data s1) = close_col (data a)"
    by (intro close_col_cong) (simp add: same_prices_def)
  have sp: "same_prices (data a') (data a)"
    using r(3) sp0 by (auto simp: d intro: same_prices_trans)
  have c1: "SO_periods a' = py_int x"
    using r(1) by (simp add: a')
  have c2: "D_mw a' = py_int y"
    using r(2) by (simp add: a')
  have c3: "rolling list_min (py_int x) (map (\<lambda>r. Some (Low (candle r))) (data a)) = Inr (map col_roll_low (data a'))"
    using r(4) by (simp add: d price_col_cong [OF cm])
  have c4: "rolling list_max (py_int x) (map (\<lambda>r. Some (High (candle r))) (data a)) = Inr (map col_roll_high (data a'))"
    using r(5) by (simp add: d price_col_cong [OF cm])
  have c5: "map col_K (data a') = map (\<lambda>r. k_value (Close (candle r)) (col_roll_low r) (col_roll_high r)) (data a')"
    using r(6) by (simp add: d)
  have c6: "rolling mean (py_int y) (map col_K (data a')) = Inr (map col_SO_D (data a'))"
    using r(7) by (simp add: d)
  have t: "SO_test_strategy a' = (a', Inr (perf, outperf, res))"
    using o  by (simp add: SO_test_strategy_eq d tc' perf) (simp add: a')
  have rr: "results a' = Some res" by (simp add: a' res)
  from opt c1 c2 c3 c4 c5 c6 sp rr t show ?thesis by blast
qed

lemma SO_optimize_eval:
  assumes a: "0 \<le> D_mw a"
      and g: "mgrid rd [r1, r2] = Inr grid"
      and J: "map (\<lambda>x. snd (SO_update_and_run x a)) grid = map Inr vs"
      and i: "np_argmin vs = Inr i" and v: "snd (SO_update_and_run (grid ! i) a) = Inr v"
  shows "snd (SO_optimize_parameters rd r1 r2 a) = Inr (grid ! i, fneg v)"
  unfolding SO_optimize_parameters_def
proof (rule optimize_eval [where I = "\<lambda>s. same_prices (data s) (data a) \<and> tc s = tc a \<and> 0 \<le> D_mw s"
      and J = "\<lambda>x. snd (SO_update_and_run x a)" and grid = grid and vs = vs])
  show "\<And>x s. same_prices (data s) (data a) \<and> tc s = tc a \<and> 0 \<le> D_mw s \<Longrightarrow>
      \<not> isl (snd (SO_update_and_run x s)) \<Longrightarrow>
      same_prices (data (fst (SO_update_and_run x s))) (data a) \<and> tc (fst (SO_update_and_run x s)) = tc a \<and> 0 \<le> D_mw (fst (SO_update_and_run x s))"
    by (rule SO_update_and_run_inv)
  show "\<And>x s. same_prices (data s) (data a) \<and> tc s = tc a \<and> 0 \<le> D_mw s \<Longrightarrow>
      snd (SO_update_and_run x s) = snd (SO_update_and_run x a)"
    by (rule SO_update_and_run_indep) (assumption, rule a)
  show "same_prices (data a) (data a) \<and> tc a = tc a \<and> 0 \<le> D_mw a" using a by simp
qed (rule g J i v)+

subsection \<open>The searches on the examples\<close>

lemma sma_example_grid:
  "mgrid (\<lambda>x. x) [(2, 3, 1 / 2), (2, 4, 1)] = Inr [[2, 2], [2, 3], [5 / 2, 2], [5 / 2, 3]]"
  by (simp add: mgrid_def axis_size_def axis_points_def upt_rec)

lemma ema_example_grid: "mgrid (\<lambda>x. x) [(1, 2, 1), (2, 3, 1)] = Inr [[1, 2]]"
  by (simp add: mgrid_def axis_size_def axis_points_def upt_rec)

lemma macd_example_grid:
  "mgrid (\<lambda>x. x) [(1, 2, 1), (2, 3, 1), (1, 3, 1)] = Inr [[1, 2, 1], [1, 2, 2]]"
  by (simp add: mgrid_def axis_size_def axis_points_def upt_rec)

lemma rsi_example_grid:
  "mgrid (\<lambda>x. x) [(2, 3, 1), (70, 71, 1), (30, 31, 1)] = Inr [[2, 70, 30]]"
  by (simp add: mgrid_def axis_size_def axis_points_def upt_rec)

lemma so_example_grid: "mgrid (\<lambda>x. x) [(2, 3, 1), (1, 2, 1)] = Inr [[2, 1]]"
  by (simp add: mgrid_def axis_size_def axis_points_def upt_rec)

lemma sma_example_reparam:
  "data (fst (SMA_set_parameters (Some 2) (Some 2) sma_example)) =
    [\<lparr>candle = flat_candle 0 1, returns = None, col_SMA_S = None, col_SMA_L = None\<rparr>,
     \<lparr>candle = flat_candle 1 2, returns = Some (ln 2), col_SMA_S = Some (3 / 2), col_SMA_L = Some (3 / 2)\<rparr>,
     \<lparr>candle = flat_candle 2 1, returns = Some (ln (1 / 2)), col_SMA_S = Some (3 / 2), col_SMA_L = Some (3 / 2)\<rparr>,
     \<lparr>candle = flat_candle 3 2, returns = Some (ln 2), col_SMA_S = Some (3 / 2), col_SMA_L = Some (3 / 2)\<rparr>]"
  "data (fst (SMA_set_parameters (Some 2) (Some 3) sma_example)) =
    [\<lparr>candle = flat_candle 0 1, returns = None, col_SMA_S = None, col_SMA_L = None\<rparr>,
     \<lparr>candle = flat_candle 1 2, returns = Some (ln 2), col_SMA_S = Some (3 / 2), col_SMA_L = None\<rparr>,
     \<lparr>candle = flat_candle 2 1, returns = Some (ln (1 / 2)), col_SMA_S = Some (3 / 2), col_SMA_L = Some (4 / 3)\<rparr>,
     \<lparr>candle = flat_candle 3 2, returns = Some (ln 2), col_SMA_S = Some (3 / 2), col_SMA_L = Some (5 / 3)\<rparr>]"
  by (simp_all add: SMA_set_parameters_def andthen_def assign_def close_col_def flat_candle_def
      sma_example_data set_SMA_S_def set_SMA_L_def series_eval del: not_None_eq)

lemma ema_example_reparam:
  "data (fst (EMA_set_parameters (Some 1) (Some 2) ema_example)) = data ema_example"
  by (simp add: EMA_set_parameters_def andthen_def assign_def close_col_def flat_candle_def
      ema_example_data set_EMA_S_def set_EMA_L_def series_eval del: not_None_eq)

lemma macd_example_reparam:
  "data (fst (MACD_set_parameters (Some 1) (Some 2) (Some 1) macd_example)) = data macd_example"
  "data (fst (MACD_set_parameters (Some 1) (Some 2) (Some 2) macd_example)) =
    [\<lparr>candle = flat_candle 0 1, returns = None, mcol_EMA_S = Some 1, mcol_EMA_L = None,
      col_MACD = None, col_MACD_Signal = None\<rparr>,
     \<lparr>candle = flat_candle 1 2, returns = Some (ln 2), mcol_EMA_S = Some 2, mcol_EMA_L = Some (7 / 4),
      col_MACD = Some (1 / 4), col_MACD_Signal = None\<rparr>,
     \<lparr>candle = flat_candle 2 1, returns = Some (ln (1 / 2)), mcol_EMA_S = Some 1,
      mcol_EMA_L = Some (16 / 13), col_MACD = Some (- (3 / 13)), col_MACD_Signal = Some (- (23 / 208))\<rparr>,
     \<lparr>candle = flat_candle 3 2, returns = Some (ln 2), mcol_EMA_S = Some 2, mcol_EMA_L = Some (7 / 4),
      col_MACD = Some (1 / 4), col_MACD_Signal = Some (47 / 338)\<rparr>]"
  by (simp_all add: MACD_set_parameters_def andthen_def assign_def macd_example_data
      init_params(3) [OF macd_example_init] close_col_def flat_candle_def
      set_mEMA_S_def set_mEMA_L_def set_MACD_def set_MACD_Signal_def macd_line_def series_eval
      del: not_None_eq)

lemma rsi_example_reparam:
  "data (fst (RSI_set_parameters (Some 2) (Some 70) (Some 30) rsi_example)) = data rsi_example"
  by (simp add: RSI_set_parameters_def andthen_def assign_def rsi_example_data
      set_MA_U_def set_MA_D_def set_RSI_def rsi_value_def series_eval
      del: not_None_eq)

lemma so_example_reparam:
  "data (fst (SO_set_parameters (Some 2) (Some 1) so_example)) = data so_example"
  by (simp add: SO_set_parameters_def andthen_def assign_def so_example_data
      init_params(5) [OF so_example_init]
      set_roll_low_def set_roll_high_def set_K_def set_SO_D_def k_value_def series_eval
      del: not_None_eq)

lemma example_costs:
  "tc macd_example = 1 / 100" "signal_mw macd_example = 1"
  "tc so_example = 1 / 100" "D_mw so_example = 1"
  using init_params(3) [OF macd_example_init] init_params(5) [OF so_example_init] by simp_all

lemma sma_example_performances:
  "map cstrategy (sma_frame (data (fst (SMA_set_parameters (Some 2) (Some 2) sma_example)))) =
     [Some 2, Some 1]"
  "map cstrategy (sma_frame (data (fst (SMA_set_parameters (Some 2) (Some 3) sma_example)))) =
     [Some 2]"
   apply (simp add: sma_example_reparam sma_frame_def sma_notna_def series_eval exp_add exp_diff exp_minus
      del: not_None_eq)
  apply (simp add: sma_example_reparam sma_frame_def sma_notna_def series_eval exp_add exp_diff exp_minus
      del: not_None_eq)
  done

lemma ema_example_performance:
  "map cstrategy (tc_frame ema_notna ema_rule (1 / 100) (data ema_example)) =
     [Some (1 / 2), Some (exp (- (1 / 50)) / 4)]"
  by (simp add: ema_example_data tc_frame_def ema_notna_def ema_rule_def series_eval
      exp_add exp_diff exp_minus inverse_eq_divide del: not_None_eq)

lemma macd_example_performances:
  "map cstrategy (tc_frame macd_notna macd_rule (1 / 100) (data macd_example)) = [Some 2, Some 1]"
  "map cstrategy (tc_frame macd_notna macd_rule (1 / 100)
     (data (fst (MACD_set_parameters (Some 1) (Some 2) (Some 2) macd_example)))) = [Some (1 / 2)]"
   apply (simp add: macd_example_data tc_frame_def macd_notna_def macd_rule_def series_eval
      exp_add exp_diff exp_minus inverse_eq_divide del: not_None_eq)
  apply (simp add: macd_example_reparam tc_frame_def macd_notna_def macd_rule_def series_eval
      exp_add exp_diff exp_minus inverse_eq_divide del: not_None_eq)
  done

lemma rsi_example_performance:
  "map cstrategy (tc_frame rsi_notna (rsi_rule 70 30) (1 / 100) (data rsi_example)) =
     [Some (2 / 3), Some (exp (- (1 / 100)))]"
  by (simp add: rsi_example_data tc_frame_def rsi_notna_def rsi_rule_def rsi_position_def series_eval
      exp_add exp_diff exp_minus inverse_eq_divide del: not_None_eq)

lemma so_example_performance:
  "map cstrategy (tc_frame so_notna so_rule (1 / 100) (data so_example)) = [Some 2, Some (4 / 3)]"
  by (simp add: so_example_data tc_frame_def so_notna_def so_rule_def series_eval
      exp_add exp_diff exp_minus inverse_eq_divide del: not_None_eq)

lemma sma_example_runs:
  "map (\<lambda>x. snd (SMA_update_and_run x sma_example)) [[2, 2], [2, 3], [5 / 2, 2], [5 / 2, 3]] =
   map Inr [Some (- 1), Some (- 2), Some (- 1), Some (- 2)]"
  by (simp add: SMA_update_and_run_long Let_def py_int_def outcome_perf sma_example_performances)
    (simp add: iloc_last_def fneg_def)

lemma ema_example_runs:
  "map (\<lambda>x. snd (EMA_update_and_run x ema_example)) [[1, 2]] =
   map Inr [Some (- (exp (- (1 / 50)) / 4))]"
  by (simp add: EMA_update_and_run_long Let_def py_int_def outcome_perf ema_example_performance
      ema_example_reparam ema_example_tc)
    (simp add: iloc_last_def fneg_def)

lemma macd_example_runs:
  "map (\<lambda>x. snd (MACD_update_and_run x macd_example)) [[1, 2, 1], [1, 2, 2]] =
   map Inr [Some (- 1), Some (- (1 / 2))]"
  by (simp add: MACD_update_and_run_long Let_def py_int_def outcome_perf macd_example_performances
      macd_example_reparam(1) example_costs)
    (simp add: iloc_last_def fneg_def)

lemma rsi_example_runs:
  "map (\<lambda>x. snd (RSI_update_and_run x rsi_example)) [[2, 70, 30]] =
   map Inr [Some (- exp (- (1 / 100)))]"
  by (simp add: RSI_update_and_run_long Let_def py_int_def outcome_perf rsi_example_performance
      rsi_example_reparam rsi_example_params)
    (simp add: iloc_last_def fneg_def)

lemma so_example_runs:
  "map (\<lambda>x. snd (SO_update_and_run x so_example)) [[2, 1]] = map Inr [Some (- (4 / 3))]"
  by (simp add: SO_update_and_run_long Let_def py_int_def outcome_perf so_example_performance
      so_example_reparam example_costs)
    (simp add: iloc_last_def fneg_def)

lemma sma_example_optimum:
  "SMA_optimize_parameters (\<lambda>x. x) (2, 3, 1 / 2) (2, 4, 1) sma_example =
     (sma_optimized, Inr ([2, 3], Some 2))"
  using SMA_optimize_eval [OF sma_example_grid sma_example_runs, of 1 "Some (- 2)"] sma_example_runs
  by (simp add: np_argmin_def less_val_def fneg_def sma_optimized_def prod_eq_iff)

lemma ema_example_optimum:
  "EMA_optimize_parameters (\<lambda>x. x) (1, 2, 1) (2, 3, 1) ema_example =
     (ema_optimized, Inr ([1, 2], Some (exp (- (1 / 50)) / 4)))"
  using EMA_optimize_eval [OF ema_example_grid ema_example_runs, of 0 "Some (- (exp (- (1 / 50)) / 4))"]
    ema_example_runs
  by (simp add: np_argmin_def less_val_def fneg_def ema_optimized_def prod_eq_iff)

lemma macd_example_optimum:
  "MACD_optimize_parameters (\<lambda>x. x) (1, 2, 1) (2, 3, 1) (1, 3, 1) macd_example =
     (macd_optimized, Inr ([1, 2, 1], Some 1))"
  using MACD_optimize_eval [OF _ macd_example_grid macd_example_runs, of 0 "Some (- 1)"]
    macd_example_runs
  by (simp add: np_argmin_def less_val_def fneg_def macd_optimized_def prod_eq_iff example_costs)

lemma rsi_example_optimum:
  "RSI_optimize_parameters (\<lambda>x. x) (2, 3, 1) (70, 71, 1) (30, 31, 1) rsi_example =
     (rsi_optimized, Inr ([2, 70, 30], Some (exp (- (1 / 100)))))"
  using RSI_optimize_eval [OF rsi_example_grid rsi_example_runs, of 0 "Some (- exp (- (1 / 100)))"]
    rsi_example_runs
  by (simp add: np_argmin_def less_val_def fneg_def rsi_optimized_def prod_eq_iff)

lemma so_example_optimum:
  "SO_optimize_parameters (\<lambda>x. x) (2, 3, 1) (1, 2, 1) so_example =
     (so_optimized, Inr ([2, 1], Some (4 / 3)))"
  using SO_optimize_eval [OF _ so_example_grid so_example_runs, of 0 "Some (- (4 / 3))"]
    so_example_runs
  by (simp add: np_argmin_def less_val_def fneg_def so_optimized_def prod_eq_iff example_costs)

lemma example_grid_performances:
  "map (\<lambda>p. SMA_performance sma_example (py_int (p ! 0)) (py_int (p ! 1)))
     [[2, 2], [2, 3], [5 / 2, 2], [5 / 2, 3]] =
   [Inr (Some 1), Inr (Some 2), Inr (Some 1), Inr (Some 2)]"
  "map (\<lambda>p. MACD_performance macd_example (py_int (p ! 0)) (py_int (p ! 1)) (py_int (p ! 2)))
     [[1, 2, 1], [1, 2, 2]] =
   [Inr (Some 1), Inr (Some (1 / 2))]"
  using sma_example_runs macd_example_runs
  by (simp_all add: SMA_objective_performance MACD_objective_performance)

lemma map_cols2: "map (\<lambda>r. f (g r) (h r)) rows = map2 f (map g rows) (map h rows)"
  by (induction rows) simp_all

lemma map_cols3:
  "map (\<lambda>r. f (g r) (h r) (k r)) rows =
   map (\<lambda>(x, y, z). f x y z) (zip (map g rows) (zip (map h rows) (map k rows)))"
  by (induction rows) simp_all

lemma map_candle_close: "map candle rows = cs \<Longrightarrow> map (\<lambda>r. Close (candle r)) rows = map Close cs"
  by auto

subsection \<open>The optimum\<close>

text \<open>
  C4. Whenever \<open>optimize_parameters\<close> returns, for each of the five classes (two ranges
  \<open>(start, stop, step)\<close> for SMABacktester, EMABacktester and SOBacktester, three for
  MACDBacktester and RSIBacktester) and whatever the rounding of the grid arithmetic: every
  axis has a size, the grid is the Cartesian product of the axes in row-major order (the
  last axis varies fastest), the backtest was evaluated at every point of it, with each
  coordinate truncated to an integer, and gave a performance that is a number; the point
  returned is a point of the grid, the value returned is the performance there, no point of
  the grid has a greater performance, and every point before it in the enumeration has a
  strictly smaller one.
\<close>

theorem optimize_parameters_maximum:
  "(SMA_optimize_parameters rd ra rb a = (a', Inr (opt_a, perf_a)) \<longrightarrow>
   (\<exists>n1 n2 ps i. axis_size rd ra = Inr n1 \<and> axis_size rd rb = Inr n2 \<and>
              (let grid = concat (map (\<lambda>x. map (\<lambda>y. [x, y]) (axis_points rd rb n2)) (axis_points rd ra n1)) in
               length ps = length grid \<and> i < length grid \<and> opt_a = grid ! i \<and> perf_a = Some (ps ! i) \<and>
               (\<forall>k < length grid. \<exists>x y. grid ! k = [x, y] \<and>
                  SMA_performance a (py_int x) (py_int y) = Inr (Some (ps ! k))) \<and>
               (\<forall>k < length grid. ps ! k \<le> ps ! i) \<and> (\<forall>k < i. ps ! k < ps ! i)))) \<and>
   (EMA_optimize_parameters rd qa qb b = (b', Inr (opt_b, perf_b)) \<longrightarrow>
   (\<exists>n1 n2 ps i. axis_size rd qa = Inr n1 \<and> axis_size rd qb = Inr n2 \<and>
              (let grid = concat (map (\<lambda>x. map (\<lambda>y. [x, y]) (axis_points rd qb n2)) (axis_points rd qa n1)) in
               length ps = length grid \<and> i < length grid \<and> opt_b = grid ! i \<and> perf_b = Some (ps ! i) \<and>
               (\<forall>k < length grid. \<exists>x y. grid ! k = [x, y] \<and>
                  EMA_performance b (py_int x) (py_int y) = Inr (Some (ps ! k))) \<and>
               (\<forall>k < length grid. ps ! k \<le> ps ! i) \<and> (\<forall>k < i. ps ! k < ps ! i)))) \<and>
   (MACD_optimize_parameters rd ma mb mc c = (c', Inr (opt_c, perf_c)) \<longrightarrow>
   (\<exists>n1 n2 n3 ps i. axis_size rd ma = Inr n1 \<and> axis_size rd mb = Inr n2 \<and> axis_size rd mc = Inr n3 \<and>
              (let grid = concat (map (\<lambda>x. concat (map (\<lambda>y. map (\<lambda>z. [x, y, z]) (axis_points rd mc n3))
                            (axis_points rd mb n2))) (axis_points rd ma n1)) in
               length ps = length grid \<and> i < length grid \<and> opt_c = grid ! i \<and> perf_c = Some (ps ! i) \<and>
               (\<forall>k < length grid. \<exists>x y z. grid ! k = [x, y, z] \<and>
                  MACD_performance c (py_int x) (py_int y) (py_int z) = Inr (Some (ps ! k))) \<and>
               (\<forall>k < length grid. ps ! k \<le> ps ! i) \<and> (\<forall>k < i. ps ! k < ps ! i)))) \<and>
   (RSI_optimize_parameters rd ua ub uc d = (d', Inr (opt_d, perf_d)) \<longrightarrow>
   (\<exists>n1 n2 n3 ps i. axis_size rd ua = Inr n1 \<and> axis_size rd ub = Inr n2 \<and> axis_size rd uc = Inr n3 \<and>
              (let grid = concat (map (\<lambda>x. concat (map (\<lambda>y. map (\<lambda>z. [x, y, z]) (axis_points rd uc n3))
                            (axis_points rd ub n2))) (axis_points rd ua n1)) in
               length ps = length grid \<and> i < length grid \<and> opt_d = grid ! i \<and> perf_d = Some (ps ! i) \<and>
               (\<forall>k < length grid. \<exists>x y z. grid ! k = [x, y, z] \<and>
                  RSI_performance d (py_int x) (py_int y) (py_int z) = Inr (Some (ps ! k))) \<and>
               (\<forall>k < length grid. ps ! k \<le> ps ! i) \<and> (\<forall>k < i. ps ! k < ps ! i)))) \<and>
   (SO_optimize_parameters rd wa wb e = (e', Inr (opt_e, perf_e)) \<longrightarrow>
   (\<exists>n1 n2 ps i. axis_size rd wa = Inr n1 \<and> axis_size rd wb = Inr n2 \<and>
              (let grid = concat (map (\<lambda>x. map (\<lambda>y. [x, y]) (axis_points rd wb n2)) (axis_points rd wa n1)) in
               length ps = length grid \<and> i < length grid \<and> opt_e = grid ! i \<and> perf_e = Some (ps ! i) \<and>
               (\<forall>k < length grid. \<exists>x y. grid ! k = [x, y] \<and>
                  SO_performance e (py_int x) (py_int y) = Inr (Some (ps ! k))) \<and>
               (\<forall>k < length grid. ps ! k \<le> ps ! i) \<and> (\<forall>k < i. ps ! k < ps ! i))))"
  by (intro conjI impI; (erule SMA_optimize_maximum | erule EMA_optimize_maximum | erule MACD_optimize_maximum | erule RSI_optimize_maximum | erule SO_optimize_maximum))

theorem optimize_parameters_maximum_witness:
  "SMA_optimize_parameters (\<lambda>x. x) (2, 3, 1 / 2) (2, 4, 1) sma_example = (sma_optimized, Inr ([2, 3], Some 2)) \<and>
   map (\<lambda>p. SMA_performance sma_example (py_int (p ! 0)) (py_int (p ! 1)))
     [[2, 2], [2, 3], [5 / 2, 2], [5 / 2, 3]] =
     [Inr (Some 1), Inr (Some 2), Inr (Some 1), Inr (Some 2)] \<and>
   (\<exists>n1 n2 ps i. axis_size (\<lambda>x. x) (2, 3, 1 / 2) = Inr n1 \<and> axis_size (\<lambda>x. x) (2, 4, 1) = Inr n2 \<and>
           (let grid = concat (map (\<lambda>x. map (\<lambda>y. [x, y]) (axis_points (\<lambda>x. x) (2, 4, 1) n2)) (axis_points (\<lambda>x. x) (2, 3, 1 / 2) n1)) in
            length ps = length grid \<and> i < length grid \<and> [2, 3] = grid ! i \<and> Some 2 = Some (ps ! i) \<and>
            (\<forall>k < length grid. \<exists>x y. grid ! k = [x, y] \<and>
               SMA_performance sma_example (py_int x) (py_int y) = Inr (Some (ps ! k))) \<and>
            (\<forall>k < length grid. ps ! k \<le> ps ! i) \<and> (\<forall>k < i. ps ! k < ps ! i))) \<and>
   EMA_optimize_parameters (\<lambda>x. x) (1, 2, 1) (2, 3, 1) ema_example = (ema_optimized, Inr ([1, 2], Some (exp (- (1 / 50)) / 4))) \<and>
   (\<exists>n1 n2 ps i. axis_size (\<lambda>x. x) (1, 2, 1) = Inr n1 \<and> axis_size (\<lambda>x. x) (2, 3, 1) = Inr n2 \<and>
           (let grid = concat (map (\<lambda>x. map (\<lambda>y. [x, y]) (axis_points (\<lambda>x. x) (2, 3, 1) n2)) (axis_points (\<lambda>x. x) (1, 2, 1) n1)) in
            length ps = length grid \<and> i < length grid \<and> [1, 2] = grid ! i \<and> Some (exp (- (1 / 50)) / 4) = Some (ps ! i) \<and>
            (\<forall>k < length grid. \<exists>x y. grid ! k = [x, y] \<and>
               EMA_performance ema_example (py_int x) (py_int y) = Inr (Some (ps ! k))) \<and>
            (\<forall>k < length grid. ps ! k \<le> ps ! i) \<and> (\<forall>k < i. ps ! k < ps ! i))) \<and>
   MACD_optimize_parameters (\<lambda>x. x) (1, 2, 1) (2, 3, 1) (1, 3, 1) macd_example = (macd_optimized, Inr ([1, 2, 1], Some 1)) \<and>
   map (\<lambda>p. MACD_performance macd_example (py_int (p ! 0)) (py_int (p ! 1)) (py_int (p ! 2)))
     [[1, 2, 1], [1, 2, 2]] =
     [Inr (Some 1), Inr (Some (1 / 2))] \<and>
   (\<exists>n1 n2 n3 ps i. axis_size (\<lambda>x. x) (1, 2, 1) = Inr n1 \<and> axis_size (\<lambda>x. x) (2, 3, 1) = Inr n2 \<and> axis_size (\<lambda>x. x) (1, 3, 1) = Inr n3 \<and>
           (let grid = concat (map (\<lambda>x. concat (map (\<lambda>y. map (\<lambda>z. [x, y, z]) (axis_points (\<lambda>x. x) (1, 3, 1) n3))
                         (axis_points (\<lambda>x. x) (2, 3, 1) n2))) (axis_points (\<lambda>x. x) (1, 2, 1) n1)) in
            length ps = length grid \<and> i < length grid \<and> [1, 2, 1] = grid ! i \<and> Some 1 = Some (ps ! i) \<and>
            (\<forall>k < length grid. \<exists>x y z. grid ! k = [x, y, z] \<and>
               MACD_performance macd_example (py_int x) (py_int y) (py_int z) = Inr (Some (ps ! k))) \<and>
            (\<forall>k < length grid. ps ! k \<le> ps ! i) \<and> (\<forall>k < i. ps ! k < ps ! i))) \<and>
   RSI_optimize_parameters (\<lambda>x. x) (2, 3, 1) (70, 71, 1) (30, 31, 1) rsi_example = (rsi_optimized, Inr ([2, 70, 30], Some (exp (- (1 / 100))))) \<and>
   (\<exists>n1 n2 n3 ps i. axis_size (\<lambda>x. x) (2, 3, 1) = Inr n1 \<and> axis_size (\<lambda>x. x) (70, 71, 1) = Inr n2 \<and> axis_size (\<lambda>x. x) (30, 31, 1) = Inr n3 \<and>
           (let grid = concat (map (\<lambda>x. concat (map (\<lambda>y. map (\<lambda>z. [x, y, z]) (axis_points (\<lambda>x. x) (30, 31, 1) n3))
                         (axis_points (\<lambda>x. x) (70, 71, 1) n2))) (axis_points (\<lambda>x. x) (2, 3, 1) n1)) in
            length ps = length grid \<and> i < length grid \<and> [2, 70, 30] = grid ! i \<and> Some (exp (- (1 / 100))) = Some (ps ! i) \<and>
            (\<forall>k < length grid. \<exists>x y z. grid ! k = [x, y, z] \<and>
               RSI_performance rsi_example (py_int x) (py_int y) (py_int z) = Inr (Some (ps ! k))) \<and>
            (\<forall>k < length grid. ps ! k \<le> ps ! i) \<and> (\<forall>k < i. ps ! k < ps ! i))) \<and>
   SO_optimize_parameters (\<lambda>x. x) (2, 3, 1) (1, 2, 1) so_example = (so_optimized, Inr ([2, 1], Some (4 / 3))) \<and>
   (\<exists>n1 n2 ps i. axis_size (\<lambda>x. x) (2, 3, 1) = Inr n1 \<and> axis_size (\<lambda>x. x) (1, 2, 1) = Inr n2 \<and>
           (let grid = concat (map (\<lambda>x. map (\<lambda>y. [x, y]) (axis_points (\<lambda>x. x) (1, 2, 1) n2)) (axis_points (\<lambda>x. x) (2, 3, 1) n1)) in
            length ps = length grid \<and> i < length grid \<and> [2, 1] = grid ! i \<and> Some (4 / 3) = Some (ps ! i) \<and>
            (\<forall>k < length grid. \<exists>x y. grid ! k = [x, y] \<and>
               SO_performance so_example (py_int x) (py_int y) = Inr (Some (ps ! k))) \<and>
            (\<forall>k < length grid. ps ! k \<le> ps ! i) \<and> (\<forall>k < i. ps ! k < ps ! i)))"
proof -
  note t = optimize_parameters_maximum
    [where rd = "\<lambda>x. x" and ra = "(2, 3, 1 / 2)" and rb = "(2, 4, 1)" and
       a = sma_example and a' = sma_optimized and opt_a = "[2, 3]" and perf_a = "Some 2" and
       qa = "(1, 2, 1)" and qb = "(2, 3, 1)" and b = ema_example and b' = ema_optimized and
       opt_b = "[1, 2]" and perf_b = "Some (exp (- (1 / 50)) / 4)" and ma = "(1, 2, 1)" and
       mb = "(2, 3, 1)" and mc = "(1, 3, 1)" and c = macd_example and c' = macd_optimized and
       opt_c = "[1, 2, 1]" and perf_c = "Some 1" and ua = "(2, 3, 1)" and ub = "(70, 71, 1)" and
       uc = "(30, 31, 1)" and d = rsi_example and d' = rsi_optimized and
       opt_d = "[2, 70, 30]" and perf_d = "Some (exp (- (1 / 100)))" and wa = "(2, 3, 1)" and
       wb = "(1, 2, 1)" and e = so_example and e' = so_optimized and opt_e = "[2, 1]" and
       perf_e = "Some (4 / 3)"]
  note c1 = t [THEN conjunct1, THEN mp, OF sma_example_optimum]
  note c2 = t [THEN conjunct2, THEN conjunct1, THEN mp, OF ema_example_optimum]
  note c3 = t [THEN conjunct2, THEN conjunct2, THEN conjunct1, THEN mp, OF macd_example_optimum]
  note c4 = t [THEN conjunct2, THEN conjunct2, THEN conjunct2, THEN conjunct1, THEN mp, OF rsi_example_optimum]
  note c5 = t [THEN conjunct2, THEN conjunct2, THEN conjunct2, THEN conjunct2, THEN mp, OF so_example_optimum]
  from sma_example_optimum c1 ema_example_optimum c2 macd_example_optimum c3 rsi_example_optimum c4 so_example_optimum c5
    example_grid_performances
  show ?thesis by - (intro conjI; assumption)
qed

subsection \<open>The object after the search\<close>

text \<open>
  C9. Whenever \<open>optimize_parameters\<close> returns, for each of the five classes, the object it
  leaves has its parameter attributes equal to the returned point truncated to integers,
  its indicator columns are the indicators of these parameters on the prices it started
  with (for the relative-strength index on the up and down moves it started with, which are
  kept), its candles and returns are those it started with, its stored result is the result
  frame of the backtest at these parameters, and the returned value is the absolute
  performance of that backtest: running \<open>test_strategy\<close> on the object gives back the same
  object, the returned performance and the stored frame.
\<close>

theorem optimize_parameters_final_state:
  "(SMA_optimize_parameters rd ra rb a = (a', Inr (opt_a, perf_a)) \<longrightarrow>
   (\<exists>x y outperf res. opt_a = [x, y] \<and>
        SMA_S a' = py_int x \<and>
        SMA_L a' = py_int y \<and>
        rolling mean (py_int x) (close_col (data a)) = Inr (map col_SMA_S (data a')) \<and>
        rolling mean (py_int y) (close_col (data a)) = Inr (map col_SMA_L (data a')) \<and>
        same_prices (data a') (data a) \<and>
        results a' = Some res \<and> SMA_test_strategy a' = (a', Inr (perf_a, outperf, res)))) \<and>
   (EMA_optimize_parameters rd qa qb b = (b', Inr (opt_b, perf_b)) \<longrightarrow>
   (\<exists>x y outperf res. opt_b = [x, y] \<and>
        EMA_S b' = py_int x \<and>
        EMA_L b' = py_int y \<and>
        ewm_mean (py_int x) (close_col (data b)) = Inr (map col_EMA_S (data b')) \<and>
        ewm_mean (py_int y) (close_col (data b)) = Inr (map col_EMA_L (data b')) \<and>
        same_prices (data b') (data b) \<and>
        results b' = Some res \<and> EMA_test_strategy b' = (b', Inr (perf_b, outperf, res)))) \<and>
   (MACD_optimize_parameters rd ma mb mc c = (c', Inr (opt_c, perf_c)) \<longrightarrow>
   (\<exists>x y z outperf res. opt_c = [x, y, z] \<and>
        MACD_EMA_S c' = py_int x \<and>
        MACD_EMA_L c' = py_int y \<and>
        signal_mw c' = py_int z \<and>
        ewm_mean (py_int x) (close_col (data c)) = Inr (map mcol_EMA_S (data c')) \<and>
        ewm_mean (py_int y) (close_col (data c)) = Inr (map mcol_EMA_L (data c')) \<and>
        map col_MACD (data c') = macd_line (data c') \<and>
        ewm_mean (py_int z) (map col_MACD (data c')) = Inr (map col_MACD_Signal (data c')) \<and>
        same_prices (data c') (data c) \<and>
        results c' = Some res \<and> MACD_test_strategy c' = (c', Inr (perf_c, outperf, res)))) \<and>
   (RSI_optimize_parameters rd ua ub uc d = (d', Inr (opt_d, perf_d)) \<longrightarrow>
   (\<exists>x y z outperf res. opt_d = [x, y, z] \<and>
        RSI_periods d' = py_int x \<and>
        rsi_upper d' = real_of_int (py_int y) \<and>
        rsi_lower d' = real_of_int (py_int z) \<and>
        map col_U (data d') = map col_U (data d) \<and>
        map col_D (data d') = map col_D (data d) \<and>
        rolling mean (py_int x) (map col_U (data d)) = Inr (map col_MA_U (data d')) \<and>
        rolling mean (py_int x) (map col_D (data d)) = Inr (map col_MA_D (data d')) \<and>
        map col_RSI (data d') = map (\<lambda>r. rsi_value (col_MA_U r) (col_MA_D r)) (data d') \<and>
        same_prices (data d') (data d) \<and>
        results d' = Some res \<and> RSI_test_strategy d' = (d', Inr (perf_d, outperf, res)))) \<and>
   (SO_optimize_parameters rd wa wb e = (e', Inr (opt_e, perf_e)) \<longrightarrow>
   (\<exists>x y outperf res. opt_e = [x, y] \<and>
        SO_periods e' = py_int x \<and>
        D_mw e' = py_int y \<and>
        rolling list_min (py_int x) (map (\<lambda>r. Some (Low (candle r))) (data e)) = Inr (map col_roll_low (data e')) \<and>
        rolling list_max (py_int x) (map (\<lambda>r. Some (High (candle r))) (data e)) = Inr (map col_roll_high (data e')) \<and>
        map col_K (data e') = map (\<lambda>r. k_value (Close (candle r)) (col_roll_low r) (col_roll_high r)) (data e') \<and>
        rolling mean (py_int y) (map col_K (data e')) = Inr (map col_SO_D (data e')) \<and>
        same_prices (data e') (data e) \<and>
        results e' = Some res \<and> SO_test_strategy e' = (e', Inr (perf_e, outperf, res))))"
  by (intro conjI impI; (erule SMA_optimize_final_state | erule EMA_optimize_final_state | erule MACD_optimize_final_state | erule RSI_optimize_final_state | erule SO_optimize_final_state))

theorem optimize_parameters_final_state_witness:
  "(SMA_optimize_parameters (\<lambda>x. x) (2, 3, 1 / 2) (2, 4, 1) sma_example = (sma_optimized, Inr ([2, 3], Some 2)) \<and>
    SMA_S sma_optimized = 2 \<and>
    SMA_L sma_optimized = 3 \<and>
    map col_SMA_S (data sma_optimized) = [None, Some (3 / 2), Some (3 / 2), Some (3 / 2)] \<and>
    map col_SMA_L (data sma_optimized) = [None, None, Some (4 / 3), Some (5 / 3)] \<and>
    map candle (data sma_optimized) = zigzag \<and>
    fst (SMA_test_strategy sma_optimized) = sma_optimized \<and>
    map_sum id (\<lambda>(perf, outperf, res). (perf, Some res)) (snd (SMA_test_strategy sma_optimized)) =
      Inr (Some 2, results sma_optimized)) \<and>
   (EMA_optimize_parameters (\<lambda>x. x) (1, 2, 1) (2, 3, 1) ema_example = (ema_optimized, Inr ([1, 2], Some (exp (- (1 / 50)) / 4))) \<and>
    EMA_S ema_optimized = 1 \<and>
    EMA_L ema_optimized = 2 \<and>
    map col_EMA_S (data ema_optimized) = [Some 1, Some 2, Some 1, Some 2] \<and>
    map col_EMA_L (data ema_optimized) = [None, Some (7 / 4), Some (16 / 13), Some (7 / 4)] \<and>
    map candle (data ema_optimized) = zigzag \<and>
    fst (EMA_test_strategy ema_optimized) = ema_optimized \<and>
    map_sum id (\<lambda>(perf, outperf, res). (perf, Some res)) (snd (EMA_test_strategy ema_optimized)) =
      Inr (Some (exp (- (1 / 50)) / 4), results ema_optimized)) \<and>
   (MACD_optimize_parameters (\<lambda>x. x) (1, 2, 1) (2, 3, 1) (1, 3, 1) macd_example = (macd_optimized, Inr ([1, 2, 1], Some 1)) \<and>
    MACD_EMA_S macd_optimized = 1 \<and>
    MACD_EMA_L macd_optimized = 2 \<and>
    signal_mw macd_optimized = 1 \<and>
    map mcol_EMA_S (data macd_optimized) = [Some 1, Some 2, Some 1, Some 2] \<and>
    map mcol_EMA_L (data macd_optimized) = [None, Some (7 / 4), Some (16 / 13), Some (7 / 4)] \<and>
    map col_MACD (data macd_optimized) = [None, Some (1 / 4), Some (- (3 / 13)), Some (1 / 4)] \<and>
    map col_MACD_Signal (data macd_optimized) = [None, Some (1 / 4), Some (- (3 / 13)), Some (1 / 4)] \<and>
    map candle (data macd_optimized) = zigzag \<and>
    fst (MACD_test_strategy macd_optimized) = macd_optimized \<and>
    map_sum id (\<lambda>(perf, outperf, res). (perf, Some res)) (snd (MACD_test_strategy macd_optimized)) =
      Inr (Some 1, results macd_optimized)) \<and>
   (RSI_optimize_parameters (\<lambda>x. x) (2, 3, 1) (70, 71, 1) (30, 31, 1) rsi_example = (rsi_optimized, Inr ([2, 70, 30], Some (exp (- (1 / 100))))) \<and>
    RSI_periods rsi_optimized = 2 \<and>
    rsi_upper rsi_optimized = 70 \<and>
    rsi_lower rsi_optimized = 30 \<and>
    map col_MA_U (data rsi_optimized) = [None, Some (1 / 2), Some 1, Some (1 / 2)] \<and>
    map col_MA_D (data rsi_optimized) = [None, Some 0, Some 0, Some (1 / 2)] \<and>
    map col_RSI (data rsi_optimized) = [None, Some 100, Some 100, Some 50] \<and>
    map candle (data rsi_optimized) = updown \<and>
    fst (RSI_test_strategy rsi_optimized) = rsi_optimized \<and>
    map_sum id (\<lambda>(perf, outperf, res). (perf, Some res)) (snd (RSI_test_strategy rsi_optimized)) =
      Inr (Some (exp (- (1 / 100))), results rsi_optimized)) \<and>
   (SO_optimize_parameters (\<lambda>x. x) (2, 3, 1) (1, 2, 1) so_example = (so_optimized, Inr ([2, 1], Some (4 / 3))) \<and>
    SO_periods so_optimized = 2 \<and>
    D_mw so_optimized = 1 \<and>
    map candle (data so_optimized) = bars \<and>
    map col_roll_low (data so_optimized) = [None, Some 1, Some 1, Some 1] \<and>
    map col_roll_high (data so_optimized) = [None, Some 4, Some 4, Some 4] \<and>
    map col_K (data so_optimized) = [None, Some 100, Some (100 / 3), Some (200 / 3)] \<and>
    map col_SO_D (data so_optimized) = [None, Some 100, Some (100 / 3), Some (200 / 3)] \<and>
    fst (SO_test_strategy so_optimized) = so_optimized \<and>
    map_sum id (\<lambda>(perf, outperf, res). (perf, Some res)) (snd (SO_test_strategy so_optimized)) =
      Inr (Some (4 / 3), results so_optimized))"
proof -
  have ew: "ewm_mean 1 [Some 1, Some 2, Some 1, Some 2] = Inr [Some 1, Some 2, Some 1, Some 2]"
    "ewm_mean 2 [Some 1, Some 2, Some 1, Some 2] =
       Inr [None, Some (7 / 4), Some (16 / 13), Some (7 / 4)]"
    "ewm_mean 1 [None, Some (1 / 4), Some (- (3 / 13)), Some (1 / 4)] =
       Inr [None, Some (1 / 4), Some (- (3 / 13)), Some (1 / 4)]"
    by (simp_all add: series_eval del: not_None_eq)
  note t = optimize_parameters_final_state
    [where rd = "\<lambda>x. x" and ra = "(2, 3, 1 / 2)" and rb = "(2, 4, 1)" and
       a = sma_example and a' = sma_optimized and opt_a = "[2, 3]" and perf_a = "Some 2" and
       qa = "(1, 2, 1)" and qb = "(2, 3, 1)" and b = ema_example and b' = ema_optimized and
       opt_b = "[1, 2]" and perf_b = "Some (exp (- (1 / 50)) / 4)" and ma = "(1, 2, 1)" and
       mb = "(2, 3, 1)" and mc = "(1, 3, 1)" and c = macd_example and c' = macd_optimized and
       opt_c = "[1, 2, 1]" and perf_c = "Some 1" and ua = "(2, 3, 1)" and ub = "(70, 71, 1)" and
       uc = "(30, 31, 1)" and d = rsi_example and d' = rsi_optimized and
       opt_d = "[2, 70, 30]" and perf_d = "Some (exp (- (1 / 100)))" and wa = "(2, 3, 1)" and
       wb = "(1, 2, 1)" and e = so_example and e' = so_optimized and opt_e = "[2, 1]" and
       perf_e = "Some (4 / 3)"]
  \<comment> \<open>SMABacktester\<close>
  have W1: "SMA_optimize_parameters (\<lambda>x. x) (2, 3, 1 / 2) (2, 4, 1) sma_example = (sma_optimized, Inr ([2, 3], Some 2)) \<and>
    SMA_S sma_optimized = 2 \<and>
    SMA_L sma_optimized = 3 \<and>
    map col_SMA_S (data sma_optimized) = [None, Some (3 / 2), Some (3 / 2), Some (3 / 2)] \<and>
    map col_SMA_L (data sma_optimized) = [None, None, Some (4 / 3), Some (5 / 3)] \<and>
    map candle (data sma_optimized) = zigzag \<and>
    fst (SMA_test_strategy sma_optimized) = sma_optimized \<and>
    map_sum id (\<lambda>(perf, outperf, res). (perf, Some res)) (snd (SMA_test_strategy sma_optimized)) =
      Inr (Some 2, results sma_optimized)"
  proof -
  note h = sma_example_optimum
  from t [THEN conjunct1, THEN mp, OF h] obtain outperf res where o:
    "SMA_S sma_optimized = py_int 2"
    "SMA_L sma_optimized = py_int 3"
    "rolling mean (py_int 2) (close_col (data sma_example)) = Inr (map col_SMA_S (data sma_optimized))"
    "rolling mean (py_int 3) (close_col (data sma_example)) = Inr (map col_SMA_L (data sma_optimized))"
    "same_prices (data sma_optimized) (data sma_example)"
    "results sma_optimized = Some res"
    "SMA_test_strategy sma_optimized = (sma_optimized, Inr (Some 2, outperf, res))"
    by auto
  have cs: "close_col (data sma_example) = [Some 1, Some 2, Some 1, Some 2]"
    by (simp add: sma_example_data close_col_def flat_candle_def)
  have zs: "map candle (data sma_example) = zigzag"
    by (simp add: sma_example_data zigzag_def)
  have rs: "rolling mean 2 [Some 1, Some 2, Some 1, Some 2] =
      Inr [None, Some (3 / 2), Some (3 / 2), Some (3 / 2)]"
    "rolling mean 3 [Some 1, Some 2, Some 1, Some 2] = Inr [None, None, Some (4 / 3), Some (5 / 3)]"
    by (simp_all add: series_eval del: not_None_eq)
  have f1: "SMA_S sma_optimized = 2"
    using o(1) by (simp add: py_int_def)
  have f2: "SMA_L sma_optimized = 3"
    using o(2) by (simp add: py_int_def)
  have f3: "map col_SMA_S (data sma_optimized) = [None, Some (3 / 2), Some (3 / 2), Some (3 / 2)]"
    using o(3) by (simp add: py_int_def cs rs)
  have f4: "map col_SMA_L (data sma_optimized) = [None, None, Some (4 / 3), Some (5 / 3)]"
    using o(4) by (simp add: py_int_def cs rs)
  have f5: "map candle (data sma_optimized) = zigzag"
    using o(5) by (simp add: same_prices_def zs)
  have f6: "fst (SMA_test_strategy sma_optimized) = sma_optimized"
    by (simp add: o(7))
  have f7: "map_sum id (\<lambda>(perf, outperf, res). (perf, Some res)) (snd (SMA_test_strategy sma_optimized)) =
      Inr (Some 2, results sma_optimized)"
    by (simp add: o(6,7))
  from h f1 f2 f3 f4 f5 f6 f7 show ?thesis by - (intro conjI; assumption)
  qed
  \<comment> \<open>EMABacktester\<close>
  have W2: "EMA_optimize_parameters (\<lambda>x. x) (1, 2, 1) (2, 3, 1) ema_example = (ema_optimized, Inr ([1, 2], Some (exp (- (1 / 50)) / 4))) \<and>
    EMA_S ema_optimized = 1 \<and>
    EMA_L ema_optimized = 2 \<and>
    map col_EMA_S (data ema_optimized) = [Some 1, Some 2, Some 1, Some 2] \<and>
    map col_EMA_L (data ema_optimized) = [None, Some (7 / 4), Some (16 / 13), Some (7 / 4)] \<and>
    map candle (data ema_optimized) = zigzag \<and>
    fst (EMA_test_strategy ema_optimized) = ema_optimized \<and>
    map_sum id (\<lambda>(perf, outperf, res). (perf, Some res)) (snd (EMA_test_strategy ema_optimized)) =
      Inr (Some (exp (- (1 / 50)) / 4), results ema_optimized)"
  proof -
  note h = ema_example_optimum
  from t [THEN conjunct2, THEN conjunct1, THEN mp, OF h] obtain outperf res where o:
    "EMA_S ema_optimized = py_int 1"
    "EMA_L ema_optimized = py_int 2"
    "ewm_mean (py_int 1) (close_col (data ema_example)) = Inr (map col_EMA_S (data ema_optimized))"
    "ewm_mean (py_int 2) (close_col (data ema_example)) = Inr (map col_EMA_L (data ema_optimized))"
    "same_prices (data ema_optimized) (data ema_example)"
    "results ema_optimized = Some res"
    "EMA_test_strategy ema_optimized = (ema_optimized, Inr (Some (exp (- (1 / 50)) / 4), outperf, res))"
    by auto
  have ce: "close_col (data ema_example) = [Some 1, Some 2, Some 1, Some 2]"
    by (simp add: ema_example_data close_col_def flat_candle_def)
  have ze: "map candle (data ema_example) = zigzag"
    by (simp add: ema_example_data zigzag_def)
  have f1: "EMA_S ema_optimized = 1"
    using o(1) by (simp add: py_int_def)
  have f2: "EMA_L ema_optimized = 2"
    using o(2) by (simp add: py_int_def)
  have f3: "map col_EMA_S (data ema_optimized) = [Some 1, Some 2, Some 1, Some 2]"
    using o(3) by (simp add: py_int_def ce ew)
  have f4: "map col_EMA_L (data ema_optimized) = [None, Some (7 / 4), Some (16 / 13), Some (7 / 4)]"
    using o(4) by (simp add: py_int_def ce ew)
  have f5: "map candle (data ema_optimized) = zigzag"
    using o(5) by (simp add: same_prices_def ze)
  have f6: "fst (EMA_test_strategy ema_optimized) = ema_optimized"
    by (simp add: o(7))
  have f7: "map_sum id (\<lambda>(perf, outperf, res). (perf, Some res)) (snd (EMA_test_strategy ema_optimized)) =
      Inr (Some (exp (- (1 / 50)) / 4), results ema_optimized)"
    by (simp add: o(6,7))
  from h f1 f2 f3 f4 f5 f6 f7 show ?thesis by - (intro conjI; assumption)
  qed
  \<comment> \<open>MACDBacktester\<close>
  have W3: "MACD_optimize_parameters (\<lambda>x. x) (1, 2, 1) (2, 3, 1) (1, 3, 1) macd_example = (macd_optimized, Inr ([1, 2, 1], Some 1)) \<and>
    MACD_EMA_S macd_optimized = 1 \<and>
    MACD_EMA_L macd_optimized = 2 \<and>
    signal_mw macd_optimized = 1 \<and>
    map mcol_EMA_S (data macd_optimized) = [Some 1, Some 2, Some 1, Some 2] \<and>
    map mcol_EMA_L (data macd_optimized) = [None, Some (7 / 4), Some (16 / 13), Some (7 / 4)] \<and>
    map col_MACD (data macd_optimized) = [None, Some (1 / 4), Some (- (3 / 13)), Some (1 / 4)] \<and>
    map col_MACD_Signal (data macd_optimized) = [None, Some (1 / 4), Some (- (3 / 13)), Some (1 / 4)] \<and>
    map candle (data macd_optimized) = zigzag \<and>
    fst (MACD_test_strategy macd_optimized) = macd_optimized \<and>
    map_sum id (\<lambda>(perf, outperf, res). (perf, Some res)) (snd (MACD_test_strategy macd_optimized)) =
      Inr (Some 1, results macd_optimized)"
  proof -
  note h = macd_example_optimum
  from t [THEN conjunct2, THEN conjunct2, THEN conjunct1, THEN mp, OF h] obtain outperf res where o:
    "MACD_EMA_S macd_optimized = py_int 1"
    "MACD_EMA_L macd_optimized = py_int 2"
    "signal_mw macd_optimized = py_int 1"
    "ewm_mean (py_int 1) (close_col (data macd_example)) = Inr (map mcol_EMA_S (data macd_optimized))"
    "ewm_mean (py_int 2) (close_col (data macd_example)) = Inr (map mcol_EMA_L (data macd_optimized))"
    "map col_MACD (data macd_optimized) = macd_line (data macd_optimized)"
    "ewm_mean (py_int 1) (map col_MACD (data macd_optimized)) = Inr (map col_MACD_Signal (data macd_optimized))"
    "same_prices (data macd_optimized) (data macd_example)"
    "results macd_optimized = Some res"
    "MACD_test_strategy macd_optimized = (macd_optimized, Inr (Some 1, outperf, res))"
    by auto
  have cm: "close_col (data macd_example) = [Some 1, Some 2, Some 1, Some 2]"
    by (simp add: macd_example_data close_col_def flat_candle_def)
  have zm: "map candle (data macd_example) = zigzag"
    by (simp add: macd_example_data zigzag_def)
  have f1: "MACD_EMA_S macd_optimized = 1"
    using o(1) by (simp add: py_int_def)
  have f2: "MACD_EMA_L macd_optimized = 2"
    using o(2) by (simp add: py_int_def)
  have f3: "signal_mw macd_optimized = 1"
    using o(3) by (simp add: py_int_def)
  have f4: "map mcol_EMA_S (data macd_optimized) = [Some 1, Some 2, Some 1, Some 2]"
    using o(4) by (simp add: py_int_def cm ew)
  have f5: "map mcol_EMA_L (data macd_optimized) = [None, Some (7 / 4), Some (16 / 13), Some (7 / 4)]"
    using o(5) by (simp add: py_int_def cm ew)
  have f6: "map col_MACD (data macd_optimized) = [None, Some (1 / 4), Some (- (3 / 13)), Some (1 / 4)]"
    using o(6) by (simp add: macd_line_map2 f4 f5 fsub_def)
  have f7: "map col_MACD_Signal (data macd_optimized) = [None, Some (1 / 4), Some (- (3 / 13)), Some (1 / 4)]"
    using o(7) by (simp add: py_int_def f6 ew)
  have f8: "map candle (data macd_optimized) = zigzag"
    using o(8) by (simp add: same_prices_def zm)
  have f9: "fst (MACD_test_strategy macd_optimized) = macd_optimized"
    by (simp add: o(10))
  have f10: "map_sum id (\<lambda>(perf, outperf, res). (perf, Some res)) (snd (MACD_test_strategy macd_optimized)) =
      Inr (Some 1, results macd_optimized)"
    by (simp add: o(9,10))
  from h f1 f2 f3 f4 f5 f6 f7 f8 f9 f10 show ?thesis by - (intro conjI; assumption)
  qed
  \<comment> \<open>RSIBacktester\<close>
  have W4: "RSI_optimize_parameters (\<lambda>x. x) (2, 3, 1) (70, 71, 1) (30, 31, 1) rsi_example = (rsi_optimized, Inr ([2, 70, 30], Some (exp (- (1 / 100))))) \<and>
    RSI_periods rsi_optimized = 2 \<and>
    rsi_upper rsi_optimized = 70 \<and>
    rsi_lower rsi_optimized = 30 \<and>
    map col_MA_U (data rsi_optimized) = [None, Some (1 / 2), Some 1, Some (1 / 2)] \<and>
    map col_MA_D (data rsi_optimized) = [None, Some 0, Some 0, Some (1 / 2)] \<and>
    map col_RSI (data rsi_optimized) = [None, Some 100, Some 100, Some 50] \<and>
    map candle (data rsi_optimized) = updown \<and>
    fst (RSI_test_strategy rsi_optimized) = rsi_optimized \<and>
    map_sum id (\<lambda>(perf, outperf, res). (perf, Some res)) (snd (RSI_test_strategy rsi_optimized)) =
      Inr (Some (exp (- (1 / 100))), results rsi_optimized)"
  proof -
  note h = rsi_example_optimum
  from t [THEN conjunct2, THEN conjunct2, THEN conjunct2, THEN conjunct1, THEN mp, OF h] obtain outperf res where o:
    "RSI_periods rsi_optimized = py_int 2"
    "rsi_upper rsi_optimized = real_of_int (py_int 70)"
    "rsi_lower rsi_optimized = real_of_int (py_int 30)"
    "map col_U (data rsi_optimized) = map col_U (data rsi_example)"
    "map col_D (data rsi_optimized) = map col_D (data rsi_example)"
    "rolling mean (py_int 2) (map col_U (data rsi_example)) = Inr (map col_MA_U (data rsi_optimized))"
    "rolling mean (py_int 2) (map col_D (data rsi_example)) = Inr (map col_MA_D (data rsi_optimized))"
    "map col_RSI (data rsi_optimized) = map (\<lambda>r. rsi_value (col_MA_U r) (col_MA_D r)) (data rsi_optimized)"
    "same_prices (data rsi_optimized) (data rsi_example)"
    "results rsi_optimized = Some res"
    "RSI_test_strategy rsi_optimized = (rsi_optimized, Inr (Some (exp (- (1 / 100))), outperf, res))"
    by auto
  have ud: "map col_U (data rsi_example) = [Some 0, Some 1, Some 1, Some 0]"
    "map col_D (data rsi_example) = [Some 0, Some 0, Some 0, Some 1]"
    by (simp_all add: rsi_example_data)
  have zr: "map candle (data rsi_example) = updown"
    by (simp add: rsi_example_data updown_def)
  have rr: "rolling mean 2 [Some 0, Some 1, Some 1, Some 0] = Inr [None, Some (1 / 2), Some 1, Some (1 / 2)]"
    "rolling mean 2 [Some 0, Some 0, Some 0, Some 1] = Inr [None, Some 0, Some 0, Some (1 / 2)]"
    by (simp_all add: series_eval del: not_None_eq)
  have f1: "RSI_periods rsi_optimized = 2"
    using o(1) by (simp add: py_int_def)
  have f2: "rsi_upper rsi_optimized = 70"
    using o(2) by (simp add: py_int_def)
  have f3: "rsi_lower rsi_optimized = 30"
    using o(3) by (simp add: py_int_def)
  have f4: "map col_MA_U (data rsi_optimized) = [None, Some (1 / 2), Some 1, Some (1 / 2)]"
    using o(6) by (simp add: py_int_def ud rr)
  have f5: "map col_MA_D (data rsi_optimized) = [None, Some 0, Some 0, Some (1 / 2)]"
    using o(7) by (simp add: py_int_def ud rr)
  have f6: "map col_RSI (data rsi_optimized) = [None, Some 100, Some 100, Some 50]"
    using o(8) [unfolded map_cols2 [of rsi_value col_MA_U col_MA_D]]
    by (simp add: f4 f5 rsi_value_def series_eval del: not_None_eq)
  have f7: "map candle (data rsi_optimized) = updown"
    using o(9) by (simp add: same_prices_def zr)
  have f8: "fst (RSI_test_strategy rsi_optimized) = rsi_optimized"
    by (simp add: o(11))
  have f9: "map_sum id (\<lambda>(perf, outperf, res). (perf, Some res)) (snd (RSI_test_strategy rsi_optimized)) =
      Inr (Some (exp (- (1 / 100))), results rsi_optimized)"
    by (simp add: o(10,11))
  from h f1 f2 f3 f4 f5 f6 f7 f8 f9 show ?thesis by - (intro conjI; assumption)
  qed
  \<comment> \<open>SOBacktester\<close>
  have W5: "SO_optimize_parameters (\<lambda>x. x) (2, 3, 1) (1, 2, 1) so_example = (so_optimized, Inr ([2, 1], Some (4 / 3))) \<and>
    SO_periods so_optimized = 2 \<and>
    D_mw so_optimized = 1 \<and>
    map candle (data so_optimized) = bars \<and>
    map col_roll_low (data so_optimized) = [None, Some 1, Some 1, Some 1] \<and>
    map col_roll_high (data so_optimized) = [None, Some 4, Some 4, Some 4] \<and>
    map col_K (data so_optimized) = [None, Some 100, Some (100 / 3), Some (200 / 3)] \<and>
    map col_SO_D (data so_optimized) = [None, Some 100, Some (100 / 3), Some (200 / 3)] \<and>
    fst (SO_test_strategy so_optimized) = so_optimized \<and>
    map_sum id (\<lambda>(perf, outperf, res). (perf, Some res)) (snd (SO_test_strategy so_optimized)) =
      Inr (Some (4 / 3), results so_optimized)"
  proof -
  note h = so_example_optimum
  from t [THEN conjunct2, THEN conjunct2, THEN conjunct2, THEN conjunct2, THEN mp, OF h] obtain outperf res where o:
    "SO_periods so_optimized = py_int 2"
    "D_mw so_optimized = py_int 1"
    "rolling list_min (py_int 2) (map (\<lambda>r. Some (Low (candle r))) (data so_example)) = Inr (map col_roll_low (data so_optimized))"
    "rolling list_max (py_int 2) (map (\<lambda>r. Some (High (candle r))) (data so_example)) = Inr (map col_roll_high (data so_optimized))"
    "map col_K (data so_optimized) = map (\<lambda>r. k_value (Close (candle r)) (col_roll_low r) (col_roll_high r)) (data so_optimized)"
    "rolling mean (py_int 1) (map col_K (data so_optimized)) = Inr (map col_SO_D (data so_optimized))"
    "same_prices (data so_optimized) (data so_example)"
    "results so_optimized = Some res"
    "SO_test_strategy so_optimized = (so_optimized, Inr (Some (4 / 3), outperf, res))"
    by auto
  have lh: "map (\<lambda>r. Some (Low (candle r))) (data so_example) = [Some 1, Some 2, Some 1, Some 2]"
    "map (\<lambda>r. Some (High (candle r))) (data so_example) = [Some 3, Some 4, Some 4, Some 3]"
    by (simp_all add: so_example_data)
  have zo: "map candle (data so_example) = bars"
    by (simp add: so_example_data bars_def)
  have ro: "rolling list_min 2 [Some 1, Some 2, Some 1, Some 2] = Inr [None, Some 1, Some 1, Some 1]"
    "rolling list_max 2 [Some 3, Some 4, Some 4, Some 3] = Inr [None, Some 4, Some 4, Some 4]"
    "rolling mean 1 [None, Some 100, Some (100 / 3), Some (200 / 3)] =
       Inr [None, Some 100, Some (100 / 3), Some (200 / 3)]"
    by (simp_all add: series_eval del: not_None_eq)
  have f1: "SO_periods so_optimized = 2"
    using o(1) by (simp add: py_int_def)
  have f2: "D_mw so_optimized = 1"
    using o(2) by (simp add: py_int_def)
  have f3: "map candle (data so_optimized) = bars"
    using o(7) by (simp add: same_prices_def zo)
  have f4: "map col_roll_low (data so_optimized) = [None, Some 1, Some 1, Some 1]"
    using o(3) by (simp add: py_int_def lh ro)
  have f5: "map col_roll_high (data so_optimized) = [None, Some 4, Some 4, Some 4]"
    using o(4) by (simp add: py_int_def lh ro)
  have f6: "map col_K (data so_optimized) = [None, Some 100, Some (100 / 3), Some (200 / 3)]"
    using o(5) [unfolded map_cols3 [of k_value "\<lambda>r. Close (candle r)" col_roll_low col_roll_high]]
    by (simp add: f4 f5 f3 [THEN map_candle_close] bars_def k_value_def series_eval del: not_None_eq)
  have f7: "map col_SO_D (data so_optimized) = [None, Some 100, Some (100 / 3), Some (200 / 3)]"
    using o(6) by (simp add: py_int_def f6 ro)
  have f8: "fst (SO_test_strategy so_optimized) = so_optimized"
    by (simp add: o(9))
  have f9: "map_sum id (\<lambda>(perf, outperf, res). (perf, Some res)) (snd (SO_test_strategy so_optimized)) =
      Inr (Some (4 / 3), results so_optimized)"
    by (simp add: o(8,9))
  from h f1 f2 f3 f4 f5 f6 f7 f8 f9 show ?thesis by - (intro conjI; assumption)
  qed
  show ?thesis
    by (rule conjI [OF W1 conjI [OF W2 conjI [OF W3 conjI [OF W4 W5]]]])
qed

end
